(* ===== verification/Prelude.thy ===== *)
theory Prelude
  imports Main "HOL-Library.Word"
begin

section \<open>Prelude: results, strings and timestamps\<close>

text \<open>
  Shared vocabulary of the development.

  \<^item> A Rust \<open>Result\<close> is a sum with the error on the left; \<open>rbind\<close> is the question-mark
    operator and \<open>ensure\<close> is an early-return guard.
  \<^item> A Rust \<open>str\<close> is the list of its UTF-8 bytes, so \<open>length\<close> is \<open>str::len\<close>.  The ASCII
    predicates are those of the Rust standard library, and \<open>trim\<close> removes the UTF-8
    encodings of every character with the Unicode property \<open>White_Space\<close>.
  \<^item> A \<open>DateTime\<close> is an integer count of nanoseconds.
\<close>

type_synonym timestamp = int
type_synonym uuid = "128 word"

named_theorems str_defs \<open>definitions of the string operations\<close>

subsection \<open>Results\<close>

definition rbind :: "'e + 'a \<Rightarrow> ('a \<Rightarrow> 'e + 'b) \<Rightarrow> 'e + 'b" where
  "rbind m f = (case m of Inl e \<Rightarrow> Inl e | Inr x \<Rightarrow> f x)"

definition ensure :: "bool \<Rightarrow> 'e \<Rightarrow> 'e + unit" where
  "ensure b e = (if b then Inr () else Inl e)"

definition ok_or :: "'e \<Rightarrow> 'a option \<Rightarrow> 'e + 'a" where
  "ok_or e x = (case x of None \<Rightarrow> Inl e | Some v \<Rightarrow> Inr v)"

definition is_ok :: "'e + 'a \<Rightarrow> bool" where
  "is_ok r = (case r of Inl _ \<Rightarrow> False | Inr _ \<Rightarrow> True)"

lemma rbind_simps [simp]:
  "rbind (Inl e) f = Inl e"
  "rbind (Inr x) f = f x"
  by (simp_all add: rbind_def)

lemma rbind_eq_Inr: "rbind m f = Inr y \<longleftrightarrow> (\<exists>x. m = Inr x \<and> f x = Inr y)"
  by (cases m) simp_all

lemma rbind_eq_Inl: "rbind m f = Inl e \<longleftrightarrow> m = Inl e \<or> (\<exists>x. m = Inr x \<and> f x = Inl e)"
  by (cases m) simp_all

lemma ensure_eq_Inr [simp]: "ensure b e = Inr u \<longleftrightarrow> b"
  by (simp add: ensure_def)

lemma ensure_eq_Inl [simp]: "ensure b e = Inl e' \<longleftrightarrow> \<not> b \<and> e' = e"
  by (auto simp: ensure_def)

lemma rbind_ensure: "rbind (ensure b e) f = (if b then f () else Inl e)"
  by (simp add: ensure_def)

lemma ok_or_simps [simp]:
  "ok_or e None = Inl e"
  "ok_or e (Some v) = Inr v"
  by (simp_all add: ok_or_def)

lemma ok_or_eq_Inr [simp]: "ok_or e x = Inr v \<longleftrightarrow> x = Some v"
  by (cases x) simp_all

lemma ok_or_eq_Inl [simp]: "ok_or e x = Inl e' \<longleftrightarrow> x = None \<and> e' = e"
  by (cases x) auto

lemma is_ok_simps [simp]:
  "is_ok (Inl e) = False"
  "is_ok (Inr x) = True"
  by (simp_all add: is_ok_def)

lemma is_ok_iff: "is_ok r \<longleftrightarrow> (\<exists>x. r = Inr x)"
  by (cases r) simp_all

text \<open>Collecting an iterator of results: the first error wins.\<close>

fun rtraverse :: "('a \<Rightarrow> 'e + 'b) \<Rightarrow> 'a list \<Rightarrow> 'e + 'b list" where
  "rtraverse f [] = Inr []"
| "rtraverse f (x # xs) = rbind (f x) (\<lambda>y. rbind (rtraverse f xs) (\<lambda>ys. Inr (y # ys)))"

lemma rtraverse_Inr:
  "rtraverse f xs = Inr ys \<longleftrightarrow> list_all2 (\<lambda>x y. f x = Inr y) xs ys"
proof (induction xs arbitrary: ys)
  case (Cons x xs)
  show ?case
    by (cases ys) (auto simp: rbind_eq_Inr Cons.IH)
qed (auto simp: list_all2_conv_all_nth)

lemma rtraverse_total: "(\<And>x. x \<in> set xs \<Longrightarrow> f x = Inr (g x)) \<Longrightarrow> rtraverse f xs = Inr (map g xs)"
  by (induction xs) simp_all

subsection \<open>Bytes and ASCII classes\<close>

definition byte :: "char \<Rightarrow> nat" where
  "byte c = of_char c"

definition is_ascii_digit :: "char \<Rightarrow> bool" where
  [str_defs]: "is_ascii_digit c \<longleftrightarrow> 48 \<le> byte c \<and> byte c \<le> 57"

definition is_ascii_lowercase :: "char \<Rightarrow> bool" where
  [str_defs]: "is_ascii_lowercase c \<longleftrightarrow> 97 \<le> byte c \<and> byte c \<le> 122"

definition is_ascii_uppercase :: "char \<Rightarrow> bool" where
  [str_defs]: "is_ascii_uppercase c \<longleftrightarrow> 65 \<le> byte c \<and> byte c \<le> 90"

definition is_ascii_alphanumeric :: "char \<Rightarrow> bool" where
  [str_defs]: "is_ascii_alphanumeric c \<longleftrightarrow>
     is_ascii_digit c \<or> is_ascii_lowercase c \<or> is_ascii_uppercase c"

definition is_ascii_control :: "char \<Rightarrow> bool" where
  [str_defs]: "is_ascii_control c \<longleftrightarrow> byte c < 32 \<or> byte c = 127"

definition to_ascii_lowercase :: "char \<Rightarrow> char" where
  "to_ascii_lowercase c = (if is_ascii_uppercase c then char_of (byte c + 32) else c)"

definition to_ascii_uppercase :: "char \<Rightarrow> char" where
  "to_ascii_uppercase c = (if is_ascii_lowercase c then char_of (byte c - 32) else c)"

definition eq_ignore_ascii_case :: "string \<Rightarrow> string \<Rightarrow> bool" where
  "eq_ignore_ascii_case s t \<longleftrightarrow> map to_ascii_lowercase s = map to_ascii_lowercase t"

lemma byte_inj [simp]: "byte c = byte d \<longleftrightarrow> c = d"
  by (simp add: byte_def)

lemma byte_less [simp]: "byte c < 256"
  by (simp add: byte_def)

lemma byte_char_of [simp]: "n < 256 \<Longrightarrow> byte (char_of n) = n"
  by (simp add: byte_def)

lemma byte_to_ascii_uppercase:
  "byte (to_ascii_uppercase c) = (if is_ascii_lowercase c then byte c - 32 else byte c)"
  by (auto simp: to_ascii_uppercase_def is_ascii_lowercase_def)

lemma byte_to_ascii_lowercase:
  "byte (to_ascii_lowercase c) = (if is_ascii_uppercase c then byte c + 32 else byte c)"
  by (auto simp: to_ascii_lowercase_def is_ascii_uppercase_def)

subsection \<open>Prefixes, suffixes and splitting\<close>

definition starts_with :: "string \<Rightarrow> string \<Rightarrow> bool" where
  "starts_with s p \<longleftrightarrow> take (length p) s = p"

definition ends_with :: "string \<Rightarrow> string \<Rightarrow> bool" where
  "ends_with s p \<longleftrightarrow> length p \<le> length s \<and> drop (length s - length p) s = p"

definition strip_prefix :: "string \<Rightarrow> string \<Rightarrow> string option" where
  "strip_prefix s p = (if starts_with s p then Some (drop (length p) s) else None)"

fun contains_str :: "string \<Rightarrow> string \<Rightarrow> bool" where
  "contains_str [] p = (p = [])"
| "contains_str (c # cs) p = (starts_with (c # cs) p \<or> contains_str cs p)"

text \<open>\<open>str::split\<close> on one character: \<open>n\<close> separators give \<open>n + 1\<close> pieces.\<close>

fun split_on :: "char \<Rightarrow> string \<Rightarrow> string list" where
  "split_on d [] = [[]]"
| "split_on d (c # cs) =
     (if c = d then [] # split_on d cs
      else (case split_on d cs of [] \<Rightarrow> [[c]] | p # ps \<Rightarrow> (c # p) # ps))"

text \<open>\<open>str::split_once\<close>: the text before and after the first separator.\<close>

fun split_once :: "char \<Rightarrow> string \<Rightarrow> (string \<times> string) option" where
  "split_once d [] = None"
| "split_once d (c # cs) =
     (if c = d then Some ([], cs)
      else map_option (\<lambda>(a, b). (c # a, b)) (split_once d cs))"

definition trim_matches :: "char \<Rightarrow> string \<Rightarrow> string" where
  "trim_matches d s = rev (dropWhile (\<lambda>c. c = d) (rev (dropWhile (\<lambda>c. c = d) s)))"

lemma starts_with_append [simp]: "starts_with (p @ s) p"
  by (simp add: starts_with_def)

lemma starts_with_iff: "starts_with s p \<longleftrightarrow> (\<exists>r. s = p @ r)"
  by (auto simp: starts_with_def) (metis append_take_drop_id)

lemma ends_with_iff: "ends_with s p \<longleftrightarrow> (\<exists>r. s = r @ p)"
proof
  assume "ends_with s p"
  then have "s = take (length s - length p) s @ p"
    by (metis append_take_drop_id ends_with_def)
  then show "\<exists>r. s = r @ p" ..
qed (auto simp: ends_with_def)

lemma strip_prefix_eq_Some: "strip_prefix s p = Some r \<longleftrightarrow> s = p @ r"
  by (auto simp: strip_prefix_def starts_with_iff)

lemma split_on_not_Nil [simp]: "split_on d s \<noteq> []"
  by (induction s) (auto split: list.splits)

lemma split_on_no_sep [simp]: "d \<notin> set s \<Longrightarrow> split_on d s = [s]"
  by (induction s) auto

lemma split_on_append:
  "d \<notin> set p \<Longrightarrow> split_on d (p @ d # s) = p # split_on d s"
  by (induction p) auto

text \<open>\<open>slice::join\<close> with a one-character separator.\<close>

fun join_on :: "char \<Rightarrow> string list \<Rightarrow> string" where
  "join_on d [] = []"
| "join_on d [p] = p"
| "join_on d (p # ps) = p @ d # join_on d ps"

lemma split_on_join_on:
  assumes "ps \<noteq> []" and "\<forall>p \<in> set ps. d \<notin> set p"
  shows "split_on d (join_on d ps) = ps"
  using assms by (induction d ps rule: join_on.induct) (simp_all add: split_on_append)

lemma set_join_on: "set (join_on d ps) \<subseteq> insert d (\<Union> (set ` set ps))"
  by (induction d ps rule: join_on.induct) auto

lemma split_once_eq_Some:
  "split_once d s = Some (a, b) \<longleftrightarrow> s = a @ d # b \<and> d \<notin> set a"
proof (induction s arbitrary: a)
  case (Cons c cs)
  show ?case
    by (cases a) (auto simp: Cons.IH)
qed simp

lemma split_once_None: "split_once d s = None \<longleftrightarrow> d \<notin> set s"
  by (induction s) auto

subsection \<open>Trimming\<close>

text \<open>
  The UTF-8 encodings of the \<open>White_Space\<close> characters: the six ASCII ones, U+0085, U+00A0,
  U+1680, U+2000 to U+200A, U+2028, U+2029, U+202F, U+205F and U+3000.  No encoding is a
  proper prefix or suffix of another, and UTF-8 is self-synchronising, so stripping these
  byte sequences at the two ends of a valid string strips exactly its white space.
\<close>

definition utf8_whitespace :: "string list" where
  "utf8_whitespace =
     map (map char_of)
       ([[9], [10], [11], [12], [13], [32], [194, 133], [194, 160], [225, 154, 128],
         [226, 128, 168], [226, 128, 169], [226, 128, 175], [226, 129, 159], [227, 128, 128]]
        @ map (\<lambda>n. [226, 128, n]) [128..<139])"

definition strip_one :: "string list \<Rightarrow> string \<Rightarrow> string option" where
  "strip_one ws s = (case find (starts_with s) ws of
     None \<Rightarrow> None | Some w \<Rightarrow> Some (drop (length w) s))"

fun strip_all :: "nat \<Rightarrow> string list \<Rightarrow> string \<Rightarrow> string" where
  "strip_all 0 ws s = s"
| "strip_all (Suc n) ws s = (case strip_one ws s of None \<Rightarrow> s | Some r \<Rightarrow> strip_all n ws r)"

definition trim_start :: "string \<Rightarrow> string" where
  "trim_start s = strip_all (length s) utf8_whitespace s"

definition trim_end :: "string \<Rightarrow> string" where
  "trim_end s = rev (strip_all (length s) (map rev utf8_whitespace) (rev s))"

definition trim :: "string \<Rightarrow> string" where
  "trim s = trim_end (trim_start s)"

lemma utf8_whitespace_nonempty: "w \<in> set utf8_whitespace \<Longrightarrow> w \<noteq> []"
  by (auto simp: utf8_whitespace_def)

lemma strip_one_shorter:
  assumes "strip_one ws s = Some r" and "[] \<notin> set ws"
  shows "length r < length s"
proof -
  from assms(1) obtain w where w: "find (starts_with s) ws = Some w" and r: "r = drop (length w) s"
    by (auto simp: strip_one_def split: option.splits)
  from w have "w \<in> set ws" and "starts_with s w"
    by (auto simp: find_Some_iff)
  with assms(2) have "w \<noteq> []" "length w \<le> length s"
    by (auto simp: starts_with_def) (metis nat_le_linear take_all)
  with r show ?thesis
    by (cases w) auto
qed

text \<open>The fuel \<open>length s\<close> is enough: nothing strippable is left.\<close>

lemma strip_all_done:
  assumes "length s \<le> n" and "[] \<notin> set ws"
  shows "strip_one ws (strip_all n ws s) = None"
  using assms(1)
proof (induction n arbitrary: s)
  case 0
  with assms(2) have "find (starts_with []) ws = None"
    by (auto simp: find_None_iff starts_with_def)
  with 0 show ?case by (simp add: strip_one_def)
next
  case (Suc n)
  show ?case
  proof (cases "strip_one ws s")
    case None
    then show ?thesis by simp
  next
    case (Some r)
    from strip_one_shorter [OF this assms(2)] have "length r < length s" .
    with Suc Some show ?thesis by simp
  qed
qed

lemma strip_all_suffix: "\<exists>p. s = p @ strip_all n ws s"
proof (induction n arbitrary: s)
  case (Suc n)
  show ?case
  proof (cases "strip_one ws s")
    case (Some r)
    then obtain w where "find (starts_with s) ws = Some w" and "r = drop (length w) s"
      by (auto simp: strip_one_def split: option.splits)
    then have "s = take (length w) s @ r" by simp
    moreover obtain p where "r = p @ strip_all n ws r"
      using Suc.IH by blast
    ultimately have "s = (take (length w) s @ p) @ strip_all (Suc n) ws s"
      using Some by (metis append.assoc option.simps(5) strip_all.simps(2))
    then show ?thesis by blast
  qed simp
qed simp

lemma trim_infix: "\<exists>p q. s = p @ trim s @ q"
proof -
  obtain p where p: "s = p @ trim_start s"
    using strip_all_suffix unfolding trim_start_def by blast
  obtain q where "rev (trim_start s) = q @ rev (trim_end (trim_start s))"
    using strip_all_suffix unfolding trim_end_def rev_rev_ident by blast
  then have "trim_start s = trim (s) @ rev q"
    unfolding trim_def by (metis rev_append rev_rev_ident)
  with p show ?thesis by metis
qed

definition is_ascii_graphic :: "char \<Rightarrow> bool" where
  [str_defs]: "is_ascii_graphic c \<longleftrightarrow> 33 \<le> byte c \<and> byte c \<le> 126"

lemma strip_one_graphic:
  assumes "list_all is_ascii_graphic s"
    and "\<And>w. w \<in> set ws \<Longrightarrow> w \<noteq> [] \<and> \<not> is_ascii_graphic (hd w)"
  shows "strip_one ws s = None"
proof -
  have "\<not> starts_with s w" if "w \<in> set ws" for w
    using assms(2) [OF that] assms(1) by (cases w; cases s) (auto simp: starts_with_def)
  then have "find (starts_with s) ws = None"
    by (auto simp: find_None_iff)
  then show ?thesis by (simp add: strip_one_def)
qed

lemma strip_all_graphic: "strip_one ws s = None \<Longrightarrow> strip_all n ws s = s"
  by (cases n) simp_all

lemma trim_graphic [simp]: "list_all is_ascii_graphic s \<Longrightarrow> trim s = s"
proof -
  assume s: "list_all is_ascii_graphic s"
  have hd_ws: "w \<noteq> [] \<and> \<not> is_ascii_graphic (hd w)" if "w \<in> set utf8_whitespace" for w
    using that by (auto simp: utf8_whitespace_def is_ascii_graphic_def byte_def)
  have last_ws: "w \<noteq> [] \<and> \<not> is_ascii_graphic (hd w)" if "w \<in> set (map rev utf8_whitespace)" for w
    using that by (auto simp: utf8_whitespace_def is_ascii_graphic_def byte_def)
  have "trim_start s = s"
    unfolding trim_start_def by (intro strip_all_graphic strip_one_graphic s hd_ws)
  moreover have "trim_end s = s"
  proof -
    have "list_all is_ascii_graphic (rev s)"
      using s by (simp add: list_all_iff)
    then have "strip_one (map rev utf8_whitespace) (rev s) = None"
      by (intro strip_one_graphic last_ws)
    then show ?thesis
      unfolding trim_end_def by (simp add: strip_all_graphic)
  qed
  ultimately show ?thesis by (simp add: trim_def)
qed

lemma length_trim_le: "length (trim s) \<le> length s"
  using trim_infix [of s] by (metis add_leE length_append nle_le)

subsection \<open>UTF-8\<close>

definition utf8_cont :: "nat \<Rightarrow> bool" where
  "utf8_cont b \<longleftrightarrow> 128 \<le> b \<and> b \<le> 191"

text \<open>\<open>String::from_utf8\<close>: well-formed sequences of the Unicode standard, no surrogates and no
  overlong forms.\<close>

fun valid_utf8_bytes :: "nat list \<Rightarrow> bool" where
  "valid_utf8_bytes [] = True"
| "valid_utf8_bytes (a # bs) =
     (if a < 128 then valid_utf8_bytes bs
      else if 194 \<le> a \<and> a \<le> 223 then
        (case bs of b # cs \<Rightarrow> utf8_cont b \<and> valid_utf8_bytes cs | _ \<Rightarrow> False)
      else if 224 \<le> a \<and> a \<le> 239 then
        (case bs of b # c # ds \<Rightarrow> utf8_cont b \<and> utf8_cont c \<and> (a = 224 \<longrightarrow> 160 \<le> b)
            \<and> (a = 237 \<longrightarrow> b \<le> 159) \<and> valid_utf8_bytes ds
         | _ \<Rightarrow> False)
      else if 240 \<le> a \<and> a \<le> 244 then
        (case bs of b # c # d # es \<Rightarrow> utf8_cont b \<and> utf8_cont c \<and> utf8_cont d
            \<and> (a = 240 \<longrightarrow> 144 \<le> b) \<and> (a = 244 \<longrightarrow> b \<le> 143) \<and> valid_utf8_bytes es
         | _ \<Rightarrow> False)
      else False)"

definition valid_utf8 :: "string \<Rightarrow> bool" where
  "valid_utf8 s \<longleftrightarrow> valid_utf8_bytes (map byte s)"

subsection \<open>Decimal numbers\<close>

definition digit_char :: "nat \<Rightarrow> char" where
  "digit_char n = char_of (48 + n)"

fun show_nat :: "nat \<Rightarrow> string" where
  "show_nat n = (if n < 10 then [digit_char n] else show_nat (n div 10) @ [digit_char (n mod 10)])"

declare show_nat.simps [simp del]

definition digit_val :: "char \<Rightarrow> nat" where
  "digit_val c = byte c - 48"

definition digits_val :: "string \<Rightarrow> nat" where
  "digits_val s = foldl (\<lambda>acc c. 10 * acc + digit_val c) 0 s"

text \<open>
  \<open>str::parse\<close> at an unsigned width: an optional plus sign, then at least one ASCII digit
  and nothing else, with a value below the bound of the type.
\<close>

definition parse_unsigned :: "nat \<Rightarrow> string \<Rightarrow> nat option" where
  "parse_unsigned bound s =
     (let ds = (case s of c # cs \<Rightarrow> if c = CHR ''+'' then cs else s | [] \<Rightarrow> s) in
      if ds \<noteq> [] \<and> list_all is_ascii_digit ds \<and> digits_val ds < bound
      then Some (digits_val ds) else None)"

abbreviation parse_u64 :: "string \<Rightarrow> nat option" where
  "parse_u64 \<equiv> parse_unsigned (2 ^ 64)"

lemma digit_char_digit: "n < 10 \<Longrightarrow> is_ascii_digit (digit_char n)"
  by (simp add: is_ascii_digit_def digit_char_def)

lemma digit_val_digit_char [simp]: "n < 10 \<Longrightarrow> digit_val (digit_char n) = n"
  by (simp add: digit_val_def digit_char_def)

lemma show_nat_not_Nil [simp]: "show_nat n \<noteq> []"
  by (subst show_nat.simps) simp

lemma show_nat_digits: "list_all is_ascii_digit (show_nat n)"
proof (induction n rule: show_nat.induct)
  case (1 n)
  then show ?case
    by (subst show_nat.simps) (auto simp: digit_char_digit)
qed

lemma digits_val_show_nat [simp]: "digits_val (show_nat n) = n"
proof (induction n rule: show_nat.induct)
  case (1 n)
  show ?case
  proof (cases "n < 10")
    case True
    then show ?thesis by (subst show_nat.simps) (simp add: digits_val_def)
  next
    case False
    with "1.IH" have "digits_val (show_nat (n div 10)) = n div 10" by simp
    with False show ?thesis by (subst show_nat.simps) (simp add: digits_val_def)
  qed
qed

lemma show_nat_inj [simp]: "show_nat m = show_nat n \<longleftrightarrow> m = n"
  by (metis digits_val_show_nat)

lemma show_nat_no_sep: "\<not> is_ascii_digit c \<Longrightarrow> c \<notin> set (show_nat n)"
  using show_nat_digits by (auto simp: list_all_iff)

lemma parse_show_nat: "n < bound \<Longrightarrow> parse_unsigned bound (show_nat n) = Some n"
proof -
  assume n: "n < bound"
  have "CHR ''+'' \<notin> set (show_nat n)"
    by (rule show_nat_no_sep) (simp add: is_ascii_digit_def byte_def)
  then have "(case show_nat n of c # cs \<Rightarrow> if c = CHR ''+'' then cs else show_nat n | [] \<Rightarrow> show_nat n)
      = show_nat n"
    by (cases "show_nat n") auto
  with n show ?thesis
    by (simp add: parse_unsigned_def show_nat_digits)
qed

end
