(* ===== verification/State_Machine.thy ===== *)
theory State_Machine
  imports Prelude
begin

section \<open>Compare-and-swap state machines\<close>

text \<open>
  Every persisted status column of the control plane is moved by the same statement shape,
  \<open>update ... set status = next where id = ? and status in (allowed)\<close>, and a miss changes no
  row.  The locale \<open>cas_machine\<close> is that contract: the states an action may leave, the state it
  writes, and a guard that a database trigger enforces on every update.
\<close>

text \<open>The row a compare-and-swap update writes, or \<open>None\<close> for zero affected rows.\<close>

definition cas_state :: "'s list \<Rightarrow> 's \<Rightarrow> 's \<Rightarrow> 's option" where
  "cas_state allowed nxt s = (if s \<in> set allowed then Some nxt else None)"

definition cas_step :: "('a \<Rightarrow> 's list) \<Rightarrow> ('a \<Rightarrow> 's) \<Rightarrow> 'a \<Rightarrow> 's \<Rightarrow> 's" where
  "cas_step legal_from target a s =
     (case cas_state (legal_from a) (target a) s of None \<Rightarrow> s | Some s' \<Rightarrow> s')"

definition cas_run :: "('a \<Rightarrow> 's list) \<Rightarrow> ('a \<Rightarrow> 's) \<Rightarrow> 'a list \<Rightarrow> 's \<Rightarrow> 's" where
  "cas_run legal_from target as s = fold (cas_step legal_from target) as s"

locale cas_machine =
  fixes legal_from :: "'a \<Rightarrow> 's list"
    and target :: "'a \<Rightarrow> 's"
    and guard :: "'s \<Rightarrow> 's \<Rightarrow> bool"
  assumes legal_guard: "s \<in> set (legal_from a) \<Longrightarrow> guard s (target a)"
begin

definition closed :: "'a set \<Rightarrow> 's set \<Rightarrow> bool" where
  "closed A S \<longleftrightarrow> (\<forall>a \<in> A. \<forall>s \<in> S. s \<in> set (legal_from a) \<longrightarrow> target a \<in> S)"

lemma cas_guard: "cas_state (legal_from a) (target a) s = Some s' \<Longrightarrow> guard s s'"
  by (auto simp: cas_state_def legal_guard split: if_splits)

lemma step_cases:
  "cas_step legal_from target a s = s \<or> guard s (cas_step legal_from target a s)"
  by (auto simp: cas_step_def dest: cas_guard split: option.split)

lemma step_closed: "closed A S \<Longrightarrow> a \<in> A \<Longrightarrow> s \<in> S \<Longrightarrow> cas_step legal_from target a s \<in> S"
  by (auto simp: closed_def cas_step_def cas_state_def)

lemma run_closed:
  "closed A S \<Longrightarrow> set as \<subseteq> A \<Longrightarrow> s \<in> S \<Longrightarrow> cas_run legal_from target as s \<in> S"
  unfolding cas_run_def
proof (induction as arbitrary: s)
  case (Cons a as)
  then have "cas_step legal_from target a s \<in> S"
    by (intro step_closed) auto
  with Cons show ?case by simp
qed simp

lemma run_guarded: "guard\<^sup>*\<^sup>* s (cas_run legal_from target as s)"
  unfolding cas_run_def
proof (induction as arbitrary: s)
  case (Cons a as)
  have "guard\<^sup>*\<^sup>* s (cas_step legal_from target a s)"
    using step_cases [of a s] by auto
  with Cons [of "cas_step legal_from target a s"] show ?case
    by (metis fold_simps(2) rtranclp_trans)
qed simp

end

end
