(* ===== verification/Db_Variant.thy ===== *)
theory Db_Variant
  imports Prelude
begin

section \<open>Closed string enums\<close>

text \<open>
  The trait \<open>DbVariant\<close> and the macro \<open>db_variant_enum!\<close> of
  \<open>crates/sandboxwich-core/src/lib.rs\<close>.  A use of the macro is its list of arms, the pairs
  \<open>(literal, variant)\<close> in source order; \<open>db_values\<close> is the associated constant \<open>VALUES\<close> and
  \<open>parse_db_str\<close> the generated match on the literals, whose first matching arm wins.
  The locale \<open>db_variant\<close> is the contract of the trait: what the persistence layer relies on
  whenever it writes an enum as text and reads it back.
\<close>

record DbVariantError =
  enum_name :: string
  dve_value :: string
  expected :: "string list"

definition db_values :: "(string \<times> 'a) list \<Rightarrow> string list" where
  "db_values arms = map fst arms"

definition parse_db_str :: "string \<Rightarrow> (string \<times> 'a) list \<Rightarrow> string \<Rightarrow> DbVariantError + 'a" where
  "parse_db_str name arms s =
     (case map_of arms s of
        Some v \<Rightarrow> Inr v
      | None \<Rightarrow> Inl \<lparr>enum_name = name, dve_value = s, expected = db_values arms\<rparr>)"

locale db_variant =
  fixes name :: string
    and arms :: "(string \<times> 'a) list"
    and as_db_str :: "'a \<Rightarrow> string"
  assumes arms_distinct: "distinct (db_values arms)"
    and arms_cover: "(as_db_str v, v) \<in> set arms"
    and arms_sound: "list_all (\<lambda>(s, v). as_db_str v = s) arms"
begin

lemma map_of_arms: "map_of arms s = Some v \<longleftrightarrow> s = as_db_str v"
proof
  assume "map_of arms s = Some v"
  then have "(s, v) \<in> set arms" by (rule map_of_SomeD)
  with arms_sound show "s = as_db_str v"
    by (auto simp: list_all_iff)
next
  assume "s = as_db_str v"
  with arms_cover [of v] arms_distinct show "map_of arms s = Some v"
    by (simp add: db_values_def)
qed

lemma parse_ok_iff: "parse_db_str name arms s = Inr v \<longleftrightarrow> s = as_db_str v"
  by (simp add: parse_db_str_def map_of_arms split: option.split)
    (metis map_of_arms option.distinct(1) option.inject)

lemma parse_as_db_str [simp]: "parse_db_str name arms (as_db_str v) = Inr v"
  by (simp add: parse_ok_iff)

lemma as_db_str_inj [simp]: "as_db_str v = as_db_str w \<longleftrightarrow> v = w"
  by (metis parse_as_db_str sum.inject(2))

lemma db_values_range: "set (db_values arms) = range as_db_str"
  using arms_cover arms_sound by (force simp: db_values_def list_all_iff image_iff)

lemma parse_error_iff:
  "parse_db_str name arms s = Inl e \<longleftrightarrow>
     s \<notin> set (db_values arms) \<and>
     e = \<lparr>enum_name = name, dve_value = s, expected = db_values arms\<rparr>"
  by (auto simp: parse_db_str_def db_values_def map_of_eq_None_iff split: option.split)
    (metis image_eqI fst_conv map_of_SomeD)+

lemma card_variants: "card (UNIV :: 'a set) = length arms"
proof -
  have "card (range as_db_str) = card (UNIV :: 'a set)"
    by (rule card_image) (simp add: inj_def)
  then show ?thesis
    using arms_distinct by (simp add: db_values_range [symmetric] distinct_card) (simp add: db_values_def)
qed

end

end
