(* ===== verification/Core_Enums.thy ===== *)
theory Core_Enums
  imports Db_Variant
begin

section \<open>The enums of the typed contracts\<close>

text \<open>
  One datatype per \<open>db_variant_enum!\<close> block of \<open>crates/sandboxwich-core/src/lib.rs\<close>, with the
  block's arms as a list in source order and the generated \<open>as_db_str\<close>.  Each enum is an
  interpretation of the locale \<open>db_variant\<close>, which discharges that its literals are pairwise
  distinct and cover every variant, so every enum has the round-trip facts of the locale.
\<close>

subsection \<open>Sandbox lifecycle and configuration\<close>

datatype SandboxState =
  Planning
| Provisioning
| Ready
| Running
| Idle
| Archiving
| Archived
| Error

definition SandboxState_arms :: "(string \<times> SandboxState) list" where
  "SandboxState_arms =
    [(''planning'', SandboxState.Planning),
     (''provisioning'', SandboxState.Provisioning),
     (''ready'', SandboxState.Ready),
     (''running'', SandboxState.Running),
     (''idle'', SandboxState.Idle),
     (''archiving'', SandboxState.Archiving),
     (''archived'', SandboxState.Archived),
     (''error'', SandboxState.Error)]"

fun SandboxState_as_db_str :: "SandboxState \<Rightarrow> string" where
  "SandboxState_as_db_str SandboxState.Planning = ''planning''"
| "SandboxState_as_db_str SandboxState.Provisioning = ''provisioning''"
| "SandboxState_as_db_str SandboxState.Ready = ''ready''"
| "SandboxState_as_db_str SandboxState.Running = ''running''"
| "SandboxState_as_db_str SandboxState.Idle = ''idle''"
| "SandboxState_as_db_str SandboxState.Archiving = ''archiving''"
| "SandboxState_as_db_str SandboxState.Archived = ''archived''"
| "SandboxState_as_db_str SandboxState.Error = ''error''"

definition SandboxState_parse_db_str :: "string \<Rightarrow> DbVariantError + SandboxState" where
  "SandboxState_parse_db_str = parse_db_str ''SandboxState'' SandboxState_arms"

interpretation SandboxState: db_variant "''SandboxState''" SandboxState_arms SandboxState_as_db_str
  rewrites "parse_db_str ''SandboxState'' SandboxState_arms = SandboxState_parse_db_str"
proof -
  show "db_variant SandboxState_arms SandboxState_as_db_str"
  proof
    show "(SandboxState_as_db_str v, v) \<in> set SandboxState_arms" for v
      by (cases v) (simp_all add: SandboxState_arms_def)
  qed (simp_all add: db_values_def SandboxState_arms_def)
qed (simp add: SandboxState_parse_db_str_def)

datatype WorkspaceMode =
  Ephemeral
| GenericEphemeral
| Persistent

definition WorkspaceMode_arms :: "(string \<times> WorkspaceMode) list" where
  "WorkspaceMode_arms =
    [(''ephemeral'', WorkspaceMode.Ephemeral),
     (''generic_ephemeral'', WorkspaceMode.GenericEphemeral),
     (''persistent'', WorkspaceMode.Persistent)]"

fun WorkspaceMode_as_db_str :: "WorkspaceMode \<Rightarrow> string" where
  "WorkspaceMode_as_db_str WorkspaceMode.Ephemeral = ''ephemeral''"
| "WorkspaceMode_as_db_str WorkspaceMode.GenericEphemeral = ''generic_ephemeral''"
| "WorkspaceMode_as_db_str WorkspaceMode.Persistent = ''persistent''"

definition WorkspaceMode_parse_db_str :: "string \<Rightarrow> DbVariantError + WorkspaceMode" where
  "WorkspaceMode_parse_db_str = parse_db_str ''WorkspaceMode'' WorkspaceMode_arms"

interpretation WorkspaceMode: db_variant "''WorkspaceMode''" WorkspaceMode_arms WorkspaceMode_as_db_str
  rewrites "parse_db_str ''WorkspaceMode'' WorkspaceMode_arms = WorkspaceMode_parse_db_str"
proof -
  show "db_variant WorkspaceMode_arms WorkspaceMode_as_db_str"
  proof
    show "(WorkspaceMode_as_db_str v, v) \<in> set WorkspaceMode_arms" for v
      by (cases v) (simp_all add: WorkspaceMode_arms_def)
  qed (simp_all add: db_values_def WorkspaceMode_arms_def)
qed (simp add: WorkspaceMode_parse_db_str_def)

datatype SandboxRuntimeProfile =
  Unprivileged
| ApexTrustedSupervisorV1

definition SandboxRuntimeProfile_arms :: "(string \<times> SandboxRuntimeProfile) list" where
  "SandboxRuntimeProfile_arms =
    [(''unprivileged'', SandboxRuntimeProfile.Unprivileged),
     (''apex_trusted_supervisor_v1'', SandboxRuntimeProfile.ApexTrustedSupervisorV1)]"

fun SandboxRuntimeProfile_as_db_str :: "SandboxRuntimeProfile \<Rightarrow> string" where
  "SandboxRuntimeProfile_as_db_str SandboxRuntimeProfile.Unprivileged = ''unprivileged''"
| "SandboxRuntimeProfile_as_db_str SandboxRuntimeProfile.ApexTrustedSupervisorV1 = ''apex_trusted_supervisor_v1''"

definition SandboxRuntimeProfile_parse_db_str :: "string \<Rightarrow> DbVariantError + SandboxRuntimeProfile" where
  "SandboxRuntimeProfile_parse_db_str = parse_db_str ''SandboxRuntimeProfile'' SandboxRuntimeProfile_arms"

interpretation SandboxRuntimeProfile: db_variant "''SandboxRuntimeProfile''" SandboxRuntimeProfile_arms SandboxRuntimeProfile_as_db_str
  rewrites "parse_db_str ''SandboxRuntimeProfile'' SandboxRuntimeProfile_arms = SandboxRuntimeProfile_parse_db_str"
proof -
  show "db_variant SandboxRuntimeProfile_arms SandboxRuntimeProfile_as_db_str"
  proof
    show "(SandboxRuntimeProfile_as_db_str v, v) \<in> set SandboxRuntimeProfile_arms" for v
      by (cases v) (simp_all add: SandboxRuntimeProfile_arms_def)
  qed (simp_all add: db_values_def SandboxRuntimeProfile_arms_def)
qed (simp add: SandboxRuntimeProfile_parse_db_str_def)

datatype SnapshotStatus =
  Pending
| Ready
| Failed
| Expired

definition SnapshotStatus_arms :: "(string \<times> SnapshotStatus) list" where
  "SnapshotStatus_arms =
    [(''pending'', SnapshotStatus.Pending),
     (''ready'', SnapshotStatus.Ready),
     (''failed'', SnapshotStatus.Failed),
     (''expired'', SnapshotStatus.Expired)]"

fun SnapshotStatus_as_db_str :: "SnapshotStatus \<Rightarrow> string" where
  "SnapshotStatus_as_db_str SnapshotStatus.Pending = ''pending''"
| "SnapshotStatus_as_db_str SnapshotStatus.Ready = ''ready''"
| "SnapshotStatus_as_db_str SnapshotStatus.Failed = ''failed''"
| "SnapshotStatus_as_db_str SnapshotStatus.Expired = ''expired''"

definition SnapshotStatus_parse_db_str :: "string \<Rightarrow> DbVariantError + SnapshotStatus" where
  "SnapshotStatus_parse_db_str = parse_db_str ''SnapshotStatus'' SnapshotStatus_arms"

interpretation SnapshotStatus: db_variant "''SnapshotStatus''" SnapshotStatus_arms SnapshotStatus_as_db_str
  rewrites "parse_db_str ''SnapshotStatus'' SnapshotStatus_arms = SnapshotStatus_parse_db_str"
proof -
  show "db_variant SnapshotStatus_arms SnapshotStatus_as_db_str"
  proof
    show "(SnapshotStatus_as_db_str v, v) \<in> set SnapshotStatus_arms" for v
      by (cases v) (simp_all add: SnapshotStatus_arms_def)
  qed (simp_all add: db_values_def SnapshotStatus_arms_def)
qed (simp add: SnapshotStatus_parse_db_str_def)

datatype NetworkEgressMode =
  DenyAll
| Allowlist
| AllowAll

definition NetworkEgressMode_arms :: "(string \<times> NetworkEgressMode) list" where
  "NetworkEgressMode_arms =
    [(''deny_all'', NetworkEgressMode.DenyAll),
     (''allowlist'', NetworkEgressMode.Allowlist),
     (''allow_all'', NetworkEgressMode.AllowAll)]"

fun NetworkEgressMode_as_db_str :: "NetworkEgressMode \<Rightarrow> string" where
  "NetworkEgressMode_as_db_str NetworkEgressMode.DenyAll = ''deny_all''"
| "NetworkEgressMode_as_db_str NetworkEgressMode.Allowlist = ''allowlist''"
| "NetworkEgressMode_as_db_str NetworkEgressMode.AllowAll = ''allow_all''"

definition NetworkEgressMode_parse_db_str :: "string \<Rightarrow> DbVariantError + NetworkEgressMode" where
  "NetworkEgressMode_parse_db_str = parse_db_str ''NetworkEgressMode'' NetworkEgressMode_arms"

interpretation NetworkEgressMode: db_variant "''NetworkEgressMode''" NetworkEgressMode_arms NetworkEgressMode_as_db_str
  rewrites "parse_db_str ''NetworkEgressMode'' NetworkEgressMode_arms = NetworkEgressMode_parse_db_str"
proof -
  show "db_variant NetworkEgressMode_arms NetworkEgressMode_as_db_str"
  proof
    show "(NetworkEgressMode_as_db_str v, v) \<in> set NetworkEgressMode_arms" for v
      by (cases v) (simp_all add: NetworkEgressMode_arms_def)
  qed (simp_all add: db_values_def NetworkEgressMode_arms_def)
qed (simp add: NetworkEgressMode_parse_db_str_def)

datatype NetworkAllowRuleKind =
  Cidr
| Host

definition NetworkAllowRuleKind_arms :: "(string \<times> NetworkAllowRuleKind) list" where
  "NetworkAllowRuleKind_arms =
    [(''cidr'', NetworkAllowRuleKind.Cidr),
     (''host'', NetworkAllowRuleKind.Host)]"

fun NetworkAllowRuleKind_as_db_str :: "NetworkAllowRuleKind \<Rightarrow> string" where
  "NetworkAllowRuleKind_as_db_str NetworkAllowRuleKind.Cidr = ''cidr''"
| "NetworkAllowRuleKind_as_db_str NetworkAllowRuleKind.Host = ''host''"

definition NetworkAllowRuleKind_parse_db_str :: "string \<Rightarrow> DbVariantError + NetworkAllowRuleKind" where
  "NetworkAllowRuleKind_parse_db_str = parse_db_str ''NetworkAllowRuleKind'' NetworkAllowRuleKind_arms"

interpretation NetworkAllowRuleKind: db_variant "''NetworkAllowRuleKind''" NetworkAllowRuleKind_arms NetworkAllowRuleKind_as_db_str
  rewrites "parse_db_str ''NetworkAllowRuleKind'' NetworkAllowRuleKind_arms = NetworkAllowRuleKind_parse_db_str"
proof -
  show "db_variant NetworkAllowRuleKind_arms NetworkAllowRuleKind_as_db_str"
  proof
    show "(NetworkAllowRuleKind_as_db_str v, v) \<in> set NetworkAllowRuleKind_arms" for v
      by (cases v) (simp_all add: NetworkAllowRuleKind_arms_def)
  qed (simp_all add: db_values_def NetworkAllowRuleKind_arms_def)
qed (simp add: NetworkAllowRuleKind_parse_db_str_def)

datatype ExecutionClass =
  DevelopmentContainer
| SandboxedContainer
| VirtualMachine

definition ExecutionClass_arms :: "(string \<times> ExecutionClass) list" where
  "ExecutionClass_arms =
    [(''development_container'', ExecutionClass.DevelopmentContainer),
     (''sandboxed_container'', ExecutionClass.SandboxedContainer),
     (''virtual_machine'', ExecutionClass.VirtualMachine)]"

fun ExecutionClass_as_db_str :: "ExecutionClass \<Rightarrow> string" where
  "ExecutionClass_as_db_str ExecutionClass.DevelopmentContainer = ''development_container''"
| "ExecutionClass_as_db_str ExecutionClass.SandboxedContainer = ''sandboxed_container''"
| "ExecutionClass_as_db_str ExecutionClass.VirtualMachine = ''virtual_machine''"

definition ExecutionClass_parse_db_str :: "string \<Rightarrow> DbVariantError + ExecutionClass" where
  "ExecutionClass_parse_db_str = parse_db_str ''ExecutionClass'' ExecutionClass_arms"

interpretation ExecutionClass: db_variant "''ExecutionClass''" ExecutionClass_arms ExecutionClass_as_db_str
  rewrites "parse_db_str ''ExecutionClass'' ExecutionClass_arms = ExecutionClass_parse_db_str"
proof -
  show "db_variant ExecutionClass_arms ExecutionClass_as_db_str"
  proof
    show "(ExecutionClass_as_db_str v, v) \<in> set ExecutionClass_arms" for v
      by (cases v) (simp_all add: ExecutionClass_arms_def)
  qed (simp_all add: db_values_def ExecutionClass_arms_def)
qed (simp add: ExecutionClass_parse_db_str_def)

datatype HomeState =
  Ready
| Deleting
| DeleteFailed

definition HomeState_arms :: "(string \<times> HomeState) list" where
  "HomeState_arms =
    [(''ready'', HomeState.Ready),
     (''deleting'', HomeState.Deleting),
     (''delete_failed'', HomeState.DeleteFailed)]"

fun HomeState_as_db_str :: "HomeState \<Rightarrow> string" where
  "HomeState_as_db_str HomeState.Ready = ''ready''"
| "HomeState_as_db_str HomeState.Deleting = ''deleting''"
| "HomeState_as_db_str HomeState.DeleteFailed = ''delete_failed''"

definition HomeState_parse_db_str :: "string \<Rightarrow> DbVariantError + HomeState" where
  "HomeState_parse_db_str = parse_db_str ''HomeState'' HomeState_arms"

interpretation HomeState: db_variant "''HomeState''" HomeState_arms HomeState_as_db_str
  rewrites "parse_db_str ''HomeState'' HomeState_arms = HomeState_parse_db_str"
proof -
  show "db_variant HomeState_arms HomeState_as_db_str"
  proof
    show "(HomeState_as_db_str v, v) \<in> set HomeState_arms" for v
      by (cases v) (simp_all add: HomeState_arms_def)
  qed (simp_all add: db_values_def HomeState_arms_def)
qed (simp add: HomeState_parse_db_str_def)

subsection \<open>Desktop sessions and runtime resources\<close>

datatype DesktopSessionStatus =
  Pending
| Ready
| Failed
| Closed
| Expired

definition DesktopSessionStatus_arms :: "(string \<times> DesktopSessionStatus) list" where
  "DesktopSessionStatus_arms =
    [(''pending'', DesktopSessionStatus.Pending),
     (''ready'', DesktopSessionStatus.Ready),
     (''failed'', DesktopSessionStatus.Failed),
     (''closed'', DesktopSessionStatus.Closed),
     (''expired'', DesktopSessionStatus.Expired)]"

fun DesktopSessionStatus_as_db_str :: "DesktopSessionStatus \<Rightarrow> string" where
  "DesktopSessionStatus_as_db_str DesktopSessionStatus.Pending = ''pending''"
| "DesktopSessionStatus_as_db_str DesktopSessionStatus.Ready = ''ready''"
| "DesktopSessionStatus_as_db_str DesktopSessionStatus.Failed = ''failed''"
| "DesktopSessionStatus_as_db_str DesktopSessionStatus.Closed = ''closed''"
| "DesktopSessionStatus_as_db_str DesktopSessionStatus.Expired = ''expired''"

definition DesktopSessionStatus_parse_db_str :: "string \<Rightarrow> DbVariantError + DesktopSessionStatus" where
  "DesktopSessionStatus_parse_db_str = parse_db_str ''DesktopSessionStatus'' DesktopSessionStatus_arms"

interpretation DesktopSessionStatus: db_variant "''DesktopSessionStatus''" DesktopSessionStatus_arms DesktopSessionStatus_as_db_str
  rewrites "parse_db_str ''DesktopSessionStatus'' DesktopSessionStatus_arms = DesktopSessionStatus_parse_db_str"
proof -
  show "db_variant DesktopSessionStatus_arms DesktopSessionStatus_as_db_str"
  proof
    show "(DesktopSessionStatus_as_db_str v, v) \<in> set DesktopSessionStatus_arms" for v
      by (cases v) (simp_all add: DesktopSessionStatus_arms_def)
  qed (simp_all add: db_values_def DesktopSessionStatus_arms_def)
qed (simp add: DesktopSessionStatus_parse_db_str_def)

datatype DesktopAccessMode =
  Browser
| Vnc
| Rdp

definition DesktopAccessMode_arms :: "(string \<times> DesktopAccessMode) list" where
  "DesktopAccessMode_arms =
    [(''browser'', DesktopAccessMode.Browser),
     (''vnc'', DesktopAccessMode.Vnc),
     (''rdp'', DesktopAccessMode.Rdp)]"

fun DesktopAccessMode_as_db_str :: "DesktopAccessMode \<Rightarrow> string" where
  "DesktopAccessMode_as_db_str DesktopAccessMode.Browser = ''browser''"
| "DesktopAccessMode_as_db_str DesktopAccessMode.Vnc = ''vnc''"
| "DesktopAccessMode_as_db_str DesktopAccessMode.Rdp = ''rdp''"

definition DesktopAccessMode_parse_db_str :: "string \<Rightarrow> DbVariantError + DesktopAccessMode" where
  "DesktopAccessMode_parse_db_str = parse_db_str ''DesktopAccessMode'' DesktopAccessMode_arms"

interpretation DesktopAccessMode: db_variant "''DesktopAccessMode''" DesktopAccessMode_arms DesktopAccessMode_as_db_str
  rewrites "parse_db_str ''DesktopAccessMode'' DesktopAccessMode_arms = DesktopAccessMode_parse_db_str"
proof -
  show "db_variant DesktopAccessMode_arms DesktopAccessMode_as_db_str"
  proof
    show "(DesktopAccessMode_as_db_str v, v) \<in> set DesktopAccessMode_arms" for v
      by (cases v) (simp_all add: DesktopAccessMode_arms_def)
  qed (simp_all add: db_values_def DesktopAccessMode_arms_def)
qed (simp add: DesktopAccessMode_parse_db_str_def)

datatype DesktopTransportKind =
  NovncWebsocket

definition DesktopTransportKind_arms :: "(string \<times> DesktopTransportKind) list" where
  "DesktopTransportKind_arms =
    [(''novnc_websocket'', DesktopTransportKind.NovncWebsocket)]"

fun DesktopTransportKind_as_db_str :: "DesktopTransportKind \<Rightarrow> string" where
  "DesktopTransportKind_as_db_str DesktopTransportKind.NovncWebsocket = ''novnc_websocket''"

definition DesktopTransportKind_parse_db_str :: "string \<Rightarrow> DbVariantError + DesktopTransportKind" where
  "DesktopTransportKind_parse_db_str = parse_db_str ''DesktopTransportKind'' DesktopTransportKind_arms"

interpretation DesktopTransportKind: db_variant "''DesktopTransportKind''" DesktopTransportKind_arms DesktopTransportKind_as_db_str
  rewrites "parse_db_str ''DesktopTransportKind'' DesktopTransportKind_arms = DesktopTransportKind_parse_db_str"
proof -
  show "db_variant DesktopTransportKind_arms DesktopTransportKind_as_db_str"
  proof
    show "(DesktopTransportKind_as_db_str v, v) \<in> set DesktopTransportKind_arms" for v
      by (cases v) (simp_all add: DesktopTransportKind_arms_def)
  qed (simp_all add: db_values_def DesktopTransportKind_arms_def)
qed (simp add: DesktopTransportKind_parse_db_str_def)

datatype RuntimeResourceKind =
  Pod
| SandboxClaim
| Sandbox
| PersistentVolumeClaim
| Service
| Secret
| VolumeSnapshot
| NetworkPolicy

definition RuntimeResourceKind_arms :: "(string \<times> RuntimeResourceKind) list" where
  "RuntimeResourceKind_arms =
    [(''pod'', RuntimeResourceKind.Pod),
     (''sandbox_claim'', RuntimeResourceKind.SandboxClaim),
     (''sandbox'', RuntimeResourceKind.Sandbox),
     (''persistent_volume_claim'', RuntimeResourceKind.PersistentVolumeClaim),
     (''service'', RuntimeResourceKind.Service),
     (''secret'', RuntimeResourceKind.Secret),
     (''volume_snapshot'', RuntimeResourceKind.VolumeSnapshot),
     (''network_policy'', RuntimeResourceKind.NetworkPolicy)]"

fun RuntimeResourceKind_as_db_str :: "RuntimeResourceKind \<Rightarrow> string" where
  "RuntimeResourceKind_as_db_str RuntimeResourceKind.Pod = ''pod''"
| "RuntimeResourceKind_as_db_str RuntimeResourceKind.SandboxClaim = ''sandbox_claim''"
| "RuntimeResourceKind_as_db_str RuntimeResourceKind.Sandbox = ''sandbox''"
| "RuntimeResourceKind_as_db_str RuntimeResourceKind.PersistentVolumeClaim = ''persistent_volume_claim''"
| "RuntimeResourceKind_as_db_str RuntimeResourceKind.Service = ''service''"
| "RuntimeResourceKind_as_db_str RuntimeResourceKind.Secret = ''secret''"
| "RuntimeResourceKind_as_db_str RuntimeResourceKind.VolumeSnapshot = ''volume_snapshot''"
| "RuntimeResourceKind_as_db_str RuntimeResourceKind.NetworkPolicy = ''network_policy''"

definition RuntimeResourceKind_parse_db_str :: "string \<Rightarrow> DbVariantError + RuntimeResourceKind" where
  "RuntimeResourceKind_parse_db_str = parse_db_str ''RuntimeResourceKind'' RuntimeResourceKind_arms"

interpretation RuntimeResourceKind: db_variant "''RuntimeResourceKind''" RuntimeResourceKind_arms RuntimeResourceKind_as_db_str
  rewrites "parse_db_str ''RuntimeResourceKind'' RuntimeResourceKind_arms = RuntimeResourceKind_parse_db_str"
proof -
  show "db_variant RuntimeResourceKind_arms RuntimeResourceKind_as_db_str"
  proof
    show "(RuntimeResourceKind_as_db_str v, v) \<in> set RuntimeResourceKind_arms" for v
      by (cases v) (simp_all add: RuntimeResourceKind_arms_def)
  qed (simp_all add: db_values_def RuntimeResourceKind_arms_def)
qed (simp add: RuntimeResourceKind_parse_db_str_def)

datatype RuntimeResourcePurpose =
  Runtime
| Workspace
| Ssh
| Desktop
| Snapshot
| Network

definition RuntimeResourcePurpose_arms :: "(string \<times> RuntimeResourcePurpose) list" where
  "RuntimeResourcePurpose_arms =
    [(''runtime'', RuntimeResourcePurpose.Runtime),
     (''workspace'', RuntimeResourcePurpose.Workspace),
     (''ssh'', RuntimeResourcePurpose.Ssh),
     (''desktop'', RuntimeResourcePurpose.Desktop),
     (''snapshot'', RuntimeResourcePurpose.Snapshot),
     (''network'', RuntimeResourcePurpose.Network)]"

fun RuntimeResourcePurpose_as_db_str :: "RuntimeResourcePurpose \<Rightarrow> string" where
  "RuntimeResourcePurpose_as_db_str RuntimeResourcePurpose.Runtime = ''runtime''"
| "RuntimeResourcePurpose_as_db_str RuntimeResourcePurpose.Workspace = ''workspace''"
| "RuntimeResourcePurpose_as_db_str RuntimeResourcePurpose.Ssh = ''ssh''"
| "RuntimeResourcePurpose_as_db_str RuntimeResourcePurpose.Desktop = ''desktop''"
| "RuntimeResourcePurpose_as_db_str RuntimeResourcePurpose.Snapshot = ''snapshot''"
| "RuntimeResourcePurpose_as_db_str RuntimeResourcePurpose.Network = ''network''"

definition RuntimeResourcePurpose_parse_db_str :: "string \<Rightarrow> DbVariantError + RuntimeResourcePurpose" where
  "RuntimeResourcePurpose_parse_db_str = parse_db_str ''RuntimeResourcePurpose'' RuntimeResourcePurpose_arms"

interpretation RuntimeResourcePurpose: db_variant "''RuntimeResourcePurpose''" RuntimeResourcePurpose_arms RuntimeResourcePurpose_as_db_str
  rewrites "parse_db_str ''RuntimeResourcePurpose'' RuntimeResourcePurpose_arms = RuntimeResourcePurpose_parse_db_str"
proof -
  show "db_variant RuntimeResourcePurpose_arms RuntimeResourcePurpose_as_db_str"
  proof
    show "(RuntimeResourcePurpose_as_db_str v, v) \<in> set RuntimeResourcePurpose_arms" for v
      by (cases v) (simp_all add: RuntimeResourcePurpose_arms_def)
  qed (simp_all add: db_values_def RuntimeResourcePurpose_arms_def)
qed (simp add: RuntimeResourcePurpose_parse_db_str_def)

datatype RuntimeResourceStatus =
  Planned
| Applied
| Ready
| Failed
| Deleted
| Destroyed

definition RuntimeResourceStatus_arms :: "(string \<times> RuntimeResourceStatus) list" where
  "RuntimeResourceStatus_arms =
    [(''planned'', RuntimeResourceStatus.Planned),
     (''applied'', RuntimeResourceStatus.Applied),
     (''ready'', RuntimeResourceStatus.Ready),
     (''failed'', RuntimeResourceStatus.Failed),
     (''deleted'', RuntimeResourceStatus.Deleted),
     (''destroyed'', RuntimeResourceStatus.Destroyed)]"

fun RuntimeResourceStatus_as_db_str :: "RuntimeResourceStatus \<Rightarrow> string" where
  "RuntimeResourceStatus_as_db_str RuntimeResourceStatus.Planned = ''planned''"
| "RuntimeResourceStatus_as_db_str RuntimeResourceStatus.Applied = ''applied''"
| "RuntimeResourceStatus_as_db_str RuntimeResourceStatus.Ready = ''ready''"
| "RuntimeResourceStatus_as_db_str RuntimeResourceStatus.Failed = ''failed''"
| "RuntimeResourceStatus_as_db_str RuntimeResourceStatus.Deleted = ''deleted''"
| "RuntimeResourceStatus_as_db_str RuntimeResourceStatus.Destroyed = ''destroyed''"

definition RuntimeResourceStatus_parse_db_str :: "string \<Rightarrow> DbVariantError + RuntimeResourceStatus" where
  "RuntimeResourceStatus_parse_db_str = parse_db_str ''RuntimeResourceStatus'' RuntimeResourceStatus_arms"

interpretation RuntimeResourceStatus: db_variant "''RuntimeResourceStatus''" RuntimeResourceStatus_arms RuntimeResourceStatus_as_db_str
  rewrites "parse_db_str ''RuntimeResourceStatus'' RuntimeResourceStatus_arms = RuntimeResourceStatus_parse_db_str"
proof -
  show "db_variant RuntimeResourceStatus_arms RuntimeResourceStatus_as_db_str"
  proof
    show "(RuntimeResourceStatus_as_db_str v, v) \<in> set RuntimeResourceStatus_arms" for v
      by (cases v) (simp_all add: RuntimeResourceStatus_arms_def)
  qed (simp_all add: db_values_def RuntimeResourceStatus_arms_def)
qed (simp add: RuntimeResourceStatus_parse_db_str_def)

datatype CleanupRunStatus =
  Running
| Succeeded
| Failed

definition CleanupRunStatus_arms :: "(string \<times> CleanupRunStatus) list" where
  "CleanupRunStatus_arms =
    [(''running'', CleanupRunStatus.Running),
     (''succeeded'', CleanupRunStatus.Succeeded),
     (''failed'', CleanupRunStatus.Failed)]"

fun CleanupRunStatus_as_db_str :: "CleanupRunStatus \<Rightarrow> string" where
  "CleanupRunStatus_as_db_str CleanupRunStatus.Running = ''running''"
| "CleanupRunStatus_as_db_str CleanupRunStatus.Succeeded = ''succeeded''"
| "CleanupRunStatus_as_db_str CleanupRunStatus.Failed = ''failed''"

definition CleanupRunStatus_parse_db_str :: "string \<Rightarrow> DbVariantError + CleanupRunStatus" where
  "CleanupRunStatus_parse_db_str = parse_db_str ''CleanupRunStatus'' CleanupRunStatus_arms"

interpretation CleanupRunStatus: db_variant "''CleanupRunStatus''" CleanupRunStatus_arms CleanupRunStatus_as_db_str
  rewrites "parse_db_str ''CleanupRunStatus'' CleanupRunStatus_arms = CleanupRunStatus_parse_db_str"
proof -
  show "db_variant CleanupRunStatus_arms CleanupRunStatus_as_db_str"
  proof
    show "(CleanupRunStatus_as_db_str v, v) \<in> set CleanupRunStatus_arms" for v
      by (cases v) (simp_all add: CleanupRunStatus_arms_def)
  qed (simp_all add: db_values_def CleanupRunStatus_arms_def)
qed (simp add: CleanupRunStatus_parse_db_str_def)

subsection \<open>Sterile cells\<close>

datatype SterileCellRuntimeClass =
  KataMicrovm
| GvisorLowerRisk

definition SterileCellRuntimeClass_arms :: "(string \<times> SterileCellRuntimeClass) list" where
  "SterileCellRuntimeClass_arms =
    [(''kata_microvm'', SterileCellRuntimeClass.KataMicrovm),
     (''gvisor_lower_risk'', SterileCellRuntimeClass.GvisorLowerRisk)]"

fun SterileCellRuntimeClass_as_db_str :: "SterileCellRuntimeClass \<Rightarrow> string" where
  "SterileCellRuntimeClass_as_db_str SterileCellRuntimeClass.KataMicrovm = ''kata_microvm''"
| "SterileCellRuntimeClass_as_db_str SterileCellRuntimeClass.GvisorLowerRisk = ''gvisor_lower_risk''"

definition SterileCellRuntimeClass_parse_db_str :: "string \<Rightarrow> DbVariantError + SterileCellRuntimeClass" where
  "SterileCellRuntimeClass_parse_db_str = parse_db_str ''SterileCellRuntimeClass'' SterileCellRuntimeClass_arms"

interpretation SterileCellRuntimeClass: db_variant "''SterileCellRuntimeClass''" SterileCellRuntimeClass_arms SterileCellRuntimeClass_as_db_str
  rewrites "parse_db_str ''SterileCellRuntimeClass'' SterileCellRuntimeClass_arms = SterileCellRuntimeClass_parse_db_str"
proof -
  show "db_variant SterileCellRuntimeClass_arms SterileCellRuntimeClass_as_db_str"
  proof
    show "(SterileCellRuntimeClass_as_db_str v, v) \<in> set SterileCellRuntimeClass_arms" for v
      by (cases v) (simp_all add: SterileCellRuntimeClass_arms_def)
  qed (simp_all add: db_values_def SterileCellRuntimeClass_arms_def)
qed (simp add: SterileCellRuntimeClass_parse_db_str_def)

datatype SterileCellState =
  Ready
| Leased
| Destroyed
| Quarantined

definition SterileCellState_arms :: "(string \<times> SterileCellState) list" where
  "SterileCellState_arms =
    [(''ready'', SterileCellState.Ready),
     (''leased'', SterileCellState.Leased),
     (''destroyed'', SterileCellState.Destroyed),
     (''quarantined'', SterileCellState.Quarantined)]"

fun SterileCellState_as_db_str :: "SterileCellState \<Rightarrow> string" where
  "SterileCellState_as_db_str SterileCellState.Ready = ''ready''"
| "SterileCellState_as_db_str SterileCellState.Leased = ''leased''"
| "SterileCellState_as_db_str SterileCellState.Destroyed = ''destroyed''"
| "SterileCellState_as_db_str SterileCellState.Quarantined = ''quarantined''"

definition SterileCellState_parse_db_str :: "string \<Rightarrow> DbVariantError + SterileCellState" where
  "SterileCellState_parse_db_str = parse_db_str ''SterileCellState'' SterileCellState_arms"

interpretation SterileCellState: db_variant "''SterileCellState''" SterileCellState_arms SterileCellState_as_db_str
  rewrites "parse_db_str ''SterileCellState'' SterileCellState_arms = SterileCellState_parse_db_str"
proof -
  show "db_variant SterileCellState_arms SterileCellState_as_db_str"
  proof
    show "(SterileCellState_as_db_str v, v) \<in> set SterileCellState_arms" for v
      by (cases v) (simp_all add: SterileCellState_arms_def)
  qed (simp_all add: db_values_def SterileCellState_arms_def)
qed (simp add: SterileCellState_parse_db_str_def)

datatype SterileCellDisposition =
  Destroyed
| Quarantined

definition SterileCellDisposition_arms :: "(string \<times> SterileCellDisposition) list" where
  "SterileCellDisposition_arms =
    [(''destroyed'', SterileCellDisposition.Destroyed),
     (''quarantined'', SterileCellDisposition.Quarantined)]"

fun SterileCellDisposition_as_db_str :: "SterileCellDisposition \<Rightarrow> string" where
  "SterileCellDisposition_as_db_str SterileCellDisposition.Destroyed = ''destroyed''"
| "SterileCellDisposition_as_db_str SterileCellDisposition.Quarantined = ''quarantined''"

definition SterileCellDisposition_parse_db_str :: "string \<Rightarrow> DbVariantError + SterileCellDisposition" where
  "SterileCellDisposition_parse_db_str = parse_db_str ''SterileCellDisposition'' SterileCellDisposition_arms"

interpretation SterileCellDisposition: db_variant "''SterileCellDisposition''" SterileCellDisposition_arms SterileCellDisposition_as_db_str
  rewrites "parse_db_str ''SterileCellDisposition'' SterileCellDisposition_arms = SterileCellDisposition_parse_db_str"
proof -
  show "db_variant SterileCellDisposition_arms SterileCellDisposition_as_db_str"
  proof
    show "(SterileCellDisposition_as_db_str v, v) \<in> set SterileCellDisposition_arms" for v
      by (cases v) (simp_all add: SterileCellDisposition_arms_def)
  qed (simp_all add: db_values_def SterileCellDisposition_arms_def)
qed (simp add: SterileCellDisposition_parse_db_str_def)

datatype SterileCellNoLeaseReasonV1 =
  CapacityAbsent
| ReleaseMismatch
| Unhealthy
| AlreadyLeased
| ReadyFloorProtected
| NotClaimable
| ClaimContended

definition SterileCellNoLeaseReasonV1_arms :: "(string \<times> SterileCellNoLeaseReasonV1) list" where
  "SterileCellNoLeaseReasonV1_arms =
    [(''capacity_absent'', SterileCellNoLeaseReasonV1.CapacityAbsent),
     (''release_mismatch'', SterileCellNoLeaseReasonV1.ReleaseMismatch),
     (''unhealthy'', SterileCellNoLeaseReasonV1.Unhealthy),
     (''already_leased'', SterileCellNoLeaseReasonV1.AlreadyLeased),
     (''ready_floor_protected'', SterileCellNoLeaseReasonV1.ReadyFloorProtected),
     (''not_claimable'', SterileCellNoLeaseReasonV1.NotClaimable),
     (''claim_contended'', SterileCellNoLeaseReasonV1.ClaimContended)]"

fun SterileCellNoLeaseReasonV1_as_db_str :: "SterileCellNoLeaseReasonV1 \<Rightarrow> string" where
  "SterileCellNoLeaseReasonV1_as_db_str SterileCellNoLeaseReasonV1.CapacityAbsent = ''capacity_absent''"
| "SterileCellNoLeaseReasonV1_as_db_str SterileCellNoLeaseReasonV1.ReleaseMismatch = ''release_mismatch''"
| "SterileCellNoLeaseReasonV1_as_db_str SterileCellNoLeaseReasonV1.Unhealthy = ''unhealthy''"
| "SterileCellNoLeaseReasonV1_as_db_str SterileCellNoLeaseReasonV1.AlreadyLeased = ''already_leased''"
| "SterileCellNoLeaseReasonV1_as_db_str SterileCellNoLeaseReasonV1.ReadyFloorProtected = ''ready_floor_protected''"
| "SterileCellNoLeaseReasonV1_as_db_str SterileCellNoLeaseReasonV1.NotClaimable = ''not_claimable''"
| "SterileCellNoLeaseReasonV1_as_db_str SterileCellNoLeaseReasonV1.ClaimContended = ''claim_contended''"

definition SterileCellNoLeaseReasonV1_parse_db_str :: "string \<Rightarrow> DbVariantError + SterileCellNoLeaseReasonV1" where
  "SterileCellNoLeaseReasonV1_parse_db_str = parse_db_str ''SterileCellNoLeaseReasonV1'' SterileCellNoLeaseReasonV1_arms"

interpretation SterileCellNoLeaseReasonV1: db_variant "''SterileCellNoLeaseReasonV1''" SterileCellNoLeaseReasonV1_arms SterileCellNoLeaseReasonV1_as_db_str
  rewrites "parse_db_str ''SterileCellNoLeaseReasonV1'' SterileCellNoLeaseReasonV1_arms = SterileCellNoLeaseReasonV1_parse_db_str"
proof -
  show "db_variant SterileCellNoLeaseReasonV1_arms SterileCellNoLeaseReasonV1_as_db_str"
  proof
    show "(SterileCellNoLeaseReasonV1_as_db_str v, v) \<in> set SterileCellNoLeaseReasonV1_arms" for v
      by (cases v) (simp_all add: SterileCellNoLeaseReasonV1_arms_def)
  qed (simp_all add: db_values_def SterileCellNoLeaseReasonV1_arms_def)
qed (simp add: SterileCellNoLeaseReasonV1_parse_db_str_def)

subsection \<open>Activity, divergence and events\<close>

datatype ActivityClass =
  ProcessSpawn
| NetworkConnect
| FileWrite

definition ActivityClass_arms :: "(string \<times> ActivityClass) list" where
  "ActivityClass_arms =
    [(''process_spawn'', ActivityClass.ProcessSpawn),
     (''network_connect'', ActivityClass.NetworkConnect),
     (''file_write'', ActivityClass.FileWrite)]"

fun ActivityClass_as_db_str :: "ActivityClass \<Rightarrow> string" where
  "ActivityClass_as_db_str ActivityClass.ProcessSpawn = ''process_spawn''"
| "ActivityClass_as_db_str ActivityClass.NetworkConnect = ''network_connect''"
| "ActivityClass_as_db_str ActivityClass.FileWrite = ''file_write''"

definition ActivityClass_parse_db_str :: "string \<Rightarrow> DbVariantError + ActivityClass" where
  "ActivityClass_parse_db_str = parse_db_str ''ActivityClass'' ActivityClass_arms"

interpretation ActivityClass: db_variant "''ActivityClass''" ActivityClass_arms ActivityClass_as_db_str
  rewrites "parse_db_str ''ActivityClass'' ActivityClass_arms = ActivityClass_parse_db_str"
proof -
  show "db_variant ActivityClass_arms ActivityClass_as_db_str"
  proof
    show "(ActivityClass_as_db_str v, v) \<in> set ActivityClass_arms" for v
      by (cases v) (simp_all add: ActivityClass_arms_def)
  qed (simp_all add: db_values_def ActivityClass_arms_def)
qed (simp add: ActivityClass_parse_db_str_def)

datatype DivergenceKind =
  UnaccountedActivity
| ReceiptScopeMismatch

definition DivergenceKind_arms :: "(string \<times> DivergenceKind) list" where
  "DivergenceKind_arms =
    [(''unaccounted_activity'', DivergenceKind.UnaccountedActivity),
     (''receipt_scope_mismatch'', DivergenceKind.ReceiptScopeMismatch)]"

fun DivergenceKind_as_db_str :: "DivergenceKind \<Rightarrow> string" where
  "DivergenceKind_as_db_str DivergenceKind.UnaccountedActivity = ''unaccounted_activity''"
| "DivergenceKind_as_db_str DivergenceKind.ReceiptScopeMismatch = ''receipt_scope_mismatch''"

definition DivergenceKind_parse_db_str :: "string \<Rightarrow> DbVariantError + DivergenceKind" where
  "DivergenceKind_parse_db_str = parse_db_str ''DivergenceKind'' DivergenceKind_arms"

interpretation DivergenceKind: db_variant "''DivergenceKind''" DivergenceKind_arms DivergenceKind_as_db_str
  rewrites "parse_db_str ''DivergenceKind'' DivergenceKind_arms = DivergenceKind_parse_db_str"
proof -
  show "db_variant DivergenceKind_arms DivergenceKind_as_db_str"
  proof
    show "(DivergenceKind_as_db_str v, v) \<in> set DivergenceKind_arms" for v
      by (cases v) (simp_all add: DivergenceKind_arms_def)
  qed (simp_all add: db_values_def DivergenceKind_arms_def)
qed (simp add: DivergenceKind_parse_db_str_def)

datatype DivergenceFindingStatus =
  Open
| Resolved

definition DivergenceFindingStatus_arms :: "(string \<times> DivergenceFindingStatus) list" where
  "DivergenceFindingStatus_arms =
    [(''open'', DivergenceFindingStatus.Open),
     (''resolved'', DivergenceFindingStatus.Resolved)]"

fun DivergenceFindingStatus_as_db_str :: "DivergenceFindingStatus \<Rightarrow> string" where
  "DivergenceFindingStatus_as_db_str DivergenceFindingStatus.Open = ''open''"
| "DivergenceFindingStatus_as_db_str DivergenceFindingStatus.Resolved = ''resolved''"

definition DivergenceFindingStatus_parse_db_str :: "string \<Rightarrow> DbVariantError + DivergenceFindingStatus" where
  "DivergenceFindingStatus_parse_db_str = parse_db_str ''DivergenceFindingStatus'' DivergenceFindingStatus_arms"

interpretation DivergenceFindingStatus: db_variant "''DivergenceFindingStatus''" DivergenceFindingStatus_arms DivergenceFindingStatus_as_db_str
  rewrites "parse_db_str ''DivergenceFindingStatus'' DivergenceFindingStatus_arms = DivergenceFindingStatus_parse_db_str"
proof -
  show "db_variant DivergenceFindingStatus_arms DivergenceFindingStatus_as_db_str"
  proof
    show "(DivergenceFindingStatus_as_db_str v, v) \<in> set DivergenceFindingStatus_arms" for v
      by (cases v) (simp_all add: DivergenceFindingStatus_arms_def)
  qed (simp_all add: db_values_def DivergenceFindingStatus_arms_def)
qed (simp add: DivergenceFindingStatus_parse_db_str_def)

datatype SandboxEventKind =
  LifecycleChanged
| CommandQueued
| CommandStarted
| CommandOutput
| CommandFinished
| PromptQueued
| PromptStarted
| PromptFinished
| DesktopRequested
| DesktopReady
| DesktopFailed
| DesktopClosed
| DesktopExpired
| GuestHealthFailed
| FileUploaded
| FileMaterialized
| DivergenceDetected

definition SandboxEventKind_arms :: "(string \<times> SandboxEventKind) list" where
  "SandboxEventKind_arms =
    [(''lifecycle_changed'', SandboxEventKind.LifecycleChanged),
     (''command_queued'', SandboxEventKind.CommandQueued),
     (''command_started'', SandboxEventKind.CommandStarted),
     (''command_output'', SandboxEventKind.CommandOutput),
     (''command_finished'', SandboxEventKind.CommandFinished),
     (''prompt_queued'', SandboxEventKind.PromptQueued),
     (''prompt_started'', SandboxEventKind.PromptStarted),
     (''prompt_finished'', SandboxEventKind.PromptFinished),
     (''desktop_requested'', SandboxEventKind.DesktopRequested),
     (''desktop_ready'', SandboxEventKind.DesktopReady),
     (''desktop_failed'', SandboxEventKind.DesktopFailed),
     (''desktop_closed'', SandboxEventKind.DesktopClosed),
     (''desktop_expired'', SandboxEventKind.DesktopExpired),
     (''guest_health_failed'', SandboxEventKind.GuestHealthFailed),
     (''file_uploaded'', SandboxEventKind.FileUploaded),
     (''file_materialized'', SandboxEventKind.FileMaterialized),
     (''divergence_detected'', SandboxEventKind.DivergenceDetected)]"

fun SandboxEventKind_as_db_str :: "SandboxEventKind \<Rightarrow> string" where
  "SandboxEventKind_as_db_str SandboxEventKind.LifecycleChanged = ''lifecycle_changed''"
| "SandboxEventKind_as_db_str SandboxEventKind.CommandQueued = ''command_queued''"
| "SandboxEventKind_as_db_str SandboxEventKind.CommandStarted = ''command_started''"
| "SandboxEventKind_as_db_str SandboxEventKind.CommandOutput = ''command_output''"
| "SandboxEventKind_as_db_str SandboxEventKind.CommandFinished = ''command_finished''"
| "SandboxEventKind_as_db_str SandboxEventKind.PromptQueued = ''prompt_queued''"
| "SandboxEventKind_as_db_str SandboxEventKind.PromptStarted = ''prompt_started''"
| "SandboxEventKind_as_db_str SandboxEventKind.PromptFinished = ''prompt_finished''"
| "SandboxEventKind_as_db_str SandboxEventKind.DesktopRequested = ''desktop_requested''"
| "SandboxEventKind_as_db_str SandboxEventKind.DesktopReady = ''desktop_ready''"
| "SandboxEventKind_as_db_str SandboxEventKind.DesktopFailed = ''desktop_failed''"
| "SandboxEventKind_as_db_str SandboxEventKind.DesktopClosed = ''desktop_closed''"
| "SandboxEventKind_as_db_str SandboxEventKind.DesktopExpired = ''desktop_expired''"
| "SandboxEventKind_as_db_str SandboxEventKind.GuestHealthFailed = ''guest_health_failed''"
| "SandboxEventKind_as_db_str SandboxEventKind.FileUploaded = ''file_uploaded''"
| "SandboxEventKind_as_db_str SandboxEventKind.FileMaterialized = ''file_materialized''"
| "SandboxEventKind_as_db_str SandboxEventKind.DivergenceDetected = ''divergence_detected''"

definition SandboxEventKind_parse_db_str :: "string \<Rightarrow> DbVariantError + SandboxEventKind" where
  "SandboxEventKind_parse_db_str = parse_db_str ''SandboxEventKind'' SandboxEventKind_arms"

interpretation SandboxEventKind: db_variant "''SandboxEventKind''" SandboxEventKind_arms SandboxEventKind_as_db_str
  rewrites "parse_db_str ''SandboxEventKind'' SandboxEventKind_arms = SandboxEventKind_parse_db_str"
proof -
  show "db_variant SandboxEventKind_arms SandboxEventKind_as_db_str"
  proof
    show "(SandboxEventKind_as_db_str v, v) \<in> set SandboxEventKind_arms" for v
      by (cases v) (simp_all add: SandboxEventKind_arms_def)
  qed (simp_all add: db_values_def SandboxEventKind_arms_def)
qed (simp add: SandboxEventKind_parse_db_str_def)

subsection \<open>Commands and resident processes\<close>

datatype CommandStatus =
  Queued
| Running
| Finished
| Failed

definition CommandStatus_arms :: "(string \<times> CommandStatus) list" where
  "CommandStatus_arms =
    [(''queued'', CommandStatus.Queued),
     (''running'', CommandStatus.Running),
     (''finished'', CommandStatus.Finished),
     (''failed'', CommandStatus.Failed)]"

fun CommandStatus_as_db_str :: "CommandStatus \<Rightarrow> string" where
  "CommandStatus_as_db_str CommandStatus.Queued = ''queued''"
| "CommandStatus_as_db_str CommandStatus.Running = ''running''"
| "CommandStatus_as_db_str CommandStatus.Finished = ''finished''"
| "CommandStatus_as_db_str CommandStatus.Failed = ''failed''"

definition CommandStatus_parse_db_str :: "string \<Rightarrow> DbVariantError + CommandStatus" where
  "CommandStatus_parse_db_str = parse_db_str ''CommandStatus'' CommandStatus_arms"

interpretation CommandStatus: db_variant "''CommandStatus''" CommandStatus_arms CommandStatus_as_db_str
  rewrites "parse_db_str ''CommandStatus'' CommandStatus_arms = CommandStatus_parse_db_str"
proof -
  show "db_variant CommandStatus_arms CommandStatus_as_db_str"
  proof
    show "(CommandStatus_as_db_str v, v) \<in> set CommandStatus_arms" for v
      by (cases v) (simp_all add: CommandStatus_arms_def)
  qed (simp_all add: db_values_def CommandStatus_arms_def)
qed (simp add: CommandStatus_parse_db_str_def)

datatype CommandOutputStream =
  Stdout
| Stderr

definition CommandOutputStream_arms :: "(string \<times> CommandOutputStream) list" where
  "CommandOutputStream_arms =
    [(''stdout'', CommandOutputStream.Stdout),
     (''stderr'', CommandOutputStream.Stderr)]"

fun CommandOutputStream_as_db_str :: "CommandOutputStream \<Rightarrow> string" where
  "CommandOutputStream_as_db_str CommandOutputStream.Stdout = ''stdout''"
| "CommandOutputStream_as_db_str CommandOutputStream.Stderr = ''stderr''"

definition CommandOutputStream_parse_db_str :: "string \<Rightarrow> DbVariantError + CommandOutputStream" where
  "CommandOutputStream_parse_db_str = parse_db_str ''CommandOutputStream'' CommandOutputStream_arms"

interpretation CommandOutputStream: db_variant "''CommandOutputStream''" CommandOutputStream_arms CommandOutputStream_as_db_str
  rewrites "parse_db_str ''CommandOutputStream'' CommandOutputStream_arms = CommandOutputStream_parse_db_str"
proof -
  show "db_variant CommandOutputStream_arms CommandOutputStream_as_db_str"
  proof
    show "(CommandOutputStream_as_db_str v, v) \<in> set CommandOutputStream_arms" for v
      by (cases v) (simp_all add: CommandOutputStream_arms_def)
  qed (simp_all add: db_values_def CommandOutputStream_arms_def)
qed (simp add: CommandOutputStream_parse_db_str_def)

datatype ResidentProcessRestartPolicy =
  Never
| OnFailure

definition ResidentProcessRestartPolicy_arms :: "(string \<times> ResidentProcessRestartPolicy) list" where
  "ResidentProcessRestartPolicy_arms =
    [(''never'', ResidentProcessRestartPolicy.Never),
     (''on_failure'', ResidentProcessRestartPolicy.OnFailure)]"

fun ResidentProcessRestartPolicy_as_db_str :: "ResidentProcessRestartPolicy \<Rightarrow> string" where
  "ResidentProcessRestartPolicy_as_db_str ResidentProcessRestartPolicy.Never = ''never''"
| "ResidentProcessRestartPolicy_as_db_str ResidentProcessRestartPolicy.OnFailure = ''on_failure''"

definition ResidentProcessRestartPolicy_parse_db_str :: "string \<Rightarrow> DbVariantError + ResidentProcessRestartPolicy" where
  "ResidentProcessRestartPolicy_parse_db_str = parse_db_str ''ResidentProcessRestartPolicy'' ResidentProcessRestartPolicy_arms"

interpretation ResidentProcessRestartPolicy: db_variant "''ResidentProcessRestartPolicy''" ResidentProcessRestartPolicy_arms ResidentProcessRestartPolicy_as_db_str
  rewrites "parse_db_str ''ResidentProcessRestartPolicy'' ResidentProcessRestartPolicy_arms = ResidentProcessRestartPolicy_parse_db_str"
proof -
  show "db_variant ResidentProcessRestartPolicy_arms ResidentProcessRestartPolicy_as_db_str"
  proof
    show "(ResidentProcessRestartPolicy_as_db_str v, v) \<in> set ResidentProcessRestartPolicy_arms" for v
      by (cases v) (simp_all add: ResidentProcessRestartPolicy_arms_def)
  qed (simp_all add: db_values_def ResidentProcessRestartPolicy_arms_def)
qed (simp add: ResidentProcessRestartPolicy_parse_db_str_def)

datatype ResidentProcessDesiredState =
  Running
| Stopped

definition ResidentProcessDesiredState_arms :: "(string \<times> ResidentProcessDesiredState) list" where
  "ResidentProcessDesiredState_arms =
    [(''running'', ResidentProcessDesiredState.Running),
     (''stopped'', ResidentProcessDesiredState.Stopped)]"

fun ResidentProcessDesiredState_as_db_str :: "ResidentProcessDesiredState \<Rightarrow> string" where
  "ResidentProcessDesiredState_as_db_str ResidentProcessDesiredState.Running = ''running''"
| "ResidentProcessDesiredState_as_db_str ResidentProcessDesiredState.Stopped = ''stopped''"

definition ResidentProcessDesiredState_parse_db_str :: "string \<Rightarrow> DbVariantError + ResidentProcessDesiredState" where
  "ResidentProcessDesiredState_parse_db_str = parse_db_str ''ResidentProcessDesiredState'' ResidentProcessDesiredState_arms"

interpretation ResidentProcessDesiredState: db_variant "''ResidentProcessDesiredState''" ResidentProcessDesiredState_arms ResidentProcessDesiredState_as_db_str
  rewrites "parse_db_str ''ResidentProcessDesiredState'' ResidentProcessDesiredState_arms = ResidentProcessDesiredState_parse_db_str"
proof -
  show "db_variant ResidentProcessDesiredState_arms ResidentProcessDesiredState_as_db_str"
  proof
    show "(ResidentProcessDesiredState_as_db_str v, v) \<in> set ResidentProcessDesiredState_arms" for v
      by (cases v) (simp_all add: ResidentProcessDesiredState_arms_def)
  qed (simp_all add: db_values_def ResidentProcessDesiredState_arms_def)
qed (simp add: ResidentProcessDesiredState_parse_db_str_def)

datatype ResidentProcessObservedState =
  Pending
| Starting
| Running
| Failed
| Stopped
| Lost

definition ResidentProcessObservedState_arms :: "(string \<times> ResidentProcessObservedState) list" where
  "ResidentProcessObservedState_arms =
    [(''pending'', ResidentProcessObservedState.Pending),
     (''starting'', ResidentProcessObservedState.Starting),
     (''running'', ResidentProcessObservedState.Running),
     (''failed'', ResidentProcessObservedState.Failed),
     (''stopped'', ResidentProcessObservedState.Stopped),
     (''lost'', ResidentProcessObservedState.Lost)]"

fun ResidentProcessObservedState_as_db_str :: "ResidentProcessObservedState \<Rightarrow> string" where
  "ResidentProcessObservedState_as_db_str ResidentProcessObservedState.Pending = ''pending''"
| "ResidentProcessObservedState_as_db_str ResidentProcessObservedState.Starting = ''starting''"
| "ResidentProcessObservedState_as_db_str ResidentProcessObservedState.Running = ''running''"
| "ResidentProcessObservedState_as_db_str ResidentProcessObservedState.Failed = ''failed''"
| "ResidentProcessObservedState_as_db_str ResidentProcessObservedState.Stopped = ''stopped''"
| "ResidentProcessObservedState_as_db_str ResidentProcessObservedState.Lost = ''lost''"

definition ResidentProcessObservedState_parse_db_str :: "string \<Rightarrow> DbVariantError + ResidentProcessObservedState" where
  "ResidentProcessObservedState_parse_db_str = parse_db_str ''ResidentProcessObservedState'' ResidentProcessObservedState_arms"

interpretation ResidentProcessObservedState: db_variant "''ResidentProcessObservedState''" ResidentProcessObservedState_arms ResidentProcessObservedState_as_db_str
  rewrites "parse_db_str ''ResidentProcessObservedState'' ResidentProcessObservedState_arms = ResidentProcessObservedState_parse_db_str"
proof -
  show "db_variant ResidentProcessObservedState_arms ResidentProcessObservedState_as_db_str"
  proof
    show "(ResidentProcessObservedState_as_db_str v, v) \<in> set ResidentProcessObservedState_arms" for v
      by (cases v) (simp_all add: ResidentProcessObservedState_arms_def)
  qed (simp_all add: db_values_def ResidentProcessObservedState_arms_def)
qed (simp add: ResidentProcessObservedState_parse_db_str_def)

subsection \<open>Workers, jobs and leases\<close>

datatype WorkerStatus =
  Registered
| Online
| Draining
| Offline

definition WorkerStatus_arms :: "(string \<times> WorkerStatus) list" where
  "WorkerStatus_arms =
    [(''registered'', WorkerStatus.Registered),
     (''online'', WorkerStatus.Online),
     (''draining'', WorkerStatus.Draining),
     (''offline'', WorkerStatus.Offline)]"

fun WorkerStatus_as_db_str :: "WorkerStatus \<Rightarrow> string" where
  "WorkerStatus_as_db_str WorkerStatus.Registered = ''registered''"
| "WorkerStatus_as_db_str WorkerStatus.Online = ''online''"
| "WorkerStatus_as_db_str WorkerStatus.Draining = ''draining''"
| "WorkerStatus_as_db_str WorkerStatus.Offline = ''offline''"

definition WorkerStatus_parse_db_str :: "string \<Rightarrow> DbVariantError + WorkerStatus" where
  "WorkerStatus_parse_db_str = parse_db_str ''WorkerStatus'' WorkerStatus_arms"

interpretation WorkerStatus: db_variant "''WorkerStatus''" WorkerStatus_arms WorkerStatus_as_db_str
  rewrites "parse_db_str ''WorkerStatus'' WorkerStatus_arms = WorkerStatus_parse_db_str"
proof -
  show "db_variant WorkerStatus_arms WorkerStatus_as_db_str"
  proof
    show "(WorkerStatus_as_db_str v, v) \<in> set WorkerStatus_arms" for v
      by (cases v) (simp_all add: WorkerStatus_arms_def)
  qed (simp_all add: db_values_def WorkerStatus_arms_def)
qed (simp add: WorkerStatus_parse_db_str_def)

datatype WorkerCapability =
  ProvisionSandbox
| SandboxedContainer
| VirtualMachine
| RunCommand
| UidIsolatedResidentProcess
| MaterializeFile
| ApexTaskInstructions
| AgentPrompt
| Snapshot
| DesktopStream
| K8sPod
| GvisorSandbox
| FqdnEgress
| ApexTrustedSupervisorV1

definition WorkerCapability_arms :: "(string \<times> WorkerCapability) list" where
  "WorkerCapability_arms =
    [(''provision_sandbox'', WorkerCapability.ProvisionSandbox),
     (''sandboxed_container'', WorkerCapability.SandboxedContainer),
     (''virtual_machine'', WorkerCapability.VirtualMachine),
     (''run_command'', WorkerCapability.RunCommand),
     (''uid_isolated_resident_process'', WorkerCapability.UidIsolatedResidentProcess),
     (''materialize_file'', WorkerCapability.MaterializeFile),
     (''apex_task_instructions'', WorkerCapability.ApexTaskInstructions),
     (''agent_prompt'', WorkerCapability.AgentPrompt),
     (''snapshot'', WorkerCapability.Snapshot),
     (''desktop_stream'', WorkerCapability.DesktopStream),
     (''k8s_pod'', WorkerCapability.K8sPod),
     (''gvisor_sandbox'', WorkerCapability.GvisorSandbox),
     (''fqdn_egress'', WorkerCapability.FqdnEgress),
     (''apex_trusted_supervisor_v1'', WorkerCapability.ApexTrustedSupervisorV1)]"

fun WorkerCapability_as_db_str :: "WorkerCapability \<Rightarrow> string" where
  "WorkerCapability_as_db_str WorkerCapability.ProvisionSandbox = ''provision_sandbox''"
| "WorkerCapability_as_db_str WorkerCapability.SandboxedContainer = ''sandboxed_container''"
| "WorkerCapability_as_db_str WorkerCapability.VirtualMachine = ''virtual_machine''"
| "WorkerCapability_as_db_str WorkerCapability.RunCommand = ''run_command''"
| "WorkerCapability_as_db_str WorkerCapability.UidIsolatedResidentProcess = ''uid_isolated_resident_process''"
| "WorkerCapability_as_db_str WorkerCapability.MaterializeFile = ''materialize_file''"
| "WorkerCapability_as_db_str WorkerCapability.ApexTaskInstructions = ''apex_task_instructions''"
| "WorkerCapability_as_db_str WorkerCapability.AgentPrompt = ''agent_prompt''"
| "WorkerCapability_as_db_str WorkerCapability.Snapshot = ''snapshot''"
| "WorkerCapability_as_db_str WorkerCapability.DesktopStream = ''desktop_stream''"
| "WorkerCapability_as_db_str WorkerCapability.K8sPod = ''k8s_pod''"
| "WorkerCapability_as_db_str WorkerCapability.GvisorSandbox = ''gvisor_sandbox''"
| "WorkerCapability_as_db_str WorkerCapability.FqdnEgress = ''fqdn_egress''"
| "WorkerCapability_as_db_str WorkerCapability.ApexTrustedSupervisorV1 = ''apex_trusted_supervisor_v1''"

definition WorkerCapability_parse_db_str :: "string \<Rightarrow> DbVariantError + WorkerCapability" where
  "WorkerCapability_parse_db_str = parse_db_str ''WorkerCapability'' WorkerCapability_arms"

interpretation WorkerCapability: db_variant "''WorkerCapability''" WorkerCapability_arms WorkerCapability_as_db_str
  rewrites "parse_db_str ''WorkerCapability'' WorkerCapability_arms = WorkerCapability_parse_db_str"
proof -
  show "db_variant WorkerCapability_arms WorkerCapability_as_db_str"
  proof
    show "(WorkerCapability_as_db_str v, v) \<in> set WorkerCapability_arms" for v
      by (cases v) (simp_all add: WorkerCapability_arms_def)
  qed (simp_all add: db_values_def WorkerCapability_arms_def)
qed (simp add: WorkerCapability_parse_db_str_def)

datatype JobKind =
  ProvisionSandbox
| StopSandbox
| ResumeSandbox
| RunCommand
| RunResidentProcess
| MaterializeFile
| ApexTaskInstructions
| RunPrompt
| CreateSnapshot
| ForkSandbox
| DeleteHome

definition JobKind_arms :: "(string \<times> JobKind) list" where
  "JobKind_arms =
    [(''provision_sandbox'', JobKind.ProvisionSandbox),
     (''stop_sandbox'', JobKind.StopSandbox),
     (''resume_sandbox'', JobKind.ResumeSandbox),
     (''run_command'', JobKind.RunCommand),
     (''run_resident_process'', JobKind.RunResidentProcess),
     (''materialize_file'', JobKind.MaterializeFile),
     (''apex_task_instructions'', JobKind.ApexTaskInstructions),
     (''run_prompt'', JobKind.RunPrompt),
     (''create_snapshot'', JobKind.CreateSnapshot),
     (''fork_sandbox'', JobKind.ForkSandbox),
     (''delete_home'', JobKind.DeleteHome)]"

fun JobKind_as_db_str :: "JobKind \<Rightarrow> string" where
  "JobKind_as_db_str JobKind.ProvisionSandbox = ''provision_sandbox''"
| "JobKind_as_db_str JobKind.StopSandbox = ''stop_sandbox''"
| "JobKind_as_db_str JobKind.ResumeSandbox = ''resume_sandbox''"
| "JobKind_as_db_str JobKind.RunCommand = ''run_command''"
| "JobKind_as_db_str JobKind.RunResidentProcess = ''run_resident_process''"
| "JobKind_as_db_str JobKind.MaterializeFile = ''materialize_file''"
| "JobKind_as_db_str JobKind.ApexTaskInstructions = ''apex_task_instructions''"
| "JobKind_as_db_str JobKind.RunPrompt = ''run_prompt''"
| "JobKind_as_db_str JobKind.CreateSnapshot = ''create_snapshot''"
| "JobKind_as_db_str JobKind.ForkSandbox = ''fork_sandbox''"
| "JobKind_as_db_str JobKind.DeleteHome = ''delete_home''"

definition JobKind_parse_db_str :: "string \<Rightarrow> DbVariantError + JobKind" where
  "JobKind_parse_db_str = parse_db_str ''JobKind'' JobKind_arms"

interpretation JobKind: db_variant "''JobKind''" JobKind_arms JobKind_as_db_str
  rewrites "parse_db_str ''JobKind'' JobKind_arms = JobKind_parse_db_str"
proof -
  show "db_variant JobKind_arms JobKind_as_db_str"
  proof
    show "(JobKind_as_db_str v, v) \<in> set JobKind_arms" for v
      by (cases v) (simp_all add: JobKind_arms_def)
  qed (simp_all add: db_values_def JobKind_arms_def)
qed (simp add: JobKind_parse_db_str_def)

datatype JobStatus =
  Queued
| Leased
| Succeeded
| Failed
| Dead
| Cancelled

definition JobStatus_arms :: "(string \<times> JobStatus) list" where
  "JobStatus_arms =
    [(''queued'', JobStatus.Queued),
     (''leased'', JobStatus.Leased),
     (''succeeded'', JobStatus.Succeeded),
     (''failed'', JobStatus.Failed),
     (''dead'', JobStatus.Dead),
     (''cancelled'', JobStatus.Cancelled)]"

fun JobStatus_as_db_str :: "JobStatus \<Rightarrow> string" where
  "JobStatus_as_db_str JobStatus.Queued = ''queued''"
| "JobStatus_as_db_str JobStatus.Leased = ''leased''"
| "JobStatus_as_db_str JobStatus.Succeeded = ''succeeded''"
| "JobStatus_as_db_str JobStatus.Failed = ''failed''"
| "JobStatus_as_db_str JobStatus.Dead = ''dead''"
| "JobStatus_as_db_str JobStatus.Cancelled = ''cancelled''"

definition JobStatus_parse_db_str :: "string \<Rightarrow> DbVariantError + JobStatus" where
  "JobStatus_parse_db_str = parse_db_str ''JobStatus'' JobStatus_arms"

interpretation JobStatus: db_variant "''JobStatus''" JobStatus_arms JobStatus_as_db_str
  rewrites "parse_db_str ''JobStatus'' JobStatus_arms = JobStatus_parse_db_str"
proof -
  show "db_variant JobStatus_arms JobStatus_as_db_str"
  proof
    show "(JobStatus_as_db_str v, v) \<in> set JobStatus_arms" for v
      by (cases v) (simp_all add: JobStatus_arms_def)
  qed (simp_all add: db_values_def JobStatus_arms_def)
qed (simp add: JobStatus_parse_db_str_def)

datatype LeaseStatus =
  Active
| Completed
| Failed
| Expired

definition LeaseStatus_arms :: "(string \<times> LeaseStatus) list" where
  "LeaseStatus_arms =
    [(''active'', LeaseStatus.Active),
     (''completed'', LeaseStatus.Completed),
     (''failed'', LeaseStatus.Failed),
     (''expired'', LeaseStatus.Expired)]"

fun LeaseStatus_as_db_str :: "LeaseStatus \<Rightarrow> string" where
  "LeaseStatus_as_db_str LeaseStatus.Active = ''active''"
| "LeaseStatus_as_db_str LeaseStatus.Completed = ''completed''"
| "LeaseStatus_as_db_str LeaseStatus.Failed = ''failed''"
| "LeaseStatus_as_db_str LeaseStatus.Expired = ''expired''"

definition LeaseStatus_parse_db_str :: "string \<Rightarrow> DbVariantError + LeaseStatus" where
  "LeaseStatus_parse_db_str = parse_db_str ''LeaseStatus'' LeaseStatus_arms"

interpretation LeaseStatus: db_variant "''LeaseStatus''" LeaseStatus_arms LeaseStatus_as_db_str
  rewrites "parse_db_str ''LeaseStatus'' LeaseStatus_arms = LeaseStatus_parse_db_str"
proof -
  show "db_variant LeaseStatus_arms LeaseStatus_as_db_str"
  proof
    show "(LeaseStatus_as_db_str v, v) \<in> set LeaseStatus_arms" for v
      by (cases v) (simp_all add: LeaseStatus_arms_def)
  qed (simp_all add: db_values_def LeaseStatus_arms_def)
qed (simp add: LeaseStatus_parse_db_str_def)

datatype ProvisioningStage =
  WorkspacePlanned
| WorkspaceReady
| NetworkPolicyReady
| CredentialsReady
| PodReady
| ServiceReady
| SandboxReady

definition ProvisioningStage_arms :: "(string \<times> ProvisioningStage) list" where
  "ProvisioningStage_arms =
    [(''workspace_planned'', ProvisioningStage.WorkspacePlanned),
     (''workspace_ready'', ProvisioningStage.WorkspaceReady),
     (''network_policy_ready'', ProvisioningStage.NetworkPolicyReady),
     (''credentials_ready'', ProvisioningStage.CredentialsReady),
     (''pod_ready'', ProvisioningStage.PodReady),
     (''service_ready'', ProvisioningStage.ServiceReady),
     (''sandbox_ready'', ProvisioningStage.SandboxReady)]"

fun ProvisioningStage_as_db_str :: "ProvisioningStage \<Rightarrow> string" where
  "ProvisioningStage_as_db_str ProvisioningStage.WorkspacePlanned = ''workspace_planned''"
| "ProvisioningStage_as_db_str ProvisioningStage.WorkspaceReady = ''workspace_ready''"
| "ProvisioningStage_as_db_str ProvisioningStage.NetworkPolicyReady = ''network_policy_ready''"
| "ProvisioningStage_as_db_str ProvisioningStage.CredentialsReady = ''credentials_ready''"
| "ProvisioningStage_as_db_str ProvisioningStage.PodReady = ''pod_ready''"
| "ProvisioningStage_as_db_str ProvisioningStage.ServiceReady = ''service_ready''"
| "ProvisioningStage_as_db_str ProvisioningStage.SandboxReady = ''sandbox_ready''"

definition ProvisioningStage_parse_db_str :: "string \<Rightarrow> DbVariantError + ProvisioningStage" where
  "ProvisioningStage_parse_db_str = parse_db_str ''ProvisioningStage'' ProvisioningStage_arms"

interpretation ProvisioningStage: db_variant "''ProvisioningStage''" ProvisioningStage_arms ProvisioningStage_as_db_str
  rewrites "parse_db_str ''ProvisioningStage'' ProvisioningStage_arms = ProvisioningStage_parse_db_str"
proof -
  show "db_variant ProvisioningStage_arms ProvisioningStage_as_db_str"
  proof
    show "(ProvisioningStage_as_db_str v, v) \<in> set ProvisioningStage_arms" for v
      by (cases v) (simp_all add: ProvisioningStage_arms_def)
  qed (simp_all add: db_values_def ProvisioningStage_arms_def)
qed (simp add: ProvisioningStage_parse_db_str_def)

datatype ProvisioningErrorClass =
  RetryableProvider
| RetryableCapacity
| TerminalContract
| TerminalSecurity

definition ProvisioningErrorClass_arms :: "(string \<times> ProvisioningErrorClass) list" where
  "ProvisioningErrorClass_arms =
    [(''retryable_provider'', ProvisioningErrorClass.RetryableProvider),
     (''retryable_capacity'', ProvisioningErrorClass.RetryableCapacity),
     (''terminal_contract'', ProvisioningErrorClass.TerminalContract),
     (''terminal_security'', ProvisioningErrorClass.TerminalSecurity)]"

fun ProvisioningErrorClass_as_db_str :: "ProvisioningErrorClass \<Rightarrow> string" where
  "ProvisioningErrorClass_as_db_str ProvisioningErrorClass.RetryableProvider = ''retryable_provider''"
| "ProvisioningErrorClass_as_db_str ProvisioningErrorClass.RetryableCapacity = ''retryable_capacity''"
| "ProvisioningErrorClass_as_db_str ProvisioningErrorClass.TerminalContract = ''terminal_contract''"
| "ProvisioningErrorClass_as_db_str ProvisioningErrorClass.TerminalSecurity = ''terminal_security''"

definition ProvisioningErrorClass_parse_db_str :: "string \<Rightarrow> DbVariantError + ProvisioningErrorClass" where
  "ProvisioningErrorClass_parse_db_str = parse_db_str ''ProvisioningErrorClass'' ProvisioningErrorClass_arms"

interpretation ProvisioningErrorClass: db_variant "''ProvisioningErrorClass''" ProvisioningErrorClass_arms ProvisioningErrorClass_as_db_str
  rewrites "parse_db_str ''ProvisioningErrorClass'' ProvisioningErrorClass_arms = ProvisioningErrorClass_parse_db_str"
proof -
  show "db_variant ProvisioningErrorClass_arms ProvisioningErrorClass_as_db_str"
  proof
    show "(ProvisioningErrorClass_as_db_str v, v) \<in> set ProvisioningErrorClass_arms" for v
      by (cases v) (simp_all add: ProvisioningErrorClass_arms_def)
  qed (simp_all add: db_values_def ProvisioningErrorClass_arms_def)
qed (simp add: ProvisioningErrorClass_parse_db_str_def)

datatype ProviderHealthStatus =
  Healthy
| Degraded
| Unhealthy

definition ProviderHealthStatus_arms :: "(string \<times> ProviderHealthStatus) list" where
  "ProviderHealthStatus_arms =
    [(''healthy'', ProviderHealthStatus.Healthy),
     (''degraded'', ProviderHealthStatus.Degraded),
     (''unhealthy'', ProviderHealthStatus.Unhealthy)]"

fun ProviderHealthStatus_as_db_str :: "ProviderHealthStatus \<Rightarrow> string" where
  "ProviderHealthStatus_as_db_str ProviderHealthStatus.Healthy = ''healthy''"
| "ProviderHealthStatus_as_db_str ProviderHealthStatus.Degraded = ''degraded''"
| "ProviderHealthStatus_as_db_str ProviderHealthStatus.Unhealthy = ''unhealthy''"

definition ProviderHealthStatus_parse_db_str :: "string \<Rightarrow> DbVariantError + ProviderHealthStatus" where
  "ProviderHealthStatus_parse_db_str = parse_db_str ''ProviderHealthStatus'' ProviderHealthStatus_arms"

interpretation ProviderHealthStatus: db_variant "''ProviderHealthStatus''" ProviderHealthStatus_arms ProviderHealthStatus_as_db_str
  rewrites "parse_db_str ''ProviderHealthStatus'' ProviderHealthStatus_arms = ProviderHealthStatus_parse_db_str"
proof -
  show "db_variant ProviderHealthStatus_arms ProviderHealthStatus_as_db_str"
  proof
    show "(ProviderHealthStatus_as_db_str v, v) \<in> set ProviderHealthStatus_arms" for v
      by (cases v) (simp_all add: ProviderHealthStatus_arms_def)
  qed (simp_all add: db_values_def ProviderHealthStatus_arms_def)
qed (simp add: ProviderHealthStatus_parse_db_str_def)

datatype GuestStatus =
  Pending
| Ready
| Unreachable
| Unhealthy
| Terminated

definition GuestStatus_arms :: "(string \<times> GuestStatus) list" where
  "GuestStatus_arms =
    [(''pending'', GuestStatus.Pending),
     (''ready'', GuestStatus.Ready),
     (''unreachable'', GuestStatus.Unreachable),
     (''unhealthy'', GuestStatus.Unhealthy),
     (''terminated'', GuestStatus.Terminated)]"

fun GuestStatus_as_db_str :: "GuestStatus \<Rightarrow> string" where
  "GuestStatus_as_db_str GuestStatus.Pending = ''pending''"
| "GuestStatus_as_db_str GuestStatus.Ready = ''ready''"
| "GuestStatus_as_db_str GuestStatus.Unreachable = ''unreachable''"
| "GuestStatus_as_db_str GuestStatus.Unhealthy = ''unhealthy''"
| "GuestStatus_as_db_str GuestStatus.Terminated = ''terminated''"

definition GuestStatus_parse_db_str :: "string \<Rightarrow> DbVariantError + GuestStatus" where
  "GuestStatus_parse_db_str = parse_db_str ''GuestStatus'' GuestStatus_arms"

interpretation GuestStatus: db_variant "''GuestStatus''" GuestStatus_arms GuestStatus_as_db_str
  rewrites "parse_db_str ''GuestStatus'' GuestStatus_arms = GuestStatus_parse_db_str"
proof -
  show "db_variant GuestStatus_arms GuestStatus_as_db_str"
  proof
    show "(GuestStatus_as_db_str v, v) \<in> set GuestStatus_arms" for v
      by (cases v) (simp_all add: GuestStatus_arms_def)
  qed (simp_all add: db_values_def GuestStatus_arms_def)
qed (simp add: GuestStatus_parse_db_str_def)

subsection \<open>Keys and secrets\<close>

datatype SshKeyStatus =
  Requested
| Applied
| Failed
| Revoked

definition SshKeyStatus_arms :: "(string \<times> SshKeyStatus) list" where
  "SshKeyStatus_arms =
    [(''requested'', SshKeyStatus.Requested),
     (''applied'', SshKeyStatus.Applied),
     (''failed'', SshKeyStatus.Failed),
     (''revoked'', SshKeyStatus.Revoked)]"

fun SshKeyStatus_as_db_str :: "SshKeyStatus \<Rightarrow> string" where
  "SshKeyStatus_as_db_str SshKeyStatus.Requested = ''requested''"
| "SshKeyStatus_as_db_str SshKeyStatus.Applied = ''applied''"
| "SshKeyStatus_as_db_str SshKeyStatus.Failed = ''failed''"
| "SshKeyStatus_as_db_str SshKeyStatus.Revoked = ''revoked''"

definition SshKeyStatus_parse_db_str :: "string \<Rightarrow> DbVariantError + SshKeyStatus" where
  "SshKeyStatus_parse_db_str = parse_db_str ''SshKeyStatus'' SshKeyStatus_arms"

interpretation SshKeyStatus: db_variant "''SshKeyStatus''" SshKeyStatus_arms SshKeyStatus_as_db_str
  rewrites "parse_db_str ''SshKeyStatus'' SshKeyStatus_arms = SshKeyStatus_parse_db_str"
proof -
  show "db_variant SshKeyStatus_arms SshKeyStatus_as_db_str"
  proof
    show "(SshKeyStatus_as_db_str v, v) \<in> set SshKeyStatus_arms" for v
      by (cases v) (simp_all add: SshKeyStatus_arms_def)
  qed (simp_all add: db_values_def SshKeyStatus_arms_def)
qed (simp add: SshKeyStatus_parse_db_str_def)

datatype SecretBackend =
  CsiSecretProviderClass

definition SecretBackend_arms :: "(string \<times> SecretBackend) list" where
  "SecretBackend_arms =
    [(''csi_secret_provider_class'', SecretBackend.CsiSecretProviderClass)]"

fun SecretBackend_as_db_str :: "SecretBackend \<Rightarrow> string" where
  "SecretBackend_as_db_str SecretBackend.CsiSecretProviderClass = ''csi_secret_provider_class''"

definition SecretBackend_parse_db_str :: "string \<Rightarrow> DbVariantError + SecretBackend" where
  "SecretBackend_parse_db_str = parse_db_str ''SecretBackend'' SecretBackend_arms"

interpretation SecretBackend: db_variant "''SecretBackend''" SecretBackend_arms SecretBackend_as_db_str
  rewrites "parse_db_str ''SecretBackend'' SecretBackend_arms = SecretBackend_parse_db_str"
proof -
  show "db_variant SecretBackend_arms SecretBackend_as_db_str"
  proof
    show "(SecretBackend_as_db_str v, v) \<in> set SecretBackend_arms" for v
      by (cases v) (simp_all add: SecretBackend_arms_def)
  qed (simp_all add: db_values_def SecretBackend_arms_def)
qed (simp add: SecretBackend_parse_db_str_def)

datatype SecretDelivery =
  File

definition SecretDelivery_arms :: "(string \<times> SecretDelivery) list" where
  "SecretDelivery_arms =
    [(''file'', SecretDelivery.File)]"

fun SecretDelivery_as_db_str :: "SecretDelivery \<Rightarrow> string" where
  "SecretDelivery_as_db_str SecretDelivery.File = ''file''"

definition SecretDelivery_parse_db_str :: "string \<Rightarrow> DbVariantError + SecretDelivery" where
  "SecretDelivery_parse_db_str = parse_db_str ''SecretDelivery'' SecretDelivery_arms"

interpretation SecretDelivery: db_variant "''SecretDelivery''" SecretDelivery_arms SecretDelivery_as_db_str
  rewrites "parse_db_str ''SecretDelivery'' SecretDelivery_arms = SecretDelivery_parse_db_str"
proof -
  show "db_variant SecretDelivery_arms SecretDelivery_as_db_str"
  proof
    show "(SecretDelivery_as_db_str v, v) \<in> set SecretDelivery_arms" for v
      by (cases v) (simp_all add: SecretDelivery_arms_def)
  qed (simp_all add: db_values_def SecretDelivery_arms_def)
qed (simp add: SecretDelivery_parse_db_str_def)

datatype SecretRefState =
  Active
| Revoked

definition SecretRefState_arms :: "(string \<times> SecretRefState) list" where
  "SecretRefState_arms =
    [(''active'', SecretRefState.Active),
     (''revoked'', SecretRefState.Revoked)]"

fun SecretRefState_as_db_str :: "SecretRefState \<Rightarrow> string" where
  "SecretRefState_as_db_str SecretRefState.Active = ''active''"
| "SecretRefState_as_db_str SecretRefState.Revoked = ''revoked''"

definition SecretRefState_parse_db_str :: "string \<Rightarrow> DbVariantError + SecretRefState" where
  "SecretRefState_parse_db_str = parse_db_str ''SecretRefState'' SecretRefState_arms"

interpretation SecretRefState: db_variant "''SecretRefState''" SecretRefState_arms SecretRefState_as_db_str
  rewrites "parse_db_str ''SecretRefState'' SecretRefState_arms = SecretRefState_parse_db_str"
proof -
  show "db_variant SecretRefState_arms SecretRefState_as_db_str"
  proof
    show "(SecretRefState_as_db_str v, v) \<in> set SecretRefState_arms" for v
      by (cases v) (simp_all add: SecretRefState_arms_def)
  qed (simp_all add: db_values_def SecretRefState_arms_def)
qed (simp add: SecretRefState_parse_db_str_def)

end
