(* ===== verification/Sandbox_Lifecycle.thy ===== *)
theory Sandbox_Lifecycle
  imports State_Machine Core_Enums
begin

section \<open>The sandbox lifecycle\<close>

text \<open>
  \<open>impl SandboxState\<close> of \<open>crates/sandboxwich-core/src/lib.rs\<close>: the \<open>_LEGAL_FROM\<close> predecessor
  sets, \<open>can_transition_to\<close>, \<open>legal_predecessors\<close>, and the database backstop of
  \<open>crates/sandboxwich-api/src/db.rs\<close> that is generated from them.  The datatype
  \<open>lifecycle_action\<close> names the callers of the compare-and-swap update with the constant and the
  target each of them passes; it interprets the locale \<open>cas_machine\<close> with the trigger as guard.
\<close>

subsection \<open>Predecessor sets\<close>

definition SandboxState_ALL :: "SandboxState list" where
  "SandboxState_ALL = [SandboxState.Planning, SandboxState.Provisioning, SandboxState.Ready,
     SandboxState.Running, SandboxState.Idle, SandboxState.Archiving, SandboxState.Archived,
     SandboxState.Error]"

definition is_home_mount_reclaimable :: "SandboxState \<Rightarrow> bool" where
  "is_home_mount_reclaimable s \<longleftrightarrow> (case s of
     SandboxState.Archived \<Rightarrow> True | SandboxState.Error \<Rightarrow> True | _ \<Rightarrow> False)"

definition STOP_LEGAL_FROM :: "SandboxState list" where
  "STOP_LEGAL_FROM = [SandboxState.Planning, SandboxState.Provisioning, SandboxState.Ready,
     SandboxState.Running, SandboxState.Idle, SandboxState.Error]"

definition STOP_COMPLETED_LEGAL_FROM :: "SandboxState list" where
  "STOP_COMPLETED_LEGAL_FROM = [SandboxState.Archiving]"

definition RESUME_LEGAL_FROM :: "SandboxState list" where
  "RESUME_LEGAL_FROM = [SandboxState.Archived]"

definition RESUME_COMPLETED_LEGAL_FROM :: "SandboxState list" where
  "RESUME_COMPLETED_LEGAL_FROM = [SandboxState.Provisioning]"

definition RESUME_FAILED_LEGAL_FROM :: "SandboxState list" where
  "RESUME_FAILED_LEGAL_FROM = [SandboxState.Provisioning]"

definition FORK_CLAIMED_LEGAL_FROM :: "SandboxState list" where
  "FORK_CLAIMED_LEGAL_FROM = [SandboxState.Planning]"

definition FORK_COMPLETED_LEGAL_FROM :: "SandboxState list" where
  "FORK_COMPLETED_LEGAL_FROM = [SandboxState.Provisioning]"

definition FORK_RETRIED_LEGAL_FROM :: "SandboxState list" where
  "FORK_RETRIED_LEGAL_FROM = [SandboxState.Provisioning]"

definition FORK_FAILED_LEGAL_FROM :: "SandboxState list" where
  "FORK_FAILED_LEGAL_FROM = [SandboxState.Provisioning]"

definition PROVISION_COMPLETED_LEGAL_FROM :: "SandboxState list" where
  "PROVISION_COMPLETED_LEGAL_FROM = [SandboxState.Planning, SandboxState.Provisioning,
     SandboxState.Ready, SandboxState.Running, SandboxState.Idle, SandboxState.Error]"

definition PROVISION_FAILED_LEGAL_FROM :: "SandboxState list" where
  "PROVISION_FAILED_LEGAL_FROM = [SandboxState.Planning, SandboxState.Provisioning]"

definition SNAPSHOT_FAILED_CHILD_LEGAL_FROM :: "SandboxState list" where
  "SNAPSHOT_FAILED_CHILD_LEGAL_FROM = [SandboxState.Planning]"

lemmas legal_from_defs =
  STOP_LEGAL_FROM_def STOP_COMPLETED_LEGAL_FROM_def RESUME_LEGAL_FROM_def
  RESUME_COMPLETED_LEGAL_FROM_def RESUME_FAILED_LEGAL_FROM_def FORK_CLAIMED_LEGAL_FROM_def
  FORK_COMPLETED_LEGAL_FROM_def FORK_RETRIED_LEGAL_FROM_def FORK_FAILED_LEGAL_FROM_def
  PROVISION_COMPLETED_LEGAL_FROM_def PROVISION_FAILED_LEGAL_FROM_def
  SNAPSHOT_FAILED_CHILD_LEGAL_FROM_def

definition can_transition_to :: "SandboxState \<Rightarrow> SandboxState \<Rightarrow> bool" where
  "can_transition_to self nxt \<longleftrightarrow>
     (self \<in> set STOP_LEGAL_FROM \<and> nxt = SandboxState.Archiving)
     \<or> (self \<in> set STOP_COMPLETED_LEGAL_FROM \<and> nxt = SandboxState.Archived)
     \<or> (self \<in> set FORK_CLAIMED_LEGAL_FROM \<and> nxt = SandboxState.Provisioning)
     \<or> (self \<in> set FORK_COMPLETED_LEGAL_FROM \<and> nxt = SandboxState.Ready)
     \<or> (self \<in> set FORK_RETRIED_LEGAL_FROM \<and> nxt = SandboxState.Planning)
     \<or> (self \<in> set FORK_FAILED_LEGAL_FROM \<and> nxt = SandboxState.Error)
     \<or> (self \<in> set PROVISION_COMPLETED_LEGAL_FROM \<and> nxt = SandboxState.Ready)
     \<or> (self \<in> set PROVISION_FAILED_LEGAL_FROM \<and> nxt = SandboxState.Error)
     \<or> (self \<in> set SNAPSHOT_FAILED_CHILD_LEGAL_FROM \<and> nxt = SandboxState.Error)
     \<or> (self \<in> set RESUME_LEGAL_FROM \<and> nxt = SandboxState.Provisioning)
     \<or> (self \<in> set RESUME_COMPLETED_LEGAL_FROM \<and> nxt = SandboxState.Ready)
     \<or> (self \<in> set RESUME_FAILED_LEGAL_FROM \<and> nxt = SandboxState.Archived)"

definition legal_predecessors :: "SandboxState \<Rightarrow> SandboxState list" where
  "legal_predecessors nxt = filter (\<lambda>s. can_transition_to s nxt) SandboxState_ALL"

lemma ALL_complete [simp]: "s \<in> set SandboxState_ALL"
  by (cases s) (simp_all add: SandboxState_ALL_def)

subsection \<open>The transition table of the source\<close>

definition transition_table :: "(SandboxState \<times> SandboxState) list" where
  "transition_table =
    [(SandboxState.Planning, SandboxState.Provisioning),
     (SandboxState.Planning, SandboxState.Ready),
     (SandboxState.Planning, SandboxState.Error),
     (SandboxState.Planning, SandboxState.Archiving),
     (SandboxState.Provisioning, SandboxState.Ready),
     (SandboxState.Provisioning, SandboxState.Planning),
     (SandboxState.Provisioning, SandboxState.Error),
     (SandboxState.Provisioning, SandboxState.Archiving),
     (SandboxState.Provisioning, SandboxState.Archived),
     (SandboxState.Ready, SandboxState.Ready),
     (SandboxState.Ready, SandboxState.Archiving),
     (SandboxState.Running, SandboxState.Ready),
     (SandboxState.Running, SandboxState.Archiving),
     (SandboxState.Idle, SandboxState.Ready),
     (SandboxState.Idle, SandboxState.Archiving),
     (SandboxState.Archiving, SandboxState.Archived),
     (SandboxState.Archived, SandboxState.Provisioning),
     (SandboxState.Error, SandboxState.Ready),
     (SandboxState.Error, SandboxState.Archiving)]"

subsection \<open>The database backstop\<close>

text \<open>
  \<open>sandbox_legal_transition_pairs\<close> feeds the trigger that both dialects install: an update of
  the \<open>state\<close> column aborts unless the pair of texts is in the list.
\<close>

definition sandbox_legal_transition_pairs :: "(string \<times> string) list" where
  "sandbox_legal_transition_pairs =
     concat (map (\<lambda>from. concat (map (\<lambda>to.
       if can_transition_to from to
       then [(SandboxState_as_db_str from, SandboxState_as_db_str to)] else []) SandboxState_ALL)) SandboxState_ALL)"

definition transition_guard_allows :: "string \<Rightarrow> string \<Rightarrow> bool" where
  "transition_guard_allows old new \<longleftrightarrow> (old, new) \<in> set sandbox_legal_transition_pairs"

lemma transition_guard_allows_iff:
  "transition_guard_allows (SandboxState_as_db_str s) (SandboxState_as_db_str t)
     \<longleftrightarrow> can_transition_to s t"
  by (auto simp: transition_guard_allows_def sandbox_legal_transition_pairs_def)

text \<open>C26: the compiled predicate \<open>can_transition_to\<close> is exactly the transition table documented
  above it, and \<open>legal_predecessors\<close> and the database trigger, which are derived from it, agree
  with the same table.\<close>

theorem can_transition_to_table:
  "(can_transition_to s t \<longleftrightarrow> (s, t) \<in> set transition_table)
   \<and> set (legal_predecessors t) = {s. (s, t) \<in> set transition_table}
   \<and> (transition_guard_allows (SandboxState_as_db_str s) (SandboxState_as_db_str t)
        \<longleftrightarrow> (s, t) \<in> set transition_table)"
proof (intro conjI)
  have table: "can_transition_to s t \<longleftrightarrow> (s, t) \<in> set transition_table" for s t
    by (cases s; cases t)
      (simp_all add: can_transition_to_def legal_from_defs transition_table_def)
  then show "can_transition_to s t \<longleftrightarrow> (s, t) \<in> set transition_table" .
  from table show "set (legal_predecessors t) = {s. (s, t) \<in> set transition_table}"
    by (auto simp: legal_predecessors_def)
  from table show "transition_guard_allows (SandboxState_as_db_str s) (SandboxState_as_db_str t)
     \<longleftrightarrow> (s, t) \<in> set transition_table"
    by (simp add: transition_guard_allows_iff)
qed

subsection \<open>Callers of the compare-and-swap\<close>

datatype lifecycle_action =
  StopRequested
| StopCompleted
| ResumeRequested
| ResumeCompleted
| ResumeFailed
| ForkClaimed
| ForkCompleted
| ForkRetried
| ForkFailed
| ProvisionCompleted
| ProvisionFailed
| SnapshotFailedChild

fun action_allowed_from :: "lifecycle_action \<Rightarrow> SandboxState list" where
  "action_allowed_from StopRequested = STOP_LEGAL_FROM"
| "action_allowed_from StopCompleted = STOP_COMPLETED_LEGAL_FROM"
| "action_allowed_from ResumeRequested = RESUME_LEGAL_FROM"
| "action_allowed_from ResumeCompleted = RESUME_COMPLETED_LEGAL_FROM"
| "action_allowed_from ResumeFailed = RESUME_FAILED_LEGAL_FROM"
| "action_allowed_from ForkClaimed = FORK_CLAIMED_LEGAL_FROM"
| "action_allowed_from ForkCompleted = FORK_COMPLETED_LEGAL_FROM"
| "action_allowed_from ForkRetried = FORK_RETRIED_LEGAL_FROM"
| "action_allowed_from ForkFailed = FORK_FAILED_LEGAL_FROM"
| "action_allowed_from ProvisionCompleted = PROVISION_COMPLETED_LEGAL_FROM"
| "action_allowed_from ProvisionFailed = PROVISION_FAILED_LEGAL_FROM"
| "action_allowed_from SnapshotFailedChild = SNAPSHOT_FAILED_CHILD_LEGAL_FROM"

fun action_next_state :: "lifecycle_action \<Rightarrow> SandboxState" where
  "action_next_state StopRequested = SandboxState.Archiving"
| "action_next_state StopCompleted = SandboxState.Archived"
| "action_next_state ResumeRequested = SandboxState.Provisioning"
| "action_next_state ResumeCompleted = SandboxState.Ready"
| "action_next_state ResumeFailed = SandboxState.Archived"
| "action_next_state ForkClaimed = SandboxState.Provisioning"
| "action_next_state ForkCompleted = SandboxState.Ready"
| "action_next_state ForkRetried = SandboxState.Planning"
| "action_next_state ForkFailed = SandboxState.Error"
| "action_next_state ProvisionCompleted = SandboxState.Ready"
| "action_next_state ProvisionFailed = SandboxState.Error"
| "action_next_state SnapshotFailedChild = SandboxState.Error"

interpretation lifecycle: cas_machine action_allowed_from action_next_state can_transition_to
proof
  show "can_transition_to s (action_next_state a)" if "s \<in> set (action_allowed_from a)" for s a
    using that by (cases a) (simp_all add: can_transition_to_def)
qed

lemmas lifecycle_run_defs = cas_run_def cas_step_def cas_state_def

abbreviation lifecycle_run :: "lifecycle_action list \<Rightarrow> SandboxState \<Rightarrow> SandboxState" where
  "lifecycle_run \<equiv> cas_run action_allowed_from action_next_state"

lemma actions_cover:
  "can_transition_to s t \<longleftrightarrow> (\<exists>a. s \<in> set (action_allowed_from a) \<and> action_next_state a = t)"
proof
  assume "can_transition_to s t"
  then show "\<exists>a. s \<in> set (action_allowed_from a) \<and> action_next_state a = t"
    unfolding can_transition_to_def
    by (elim disjE conjE)
      (metis action_allowed_from.simps action_next_state.simps)+
qed (use lifecycle.legal_guard in blast)

lemma archived_closed:
  "lifecycle.closed (- {ResumeRequested}) {SandboxState.Archiving, SandboxState.Archived}"
proof -
  have "action_next_state a \<in> {SandboxState.Archiving, SandboxState.Archived}"
    if "a \<noteq> ResumeRequested" and "s \<in> {SandboxState.Archiving, SandboxState.Archived}"
      and "s \<in> set (action_allowed_from a)" for a s
    using that by (cases a) (auto simp: legal_from_defs)
  then show ?thesis
    unfolding lifecycle.closed_def by blast
qed




end
