(* ===== verification/Lifecycle_Contract.thy ===== *)
theory Lifecycle_Contract
  imports Sandbox_Lifecycle "HOL-Library.List_Lexorder" "HOL-Library.Char_ord"
begin

section \<open>The published lifecycle contract\<close>

text \<open>
  \<open>crates/sandboxwich-core/src/lifecycle_contract.rs\<close>: the reason codes with their wire names and
  error classes, the published outcome and state tables, the exported contract value and the
  start-up check of the configured digest; and
  \<open>crates/sandboxwich-api/src/lifecycle_contract.rs\<close>, which computes the header that advertises
  the supported contract digests.  Environment variables are arguments; \<open>HeaderValue::from_str\<close>
  of the crate \<open>http\<close> is a parameter.
\<close>

subsection \<open>Constants and enums\<close>

definition LIFECYCLE_CONTRACT_SCHEMA :: string where
  "LIFECYCLE_CONTRACT_SCHEMA =
     ''sandboxwich.lifecycle.v1''"

definition LIFECYCLE_CONTRACT_HEADER :: string where
  "LIFECYCLE_CONTRACT_HEADER =
     ''x-sandboxwich-lifecycle-contract-sha256''"

definition LIFECYCLE_CONTRACT_ENV :: string where
  "LIFECYCLE_CONTRACT_ENV =
     ''SANDBOXWICH_LIFECYCLE_CONTRACT_SHA256''"

definition LIFECYCLE_SUPPORTED_CONTRACTS_ENV :: string where
  "LIFECYCLE_SUPPORTED_CONTRACTS_ENV =
     ''SANDBOXWICH_SUPPORTED_LIFECYCLE_CONTRACT_SHA256''"

definition LIFECYCLE_CONTRACT_SHA256 :: string where
  "LIFECYCLE_CONTRACT_SHA256 =
     ''38e04b718baeb4f0da9b18ae3d7ee9aa118c1da2d527a4eb45583cbb9b2c2d25''"

datatype LifecycleDisposition =
  RetrySameGeneration
| QueueSameGeneration
| TerminalSameGeneration

datatype SandboxStateDisposition =
  Pending
| Active
| Terminal

datatype LifecycleReasonCode =
  ProviderTransient
| KubernetesProviderTransient
| WorkspaceCapacityPending
| ResourceContractConflict
| RuntimeClassBoundaryUnverified
| KubernetesPolicyDenied
| KubernetesContractInvalid
| PodUnschedulable
| ResourceObservationMissing
| ResourceObservationInvalid
| ResourceIdentityConflict
| ResourceIdentityMissing
| PlacementAttestationPending
| PlacementAttestationNotFound
| PlacementAttestationNotLive
| ResidentMaterializationPending
| WorkspaceCapacityExhausted
| IdentityExchangeFailed
| ResidentMaterializationFailed
| MaestroWorkloadStaleGeneration

fun LifecycleReasonCode_as_str :: "LifecycleReasonCode \<Rightarrow> string" where
  "LifecycleReasonCode_as_str ProviderTransient = ''provider_transient''"
| "LifecycleReasonCode_as_str KubernetesProviderTransient = ''kubernetes_provider_transient''"
| "LifecycleReasonCode_as_str WorkspaceCapacityPending = ''workspace_capacity_pending''"
| "LifecycleReasonCode_as_str ResourceContractConflict = ''resource_contract_conflict''"
| "LifecycleReasonCode_as_str RuntimeClassBoundaryUnverified = ''runtime_class_boundary_unverified''"
| "LifecycleReasonCode_as_str KubernetesPolicyDenied = ''kubernetes_policy_denied''"
| "LifecycleReasonCode_as_str KubernetesContractInvalid = ''kubernetes_contract_invalid''"
| "LifecycleReasonCode_as_str PodUnschedulable = ''pod_unschedulable''"
| "LifecycleReasonCode_as_str ResourceObservationMissing = ''resource_observation_missing''"
| "LifecycleReasonCode_as_str ResourceObservationInvalid = ''resource_observation_invalid''"
| "LifecycleReasonCode_as_str ResourceIdentityConflict = ''resource_identity_conflict''"
| "LifecycleReasonCode_as_str ResourceIdentityMissing = ''resource_identity_missing''"
| "LifecycleReasonCode_as_str PlacementAttestationPending = ''placement_attestation_pending''"
| "LifecycleReasonCode_as_str PlacementAttestationNotFound = ''placement_attestation_not_found''"
| "LifecycleReasonCode_as_str PlacementAttestationNotLive = ''placement_attestation_not_live''"
| "LifecycleReasonCode_as_str ResidentMaterializationPending = ''resident_materialization_pending''"
| "LifecycleReasonCode_as_str WorkspaceCapacityExhausted = ''workspace_capacity_exhausted''"
| "LifecycleReasonCode_as_str IdentityExchangeFailed = ''identity_exchange_failed''"
| "LifecycleReasonCode_as_str ResidentMaterializationFailed = ''resident_materialization_failed''"
| "LifecycleReasonCode_as_str MaestroWorkloadStaleGeneration = ''maestro_workload_stale_generation''"

definition LIFECYCLE_REASON_CODES :: "LifecycleReasonCode list" where
  "LIFECYCLE_REASON_CODES =
    [ProviderTransient,
     KubernetesProviderTransient,
     WorkspaceCapacityPending,
     ResourceContractConflict,
     RuntimeClassBoundaryUnverified,
     KubernetesPolicyDenied,
     KubernetesContractInvalid,
     PodUnschedulable,
     ResourceObservationMissing,
     ResourceObservationInvalid,
     ResourceIdentityConflict,
     ResourceIdentityMissing,
     PlacementAttestationPending,
     PlacementAttestationNotFound,
     PlacementAttestationNotLive,
     ResidentMaterializationPending,
     WorkspaceCapacityExhausted,
     IdentityExchangeFailed,
     ResidentMaterializationFailed,
     MaestroWorkloadStaleGeneration]"

definition LifecycleReasonCode_parse :: "string \<Rightarrow> LifecycleReasonCode option" where
  "LifecycleReasonCode_parse s =
     find (\<lambda>code. LifecycleReasonCode_as_str code = s) LIFECYCLE_REASON_CODES"

fun default_provisioning_error_class :: "LifecycleReasonCode \<Rightarrow> ProvisioningErrorClass" where
  "default_provisioning_error_class WorkspaceCapacityPending =
     ProvisioningErrorClass.RetryableCapacity"
| "default_provisioning_error_class ProviderTransient = ProvisioningErrorClass.RetryableProvider"
| "default_provisioning_error_class KubernetesProviderTransient =
     ProvisioningErrorClass.RetryableProvider"
| "default_provisioning_error_class ResourceObservationMissing =
     ProvisioningErrorClass.RetryableProvider"
| "default_provisioning_error_class ResourceObservationInvalid =
     ProvisioningErrorClass.RetryableProvider"
| "default_provisioning_error_class ResourceIdentityMissing =
     ProvisioningErrorClass.RetryableProvider"
| "default_provisioning_error_class KubernetesPolicyDenied =
     ProvisioningErrorClass.TerminalSecurity"
| "default_provisioning_error_class RuntimeClassBoundaryUnverified =
     ProvisioningErrorClass.TerminalSecurity"
| "default_provisioning_error_class _ = ProvisioningErrorClass.TerminalContract"

definition allows_provisioning_error_class ::
  "LifecycleReasonCode \<Rightarrow> ProvisioningErrorClass \<Rightarrow> bool" where
  "allows_provisioning_error_class code class' \<longleftrightarrow>
     class' = default_provisioning_error_class code
     \<or> (code = ResourceContractConflict \<and> class' = ProvisioningErrorClass.TerminalSecurity)"

subsection \<open>The exported tables\<close>

record LifecycleOutcome =
  outcome_code :: string
  outcome_disposition :: LifecycleDisposition

record SandboxStateContract =
  contract_state :: string
  contract_disposition :: SandboxStateDisposition

definition outcome :: "LifecycleReasonCode \<Rightarrow> LifecycleDisposition \<Rightarrow> LifecycleOutcome" where
  "outcome code disposition =
     \<lparr>outcome_code = LifecycleReasonCode_as_str code, outcome_disposition = disposition\<rparr>"

definition LIFECYCLE_OUTCOMES :: "LifecycleOutcome list" where
  "LIFECYCLE_OUTCOMES =
    [outcome ProviderTransient RetrySameGeneration,
     outcome KubernetesProviderTransient RetrySameGeneration,
     outcome WorkspaceCapacityPending QueueSameGeneration,
     outcome ResourceObservationMissing RetrySameGeneration,
     outcome PlacementAttestationPending RetrySameGeneration,
     outcome PlacementAttestationNotLive RetrySameGeneration,
     outcome ResidentMaterializationPending RetrySameGeneration,
     outcome ResourceContractConflict TerminalSameGeneration,
     outcome RuntimeClassBoundaryUnverified TerminalSameGeneration,
     outcome KubernetesPolicyDenied TerminalSameGeneration,
     outcome KubernetesContractInvalid TerminalSameGeneration,
     outcome PodUnschedulable TerminalSameGeneration,
     outcome ResourceObservationInvalid TerminalSameGeneration,
     outcome ResourceIdentityConflict TerminalSameGeneration,
     outcome ResourceIdentityMissing TerminalSameGeneration,
     outcome PlacementAttestationNotFound TerminalSameGeneration,
     outcome WorkspaceCapacityExhausted TerminalSameGeneration,
     outcome IdentityExchangeFailed TerminalSameGeneration,
     outcome ResidentMaterializationFailed TerminalSameGeneration,
     outcome MaestroWorkloadStaleGeneration TerminalSameGeneration]"

definition SANDBOX_STATES :: "SandboxStateContract list" where
  "SANDBOX_STATES =
    [\<lparr>contract_state = ''planning'', contract_disposition = SandboxStateDisposition.Pending\<rparr>,
     \<lparr>contract_state = ''provisioning'', contract_disposition = SandboxStateDisposition.Pending\<rparr>,
     \<lparr>contract_state = ''ready'', contract_disposition = SandboxStateDisposition.Active\<rparr>,
     \<lparr>contract_state = ''running'', contract_disposition = SandboxStateDisposition.Active\<rparr>,
     \<lparr>contract_state = ''idle'', contract_disposition = SandboxStateDisposition.Active\<rparr>,
     \<lparr>contract_state = ''archiving'', contract_disposition = SandboxStateDisposition.Terminal\<rparr>,
     \<lparr>contract_state = ''archived'', contract_disposition = SandboxStateDisposition.Terminal\<rparr>,
     \<lparr>contract_state = ''error'', contract_disposition = SandboxStateDisposition.Terminal\<rparr>]"

record GenerationAuthorityContract =
  placement_generation_authority :: string
  resident_expected_generation_authority :: string

definition GENERATION_AUTHORITY :: GenerationAuthorityContract where
  "GENERATION_AUTHORITY =
     \<lparr>placement_generation_authority =
        ''sandboxwich_injected_after_authoritative_placement_lookup'',
      resident_expected_generation_authority = ''zero_on_create_current_on_exact_replay''\<rparr>"

record MaestroHostedRunnerActivationContract =
  mhra_event :: string
  mhra_authority :: string
  mhra_tenant_scope :: string
  mhra_replay :: string
  mhra_mismatch_disposition :: string
  mhra_resident_observation :: string
  mhra_live_validation :: string
  mhra_invalidations :: "string list"
  mhra_non_authorities :: "string list"
  mhra_required_binding_fields :: "string list"

definition MAESTRO_HOSTED_RUNNER_ACTIVATION :: MaestroHostedRunnerActivationContract where
  "MAESTRO_HOSTED_RUNNER_ACTIVATION =
     \<lparr>mhra_event =
        ''maestro_hosted_runner_activated.v1'',
      mhra_authority =
        ''authenticated_reverse_callback_validated_against_live_connection_binding'',
      mhra_tenant_scope =
        ''authenticated_sandboxwich_tenant_context'',
      mhra_replay =
        ''exact_tuple_idempotent'',
      mhra_mismatch_disposition =
        ''fail_closed_inactive'',
      mhra_resident_observation =
        ''publishes_process_and_pod_identity_only_not_activation'',
      mhra_live_validation =
        ''fresh_connection_binding_required_at_acceptance'',
      mhra_invalidations =
        [''tuple_mismatch'',
         ''stale_generation'',
         ''expired_lease'',
         ''replayed_distinct_tuple''],
      mhra_non_authorities =
        [''sandbox_ready'',
         ''pod_running'',
         ''pod_ready'',
         ''resident_starting_observation'',
         ''resident_running_observation'',
         ''service_exists'',
         ''inbound_listener_probe'',
         ''connection_binding_available''],
      mhra_required_binding_fields =
        [''organizationId'',
         ''workspaceId'',
         ''sandboxId'',
         ''residentProcessGeneration'',
         ''podUid'',
         ''placementGeneration'',
         ''runnerSessionId'',
         ''leaseId'',
         ''leaseAttempt'',
         ''leaseExpiresAtEpochSeconds'',
         ''runtimeImage'',
         ''serviceNamespace'',
         ''serviceName'',
         ''serviceHost'',
         ''servicePort'',
         ''expectedServerUriSan'',
         ''workerId'']\<rparr>"

record LifecycleContract =
  schema :: string
  generation_advance :: string
  generation_authority :: GenerationAuthorityContract
  unknown_outcome_disposition :: LifecycleDisposition
  maestro_hosted_runner_activation :: MaestroHostedRunnerActivationContract
  sandbox_states :: "SandboxStateContract list"
  outcomes :: "LifecycleOutcome list"

definition lifecycle_contract :: LifecycleContract where
  "lifecycle_contract =
     \<lparr>schema = LIFECYCLE_CONTRACT_SCHEMA,
      generation_advance = ''confirmed_absence_only'',
      generation_authority = GENERATION_AUTHORITY,
      unknown_outcome_disposition = TerminalSameGeneration,
      maestro_hosted_runner_activation = MAESTRO_HOSTED_RUNNER_ACTIVATION,
      sandbox_states = SANDBOX_STATES,
      outcomes = LIFECYCLE_OUTCOMES\<rparr>"

subsection \<open>Digest checks\<close>

record LifecycleContractMismatch =
  mismatch_env :: string
  mismatch_configured :: string
  mismatch_compiled :: string

text \<open>The argument is the value of the environment variable, if it is set.\<close>

definition verify_configured_lifecycle_contract ::
  "string option \<Rightarrow> LifecycleContractMismatch + unit" where
  "verify_configured_lifecycle_contract env =
     (case map_option trim env of
        None \<Rightarrow> Inr ()
      | Some configured \<Rightarrow>
          if configured = [] then Inr ()
          else if configured = LIFECYCLE_CONTRACT_SHA256 then Inr ()
          else Inl \<lparr>mismatch_env = LIFECYCLE_CONTRACT_ENV,
                 mismatch_configured = configured,
                 mismatch_compiled = LIFECYCLE_CONTRACT_SHA256\<rparr>)"

datatype contract_header_error =
  MissingCompiledContract
| NotLowercaseSha256
| InvalidHeaderValue

definition is_lowercase_sha256 :: "string \<Rightarrow> bool" where
  "is_lowercase_sha256 digest \<longleftrightarrow>
     length digest = 64
     \<and> list_all (\<lambda>b. is_ascii_digit b \<or> (97 \<le> byte b \<and> byte b \<le> 102)) digest"

definition contract_digests :: "string \<Rightarrow> string list" where
  "contract_digests raw =
     sorted_list_of_set (set (filter (\<lambda>v. v \<noteq> []) (map trim (split_on (CHR '','') raw))))"

definition supported_contract_header ::
  "(string \<Rightarrow> 'h option) \<Rightarrow> string option \<Rightarrow> contract_header_error + 'h" where
  "supported_contract_header header_value_from_str raw =
     (let digests = contract_digests (case raw of None \<Rightarrow> LIFECYCLE_CONTRACT_SHA256 | Some r \<Rightarrow> r) in
      if LIFECYCLE_CONTRACT_SHA256 \<notin> set digests then Inl MissingCompiledContract
      else if list_ex (\<lambda>d. \<not> is_lowercase_sha256 d) digests then Inl NotLowercaseSha256
      else ok_or InvalidHeaderValue (header_value_from_str (join_on (CHR '','') digests)))"

subsection \<open>Properties\<close>

lemma reason_codes_complete: "code \<in> set LIFECYCLE_REASON_CODES"
  by (cases code) (simp_all add: LIFECYCLE_REASON_CODES_def)

lemma as_str_distinct: "distinct (map LifecycleReasonCode_as_str LIFECYCLE_REASON_CODES)"
  by (simp add: LIFECYCLE_REASON_CODES_def)

lemma as_str_inj: "LifecycleReasonCode_as_str a = LifecycleReasonCode_as_str b \<longleftrightarrow> a = b"
  using as_str_distinct reason_codes_complete [of a] reason_codes_complete [of b]
  by (auto simp: distinct_map inj_on_def)

lemma parse_iff: "LifecycleReasonCode_parse s = Some code \<longleftrightarrow> s = LifecycleReasonCode_as_str code"
proof
  assume "LifecycleReasonCode_parse s = Some code"
  then show "s = LifecycleReasonCode_as_str code"
    by (auto simp: LifecycleReasonCode_parse_def find_Some_iff)
next
  assume s: "s = LifecycleReasonCode_as_str code"
  then have "LifecycleReasonCode_parse s \<noteq> None"
    using reason_codes_complete [of code]
    by (auto simp: LifecycleReasonCode_parse_def find_None_iff)
  then obtain c where "LifecycleReasonCode_parse s = Some c" by blast
  moreover from this have "c = code"
    using s by (auto simp: LifecycleReasonCode_parse_def find_Some_iff as_str_inj)
  ultimately show "LifecycleReasonCode_parse s = Some code" by simp
qed

text \<open>C27: the published tables are complete and unambiguous.  Every reason code is published with
  exactly one disposition, every sandbox state is classified exactly once, and a reason code
  survives the trip through its wire name.\<close>

theorem contract_tables_complete:
  "(\<exists>!out. out \<in> set LIFECYCLE_OUTCOMES \<and> outcome_code out = LifecycleReasonCode_as_str code)
   \<and> (\<exists>!c. c \<in> set SANDBOX_STATES \<and> contract_state c = SandboxState_as_db_str s)
   \<and> LifecycleReasonCode_parse (LifecycleReasonCode_as_str code) = Some code
   \<and> length LIFECYCLE_OUTCOMES = length LIFECYCLE_REASON_CODES
   \<and> map contract_state SANDBOX_STATES = db_values SandboxState_arms"
proof (intro conjI)
  have "distinct (map outcome_code LIFECYCLE_OUTCOMES)"
    by (simp add: LIFECYCLE_OUTCOMES_def outcome_def)
  moreover have "LifecycleReasonCode_as_str code \<in> set (map outcome_code LIFECYCLE_OUTCOMES)"
    by (cases code) (simp_all add: LIFECYCLE_OUTCOMES_def outcome_def)
  ultimately show "\<exists>!out. out \<in> set LIFECYCLE_OUTCOMES \<and>
      outcome_code out = LifecycleReasonCode_as_str code"
    by (auto simp: distinct_map inj_on_def)
  have "distinct (map contract_state SANDBOX_STATES)"
    by (simp add: SANDBOX_STATES_def)
  moreover have "SandboxState_as_db_str s \<in> set (map contract_state SANDBOX_STATES)"
    by (cases s) (simp_all add: SANDBOX_STATES_def)
  ultimately show "\<exists>!c. c \<in> set SANDBOX_STATES \<and> contract_state c = SandboxState_as_db_str s"
    by (auto simp: distinct_map inj_on_def)
qed (simp_all add: parse_iff LIFECYCLE_OUTCOMES_def LIFECYCLE_REASON_CODES_def SANDBOX_STATES_def
    SandboxState_arms_def db_values_def)

lemma sha256_graphic:
  "is_lowercase_sha256 d \<Longrightarrow> list_all is_ascii_graphic d \<and> d \<noteq> [] \<and> CHR '','' \<notin> set d"
  by (auto simp: is_lowercase_sha256_def list_all_iff is_ascii_graphic_def is_ascii_digit_def)
    (force simp: byte_def)+

lemma contract_digests_join:
  assumes "ds \<noteq> []" and "sorted ds" and "distinct ds" and "\<forall>d \<in> set ds. is_lowercase_sha256 d"
  shows "contract_digests (join_on (CHR '','') ds) = ds"
proof -
  have "split_on (CHR '','') (join_on (CHR '','') ds) = ds"
    using assms sha256_graphic by (intro split_on_join_on) blast+
  moreover have "map trim ds = ds"
    using assms(4) sha256_graphic by (auto intro: map_idI)
  moreover have "filter (\<lambda>v. v \<noteq> []) ds = ds"
    using assms(4) sha256_graphic by (auto simp: filter_id_conv)
  ultimately show ?thesis
    using assms(2,3) by (simp add: contract_digests_def sorted_list_of_set_sort_remdups
        distinct_remdups_id sorted_sort_id)
qed

text \<open>C28: the advertised contract header always names the compiled contract, lists lowercase
  SHA-256 digests in strictly increasing order, and is a fixed point: a server configured with the
  header another server advertises computes the same header.  \<open>header_value_from_str\<close> is assumed
  to accept text of visible ASCII characters unchanged, as the crate documents.\<close>

theorem supported_contract_header_canonical:
  assumes from_str: "\<And>s. list_all is_ascii_graphic s \<Longrightarrow> from_str s = Some s"
    and ok: "supported_contract_header from_str raw = Inr h"
  shows "LIFECYCLE_CONTRACT_SHA256 \<in> set (split_on (CHR '','') h)
         \<and> list_all is_lowercase_sha256 (split_on (CHR '','') h)
         \<and> sorted (split_on (CHR '','') h) \<and> distinct (split_on (CHR '','') h)
         \<and> supported_contract_header from_str (Some h) = Inr h"
proof -
  define ds where "ds = contract_digests (case raw of None \<Rightarrow> LIFECYCLE_CONTRACT_SHA256 | Some r \<Rightarrow> r)"
  from ok have compiled: "LIFECYCLE_CONTRACT_SHA256 \<in> set ds"
    and sha: "\<forall>d \<in> set ds. is_lowercase_sha256 d"
    and "from_str (join_on (CHR '','') ds) = Some h"
    by (auto simp: supported_contract_header_def ds_def [symmetric] Let_def list_ex_iff
        split: if_splits)
  moreover have "list_all is_ascii_graphic (join_on (CHR '','') ds)"
    using set_join_on [of "CHR '',''" ds] sha sha256_graphic
    by (fastforce simp: list_all_iff is_ascii_graphic_def byte_def)
  ultimately have h: "h = join_on (CHR '','') ds"
    using from_str by simp
  have ds: "ds \<noteq> []" "sorted ds" "distinct ds"
    using compiled by auto (simp_all add: ds_def contract_digests_def)
  have "split_on (CHR '','') h = ds"
    unfolding h using ds sha sha256_graphic by (intro split_on_join_on) blast+
  moreover have "contract_digests h = ds"
    unfolding h by (rule contract_digests_join [OF ds sha])
  then have "supported_contract_header from_str (Some h) = Inr h"
    using compiled sha h \<open>from_str (join_on (CHR '','') ds) = Some h\<close>
    by (auto simp: supported_contract_header_def Let_def list_ex_iff)
  ultimately show ?thesis
    using compiled sha ds by (simp add: list_all_iff)
qed

lemma compiled_contract_digest:
  "is_lowercase_sha256 LIFECYCLE_CONTRACT_SHA256"
  by (simp add: is_lowercase_sha256_def LIFECYCLE_CONTRACT_SHA256_def is_ascii_digit_def byte_def)

lemma default_contract_header:
  assumes "from_str LIFECYCLE_CONTRACT_SHA256 = Some h"
  shows "supported_contract_header from_str None = Inr h"
proof -
  have "contract_digests (join_on (CHR '','') [LIFECYCLE_CONTRACT_SHA256]) = [LIFECYCLE_CONTRACT_SHA256]"
    using compiled_contract_digest by (intro contract_digests_join) simp_all
  with assms show ?thesis
    by (simp add: supported_contract_header_def compiled_contract_digest)
qed

text \<open>Witness: with no override configured the header is the compiled digest alone.\<close>

theorem supported_contract_header_canonical_witness:
  "supported_contract_header Some None = Inr LIFECYCLE_CONTRACT_SHA256
   \<and> supported_contract_header Some (Some LIFECYCLE_CONTRACT_SHA256) = Inr LIFECYCLE_CONTRACT_SHA256"
  using supported_contract_header_canonical [of Some None LIFECYCLE_CONTRACT_SHA256]
    default_contract_header [of Some] by simp

end
