(* ===== verification/Api_Error.thy ===== *)
theory Api_Error
  imports Lifecycle_Contract
begin

section \<open>API errors\<close>

text \<open>
  \<open>crates/sandboxwich-api/src/error.rs\<close>.  An error carries the HTTP status, the stable code and
  the message; a message built with \<open>format!\<close> is represented by its template.  The SQL error
  classification takes the two observations the source makes of a database error.
\<close>

record ApiError =
  api_status :: nat
  api_code :: string
  api_message :: string

definition bad_request :: "string \<Rightarrow> ApiError" where
  "bad_request message = \<lparr>api_status = 400, api_code = ''bad_request'', api_message = message\<rparr>"

definition bad_request_code :: "string \<Rightarrow> string \<Rightarrow> ApiError" where
  "bad_request_code code message = \<lparr>api_status = 400, api_code = code, api_message = message\<rparr>"

definition not_found :: "string \<Rightarrow> ApiError" where
  "not_found message = \<lparr>api_status = 404, api_code = ''not_found'', api_message = message\<rparr>"

definition unauthorized :: "string \<Rightarrow> ApiError" where
  "unauthorized message = \<lparr>api_status = 401, api_code = ''unauthorized'', api_message = message\<rparr>"

definition forbidden :: "string \<Rightarrow> ApiError" where
  "forbidden message =
     \<lparr>api_status = 403, api_code = ''authorization_denied'', api_message = message\<rparr>"

definition conflict :: "string \<Rightarrow> ApiError" where
  "conflict message = \<lparr>api_status = 409, api_code = ''conflict'', api_message = message\<rparr>"

definition conflict_code :: "string \<Rightarrow> string \<Rightarrow> ApiError" where
  "conflict_code code message = \<lparr>api_status = 409, api_code = code, api_message = message\<rparr>"

definition payload_too_large :: "string \<Rightarrow> string \<Rightarrow> ApiError" where
  "payload_too_large code message = \<lparr>api_status = 413, api_code = code, api_message = message\<rparr>"

definition too_many_requests :: "string \<Rightarrow> string \<Rightarrow> ApiError" where
  "too_many_requests code message = \<lparr>api_status = 429, api_code = code, api_message = message\<rparr>"

definition internal :: "string \<Rightarrow> ApiError" where
  "internal message = \<lparr>api_status = 500, api_code = ''internal'', api_message = message\<rparr>"

definition not_implemented :: "string \<Rightarrow> string \<Rightarrow> ApiError" where
  "not_implemented code message = \<lparr>api_status = 501, api_code = code, api_message = message\<rparr>"

lemmas api_error_defs = bad_request_def bad_request_code_def not_found_def unauthorized_def
  forbidden_def conflict_def conflict_code_def payload_too_large_def too_many_requests_def
  internal_def not_implemented_def

subsection \<open>Database errors\<close>

datatype sql_error =
  UniqueViolation
| CheckViolation
| OtherSqlError

fun ApiError_from_sql :: "sql_error \<Rightarrow> ApiError" where
  "ApiError_from_sql UniqueViolation = conflict ''the request conflicts with an existing record''"
| "ApiError_from_sql CheckViolation = bad_request ''the request violates a database constraint''"
| "ApiError_from_sql OtherSqlError = internal ''database operation failed''"

subsection \<open>Provider errors\<close>

definition provisioning_error_class_for_code ::
  "string option \<Rightarrow> ProvisioningErrorClass option" where
  "provisioning_error_class_for_code code =
     (case code of
        Some c \<Rightarrow>
          if c = ''resource_quota'' then Some ProvisioningErrorClass.RetryableCapacity
          else map_option default_provisioning_error_class (LifecycleReasonCode_parse c)
      | None \<Rightarrow> None)"

definition provider_error_code_char :: "char \<Rightarrow> bool" where
  "provider_error_code_char b \<longleftrightarrow> is_ascii_lowercase b \<or> is_ascii_digit b \<or> b = CHR ''_''"

definition provider_error_fields ::
  "string \<Rightarrow> ProvisioningErrorClass option \<times> string option" where
  "provider_error_fields err =
     (let code = (case split_once (CHR '':'') err of
            None \<Rightarrow> None
          | Some (c, _) \<Rightarrow>
              (let c = trim c in
               if c \<noteq> [] \<and> list_all provider_error_code_char c then Some c else None))
      in (provisioning_error_class_for_code code, code))"

lemma reason_code_chars:
  "LifecycleReasonCode_as_str code \<noteq> []
   \<and> list_all provider_error_code_char (LifecycleReasonCode_as_str code)"
  by (cases code) (simp_all add: provider_error_code_char_def str_defs byte_def)

lemma provider_code_graphic:
  "list_all provider_error_code_char s \<Longrightarrow> list_all is_ascii_graphic s \<and> CHR '':'' \<notin> set s"
  by (auto simp: list_all_iff provider_error_code_char_def str_defs) (force simp: byte_def)+


end
