(* ===== verification/Secret_Refs.thy ===== *)
theory Secret_Refs
  imports Api_Error "HOL-Library.Multiset" "HOL-Library.Product_Lexorder"
begin

section \<open>Secret references\<close>

text \<open>
  The secret-reference contract of \<open>crates/sandboxwich-core/src/lib.rs\<close> (names, sources,
  derived mount paths and variables, binding validation) and the handlers of
  \<open>crates/sandboxwich-api/src/handlers/secrets.rs\<close> over the tables \<open>secret_refs\<close> and
  \<open>sandbox_secret_bindings\<close>.  A table is a list of rows; its primary key and unique indexes are
  the checks an insert makes.  Fresh identifiers and the current time are arguments.  The order
  in which the database returns rows is a parameter that may permute them.
\<close>

subsection \<open>Names, sources and derived locations\<close>

definition SANDBOX_SECRET_MOUNT_PREFIX :: string where
  "SANDBOX_SECRET_MOUNT_PREFIX = ''/run/sandboxwich/secrets''"

definition MAX_SANDBOX_SECRET_BINDINGS :: nat where
  "MAX_SANDBOX_SECRET_BINDINGS = 16"

definition SANDBOX_SECRET_VOLUME_PREFIX :: string where
  "SANDBOX_SECRET_VOLUME_PREFIX = ''sandboxwich-secret-''"

definition MAX_SECRET_REF_NAME_LEN :: nat where
  "MAX_SECRET_REF_NAME_LEN = 63 - length SANDBOX_SECRET_VOLUME_PREFIX"

definition PROVIDER_SECRET_DELIVERY_LABEL :: string where
  "PROVIDER_SECRET_DELIVERY_LABEL = ''provider_secret_delivery''"

definition PROVIDER_SECRET_DELIVERY_LABEL_VALUE :: string where
  "PROVIDER_SECRET_DELIVERY_LABEL_VALUE = ''csi_secret_provider_class''"

definition MAX_SECRET_SCOPE_ID_LEN :: nat where
  "MAX_SECRET_SCOPE_ID_LEN = 128"

definition MAX_SECRET_SOURCE_OBJECT_NAME_LEN :: nat where
  "MAX_SECRET_SOURCE_OBJECT_NAME_LEN = 253"

definition MAX_SECRET_SOURCE_OBJECT_KEY_LEN :: nat where
  "MAX_SECRET_SOURCE_OBJECT_KEY_LEN = 253"

lemmas secret_consts = SANDBOX_SECRET_MOUNT_PREFIX_def SANDBOX_SECRET_VOLUME_PREFIX_def
  MAX_SANDBOX_SECRET_BINDINGS_def MAX_SECRET_REF_NAME_LEN_def MAX_SECRET_SCOPE_ID_LEN_def
  MAX_SECRET_SOURCE_OBJECT_NAME_LEN_def MAX_SECRET_SOURCE_OBJECT_KEY_LEN_def

type_synonym SecretRefId = uuid

record SecretSource =
  backend :: SecretBackend
  object_name :: string
  object_key :: string

record SecretRef =
  sr_id :: SecretRefId
  sr_tenant_id :: string
  sr_workspace_id :: string
  sr_name :: string
  sr_source :: SecretSource
  sr_delivery :: SecretDelivery
  sr_state :: SecretRefState
  sr_created_at :: timestamp
  sr_updated_at :: timestamp
  sr_revoked_at :: "timestamp option"

definition secret_mount_dir :: "string \<Rightarrow> string" where
  "secret_mount_dir name = SANDBOX_SECRET_MOUNT_PREFIX @ ''/'' @ name"

text \<open>\<open>to_uppercase\<close> is the full Unicode mapping in the source; it is modelled on ASCII, to which
  names are restricted.\<close>

definition secret_env_file_variable :: "string \<Rightarrow> string" where
  "secret_env_file_variable name =
     ''SANDBOXWICH_SECRET_''
     @ map to_ascii_uppercase (map (\<lambda>c. if c = CHR ''-'' then CHR ''_'' else c) name)
     @ ''_FILE''"

definition mount_dir :: "SecretRef \<Rightarrow> string" where
  "mount_dir r = secret_mount_dir (sr_name r)"

definition file_path :: "SecretRef \<Rightarrow> string" where
  "file_path r = mount_dir r @ ''/'' @ object_key (sr_source r)"

definition env_file_variable :: "SecretRef \<Rightarrow> string" where
  "env_file_variable r = secret_env_file_variable (sr_name r)"

datatype SecretRefValidationError =
  Name
| WorkspaceId
| SourceObjectName
| SourceObjectKey
| TooManyBindings
| DuplicateBinding SecretRefId

fun first_duplicate :: "SecretRefId list \<Rightarrow> SecretRefId list \<Rightarrow> SecretRefId option" where
  "first_duplicate seen [] = None"
| "first_duplicate seen (i # ids) =
     (if i \<in> set seen then Some i else first_duplicate (i # seen) ids)"

definition validate_secret_ref_bindings ::
  "SecretRefId list \<Rightarrow> SecretRefValidationError + unit" where
  "validate_secret_ref_bindings ids =
     (if length ids > MAX_SANDBOX_SECRET_BINDINGS then Inl TooManyBindings
      else (case first_duplicate [] ids of
              Some i \<Rightarrow> Inl (DuplicateBinding i)
            | None \<Rightarrow> Inr ()))"

definition label_boundary :: "char \<Rightarrow> bool" where
  "label_boundary c \<longleftrightarrow> is_ascii_lowercase c \<or> is_ascii_digit c"

definition is_dns_label_like :: "string \<Rightarrow> nat \<Rightarrow> char list \<Rightarrow> bool" where
  "is_dns_label_like s max_len extra \<longleftrightarrow>
     \<not> (s = [] \<or> length s > max_len)
     \<and> list_all (\<lambda>c. is_ascii_lowercase c \<or> is_ascii_digit c \<or> c \<in> set extra) s
     \<and> (case s of [] \<Rightarrow> False | c # _ \<Rightarrow> label_boundary c)
     \<and> (case rev s of [] \<Rightarrow> False | c # _ \<Rightarrow> label_boundary c)"

definition validate_secret_ref_name :: "string \<Rightarrow> SecretRefValidationError + unit" where
  "validate_secret_ref_name name =
     ensure (is_dns_label_like name MAX_SECRET_REF_NAME_LEN [CHR ''-'']) Name"

definition contains_whitespace :: "string \<Rightarrow> bool" where
  "contains_whitespace s \<longleftrightarrow> list_ex (contains_str s) utf8_whitespace"

definition validate_secret_workspace_id :: "string \<Rightarrow> SecretRefValidationError + unit" where
  "validate_secret_workspace_id w =
     ensure (w \<noteq> [] \<and> length w \<le> MAX_SECRET_SCOPE_ID_LEN \<and> trim w = w
             \<and> \<not> contains_whitespace w) WorkspaceId"

definition object_key_ok :: "string \<Rightarrow> bool" where
  "object_key_ok key \<longleftrightarrow>
     key \<noteq> [] \<and> length key \<le> MAX_SECRET_SOURCE_OBJECT_KEY_LEN
     \<and> \<not> list_all (\<lambda>c. c = CHR ''.'') key
     \<and> list_all (\<lambda>c. is_ascii_alphanumeric c \<or> c \<in> {CHR ''.'', CHR ''_'', CHR ''-''}) key"

definition SecretSource_validate :: "SecretSource \<Rightarrow> SecretRefValidationError + unit" where
  "SecretSource_validate src =
     rbind (ensure (is_dns_label_like (object_name src) MAX_SECRET_SOURCE_OBJECT_NAME_LEN
                      [CHR ''-'', CHR ''.'']) SourceObjectName)
       (\<lambda>_. ensure (object_key_ok (object_key src)) SourceObjectKey)"

record CreateSecretRefRequest =
  csr_workspace_id :: string
  csr_name :: string
  csr_source :: SecretSource
  csr_delivery :: SecretDelivery

definition CreateSecretRefRequest_validate ::
  "CreateSecretRefRequest \<Rightarrow> SecretRefValidationError + unit" where
  "CreateSecretRefRequest_validate req =
     rbind (validate_secret_workspace_id (csr_workspace_id req))
       (\<lambda>_. rbind (validate_secret_ref_name (csr_name req))
         (\<lambda>_. SecretSource_validate (csr_source req)))"

record SandboxSecretMount =
  ssm_secret_ref_id :: SecretRefId
  ssm_name :: string
  ssm_source :: SecretSource
  ssm_delivery :: SecretDelivery
  ssm_mount_dir :: string
  ssm_file_path :: string
  ssm_env_file_variable :: string

definition SandboxSecretMount_from_ref :: "SecretRef \<Rightarrow> SandboxSecretMount" where
  "SandboxSecretMount_from_ref r =
     \<lparr>ssm_secret_ref_id = sr_id r, ssm_name = sr_name r, ssm_source = sr_source r,
      ssm_delivery = sr_delivery r, ssm_mount_dir = mount_dir r, ssm_file_path = file_path r,
      ssm_env_file_variable = env_file_variable r\<rparr>"

definition volume_name :: "SandboxSecretMount \<Rightarrow> string" where
  "volume_name m = SANDBOX_SECRET_VOLUME_PREFIX @ ssm_name m"

subsection \<open>Handlers over the reference table\<close>

text \<open>The unique index \<open>idx_secret_refs_scope_name\<close>: one active row per tenant, workspace and
  name.\<close>

definition same_active_scope_name :: "SecretRef \<Rightarrow> SecretRef \<Rightarrow> bool" where
  "same_active_scope_name r s \<longleftrightarrow>
     sr_state r = SecretRefState.Active \<and> sr_state s = SecretRefState.Active
     \<and> sr_tenant_id r = sr_tenant_id s \<and> sr_workspace_id r = sr_workspace_id s
     \<and> sr_name r = sr_name s"

definition create_secret_ref ::
  "SecretRef list \<Rightarrow> string \<Rightarrow> SecretRefId \<Rightarrow> timestamp \<Rightarrow> CreateSecretRefRequest
     \<Rightarrow> ApiError + (SecretRef list \<times> SecretRef)" where
  "create_secret_ref tbl tenant new_id now req =
     (case CreateSecretRefRequest_validate req of
        Inl _ \<Rightarrow> Inl (bad_request ''{error}'')
      | Inr _ \<Rightarrow>
          (let r = \<lparr>sr_id = new_id, sr_tenant_id = tenant, sr_workspace_id = csr_workspace_id req,
                  sr_name = csr_name req, sr_source = csr_source req,
                  sr_delivery = csr_delivery req, sr_state = SecretRefState.Active,
                  sr_created_at = now, sr_updated_at = now, sr_revoked_at = None\<rparr> in
           if list_ex (\<lambda>s. sr_id s = new_id \<or> same_active_scope_name s r) tbl
           then Inl (conflict_code ''secret_ref_name_conflict''
             ''an active secret reference with this name already exists in the workspace'')
           else Inr (tbl @ [r], r)))"

definition fetch_secret_ref ::
  "SecretRef list \<Rightarrow> string \<Rightarrow> SecretRefId \<Rightarrow> ApiError + SecretRef" where
  "fetch_secret_ref tbl tenant i =
     ok_or (not_found ''secret reference not found'')
       (find (\<lambda>r. sr_id r = i \<and> sr_tenant_id r = tenant) tbl)"

definition revoke_row :: "string \<Rightarrow> SecretRefId \<Rightarrow> timestamp \<Rightarrow> SecretRef \<Rightarrow> SecretRef" where
  "revoke_row tenant i now r =
     (if sr_id r = i \<and> sr_tenant_id r = tenant \<and> sr_state r = SecretRefState.Active
      then r\<lparr>sr_state := SecretRefState.Revoked, sr_updated_at := now, sr_revoked_at := Some now\<rparr>
      else r)"

definition revoke_secret_ref ::
  "SecretRef list \<Rightarrow> string \<Rightarrow> SecretRefId \<Rightarrow> timestamp
     \<Rightarrow> SecretRef list \<times> (ApiError + SecretRef)" where
  "revoke_secret_ref tbl tenant i now =
     (let tbl' = map (revoke_row tenant i now) tbl in (tbl', fetch_secret_ref tbl' tenant i))"

definition list_secret_refs :: "SecretRef list \<Rightarrow> string \<Rightarrow> string option \<Rightarrow> SecretRef list" where
  "list_secret_refs tbl tenant workspace =
     rev (sort_key (\<lambda>r. (sr_created_at r, sr_id r))
       (filter (\<lambda>r. sr_tenant_id r = tenant
          \<and> (case workspace of None \<Rightarrow> True | Some w \<Rightarrow> sr_workspace_id r = w)) tbl))"

subsection \<open>Resolving and storing a sandbox's bindings\<close>

definition sort_secret_mounts :: "SandboxSecretMount list \<Rightarrow> SandboxSecretMount list" where
  "sort_secret_mounts = sort_key ssm_name"

fun resolve_loop ::
  "(SecretRefId \<Rightarrow> ApiError + SecretRef) \<Rightarrow> string option \<Rightarrow> SecretRefId list
     \<Rightarrow> ApiError + SandboxSecretMount list" where
  "resolve_loop fetch workspace [] = Inr []"
| "resolve_loop fetch workspace (i # ids) =
     rbind (fetch i) (\<lambda>r.
       if sr_state r \<noteq> SecretRefState.Active
       then Inl (bad_request ''secret reference {secret_ref_id} is revoked'')
       else (case workspace of
          Some existing \<Rightarrow>
            if existing \<noteq> sr_workspace_id r
            then Inl (bad_request ''all bound secret references must belong to one workspace'')
            else rbind (resolve_loop fetch workspace ids)
                   (\<lambda>ms. Inr (SandboxSecretMount_from_ref r # ms))
        | None \<Rightarrow> rbind (resolve_loop fetch (Some (sr_workspace_id r)) ids)
                   (\<lambda>ms. Inr (SandboxSecretMount_from_ref r # ms))))"

definition resolve_secret_mounts_with ::
  "(SecretRefId \<Rightarrow> ApiError + SecretRef) \<Rightarrow> SecretRefId list
     \<Rightarrow> ApiError + SandboxSecretMount list" where
  "resolve_secret_mounts_with fetch ids =
     (case validate_secret_ref_bindings ids of
        Inl _ \<Rightarrow> Inl (bad_request ''{error}'')
      | Inr _ \<Rightarrow> rbind (resolve_loop fetch None ids) (\<lambda>ms. Inr (sort_secret_mounts ms)))"

definition resolve_secret_mounts ::
  "SecretRef list \<Rightarrow> string \<Rightarrow> SecretRefId list \<Rightarrow> ApiError + SandboxSecretMount list" where
  "resolve_secret_mounts tbl tenant = resolve_secret_mounts_with (fetch_secret_ref tbl tenant)"

type_synonym secret_bindings = "(uuid \<times> SandboxSecretMount) list"

text \<open>One row per mount; the primary key \<open>(sandbox_id, secret_ref_id)\<close> and the unique index on
  \<open>(sandbox_id, file_path)\<close> reject a row.\<close>

fun insert_sandbox_secret_bindings ::
  "secret_bindings \<Rightarrow> uuid \<Rightarrow> SandboxSecretMount list \<Rightarrow> ApiError + secret_bindings" where
  "insert_sandbox_secret_bindings tbl sb [] = Inr tbl"
| "insert_sandbox_secret_bindings tbl sb (m # ms) =
     (if list_ex (\<lambda>(s, n). s = sb \<and> (ssm_secret_ref_id n = ssm_secret_ref_id m
          \<or> ssm_file_path n = ssm_file_path m)) tbl
      then Inl (ApiError_from_sql UniqueViolation)
      else insert_sandbox_secret_bindings (tbl @ [(sb, m)]) sb ms)"

definition fetch_sandbox_secret_mounts ::
  "(SandboxSecretMount list \<Rightarrow> SandboxSecretMount list) \<Rightarrow> secret_bindings \<Rightarrow> uuid
     \<Rightarrow> SandboxSecretMount list" where
  "fetch_sandbox_secret_mounts scan tbl sb =
     sort_secret_mounts (scan (map snd (filter (\<lambda>row. fst row = sb) tbl)))"

subsection \<open>Shape of validated names and keys\<close>

definition valid_ref :: "SecretRef \<Rightarrow> bool" where
  "valid_ref r \<longleftrightarrow>
     is_dns_label_like (sr_name r) MAX_SECRET_REF_NAME_LEN [CHR ''-'']
     \<and> object_key_ok (object_key (sr_source r))"

definition secret_refs_inv :: "SecretRef list \<Rightarrow> bool" where
  "secret_refs_inv tbl \<longleftrightarrow>
     distinct (map sr_id tbl)
     \<and> list_all (\<lambda>r. list_all (\<lambda>s. same_active_scope_name r s \<longrightarrow> sr_id r = sr_id s) tbl) tbl
     \<and> list_all valid_ref tbl"

lemma label_chars:
  "is_dns_label_like s n [CHR ''-''] \<Longrightarrow>
     c \<in> set s \<Longrightarrow> is_ascii_lowercase c \<or> is_ascii_digit c \<or> c = CHR ''-''"
  by (auto simp: is_dns_label_like_def list_all_iff)

lemma label_no_slash:
  assumes s: "is_dns_label_like s n [CHR ''-'']"
  shows "CHR ''/'' \<notin> set s" and "s \<noteq> []" and "s \<noteq> ''.''" and "s \<noteq> ''..''" and "length s \<le> n"
proof -
  have no: "c \<notin> set s" if "\<not> is_ascii_lowercase c" "\<not> is_ascii_digit c" "c \<noteq> CHR ''-''" for c
    using label_chars [OF s] that by blast
  show "CHR ''/'' \<notin> set s"
    by (rule no) (simp_all add: str_defs byte_def)
  have "CHR ''.'' \<notin> set s"
    by (rule no) (simp_all add: str_defs byte_def)
  then show "s \<noteq> ''.''" "s \<noteq> ''..''" by auto
  show "s \<noteq> []" "length s \<le> n"
    using s by (simp_all add: is_dns_label_like_def)
qed

lemma key_no_slash:
  assumes k: "object_key_ok k"
  shows "CHR ''/'' \<notin> set k" and "k \<noteq> []" and "k \<noteq> ''.''" and "k \<noteq> ''..''"
proof -
  have "\<not> (is_ascii_alphanumeric (CHR ''/'') \<or> CHR ''/'' \<in> {CHR ''.'', CHR ''_'', CHR ''-''})"
    by (simp add: str_defs byte_def)
  with k show "CHR ''/'' \<notin> set k"
    unfolding object_key_ok_def list_all_iff by blast
  show "k \<noteq> []" "k \<noteq> ''.''" "k \<noteq> ''..''"
    using k by (auto simp: object_key_ok_def)
qed

lemma env_char_inj:
  assumes c: "is_ascii_lowercase c \<or> is_ascii_digit c \<or> c = CHR ''-''"
    and d: "is_ascii_lowercase d \<or> is_ascii_digit d \<or> d = CHR ''-''"
    and eq: "to_ascii_uppercase (if c = CHR ''-'' then CHR ''_'' else c)
       = to_ascii_uppercase (if d = CHR ''-'' then CHR ''_'' else d)"
  shows "c = d"
proof -
  have code: "byte (to_ascii_uppercase (if e = CHR ''-'' then CHR ''_'' else e)) =
      (if e = CHR ''-'' then 95 else if is_ascii_lowercase e then byte e - 32 else byte e)" for e
    by (simp add: byte_to_ascii_uppercase) (simp add: is_ascii_lowercase_def byte_def)
  have "byte c = byte d \<or> c = d"
    using arg_cong [OF eq, of byte] c d unfolding code
    by (auto simp: is_ascii_lowercase_def is_ascii_digit_def simp del: byte_inj split: if_splits)
  then show ?thesis by simp
qed

lemma secret_env_inj:
  assumes m: "is_dns_label_like m n [CHR ''-'']" and k: "is_dns_label_like k n' [CHR ''-'']"
    and eq: "secret_env_file_variable m = secret_env_file_variable k"
  shows "m = k"
proof -
  let ?f = "\<lambda>c. to_ascii_uppercase (if c = CHR ''-'' then CHR ''_'' else c)"
  have "map ?f m = map ?f k"
    using eq by (simp add: secret_env_file_variable_def comp_def)
  moreover have "inj_on ?f (set m \<union> set k)"
  proof (rule inj_onI)
    fix c d
    assume "c \<in> set m \<union> set k" and "d \<in> set m \<union> set k" and eq: "?f c = ?f d"
    then have "is_ascii_lowercase c \<or> is_ascii_digit c \<or> c = CHR ''-''"
      and "is_ascii_lowercase d \<or> is_ascii_digit d \<or> d = CHR ''-''"
      using label_chars [OF m] label_chars [OF k] by blast+
    then show "c = d" using eq by (rule env_char_inj)
  qed
  ultimately show ?thesis by (simp add: map_inj_on)
qed

lemma split_secret_path:
  assumes "CHR ''/'' \<notin> set name" and "CHR ''/'' \<notin> set key"
  shows "split_on (CHR ''/'') (secret_mount_dir name @ ''/'' @ key)
    = ['''', ''run'', ''sandboxwich'', ''secrets'', name, key]"
proof -
  have eq: "secret_mount_dir name @ ''/'' @ key
      = [] @ CHR ''/'' # ''run'' @ CHR ''/'' # ''sandboxwich'' @ CHR ''/'' # ''secrets''
        @ CHR ''/'' # name @ CHR ''/'' # key"
    by (simp add: secret_mount_dir_def SANDBOX_SECRET_MOUNT_PREFIX_def)
  show ?thesis
    unfolding eq using assms by (simp add: split_on_append)
qed

lemma valid_request_ref:
  "CreateSecretRefRequest_validate req = Inr u \<longleftrightarrow>
     validate_secret_workspace_id (csr_workspace_id req) = Inr ()
     \<and> is_dns_label_like (csr_name req) MAX_SECRET_REF_NAME_LEN [CHR ''-'']
     \<and> is_dns_label_like (object_name (csr_source req)) MAX_SECRET_SOURCE_OBJECT_NAME_LEN
          [CHR ''-'', CHR ''.'']
     \<and> object_key_ok (object_key (csr_source req))"
  by (simp add: CreateSecretRefRequest_validate_def validate_secret_ref_name_def
      SecretSource_validate_def rbind_eq_Inr)

lemma contains_str_set: "contains_str s p \<Longrightarrow> set p \<subseteq> set s"
proof (induction s p rule: contains_str.induct)
  case (2 c cs p)
  have "set p \<subseteq> set (c # cs)" if "starts_with (c # cs) p"
  proof -
    from that obtain r where "c # cs = p @ r" by (auto simp: starts_with_iff)
    then have "set (c # cs) = set p \<union> set r" by (metis set_append)
    then show ?thesis by simp
  qed
  with 2 show ?case by auto
qed simp

lemma graphic_no_whitespace: "list_all is_ascii_graphic s \<Longrightarrow> \<not> contains_whitespace s"
proof
  assume s: "list_all is_ascii_graphic s" and "contains_whitespace s"
  then obtain w where w: "w \<in> set utf8_whitespace" "contains_str s w"
    by (auto simp: contains_whitespace_def list_ex_iff)
  have "w \<noteq> [] \<and> \<not> is_ascii_graphic (hd w)"
    using w(1) by (auto simp: utf8_whitespace_def is_ascii_graphic_def byte_def)
  with s contains_str_set [OF w(2)] show False
    by (cases w) (auto simp: list_all_iff)
qed

subsection \<open>What resolving a binding list relies on\<close>

lemma resolve_loop_Inr:
  "resolve_loop f ws ids = Inr ms \<longleftrightarrow>
     (\<forall>i \<in> set ids. \<exists>r. f i = Inr r \<and> sr_state r = SecretRefState.Active)
     \<and> (\<exists>w. (ws = None \<or> ws = Some w) \<and> (\<forall>i \<in> set ids. sr_workspace_id (projr (f i)) = w))
     \<and> ms = map (\<lambda>i. SandboxSecretMount_from_ref (projr (f i))) ids"
proof (induction ids arbitrary: ws ms)
  case Nil
  then show ?case by auto
next
  case (Cons i ids)
  show ?case
  proof (cases "f i")
    case (Inr r)
    show ?thesis
    proof (cases "sr_state r = SecretRefState.Active")
      case True
      with Inr show ?thesis
        by (cases ws) (auto simp add: Cons.IH rbind_eq_Inr simp del: not_Some_eq)
    qed (simp add: Inr)
  qed simp
qed

lemma first_duplicate_None:
  "first_duplicate seen ids = None \<longleftrightarrow> distinct ids \<and> set ids \<inter> set seen = {}"
  by (induction seen ids rule: first_duplicate.induct) auto

lemma validate_secret_ref_bindings_ok:
  "validate_secret_ref_bindings ids = Inr u \<longleftrightarrow>
     length ids \<le> MAX_SANDBOX_SECRET_BINDINGS \<and> distinct ids"
  using first_duplicate_None [of "[]" ids]
  by (auto simp: validate_secret_ref_bindings_def split: option.splits)

lemma resolve_with_Inr:
  "resolve_secret_mounts_with f ids = Inr ms \<longleftrightarrow>
     length ids \<le> MAX_SANDBOX_SECRET_BINDINGS \<and> distinct ids
     \<and> (\<exists>us. resolve_loop f None ids = Inr us \<and> ms = sort_secret_mounts us)"
  using validate_secret_ref_bindings_ok [of ids "()"]
  by (auto simp: resolve_secret_mounts_with_def rbind_eq_Inr split: sum.splits)

text \<open>
  The contract of a reference store: a lookup returns the row of that identifier in that tenant,
  two active rows of one scope and name are the same row, and stored names and keys are valid.
\<close>

locale secret_store =
  fixes inv :: "'db \<Rightarrow> bool"
    and fetch :: "'db \<Rightarrow> string \<Rightarrow> SecretRefId \<Rightarrow> ApiError + SecretRef"
  assumes fetch_id: "fetch db t i = Inr r \<Longrightarrow> sr_id r = i \<and> sr_tenant_id r = t"
    and fetch_unique: "inv db \<Longrightarrow> fetch db t i = Inr r \<Longrightarrow> fetch db t j = Inr s
      \<Longrightarrow> same_active_scope_name r s \<Longrightarrow> i = j"
    and fetch_valid: "inv db \<Longrightarrow> fetch db t i = Inr r \<Longrightarrow> valid_ref r"
begin

lemma names_inj:
  assumes "inv db" and "resolve_loop (fetch db t) None ids = Inr us"
  shows "inj_on (\<lambda>i. sr_name (projr (fetch db t i))) (set ids)"
proof (rule inj_onI)
  fix i j
  assume i: "i \<in> set ids" and j: "j \<in> set ids"
    and name: "sr_name (projr (fetch db t i)) = sr_name (projr (fetch db t j))"
  from assms(2) i j obtain r s where r: "fetch db t i = Inr r" "sr_state r = SecretRefState.Active"
    and s: "fetch db t j = Inr s" "sr_state s = SecretRefState.Active"
    unfolding resolve_loop_Inr by blast
  from assms(2) i j have "sr_workspace_id r = sr_workspace_id s"
    unfolding resolve_loop_Inr using r s by (metis sum.sel(2))
  then have "same_active_scope_name r s"
    using r s name fetch_id by (simp add: same_active_scope_name_def)
  with assms(1) r s show "i = j" by (blast intro: fetch_unique)
qed

lemma mount_names_distinct:
  assumes "inv db" and "distinct ids" and "resolve_loop (fetch db t) None ids = Inr us"
  shows "distinct (map ssm_name us)"
proof -
  have "map ssm_name us = map (\<lambda>i. sr_name (projr (fetch db t i))) ids"
    using assms(3) by (simp add: resolve_loop_Inr SandboxSecretMount_from_ref_def comp_def)
  then show ?thesis
    using names_inj [OF assms(1,3)] assms(2) by (simp add: distinct_map)
qed

lemma resolved_origin:
  assumes "inv db" and "resolve_secret_mounts_with (fetch db t) ids = Inr ms" and "m \<in> set ms"
  obtains r where "fetch db t (ssm_secret_ref_id m) = Inr r" and "valid_ref r"
    and "sr_state r = SecretRefState.Active" and "sr_tenant_id r = t"
    and "m = SandboxSecretMount_from_ref r"
proof -
  from assms(2) obtain us where us: "resolve_loop (fetch db t) None ids = Inr us"
    and ms: "ms = sort_secret_mounts us"
    by (auto simp: resolve_with_Inr)
  with assms(3) obtain i where i: "i \<in> set ids"
    and m: "m = SandboxSecretMount_from_ref (projr (fetch db t i))"
    by (auto simp: sort_secret_mounts_def resolve_loop_Inr)
  with us obtain r where r: "fetch db t i = Inr r" "sr_state r = SecretRefState.Active"
    unfolding resolve_loop_Inr by blast
  then have "ssm_secret_ref_id m = i"
    using m fetch_id by (simp add: SandboxSecretMount_from_ref_def)
  with r m assms(1) show ?thesis
    by (intro that [of r]) (auto simp: fetch_valid dest: fetch_id)
qed

lemma resolved_distinct_names:
  assumes "inv db" and "resolve_secret_mounts_with (fetch db t) ids = Inr ms"
  shows "distinct (map ssm_name ms)" and "sorted (map ssm_name ms)"
proof -
  from assms(2) obtain us where us: "resolve_loop (fetch db t) None ids = Inr us"
    and ms: "ms = sort_secret_mounts us" and "distinct ids"
    by (auto simp: resolve_with_Inr)
  then have "distinct (map ssm_name us)"
    using mount_names_distinct assms(1) by blast
  then show "distinct (map ssm_name ms)"
    unfolding ms sort_secret_mounts_def by (simp add: distinct_map)
  show "sorted (map ssm_name ms)"
    by (simp add: ms sort_secret_mounts_def)
qed

lemma resolve_perm:
  assumes "inv db" and "mset ids = mset ids'"
    and "resolve_secret_mounts_with (fetch db t) ids = Inr ms"
  shows "resolve_secret_mounts_with (fetch db t) ids' = Inr ms"
proof -
  from assms(3) obtain us where us: "resolve_loop (fetch db t) None ids = Inr us"
    and ms: "ms = sort_secret_mounts us" and d: "distinct ids"
    and len: "length ids \<le> MAX_SANDBOX_SECRET_BINDINGS"
    by (auto simp: resolve_with_Inr)
  let ?f = "\<lambda>i. SandboxSecretMount_from_ref (projr (fetch db t i))"
  have set_eq: "set ids = set ids'" using assms(2) by (rule mset_eq_setD)
  then have us': "resolve_loop (fetch db t) None ids' = Inr (map ?f ids')"
    using us unfolding resolve_loop_Inr by simp
  have "mset (map ?f ids') = mset us"
    using us assms(2) unfolding resolve_loop_Inr by (simp add: mset_map)
  then have same: "mset (map ?f ids') = mset us" .
  then have set_us: "set (map ?f ids') = set us"
    by (rule mset_eq_setD)
  have "distinct (map ssm_name us)"
    using mount_names_distinct assms(1) d us by blast
  then have "inj_on ssm_name (set (map ?f ids'))"
    unfolding set_us by (simp add: distinct_map)
  then have "sort_secret_mounts (map ?f ids') = sort_secret_mounts us"
    unfolding sort_secret_mounts_def by (intro sort_key_inj_key_eq) (simp_all add: same del: mset_map)
  moreover have "distinct ids'" "length ids' = length ids"
    using assms(2) d by (metis mset_eq_imp_distinct_iff, metis size_mset)
  ultimately show ?thesis
    using us' len ms by (simp add: resolve_with_Inr)
qed

end

subsection \<open>The reference table provides that contract\<close>

lemma fetch_secret_ref_Inr:
  "fetch_secret_ref tbl t i = Inr r \<Longrightarrow> r \<in> set tbl \<and> sr_id r = i \<and> sr_tenant_id r = t"
  by (auto simp: fetch_secret_ref_def find_Some_iff)

lemma inv_unique_row:
  "secret_refs_inv tbl \<Longrightarrow> r \<in> set tbl \<Longrightarrow> s \<in> set tbl \<Longrightarrow> sr_id r = sr_id s \<Longrightarrow> r = s"
  by (auto simp: secret_refs_inv_def distinct_map dest: inj_onD)

lemma fetch_secret_ref_row:
  "secret_refs_inv tbl \<Longrightarrow> r \<in> set tbl \<Longrightarrow> fetch_secret_ref tbl (sr_tenant_id r) (sr_id r) = Inr r"
  using inv_unique_row [of tbl]
  by (force simp: fetch_secret_ref_def ok_or_def find_None_iff find_Some_iff split: option.split)

interpretation refs: secret_store secret_refs_inv fetch_secret_ref
proof
  show "sr_id r = i \<and> sr_tenant_id r = t" if "fetch_secret_ref db t i = Inr r" for db t i r
    using fetch_secret_ref_Inr [OF that] by simp
  show "i = j" if "secret_refs_inv db" "fetch_secret_ref db t i = Inr r"
    "fetch_secret_ref db t j = Inr s" "same_active_scope_name r s" for db t i j r s
    using that fetch_secret_ref_Inr [OF that(2)] fetch_secret_ref_Inr [OF that(3)]
    by (auto simp: secret_refs_inv_def list_all_iff)
  show "valid_ref r" if "secret_refs_inv db" "fetch_secret_ref db t i = Inr r" for db t i r
    using that fetch_secret_ref_Inr [OF that(2)] by (auto simp: secret_refs_inv_def list_all_iff)
qed

text \<open>Operations on the table, as the handlers issue them.\<close>

datatype secret_op =
  CreateRef string SecretRefId timestamp CreateSecretRefRequest
| RevokeRef string SecretRefId timestamp

fun secret_step :: "secret_op \<Rightarrow> SecretRef list \<Rightarrow> SecretRef list" where
  "secret_step (CreateRef tenant new_id now req) tbl =
     (case create_secret_ref tbl tenant new_id now req of Inl _ \<Rightarrow> tbl | Inr (tbl', _) \<Rightarrow> tbl')"
| "secret_step (RevokeRef tenant i now) tbl = fst (revoke_secret_ref tbl tenant i now)"

lemma create_secret_ref_cases:
  assumes "create_secret_ref tbl tenant new_id now req = Inr (tbl', r)"
  shows "tbl' = tbl @ [r]" and "sr_id r = new_id" and "valid_ref r" and "sr_tenant_id r = tenant"
    and "sr_state r = SecretRefState.Active"
    and "\<forall>s \<in> set tbl. sr_id s \<noteq> new_id \<and> \<not> same_active_scope_name s r"
  using assms
  by (auto simp: create_secret_ref_def Let_def valid_ref_def valid_request_ref list_ex_iff
      split: sum.splits if_splits)

lemma same_active_sym: "same_active_scope_name r s \<longleftrightarrow> same_active_scope_name s r"
  by (auto simp: same_active_scope_name_def)

lemma create_keeps_inv:
  assumes "secret_refs_inv tbl" and "create_secret_ref tbl tenant new_id now req = Inr (tbl', r)"
  shows "secret_refs_inv tbl'"
proof -
  note cs = create_secret_ref_cases [OF assms(2)]
  have new: "sr_id s \<noteq> sr_id r \<and> \<not> same_active_scope_name s r \<and> \<not> same_active_scope_name r s"
    if "s \<in> set tbl" for s
    using cs(2,6) that same_active_sym by blast
  then have "sr_id r \<notin> sr_id ` set tbl" by force
  with assms(1) cs(1,3) new show ?thesis
    by (simp add: secret_refs_inv_def list_all_iff)
qed

lemma revoke_row_simps:
  "sr_id (revoke_row t i now r) = sr_id r"
  "sr_tenant_id (revoke_row t i now r) = sr_tenant_id r"
  "sr_name (revoke_row t i now r) = sr_name r"
  "sr_source (revoke_row t i now r) = sr_source r"
  "sr_workspace_id (revoke_row t i now r) = sr_workspace_id r"
  "sr_state r = SecretRefState.Revoked \<Longrightarrow> sr_state (revoke_row t i now r) = SecretRefState.Revoked"
  by (auto simp: revoke_row_def split: if_splits)

lemma revoke_row_active:
  "sr_state (revoke_row t i now r) = SecretRefState.Active \<Longrightarrow> sr_state r = SecretRefState.Active"
  by (auto simp: revoke_row_def split: if_splits)

lemma revoke_keeps_inv:
  assumes "secret_refs_inv tbl"
  shows "secret_refs_inv (map (revoke_row t i now) tbl)"
proof -
  have "map sr_id (map (revoke_row t i now) tbl) = map sr_id tbl"
    by (simp add: revoke_row_simps)
  moreover have "same_active_scope_name r s"
    if "same_active_scope_name (revoke_row t i now r) (revoke_row t i now s)" for r s
    using that by (auto simp: same_active_scope_name_def revoke_row_simps dest: revoke_row_active)
  moreover have "valid_ref (revoke_row t i now r) = valid_ref r" for r
    by (simp add: valid_ref_def revoke_row_simps)
  ultimately show ?thesis
    using assms by (auto simp: secret_refs_inv_def list_all_iff revoke_row_simps comp_def)
qed

lemma secret_step_inv: "secret_refs_inv tbl \<Longrightarrow> secret_refs_inv (secret_step op tbl)"
  by (cases op) (auto simp: revoke_secret_ref_def Let_def revoke_keeps_inv
      split: sum.splits dest: create_keeps_inv)

lemma secret_run_inv: "secret_refs_inv tbl \<Longrightarrow> secret_refs_inv (fold secret_step ops tbl)"
  by (induction ops arbitrary: tbl) (simp_all add: secret_step_inv)

definition ref_revoked :: "SecretRefId \<Rightarrow> SecretRef list \<Rightarrow> bool" where
  "ref_revoked i tbl \<longleftrightarrow> list_ex (\<lambda>r. sr_id r = i \<and> sr_state r = SecretRefState.Revoked) tbl"

lemma secret_step_revoked: "ref_revoked i tbl \<Longrightarrow> ref_revoked i (secret_step op tbl)"
proof (cases op)
  case (RevokeRef t j now)
  assume "ref_revoked i tbl"
  then show ?thesis
    by (auto simp: RevokeRef ref_revoked_def revoke_secret_ref_def list_ex_iff Let_def
        revoke_row_simps)
next
  case (CreateRef t j now req)
  assume "ref_revoked i tbl"
  then show ?thesis
    by (auto simp: CreateRef ref_revoked_def list_ex_iff split: sum.split
        dest!: create_secret_ref_cases(1))
qed

lemma secret_run_revoked: "ref_revoked i tbl \<Longrightarrow> ref_revoked i (fold secret_step ops tbl)"
  by (induction ops arbitrary: tbl) (simp_all add: secret_step_revoked)

subsection \<open>Properties\<close>

text \<open>C18: a reference accepted by the create handler is delivered inside its own directory.  The
  path splits into the fixed prefix, the name and the key, none of which is empty, a dot segment
  or contains a separator; and the Pod volume name is at most 63 bytes, a DNS label.\<close>

theorem secret_path_confined:
  assumes "create_secret_ref tbl tenant new_id now req = Inr (tbl', r)"
  shows "split_on (CHR ''/'') (file_path r)
       = ['''', ''run'', ''sandboxwich'', ''secrets'', csr_name req, object_key (csr_source req)]
     \<and> csr_name req \<notin> {[], ''.'', ''..''} \<and> object_key (csr_source req) \<notin> {[], ''.'', ''..''}
     \<and> is_dns_label_like (volume_name (SandboxSecretMount_from_ref r)) 63 [CHR ''-'']"
proof -
  have v: "is_dns_label_like (csr_name req) MAX_SECRET_REF_NAME_LEN [CHR ''-'']"
    "object_key_ok (object_key (csr_source req))"
    and r: "sr_name r = csr_name req" "sr_source r = csr_source req"
    using assms
    by (auto simp: create_secret_ref_def Let_def valid_request_ref split: sum.splits if_splits)
  have "split_on (CHR ''/'') (file_path r)
       = ['''', ''run'', ''sandboxwich'', ''secrets'', csr_name req, object_key (csr_source req)]"
    using split_secret_path [OF label_no_slash(1) [OF v(1)] key_no_slash(1) [OF v(2)]]
    by (simp add: file_path_def mount_dir_def r)
  moreover have "is_dns_label_like (volume_name (SandboxSecretMount_from_ref r)) 63 [CHR ''-'']"
    using v(1) by (auto simp: volume_name_def SandboxSecretMount_from_ref_def r is_dns_label_like_def
        secret_consts label_boundary_def str_defs byte_def split: list.splits)
  ultimately show ?thesis
    using label_no_slash [OF v(1)] key_no_slash [OF v(2)] by simp
qed

definition sample_request :: CreateSecretRefRequest where
  "sample_request = \<lparr>csr_workspace_id = ''ws'', csr_name = ''api-key'',
     csr_source = \<lparr>backend = SecretBackend.CsiSecretProviderClass, object_name = ''vault.prod'',
       object_key = ''token''\<rparr>, csr_delivery = SecretDelivery.File\<rparr>"

definition sample_ref :: "SecretRefId \<Rightarrow> string \<Rightarrow> SecretRef" where
  "sample_ref i name = \<lparr>sr_id = i, sr_tenant_id = ''acme'', sr_workspace_id = ''ws'', sr_name = name,
     sr_source = csr_source sample_request, sr_delivery = SecretDelivery.File,
     sr_state = SecretRefState.Active, sr_created_at = 5, sr_updated_at = 5, sr_revoked_at = None\<rparr>"

lemma sample_create:
  "create_secret_ref [] ''acme'' 7 5 sample_request
     = Inr ([sample_ref 7 ''api-key''], sample_ref 7 ''api-key'')"
proof -
  have "validate_secret_workspace_id ''ws'' = Inr ()"
    by (simp add: validate_secret_workspace_id_def graphic_no_whitespace str_defs byte_def
        MAX_SECRET_SCOPE_ID_LEN_def)
  moreover have "is_dns_label_like ''api-key'' MAX_SECRET_REF_NAME_LEN [CHR ''-'']"
    by code_simp
  moreover have "is_dns_label_like ''vault.prod'' MAX_SECRET_SOURCE_OBJECT_NAME_LEN [CHR ''-'', CHR ''.'']"
    by code_simp
  moreover have "object_key_ok ''token''"
    by code_simp
  ultimately have ok: "CreateSecretRefRequest_validate sample_request = Inr ()"
    by (simp add: valid_request_ref sample_request_def)
  show ?thesis
    unfolding create_secret_ref_def ok by (simp add: Let_def sample_request_def sample_ref_def)
qed

text \<open>Witness of the property above.\<close>

theorem secret_path_confined_witness:
  "split_on (CHR ''/'') (file_path (sample_ref 7 ''api-key''))
     = ['''', ''run'', ''sandboxwich'', ''secrets'', ''api-key'', ''token'']"
  using secret_path_confined [OF sample_create] by (simp add: sample_request_def)

text \<open>C16: resolving a binding list yields collision-free deliveries of the caller's own active
  credentials.  Every mount comes from an active reference of the tenant, all from one workspace,
  and the mount directories, volume names and environment variables are pairwise distinct.\<close>

theorem resolve_secret_mounts_sound:
  assumes inv: "secret_refs_inv tbl" and ok: "resolve_secret_mounts tbl tenant ids = Inr ms"
  shows "(\<exists>w. \<forall>m \<in> set ms. \<exists>r \<in> set tbl. m = SandboxSecretMount_from_ref r \<and> sr_tenant_id r = tenant
            \<and> sr_state r = SecretRefState.Active \<and> sr_workspace_id r = w)
     \<and> mset (map ssm_secret_ref_id ms) = mset ids
     \<and> distinct (map ssm_mount_dir ms) \<and> distinct (map volume_name ms)
     \<and> distinct (map ssm_env_file_variable ms) \<and> sorted (map ssm_name ms)"
proof (intro conjI)
  let ?f = "fetch_secret_ref tbl tenant"
  note ok' = ok [unfolded resolve_secret_mounts_def]
  from ok' obtain us where us: "resolve_loop ?f None ids = Inr us" and ms: "ms = sort_secret_mounts us"
    by (auto simp: resolve_with_Inr)
  from us obtain w where ids: "\<And>i. i \<in> set ids \<Longrightarrow> \<exists>r. ?f i = Inr r \<and> sr_state r = SecretRefState.Active
      \<and> sr_workspace_id r = w"
    and us_eq: "us = map (\<lambda>i. SandboxSecretMount_from_ref (projr (?f i))) ids"
    unfolding resolve_loop_Inr by (metis sum.sel(2))
  show "\<exists>w. \<forall>m \<in> set ms. \<exists>r \<in> set tbl. m = SandboxSecretMount_from_ref r \<and> sr_tenant_id r = tenant
            \<and> sr_state r = SecretRefState.Active \<and> sr_workspace_id r = w"
  proof (intro exI [of _ w] ballI)
    fix m
    assume "m \<in> set ms"
    then obtain i where i: "i \<in> set ids" "m = SandboxSecretMount_from_ref (projr (?f i))"
      by (auto simp: ms us_eq sort_secret_mounts_def)
    with ids obtain r where "?f i = Inr r" "sr_state r = SecretRefState.Active" "sr_workspace_id r = w"
      by blast
    with i fetch_secret_ref_Inr [of tbl tenant i r] show "\<exists>r \<in> set tbl. m = SandboxSecretMount_from_ref r
        \<and> sr_tenant_id r = tenant \<and> sr_state r = SecretRefState.Active \<and> sr_workspace_id r = w"
      by (intro bexI [of _ r]) auto
  qed
  have "ssm_secret_ref_id (SandboxSecretMount_from_ref (projr (?f i))) = i" if i: "i \<in> set ids" for i
  proof -
    from ids [OF i] obtain r where "?f i = Inr r" by blast
    with fetch_secret_ref_Inr [of tbl tenant i r] show ?thesis
      by (simp add: SandboxSecretMount_from_ref_def)
  qed
  then have "map ssm_secret_ref_id us = ids"
    by (simp add: us_eq comp_def map_idI)
  then show "mset (map ssm_secret_ref_id ms) = mset ids"
    by (metis ms mset_map mset_sort sort_secret_mounts_def)
  have valid: "is_dns_label_like (ssm_name m) MAX_SECRET_REF_NAME_LEN [CHR ''-'']
      \<and> ssm_mount_dir m = secret_mount_dir (ssm_name m)
      \<and> ssm_env_file_variable m = secret_env_file_variable (ssm_name m)" if m: "m \<in> set ms" for m
  proof -
    obtain r where "valid_ref r" and "m = SandboxSecretMount_from_ref r"
      by (rule refs.resolved_origin [OF inv ok' m])
    then show ?thesis
      by (simp add: SandboxSecretMount_from_ref_def valid_ref_def mount_dir_def env_file_variable_def)
  qed
  note names = refs.resolved_distinct_names [OF inv ok']
  have by_name: "distinct (map f ms)"
    if "\<And>m n. m \<in> set ms \<Longrightarrow> n \<in> set ms \<Longrightarrow> f m = f n \<Longrightarrow> ssm_name m = ssm_name n"
    for f :: "SandboxSecretMount \<Rightarrow> string"
    using names(1) that unfolding distinct_map inj_on_def by blast
  show "distinct (map ssm_mount_dir ms)"
    by (rule by_name) (simp add: valid secret_mount_dir_def)
  show "distinct (map volume_name ms)"
    by (rule by_name) (simp add: volume_name_def)
  show "distinct (map ssm_env_file_variable ms)"
  proof (rule by_name)
    fix m n
    assume m: "m \<in> set ms" and n: "n \<in> set ms"
      and "ssm_env_file_variable m = ssm_env_file_variable n"
    then have "secret_env_file_variable (ssm_name m) = secret_env_file_variable (ssm_name n)"
      by (simp add: valid)
    with valid [OF m] valid [OF n] show "ssm_name m = ssm_name n"
      using secret_env_inj by blast
  qed
  show "sorted (map ssm_name ms)" by (rule names(2))
qed

text \<open>C30: the resolved delivery list does not depend on the order in which the caller lists the
  reference identifiers, so the provisioning spec is stable under reordering.\<close>

theorem resolve_secret_mounts_order_independent:
  assumes "secret_refs_inv tbl" and "mset ids = mset ids'"
    and "resolve_secret_mounts tbl tenant ids = Inr ms"
  shows "resolve_secret_mounts tbl tenant ids' = Inr ms"
  using refs.resolve_perm assms unfolding resolve_secret_mounts_def by blast

definition sample_table :: "SecretRef list" where
  "sample_table = [sample_ref 7 ''z-key'', sample_ref 8 ''a-key'']"

lemma sample_table_inv: "secret_refs_inv sample_table"
  by code_simp

lemma sample_resolve:
  "resolve_secret_mounts sample_table ''acme'' [7, 8]
     = Inr [SandboxSecretMount_from_ref (sample_ref 8 ''a-key''),
            SandboxSecretMount_from_ref (sample_ref 7 ''z-key'')]"
  by code_simp

text \<open>Witnesses of the property above.\<close>

theorem resolve_secret_mounts_sound_witness:
  "distinct (map ssm_mount_dir [SandboxSecretMount_from_ref (sample_ref 8 ''a-key''),
     SandboxSecretMount_from_ref (sample_ref 7 ''z-key'')])"
  using resolve_secret_mounts_sound [OF sample_table_inv sample_resolve] by blast

theorem resolve_secret_mounts_order_independent_witness:
  "resolve_secret_mounts sample_table ''acme'' [8, 7]
     = Inr [SandboxSecretMount_from_ref (sample_ref 8 ''a-key''),
            SandboxSecretMount_from_ref (sample_ref 7 ''z-key'')]"
  by (rule resolve_secret_mounts_order_independent [OF sample_table_inv _ sample_resolve]) simp

lemma insert_bindings_Inr:
  assumes "distinct (map ssm_secret_ref_id ms)" and "distinct (map ssm_file_path ms)"
    and "\<forall>(s, n) \<in> set tbl. s = sb \<longrightarrow>
      ssm_secret_ref_id n \<notin> ssm_secret_ref_id ` set ms \<and> ssm_file_path n \<notin> ssm_file_path ` set ms"
  shows "insert_sandbox_secret_bindings tbl sb ms = Inr (tbl @ map (Pair sb) ms)"
  using assms
proof (induction ms arbitrary: tbl)
  case (Cons m ms)
  have "\<not> list_ex (\<lambda>(s, n). s = sb \<and> (ssm_secret_ref_id n = ssm_secret_ref_id m
          \<or> ssm_file_path n = ssm_file_path m)) tbl"
    using Cons.prems(3) by (auto simp: list_ex_iff)
  moreover have "insert_sandbox_secret_bindings (tbl @ [(sb, m)]) sb ms
      = Inr ((tbl @ [(sb, m)]) @ map (Pair sb) ms)"
    using Cons.prems by (intro Cons.IH) auto
  ultimately show ?case by simp
qed simp

lemma resolved_keys_distinct:
  assumes inv: "secret_refs_inv tbl" and ok: "resolve_secret_mounts tbl tenant ids = Inr ms"
  shows "distinct (map ssm_secret_ref_id ms)" and "distinct (map ssm_file_path ms)"
proof -
  note ok' = ok [unfolded resolve_secret_mounts_def]
  have shape: "split_on (CHR ''/'') (ssm_file_path m) ! 4 = ssm_name m
      \<and> (\<exists>r \<in> set tbl. sr_id r = ssm_secret_ref_id m \<and> sr_name r = ssm_name m)"
    if m: "m \<in> set ms" for m
  proof -
    obtain r where r: "fetch_secret_ref tbl tenant (ssm_secret_ref_id m) = Inr r"
      "valid_ref r" "m = SandboxSecretMount_from_ref r"
      by (rule refs.resolved_origin [OF inv ok' m])
    then have "CHR ''/'' \<notin> set (sr_name r)" "CHR ''/'' \<notin> set (object_key (sr_source r))"
      using label_no_slash(1) key_no_slash(1) unfolding valid_ref_def by blast+
    from split_secret_path [OF this] have "split_on (CHR ''/'') (ssm_file_path m) ! 4 = ssm_name m"
      by (simp add: r(3) SandboxSecretMount_from_ref_def file_path_def mount_dir_def)
    moreover have "r \<in> set tbl" "sr_id r = ssm_secret_ref_id m" "sr_name r = ssm_name m"
      using fetch_secret_ref_Inr [OF r(1)] by (simp_all add: r(3) SandboxSecretMount_from_ref_def)
    ultimately show ?thesis by blast
  qed
  note names = refs.resolved_distinct_names(1) [OF inv ok']
  have by_name: "distinct (map f ms)"
    if "\<And>m n. m \<in> set ms \<Longrightarrow> n \<in> set ms \<Longrightarrow> f m = f n \<Longrightarrow> ssm_name m = ssm_name n"
    for f :: "SandboxSecretMount \<Rightarrow> 'x"
    using names that unfolding distinct_map inj_on_def by blast
  show "distinct (map ssm_file_path ms)"
    by (rule by_name) (metis shape)
  show "distinct (map ssm_secret_ref_id ms)"
    by (rule by_name) (metis shape inv_unique_row [OF inv])
qed

text \<open>C31: the bindings stored at create time reproduce the provisioning spec exactly.  Inserting
  the resolved mounts of a sandbox that has no bindings succeeds, and every later read returns the
  same list, in the same order, whatever row order the database uses.\<close>

theorem secret_bindings_roundtrip:
  assumes "secret_refs_inv refs" and "resolve_secret_mounts refs tenant ids = Inr ms"
    and "\<forall>row \<in> set tbl. fst row \<noteq> sb" and scan: "\<And>rows. mset (scan rows) = mset rows"
  shows "\<exists>tbl'. insert_sandbox_secret_bindings tbl sb ms = Inr tbl'
      \<and> fetch_sandbox_secret_mounts scan tbl' sb = ms"
proof -
  have "insert_sandbox_secret_bindings tbl sb ms = Inr (tbl @ map (Pair sb) ms)"
    using assms(3) resolved_keys_distinct [OF assms(1,2)] by (intro insert_bindings_Inr) auto
  moreover have "filter (\<lambda>row. fst row = sb) tbl = []"
    using assms(3) by (simp add: filter_empty_conv)
  then have "fetch_sandbox_secret_mounts scan (tbl @ map (Pair sb) ms) sb = sort_secret_mounts (scan ms)"
    by (simp add: fetch_sandbox_secret_mounts_def comp_def filter_map)
  moreover have "sort_secret_mounts (scan ms) = ms"
  proof -
    note names = refs.resolved_distinct_names
      [OF assms(1) assms(2) [unfolded resolve_secret_mounts_def]]
    have "inj_on ssm_name (set (scan ms))"
      using names(1) mset_eq_setD [OF scan [of ms]] by (simp add: distinct_map)
    with scan names(2) show ?thesis
      unfolding sort_secret_mounts_def by (intro sort_key_inj_key_eq)
  qed
  ultimately show ?thesis by auto
qed

text \<open>Witness: the database returns the rows reversed.\<close>

theorem secret_bindings_roundtrip_witness:
  "\<exists>tbl'. insert_sandbox_secret_bindings [] 1 [SandboxSecretMount_from_ref (sample_ref 8 ''a-key''),
       SandboxSecretMount_from_ref (sample_ref 7 ''z-key'')] = Inr tbl'
     \<and> fetch_sandbox_secret_mounts rev tbl' 1 = [SandboxSecretMount_from_ref (sample_ref 8 ''a-key''),
       SandboxSecretMount_from_ref (sample_ref 7 ''z-key'')]"
  by (rule secret_bindings_roundtrip [OF sample_table_inv sample_resolve]) simp_all

text \<open>C17: revocation is permanent and every operation keeps the table well formed.  From the empty
  table, whatever creates and revokes run, the table satisfies its invariant; and once a reference
  is revoked, no later sequence of operations lets a sandbox bind it again.\<close>

theorem revoked_ref_never_binds:
  "secret_refs_inv (fold secret_step ops [])
   \<and> (ref_revoked i (fold secret_step ops []) \<longrightarrow> i \<in> set ids \<longrightarrow>
        \<not> is_ok (resolve_secret_mounts (fold secret_step later (fold secret_step ops [])) tenant ids))"
proof (intro conjI impI notI)
  let ?tbl = "fold secret_step ops []"
  have "secret_refs_inv []" by (simp add: secret_refs_inv_def)
  then show inv: "secret_refs_inv ?tbl" by (rule secret_run_inv)
  assume "ref_revoked i ?tbl" and i: "i \<in> set ids"
  from this(1) have "ref_revoked i (fold secret_step later ?tbl)" by (rule secret_run_revoked)
  then obtain r where r: "r \<in> set (fold secret_step later ?tbl)" "sr_id r = i"
    "sr_state r = SecretRefState.Revoked"
    by (auto simp: ref_revoked_def list_ex_iff)
  assume "is_ok (resolve_secret_mounts (fold secret_step later ?tbl) tenant ids)"
  then obtain us where "resolve_loop (fetch_secret_ref (fold secret_step later ?tbl) tenant) None ids = Inr us"
    by (auto simp: is_ok_iff resolve_secret_mounts_def resolve_with_Inr)
  with i obtain s where s: "fetch_secret_ref (fold secret_step later ?tbl) tenant i = Inr s"
    "sr_state s = SecretRefState.Active"
    unfolding resolve_loop_Inr by blast
  have "r = s"
    using inv_unique_row [OF secret_run_inv [OF inv]] r fetch_secret_ref_Inr [OF s(1)] by blast
  with r s show False by simp
qed

text \<open>Witness: create and revoke one reference, then revoke another identifier.\<close>

lemma sample_revoked:
  "ref_revoked 7 (fold secret_step [CreateRef ''acme'' 7 5 sample_request, RevokeRef ''acme'' 7 9] [])"
  by (simp add: sample_create revoke_secret_ref_def Let_def ref_revoked_def revoke_row_def sample_ref_def)

theorem revoked_ref_never_binds_witness:
  "\<not> is_ok (resolve_secret_mounts
     (fold secret_step [RevokeRef ''acme'' 8 11]
       (fold secret_step [CreateRef ''acme'' 7 5 sample_request, RevokeRef ''acme'' 7 9] []))
     ''acme'' [7])"
  using revoked_ref_never_binds [of "[CreateRef ''acme'' 7 5 sample_request, RevokeRef ''acme'' 7 9]"
      7 "[7]" "[RevokeRef ''acme'' 8 11]" "''acme''"] sample_revoked
  by simp

end
