(* ===== verification/Net_Addr.thy ===== *)
theory Net_Addr
  imports Prelude
begin

section \<open>IP address text\<close>

text \<open>
  \<open>str::parse\<close> at \<open>std::net::IpAddr\<close>, the part of the standard library the egress rules use.
  The functions follow the recursive-descent reader of the standard library: each returns the
  rest of the input, and an address is the result of a reader that consumes everything.
\<close>

definition is_hex_digit :: "char \<Rightarrow> bool" where
  "is_hex_digit c \<longleftrightarrow> is_ascii_digit c \<or> (97 \<le> byte c \<and> byte c \<le> 102) \<or> (65 \<le> byte c \<and> byte c \<le> 70)"

text \<open>A decimal octet: greedy digits, at most three, no leading zero, below 256.\<close>

definition read_octet :: "string \<Rightarrow> string option" where
  "read_octet s =
     (let ds = takeWhile is_ascii_digit s in
      if ds \<noteq> [] \<and> length ds \<le> 3 \<and> \<not> (hd ds = CHR ''0'' \<and> length ds > 1) \<and> digits_val ds < 256
      then Some (dropWhile is_ascii_digit s) else None)"

text \<open>A group of an IPv6 address: greedy hexadecimal digits, at most four.\<close>

definition read_group :: "string \<Rightarrow> string option" where
  "read_group s =
     (let ds = takeWhile is_hex_digit s in
      if ds \<noteq> [] \<and> length ds \<le> 4 then Some (dropWhile is_hex_digit s) else None)"

definition read_given_char :: "char \<Rightarrow> string \<Rightarrow> string option" where
  "read_given_char d s = (case s of c # cs \<Rightarrow> if c = d then Some cs else None | [] \<Rightarrow> None)"

definition read_ipv4_addr :: "string \<Rightarrow> string option" where
  "read_ipv4_addr s =
     Option.bind (read_octet s) (\<lambda>s.
     Option.bind (read_given_char (CHR ''.'') s) (\<lambda>s.
     Option.bind (read_octet s) (\<lambda>s.
     Option.bind (read_given_char (CHR ''.'') s) (\<lambda>s.
     Option.bind (read_octet s) (\<lambda>s.
     Option.bind (read_given_char (CHR ''.'') s) (\<lambda>s.
     read_octet s))))))"

definition read_separator :: "bool \<Rightarrow> (string \<Rightarrow> string option) \<Rightarrow> string \<Rightarrow> string option" where
  "read_separator first inner s =
     (if first then inner s else Option.bind (read_given_char (CHR '':'') s) inner)"

text \<open>\<open>read_groups limit first s\<close>: the number of groups read, whether the last two were an
  embedded IPv4 address, and the rest.\<close>

fun read_groups :: "nat \<Rightarrow> bool \<Rightarrow> string \<Rightarrow> nat \<times> bool \<times> string" where
  "read_groups 0 first s = (0, False, s)"
| "read_groups (Suc k) first s =
     (case (if 0 < k then read_separator first read_ipv4_addr s else None) of
        Some r \<Rightarrow> (2, True, r)
      | None \<Rightarrow>
          (case read_separator first read_group s of
             None \<Rightarrow> (0, False, s)
           | Some r \<Rightarrow> (let (n, v4, r') = read_groups k False r in (Suc n, v4, r'))))"

definition read_ipv6_addr :: "string \<Rightarrow> string option" where
  "read_ipv6_addr s =
     (let (head_size, head_ipv4, r) = read_groups 8 True s in
      if head_size = 8 then Some r
      else if head_ipv4 then None
      else Option.bind (read_given_char (CHR '':'') r) (\<lambda>r.
           Option.bind (read_given_char (CHR '':'') r) (\<lambda>r.
             (let (tail_size, tail_ipv4, r') = read_groups (8 - (head_size + 1)) True r in Some r'))))"

datatype ip_addr =
  V4
| V6

definition parse_ip_addr :: "string \<Rightarrow> ip_addr option" where
  "parse_ip_addr s =
     (case (case read_ipv4_addr s of
              Some r \<Rightarrow> Some (V4, r)
            | None \<Rightarrow> map_option (Pair V6) (read_ipv6_addr s)) of
        Some (a, r) \<Rightarrow> if r = [] then Some a else None
      | None \<Rightarrow> None)"

text \<open>Sanity checks against the documented examples of the standard library.\<close>

lemma parse_ip_addr_examples:
  "parse_ip_addr ''127.0.0.1'' = Some V4"
  "parse_ip_addr ''256.0.0.1'' = None"
  "parse_ip_addr ''01.2.3.4'' = None"
  "parse_ip_addr ''1.2.3'' = None"
  "parse_ip_addr ''::1'' = Some V6"
  "parse_ip_addr ''2001:db8::8:800:200c:417a'' = Some V6"
  "parse_ip_addr ''::ffff:192.0.2.128'' = Some V6"
  "parse_ip_addr ''1:2:3:4:5:6:7::'' = Some V6"
  "parse_ip_addr ''1:2:3:4:5:6:7:8:9'' = None"
  "parse_ip_addr ''example.com'' = None"
  by code_simp+

end
