(* ===== verification/Sandbox_Spec.thy ===== *)
theory Sandbox_Spec
  imports Secret_Refs Net_Addr
begin

section \<open>Sandbox specifications, placement and egress rules\<close>

text \<open>
  The typed contracts a sandbox is created and placed with, from
  \<open>crates/sandboxwich-core/src/lib.rs\<close> (memory limits, egress, provider preference, provisioning
  spec, sandbox, worker and its resource envelope), and the validation and capability functions of
  \<open>crates/sandboxwich-api/src/handlers/sandboxes.rs\<close> and \<open>handlers/leases.rs\<close> over them.
  Field names carry a short prefix per struct.
\<close>

subsection \<open>Memory limits\<close>

datatype MemoryLimit =
  OneG
| FourG
| SixteenG
| SixtyFourG

fun cpu_limit :: "MemoryLimit \<Rightarrow> string" where
  "cpu_limit OneG = ''500m''"
| "cpu_limit FourG = ''1''"
| "cpu_limit SixteenG = ''4''"
| "cpu_limit SixtyFourG = ''16''"

fun memory_quantity :: "MemoryLimit \<Rightarrow> string" where
  "memory_quantity OneG = ''1Gi''"
| "memory_quantity FourG = ''4Gi''"
| "memory_quantity SixteenG = ''16Gi''"
| "memory_quantity SixtyFourG = ''64Gi''"

fun memory_bytes :: "MemoryLimit \<Rightarrow> 64 word" where
  "memory_bytes OneG = push_bit 30 1"
| "memory_bytes FourG = push_bit 30 4"
| "memory_bytes SixteenG = push_bit 30 16"
| "memory_bytes SixtyFourG = push_bit 30 64"

fun disk_limit :: "MemoryLimit \<Rightarrow> string" where
  "disk_limit OneG = ''2Gi''"
| "disk_limit FourG = ''8Gi''"
| "disk_limit SixteenG = ''32Gi''"
| "disk_limit SixtyFourG = ''128Gi''"

definition MemoryLimit_arms :: "(string \<times> MemoryLimit) list" where
  "MemoryLimit_arms = [(''1g'', OneG), (''4g'', FourG), (''16g'', SixteenG), (''64g'', SixtyFourG)]"

fun MemoryLimit_as_db_str :: "MemoryLimit \<Rightarrow> string" where
  "MemoryLimit_as_db_str OneG = ''1g''"
| "MemoryLimit_as_db_str FourG = ''4g''"
| "MemoryLimit_as_db_str SixteenG = ''16g''"
| "MemoryLimit_as_db_str SixtyFourG = ''64g''"

definition MemoryLimit_parse_db_str :: "string \<Rightarrow> DbVariantError + MemoryLimit" where
  "MemoryLimit_parse_db_str = parse_db_str ''MemoryLimit'' MemoryLimit_arms"

interpretation MemoryLimit: db_variant "''MemoryLimit''" MemoryLimit_arms MemoryLimit_as_db_str
  rewrites "parse_db_str ''MemoryLimit'' MemoryLimit_arms = MemoryLimit_parse_db_str"
proof -
  show "db_variant MemoryLimit_arms MemoryLimit_as_db_str"
  proof
    show "(MemoryLimit_as_db_str v, v) \<in> set MemoryLimit_arms" for v
      by (cases v) (simp_all add: MemoryLimit_arms_def)
  qed (simp_all add: db_values_def MemoryLimit_arms_def)
qed (simp add: MemoryLimit_parse_db_str_def)

subsection \<open>Egress, providers and the provisioning spec\<close>

record NetworkAllowRule =
  rule_kind :: NetworkAllowRuleKind
  rule_value :: string

datatype NetworkEgress =
  DenyAll
| Allowlist "NetworkAllowRule list"
| AllowAll

fun egress_mode :: "NetworkEgress \<Rightarrow> NetworkEgressMode" where
  "egress_mode NetworkEgress.DenyAll = NetworkEgressMode.DenyAll"
| "egress_mode (NetworkEgress.Allowlist rules) = NetworkEgressMode.Allowlist"
| "egress_mode NetworkEgress.AllowAll = NetworkEgressMode.AllowAll"

fun egress_rules :: "NetworkEgress \<Rightarrow> NetworkAllowRule list" where
  "egress_rules (NetworkEgress.Allowlist rules) = rules"
| "egress_rules NetworkEgress.DenyAll = []"
| "egress_rules NetworkEgress.AllowAll = []"

datatype ProviderPreference =
  Any
| Kubernetes
| AgentSandbox
| Cloudflare

definition ProviderPreference_arms :: "(string \<times> ProviderPreference) list" where
  "ProviderPreference_arms =
     [(''any'', Any), (''kubernetes'', Kubernetes), (''agent_sandbox'', AgentSandbox),
      (''cloudflare'', Cloudflare)]"

fun ProviderPreference_as_db_str :: "ProviderPreference \<Rightarrow> string" where
  "ProviderPreference_as_db_str Any = ''any''"
| "ProviderPreference_as_db_str Kubernetes = ''kubernetes''"
| "ProviderPreference_as_db_str AgentSandbox = ''agent_sandbox''"
| "ProviderPreference_as_db_str Cloudflare = ''cloudflare''"

definition ProviderPreference_parse_db_str :: "string \<Rightarrow> DbVariantError + ProviderPreference" where
  "ProviderPreference_parse_db_str = parse_db_str ''ProviderPreference'' ProviderPreference_arms"

interpretation ProviderPreference:
  db_variant "''ProviderPreference''" ProviderPreference_arms ProviderPreference_as_db_str
  rewrites "parse_db_str ''ProviderPreference'' ProviderPreference_arms = ProviderPreference_parse_db_str"
proof -
  show "db_variant ProviderPreference_arms ProviderPreference_as_db_str"
  proof
    show "(ProviderPreference_as_db_str v, v) \<in> set ProviderPreference_arms" for v
      by (cases v) (simp_all add: ProviderPreference_arms_def)
  qed (simp_all add: db_values_def ProviderPreference_arms_def)
qed (simp add: ProviderPreference_parse_db_str_def)

record SterileCellReleaseTrustClassV1 =
  release_set_id :: string
  release_runtime_class :: SterileCellRuntimeClass
  release_policy_digest :: string
  release_signature :: string

record SterilePoolCandidateV1 =
  spc_cell_id :: uuid
  spc_release :: SterileCellReleaseTrustClassV1
  spc_agent_image :: string
  spc_maestro_image :: string
  spc_service_name :: string
  spc_pod_name :: "string option"
  spc_pod_uid :: "string option"

record SandboxProvisionSpec =
  ps_memory_limit :: MemoryLimit
  ps_network_egress :: NetworkEgress
  ps_workspace_mode :: WorkspaceMode
  ps_runtime_profile :: SandboxRuntimeProfile
  ps_execution_class :: ExecutionClass
  ps_provider_preference :: ProviderPreference
  ps_tenant_id :: "string option"
  ps_provider_external_id :: "string option"
  ps_provider_routing_scope :: "string option"
  ps_secret_mounts :: "SandboxSecretMount list"
  ps_sterile_pool_candidate :: "SterilePoolCandidateV1 option"

record Sandbox =
  sb_id :: uuid
  sb_tenant_id :: string
  sb_name :: string
  sb_state :: SandboxState
  sb_template :: string
  sb_memory_limit :: MemoryLimit
  sb_network_egress :: NetworkEgress
  sb_workspace_mode :: WorkspaceMode
  sb_runtime_profile :: SandboxRuntimeProfile
  sb_execution_class :: ExecutionClass
  sb_created_at :: timestamp
  sb_updated_at :: timestamp
  sb_ttl_seconds :: "nat option"
  sb_max_lifetime_seconds :: "nat option"
  sb_idle_ttl_seconds :: "nat option"
  sb_last_activity_at :: "timestamp option"
  sb_parent_snapshot_id :: "uuid option"

record CreateSandboxRequest =
  cr_name :: "string option"
  cr_template :: "string option"
  cr_memory_limit :: "MemoryLimit option"
  cr_network_egress :: "NetworkEgress option"
  cr_workspace_mode :: "WorkspaceMode option"
  cr_runtime_profile :: "SandboxRuntimeProfile option"
  cr_execution_class :: "ExecutionClass option"
  cr_provider_preference :: "ProviderPreference option"
  cr_ttl_seconds :: "nat option"
  cr_max_lifetime_seconds :: "nat option"
  cr_idle_ttl_seconds :: "nat option"
  cr_secret_ref_ids :: "SecretRefId list"

subsection \<open>Workers\<close>

record WorkerResourceEnvelope =
  max_memory_bytes :: "64 word option"
  max_cpu_millis :: "64 word option"
  eligible_node_count :: "nat option"
  evidence_at :: timestamp
  probe_failure_reason :: "string option"

definition can_schedule_memory :: "WorkerResourceEnvelope \<Rightarrow> MemoryLimit \<Rightarrow> bool" where
  "can_schedule_memory envelope limit =
     (case max_memory_bytes envelope of
        Some ceiling \<Rightarrow> memory_bytes limit \<le> ceiling
      | None \<Rightarrow> False)"

record Worker =
  wk_id :: uuid
  wk_tenant_id :: string
  wk_name :: string
  wk_status :: WorkerStatus
  wk_provider :: string
  wk_capabilities :: "WorkerCapability list"
  wk_max_concurrent_jobs :: nat
  wk_labels :: "(string \<times> string) list"
  wk_resource_envelope :: "WorkerResourceEnvelope option"
  wk_registered_at :: timestamp
  wk_last_heartbeat_at :: "timestamp option"

definition execution_capability :: "ExecutionClass \<Rightarrow> WorkerCapability" where
  "execution_capability execution_class =
     (case execution_class of
        ExecutionClass.DevelopmentContainer \<Rightarrow> WorkerCapability.ProvisionSandbox
      | ExecutionClass.SandboxedContainer \<Rightarrow> WorkerCapability.SandboxedContainer
      | ExecutionClass.VirtualMachine \<Rightarrow> WorkerCapability.VirtualMachine)"

definition worker_execution_classes :: "WorkerCapability list \<Rightarrow> ExecutionClass list" where
  "worker_execution_classes capabilities =
     [ExecutionClass.DevelopmentContainer]
     @ (if WorkerCapability.SandboxedContainer \<in> set capabilities
        then [ExecutionClass.SandboxedContainer] else [])
     @ (if WorkerCapability.VirtualMachine \<in> set capabilities
        then [ExecutionClass.VirtualMachine] else [])"

definition worker_supports_execution_class :: "Worker \<Rightarrow> ExecutionClass \<Rightarrow> bool" where
  "worker_supports_execution_class worker execution_class \<longleftrightarrow>
     execution_class = ExecutionClass.DevelopmentContainer
     \<or> execution_capability execution_class \<in> set (wk_capabilities worker)"

definition worker_matches_provider_preference :: "string \<Rightarrow> ProviderPreference \<Rightarrow> bool" where
  "worker_matches_provider_preference worker_provider preference =
     (case preference of
        Any \<Rightarrow> eq_ignore_ascii_case worker_provider ''kubernetes''
      | _ \<Rightarrow> eq_ignore_ascii_case (ProviderPreference_as_db_str preference) worker_provider)"

subsection \<open>Validation of egress rules and runtime profiles\<close>

text \<open>\<open>rsplit_once\<close>: split at the last separator.\<close>

definition rsplit_once :: "char \<Rightarrow> string \<Rightarrow> (string \<times> string) option" where
  "rsplit_once d s = map_option (\<lambda>(b, a). (rev a, rev b)) (split_once d (rev s))"

definition immutable_sha256_image :: "string \<Rightarrow> bool" where
  "immutable_sha256_image img =
     (case rsplit_once (CHR ''@'') img of
        None \<Rightarrow> False
      | Some (_, digest) \<Rightarrow>
          length digest = 71 \<and> starts_with digest ''sha256:'' \<and> list_all is_hex_digit (drop 7 digest))"

definition dns_label_char :: "char \<Rightarrow> bool" where
  "dns_label_char b \<longleftrightarrow> is_ascii_lowercase b \<or> is_ascii_digit b \<or> b = CHR ''-''"

definition looks_like_dns_name :: "string \<Rightarrow> bool" where
  "looks_like_dns_name s \<longleftrightarrow>
     s \<noteq> [] \<and> length s \<le> 253 \<and> \<not> ends_with s ''.'' \<and> parse_ip_addr s = None
     \<and> list_all (\<lambda>label. label \<noteq> [] \<and> length label \<le> 63 \<and> \<not> starts_with label ''-''
          \<and> \<not> ends_with label ''-'' \<and> list_all dns_label_char label) (split_on (CHR ''.'') s)"

definition looks_like_host_rule :: "string \<Rightarrow> bool" where
  "looks_like_host_rule s =
     (case strip_prefix s ''*.'' of
        Some base \<Rightarrow> CHR ''.'' \<in> set base \<and> CHR ''*'' \<notin> set base \<and> looks_like_dns_name base
      | None \<Rightarrow> CHR ''*'' \<notin> set s \<and> looks_like_dns_name s)"

definition looks_like_cidr :: "string \<Rightarrow> bool" where
  "looks_like_cidr s =
     (case split_once (CHR ''/'') s of
        None \<Rightarrow> False
      | Some (address, prefix) \<Rightarrow>
          (case parse_unsigned 256 prefix of
             None \<Rightarrow> False
           | Some p \<Rightarrow>
               (case parse_ip_addr (trim address) of
                  Some V4 \<Rightarrow> p \<le> 32
                | Some V6 \<Rightarrow> p \<le> 128
                | None \<Rightarrow> False)))"

fun validate_allow_rules :: "NetworkAllowRule list \<Rightarrow> ApiError + unit" where
  "validate_allow_rules [] = Inr ()"
| "validate_allow_rules (rule # rules) =
     (let v = trim (rule_value rule) in
      if v = [] then Inl (bad_request ''network allow rule value cannot be empty'')
      else if length v > 253 then Inl (bad_request ''network allow rule value is too long'')
      else if rule_kind rule = NetworkAllowRuleKind.Cidr \<and> \<not> looks_like_cidr v
      then Inl (bad_request ''cidr network allow rule must use CIDR notation'')
      else if rule_kind rule = NetworkAllowRuleKind.Host \<and> \<not> looks_like_host_rule v
      then Inl (bad_request
        ''host network allow rule must be a lowercase DNS name or one leading-label wildcard'')
      else validate_allow_rules rules)"

definition validate_network_egress :: "NetworkEgress \<Rightarrow> ApiError + unit" where
  "validate_network_egress network_egress =
     (case network_egress of
        NetworkEgress.DenyAll \<Rightarrow> Inr ()
      | NetworkEgress.AllowAll \<Rightarrow> Inr ()
      | NetworkEgress.Allowlist rules \<Rightarrow> validate_allow_rules rules)"

definition validate_runtime_profile ::
  "SandboxRuntimeProfile \<Rightarrow> NetworkEgress \<Rightarrow> string option \<Rightarrow> ApiError + unit" where
  "validate_runtime_profile profile network_egress runtime_image =
     (if profile \<noteq> SandboxRuntimeProfile.ApexTrustedSupervisorV1 then Inr ()
      else if network_egress = NetworkEgress.AllowAll
      then Inl (bad_request ''apex_trusted_supervisor_v1 requires deny-by-default egress'')
      else if \<not> (case runtime_image of None \<Rightarrow> False | Some i \<Rightarrow> immutable_sha256_image i)
      then Inl (bad_request ''apex_trusted_supervisor_v1 requires a digest-pinned runtime image'')
      else Inr ())"

definition provision_capability :: "SandboxRuntimeProfile \<Rightarrow> NetworkEgress \<Rightarrow> WorkerCapability" where
  "provision_capability runtime_profile network_egress =
     (if runtime_profile = SandboxRuntimeProfile.ApexTrustedSupervisorV1
      then WorkerCapability.ApexTrustedSupervisorV1
      else if list_ex (\<lambda>rule. rule_kind rule = NetworkAllowRuleKind.Host) (egress_rules network_egress)
      then WorkerCapability.FqdnEgress
      else WorkerCapability.ProvisionSandbox)"

definition fork_capability :: "SandboxRuntimeProfile \<Rightarrow> NetworkEgress \<Rightarrow> WorkerCapability" where
  "fork_capability runtime_profile network_egress =
     (if runtime_profile = SandboxRuntimeProfile.ApexTrustedSupervisorV1
      then WorkerCapability.ApexTrustedSupervisorV1
      else if list_ex (\<lambda>rule. rule_kind rule = NetworkAllowRuleKind.Host) (egress_rules network_egress)
      then WorkerCapability.FqdnEgress
      else WorkerCapability.Snapshot)"

subsection \<open>The spec of a create request\<close>

text \<open>\<open>or_else\<close> the parent's value, then \<open>unwrap_or_default\<close>.\<close>

definition or_parent :: "'a option \<Rightarrow> (Sandbox \<Rightarrow> 'a) \<Rightarrow> Sandbox option \<Rightarrow> 'a \<Rightarrow> 'a" where
  "or_parent requested field parent dflt =
     (case requested of
        Some v \<Rightarrow> v
      | None \<Rightarrow> (case parent of Some p \<Rightarrow> field p | None \<Rightarrow> dflt))"

definition provision_spec_from_request_with_provider ::
  "CreateSandboxRequest \<Rightarrow> Sandbox option \<Rightarrow> ProviderPreference \<Rightarrow> ApiError + SandboxProvisionSpec" where
  "provision_spec_from_request_with_provider req parent provider_preference =
     (let memory_limit = or_parent (cr_memory_limit req) sb_memory_limit parent OneG;
          network_egress = or_parent (cr_network_egress req) sb_network_egress parent NetworkEgress.DenyAll;
          workspace_mode = or_parent (cr_workspace_mode req) sb_workspace_mode parent WorkspaceMode.Persistent;
          runtime_profile = or_parent (cr_runtime_profile req) sb_runtime_profile parent
            SandboxRuntimeProfile.Unprivileged;
          execution_class = or_parent (cr_execution_class req) sb_execution_class parent
            ExecutionClass.DevelopmentContainer;
          effective_template = (case cr_template req of
             Some t \<Rightarrow> Some t | None \<Rightarrow> map_option sb_template parent)
      in rbind (validate_network_egress network_egress) (\<lambda>_.
         rbind (validate_runtime_profile runtime_profile network_egress effective_template) (\<lambda>_.
         if runtime_profile = SandboxRuntimeProfile.ApexTrustedSupervisorV1
            \<and> execution_class \<noteq> ExecutionClass.SandboxedContainer
         then Inl (bad_request ''apex_trusted_supervisor_v1 requires sandboxed_container execution_class'')
         else Inr \<lparr>ps_memory_limit = memory_limit, ps_network_egress = network_egress,
                ps_workspace_mode = workspace_mode, ps_runtime_profile = runtime_profile,
                ps_execution_class = execution_class, ps_provider_preference = provider_preference,
                ps_tenant_id = map_option sb_tenant_id parent, ps_provider_external_id = None,
                ps_provider_routing_scope = None, ps_secret_mounts = [],
                ps_sterile_pool_candidate = None\<rparr>)))"

definition provision_spec_from_request ::
  "CreateSandboxRequest \<Rightarrow> Sandbox option \<Rightarrow> ApiError + SandboxProvisionSpec" where
  "provision_spec_from_request req parent =
     provision_spec_from_request_with_provider req parent
       (case cr_provider_preference req of Some p \<Rightarrow> p | None \<Rightarrow> Any)"

subsection \<open>Properties\<close>

text \<open>C32: the execution classes the claim query filters on are exactly the classes the typed
  re-check of the same claim accepts, so the scheduler neither starves a job a worker could run
  nor hands out one it cannot.\<close>

theorem execution_class_filter_agrees:
  "worker_supports_execution_class worker c \<longleftrightarrow>
     c \<in> set (worker_execution_classes (wk_capabilities worker))"
  by (cases c) (auto simp: worker_supports_execution_class_def worker_execution_classes_def
      execution_capability_def)

lemma lowercase_db_str:
  "map to_ascii_lowercase (ProviderPreference_as_db_str p) = ProviderPreference_as_db_str p"
  by (cases p) (simp_all add: to_ascii_lowercase_def is_ascii_uppercase_def byte_def)

lemma matches_explicit:
  "p \<noteq> Any \<Longrightarrow> worker_matches_provider_preference prov p \<longleftrightarrow>
     map to_ascii_lowercase prov = ProviderPreference_as_db_str p"
  by (cases p) (auto simp: worker_matches_provider_preference_def eq_ignore_ascii_case_def
      lowercase_db_str [of Kubernetes, simplified] lowercase_db_str [of Cloudflare, simplified]
      lowercase_db_str [of AgentSandbox, simplified])

lemma matches_any:
  "worker_matches_provider_preference prov Any \<longleftrightarrow> worker_matches_provider_preference prov Kubernetes"
  by (auto simp: worker_matches_provider_preference_def eq_ignore_ascii_case_def)



lemma memory_bytes_unat:
  "unat (memory_bytes OneG) = 2 ^ 30" "unat (memory_bytes FourG) = 4 * 2 ^ 30"
  "unat (memory_bytes SixteenG) = 16 * 2 ^ 30" "unat (memory_bytes SixtyFourG) = 64 * 2 ^ 30"
  by (simp_all add: push_bit_eq_mult)

lemma show_nat_samples:
  "show_nat (Suc 0) = ''1''" "show_nat 2 = ''2''" "show_nat 4 = ''4''" "show_nat 8 = ''8''"
  "show_nat 16 = ''16''" "show_nat 32 = ''32''" "show_nat 64 = ''64''" "show_nat 128 = ''128''"
  by code_simp+

fun gibibytes :: "MemoryLimit \<Rightarrow> nat" where
  "gibibytes OneG = 1"
| "gibibytes FourG = 4"
| "gibibytes SixteenG = 16"
| "gibibytes SixtyFourG = 64"

text \<open>C34: the numbers of a memory limit agree.  The byte count of the admission check is the
  gibibyte count of the Kubernetes quantity with no overflow of the 64-bit shift, the disk limit is
  twice the memory, and the database text is the same count; a worker that can schedule a limit can
  schedule every smaller one.\<close>

theorem memory_limit_units_agree:
  "unat (memory_bytes m) = gibibytes m * 2 ^ 30
   \<and> memory_quantity m = show_nat (gibibytes m) @ ''Gi''
   \<and> disk_limit m = show_nat (2 * gibibytes m) @ ''Gi''
   \<and> MemoryLimit_as_db_str m = show_nat (gibibytes m) @ ''g''
   \<and> (gibibytes m' \<le> gibibytes m \<longrightarrow> can_schedule_memory e m \<longrightarrow> can_schedule_memory e m')"
proof -
  have bytes: "unat (memory_bytes n) = gibibytes n * 2 ^ 30" for n
    by (cases n) (simp_all add: memory_bytes_unat del: memory_bytes.simps)
  have "memory_quantity m = show_nat (gibibytes m) @ ''Gi''
      \<and> disk_limit m = show_nat (2 * gibibytes m) @ ''Gi''
      \<and> MemoryLimit_as_db_str m = show_nat (gibibytes m) @ ''g''"
    by (cases m) (simp_all add: show_nat_samples)
  moreover have "gibibytes m' \<le> gibibytes m \<longrightarrow> memory_bytes m' \<le> memory_bytes m"
    by (simp add: word_le_nat_alt bytes)
  then have "gibibytes m' \<le> gibibytes m \<longrightarrow> can_schedule_memory e m \<longrightarrow> can_schedule_memory e m'"
    by (auto simp: can_schedule_memory_def split: option.splits)
  ultimately show ?thesis
    using bytes by blast
qed

text \<open>Witness: a worker with 16 GiB takes a 4 GiB sandbox.\<close>

definition sample_envelope :: WorkerResourceEnvelope where
  "sample_envelope = \<lparr>max_memory_bytes = Some (2 ^ 34), max_cpu_millis = None,
     eligible_node_count = None, evidence_at = 0, probe_failure_reason = None\<rparr>"

theorem memory_limit_units_agree_witness:
  "can_schedule_memory sample_envelope FourG"
proof -
  have "can_schedule_memory sample_envelope SixteenG"
    by (simp add: can_schedule_memory_def sample_envelope_def push_bit_eq_mult)
  then show ?thesis
    using memory_limit_units_agree [of SixteenG FourG sample_envelope] by simp
qed

lemma rsplit_once_eq_Some:
  "rsplit_once d s = Some (a, b) \<longleftrightarrow> s = a @ d # b \<and> d \<notin> set b"
proof -
  have "rsplit_once d s = Some (a, b) \<longleftrightarrow> split_once d (rev s) = Some (rev b, rev a)"
    by (auto simp: rsplit_once_def)
  also have "\<dots> \<longleftrightarrow> rev s = rev b @ d # rev a \<and> d \<notin> set b"
    by (simp add: split_once_eq_Some)
  also have "rev s = rev b @ d # rev a \<longleftrightarrow> s = a @ d # b"
    by (metis append.assoc append_Cons append_Nil rev.simps(2) rev_append rev_rev_ident)
  finally show ?thesis .
qed

lemma immutable_sha256_image_shape:
  "immutable_sha256_image i \<Longrightarrow>
     \<exists>repo hex. i = repo @ ''@sha256:'' @ hex \<and> length hex = 64 \<and> list_all is_hex_digit hex"
proof -
  assume "immutable_sha256_image i"
  then obtain repo digest where "rsplit_once (CHR ''@'') i = Some (repo, digest)"
    and d: "length digest = 71" "starts_with digest ''sha256:''" "list_all is_hex_digit (drop 7 digest)"
    by (auto simp: immutable_sha256_image_def split: option.splits)
  then have i: "i = repo @ CHR ''@'' # digest" by (simp add: rsplit_once_eq_Some)
  from d(2) obtain hex where "digest = ''sha256:'' @ hex" by (auto simp: starts_with_iff)
  with d i show ?thesis by auto
qed

text \<open>C35: the trusted-supervisor profile is only ever granted under its full set of conditions.
  Whatever mix of request fields and inherited parent fields produced it, an accepted spec with the
  profile runs in a sandboxed container, is not open to all egress, uses a template pinned by a
  64-digit SHA-256 digest, and is placed only on workers with the dedicated capability.\<close>

theorem apex_spec_guarded:
  assumes ok: "provision_spec_from_request req parent = Inr spec"
    and apex: "ps_runtime_profile spec = SandboxRuntimeProfile.ApexTrustedSupervisorV1"
  shows "ps_execution_class spec = ExecutionClass.SandboxedContainer
     \<and> ps_network_egress spec \<noteq> NetworkEgress.AllowAll
     \<and> (\<exists>repo hex. (case cr_template req of Some t \<Rightarrow> Some t | None \<Rightarrow> map_option sb_template parent)
            = Some (repo @ ''@sha256:'' @ hex) \<and> length hex = 64 \<and> list_all is_hex_digit hex)
     \<and> provision_capability (ps_runtime_profile spec) (ps_network_egress spec)
         = WorkerCapability.ApexTrustedSupervisorV1
     \<and> fork_capability (ps_runtime_profile spec) (ps_network_egress spec)
         = WorkerCapability.ApexTrustedSupervisorV1"
proof -
  let ?t = "case cr_template req of Some t \<Rightarrow> Some t | None \<Rightarrow> map_option sb_template parent"
  have "validate_runtime_profile (ps_runtime_profile spec) (ps_network_egress spec) ?t = Inr ()"
    and exec: "ps_execution_class spec = ExecutionClass.SandboxedContainer"
    using ok apex
    by (auto simp: provision_spec_from_request_def provision_spec_from_request_with_provider_def
        Let_def rbind_eq_Inr split: if_splits)
  then have "ps_network_egress spec \<noteq> NetworkEgress.AllowAll"
    and "\<exists>i. ?t = Some i \<and> immutable_sha256_image i"
    using apex by (auto simp: validate_runtime_profile_def split: if_splits option.splits)
  then show ?thesis
    using exec apex immutable_sha256_image_shape
    by (auto simp: provision_capability_def fork_capability_def)
qed

definition apex_request :: CreateSandboxRequest where
  "apex_request = \<lparr>cr_name = None,
     cr_template = Some (''ghcr/apex@sha256:'' @ replicate 64 (CHR ''a'')),
     cr_memory_limit = None, cr_network_egress = None, cr_workspace_mode = None,
     cr_runtime_profile = Some SandboxRuntimeProfile.ApexTrustedSupervisorV1,
     cr_execution_class = Some ExecutionClass.SandboxedContainer, cr_provider_preference = None,
     cr_ttl_seconds = None, cr_max_lifetime_seconds = None, cr_idle_ttl_seconds = None,
     cr_secret_ref_ids = []\<rparr>"

lemma apex_request_image:
  "immutable_sha256_image (''ghcr/apex@sha256:'' @ replicate 64 (CHR ''a''))"
proof -
  have "rsplit_once (CHR ''@'') (''ghcr/apex'' @ CHR ''@'' # (''sha256:'' @ replicate 64 (CHR ''a'')))
      = Some (''ghcr/apex'', ''sha256:'' @ replicate 64 (CHR ''a''))"
    by (subst rsplit_once_eq_Some) simp
  moreover have "list_all is_hex_digit (replicate 64 (CHR ''a''))"
    by (simp add: list_all_iff is_hex_digit_def str_defs byte_def)
  ultimately show ?thesis
    by (simp add: immutable_sha256_image_def starts_with_def)
qed

text \<open>Witness of the property above.\<close>

theorem apex_spec_guarded_witness:
  "\<exists>spec. provision_spec_from_request apex_request None = Inr spec
     \<and> ps_execution_class spec = ExecutionClass.SandboxedContainer
     \<and> ps_network_egress spec \<noteq> NetworkEgress.AllowAll"
proof -
  obtain spec where spec: "provision_spec_from_request apex_request None = Inr spec"
    "ps_runtime_profile spec = SandboxRuntimeProfile.ApexTrustedSupervisorV1"
    using apex_request_image
    by (simp add: provision_spec_from_request_def provision_spec_from_request_with_provider_def
        apex_request_def or_parent_def validate_network_egress_def validate_runtime_profile_def)
  with apex_spec_guarded [OF spec] show ?thesis by blast
qed

subsection \<open>Accepted host rules\<close>

lemma validate_allow_rules_host:
  "validate_allow_rules rules = Inr u \<Longrightarrow> rule \<in> set rules \<Longrightarrow>
     rule_kind rule = NetworkAllowRuleKind.Host \<Longrightarrow> looks_like_host_rule (trim (rule_value rule))"
  by (induction rules) (auto simp: Let_def split: if_splits)

lemma split_on_chars:
  "c \<in> set s \<Longrightarrow> c = d \<or> (\<exists>p \<in> set (split_on d s). c \<in> set p)"
  by (induction s) (auto split: list.splits)

lemma dns_name_chars:
  assumes "looks_like_dns_name s" and "c \<in> set s"
  shows "dns_label_char c \<or> c = CHR ''.''"
  using assms split_on_chars [OF assms(2), of "CHR ''.''"]
  by (auto simp: looks_like_dns_name_def list_all_iff)


definition sample_host_rule :: "string \<Rightarrow> NetworkAllowRule" where
  "sample_host_rule v = \<lparr>rule_kind = NetworkAllowRuleKind.Host, rule_value = v\<rparr>"

lemma sample_host_rule_ok:
  "trim v = w \<Longrightarrow> w \<noteq> [] \<Longrightarrow> length w \<le> 253 \<Longrightarrow> looks_like_host_rule w \<Longrightarrow>
     validate_network_egress (NetworkEgress.Allowlist [sample_host_rule v]) = Inr ()"
  by (simp add: validate_network_egress_def sample_host_rule_def)

lemma wildcard_host_rule: "looks_like_host_rule ''*.example.com''"
  by code_simp

lemma wildcard_trimmed: "trim ''*.example.com'' = ''*.example.com''"
  by (rule trim_graphic) code_simp



end
