(* ===== verification/Pagination.thy ===== *)
theory Pagination
  imports Api_Error "HOL-Library.Product_Lexorder" "HOL-Library.Multiset"
begin

section \<open>Keyset pagination\<close>

text \<open>
  \<open>crates/sandboxwich-api/src/pagination.rs\<close>.  The rows a list query selects are a list; the SQL
  ordering compares the two key columns as text, which is the lexicographic order on byte
  strings.  The URL-safe base64 engine is a pair of parameters.
\<close>

definition DEFAULT_PAGE_LIMIT :: nat where
  "DEFAULT_PAGE_LIMIT = 100"

definition MAX_PAGE_LIMIT :: nat where
  "MAX_PAGE_LIMIT = 200"

definition PAGE_CURSOR_SEP :: char where
  "PAGE_CURSOR_SEP = CHR ''|''"

record PageParams =
  page_limit :: "nat option"
  page_before :: "string option"
  page_after :: "string option"

datatype PageDirection =
  After
| Before

record PageCursor =
  cursor_created_at :: string
  cursor_id :: string

definition PageCursor_new :: "string \<Rightarrow> string \<Rightarrow> PageCursor" where
  "PageCursor_new created_at i = \<lparr>cursor_created_at = created_at, cursor_id = i\<rparr>"

definition PageCursor_encode :: "(string \<Rightarrow> string) \<Rightarrow> PageCursor \<Rightarrow> string" where
  "PageCursor_encode b64_encode c =
     b64_encode (cursor_created_at c @ [PAGE_CURSOR_SEP] @ cursor_id c)"

definition PageCursor_decode :: "(string \<Rightarrow> string option) \<Rightarrow> string \<Rightarrow> ApiError + PageCursor" where
  "PageCursor_decode b64_decode raw =
     rbind (ok_or (bad_request ''invalid pagination cursor'') (b64_decode raw)) (\<lambda>bytes.
     rbind (ensure (valid_utf8 bytes) (bad_request ''invalid pagination cursor'')) (\<lambda>_.
     rbind (ok_or (bad_request ''invalid pagination cursor'') (split_once PAGE_CURSOR_SEP bytes))
       (\<lambda>(created_at, i). Inr \<lparr>cursor_created_at = created_at, cursor_id = i\<rparr>)))"

definition resolve_page_limit :: "nat option \<Rightarrow> ApiError + nat" where
  "resolve_page_limit limit =
     (case limit of
        None \<Rightarrow> Inr DEFAULT_PAGE_LIMIT
      | Some v \<Rightarrow>
          if v = 0 then Inl (bad_request ''limit must be greater than 0'')
          else Inr (min v MAX_PAGE_LIMIT))"

definition resolve_page_cursor ::
  "(string \<Rightarrow> string option) \<Rightarrow> PageParams \<Rightarrow> ApiError + (PageDirection \<times> PageCursor) option" where
  "resolve_page_cursor b64_decode params =
     (case (page_before params, page_after params) of
        (Some _, Some _) \<Rightarrow> Inl (bad_request ''only one of before or after may be set'')
      | (Some raw, None) \<Rightarrow> rbind (PageCursor_decode b64_decode raw) (\<lambda>c. Inr (Some (Before, c)))
      | (None, Some raw) \<Rightarrow> rbind (PageCursor_decode b64_decode raw) (\<lambda>c. Inr (Some (After, c)))
      | (None, None) \<Rightarrow> Inr None)"

subsection \<open>One page\<close>

text \<open>\<open>key\<close> reads the columns \<open>created_at\<close> and \<open>id\<close> of a row; \<open>row_map\<close> is the caller's decoder.\<close>

definition cursor_key :: "PageCursor \<Rightarrow> string \<times> string" where
  "cursor_key c = (cursor_created_at c, cursor_id c)"

definition cursor_predicate ::
  "('r \<Rightarrow> string \<times> string) \<Rightarrow> (PageDirection \<times> PageCursor) option \<Rightarrow> 'r \<Rightarrow> bool" where
  "cursor_predicate key cursor r =
     (case cursor of
        None \<Rightarrow> True
      | Some (After, c) \<Rightarrow>
          fst (key r) > cursor_created_at c
          \<or> (fst (key r) = cursor_created_at c \<and> snd (key r) > cursor_id c)
      | Some (Before, c) \<Rightarrow>
          fst (key r) < cursor_created_at c
          \<or> (fst (key r) = cursor_created_at c \<and> snd (key r) < cursor_id c))"

definition is_before :: "(PageDirection \<times> PageCursor) option \<Rightarrow> bool" where
  "is_before cursor = (case cursor of Some (Before, _) \<Rightarrow> True | _ \<Rightarrow> False)"

definition fetch_keyset_page ::
  "(string \<Rightarrow> string) \<Rightarrow> ('r \<Rightarrow> string \<times> string) \<Rightarrow> ('r \<Rightarrow> ApiError + (PageCursor \<times> 'i)) \<Rightarrow> 'r list
     \<Rightarrow> nat \<Rightarrow> (PageDirection \<times> PageCursor) option \<Rightarrow> ApiError + ('i list \<times> string option)" where
  "fetch_keyset_page b64_encode key row_map tbl limit cursor =
     (let ascending = sort_key key (filter (cursor_predicate key cursor) tbl);
          ordered = (if is_before cursor then rev ascending else ascending);
          rows = take (limit + 1) ordered;
          has_more = length rows > limit
      in rbind (rtraverse row_map (take limit rows)) (\<lambda>keyed.
         (let keyed_items = (if is_before cursor then rev keyed else keyed);
              next_cursor =
                (if keyed_items = [] then None
                 else if is_before cursor \<or> has_more
                 then Some (PageCursor_encode b64_encode (fst (last keyed_items)))
                 else None)
          in Inr (map snd keyed_items, next_cursor))))"

subsection \<open>A client that follows the cursors\<close>

text \<open>One table per request: the rows may change between requests.  The result is the items seen
  and whether the last page reported that nothing follows.\<close>

fun follow_pages ::
  "(string \<Rightarrow> string) \<Rightarrow> (string \<Rightarrow> string option) \<Rightarrow> ('r \<Rightarrow> string \<times> string)
     \<Rightarrow> ('r \<Rightarrow> ApiError + (PageCursor \<times> 'i)) \<Rightarrow> nat \<Rightarrow> (PageDirection \<times> PageCursor) option \<Rightarrow> 'r list list
     \<Rightarrow> ApiError + ('i list \<times> bool)" where
  "follow_pages enc dec key row_map limit cursor [] = Inr ([], False)"
| "follow_pages enc dec key row_map limit cursor (tbl # tbls) =
     rbind (fetch_keyset_page enc key row_map tbl limit cursor) (\<lambda>(items, nxt).
       case nxt of
         None \<Rightarrow> Inr (items, True)
       | Some raw \<Rightarrow>
           rbind (PageCursor_decode dec raw) (\<lambda>c.
           rbind (follow_pages enc dec key row_map limit (Some (After, c)) tbls) (\<lambda>(rest, done).
             Inr (items @ rest, done))))"

subsection \<open>Cursors\<close>

definition clean_key :: "string \<times> string \<Rightarrow> bool" where
  "clean_key k \<longleftrightarrow> PAGE_CURSOR_SEP \<notin> set (fst k) \<and> valid_utf8 (fst k @ [PAGE_CURSOR_SEP] @ snd k)"

definition key_cursor :: "string \<times> string \<Rightarrow> PageCursor" where
  "key_cursor k = PageCursor_new (fst k) (snd k)"

lemma cursor_key_cursor [simp]: "cursor_key (key_cursor k) = k"
  by (simp add: cursor_key_def key_cursor_def PageCursor_new_def)

lemma decode_encode:
  assumes "dec (enc (fst k @ [PAGE_CURSOR_SEP] @ snd k)) = Some (fst k @ [PAGE_CURSOR_SEP] @ snd k)"
    and "clean_key k"
  shows "PageCursor_decode dec (PageCursor_encode enc (key_cursor k)) = Inr (key_cursor k)"
proof (cases k)
  case (Pair a b)
  have "split_once PAGE_CURSOR_SEP (a @ PAGE_CURSOR_SEP # b) = Some (a, b)"
    using assms(2) by (simp add: Pair split_once_eq_Some clean_key_def)
  with assms show ?thesis
    by (simp add: Pair PageCursor_decode_def PageCursor_encode_def key_cursor_def PageCursor_new_def
        clean_key_def rbind_ensure)
qed

definition above_cursor :: "(PageDirection \<times> PageCursor) option \<Rightarrow> string \<times> string \<Rightarrow> bool" where
  "above_cursor cursor k = (case cursor of None \<Rightarrow> True | Some (_, c) \<Rightarrow> cursor_key c < k)"

lemma cursor_predicate_above:
  "\<not> is_before cursor \<Longrightarrow> cursor_predicate key cursor r = above_cursor cursor (key r)"
  by (cases "key r")
    (auto simp: cursor_predicate_def is_before_def above_cursor_def cursor_key_def less_prod_def'
      split: option.splits PageDirection.splits)

subsection \<open>One forward page\<close>

definition rows_above ::
  "('r \<Rightarrow> string \<times> string) \<Rightarrow> (PageDirection \<times> PageCursor) option \<Rightarrow> 'r list \<Rightarrow> 'r list" where
  "rows_above key cursor tbl = sort_key key (filter (\<lambda>r. above_cursor cursor (key r)) tbl)"

lemma forward_page:
  assumes fwd: "\<not> is_before cursor" and pos: "0 < limit"
    and rows: "\<And>r. row_map r = Inr (key_cursor (key r), r)"
  shows "fetch_keyset_page enc key row_map tbl limit cursor =
    Inr (take limit (rows_above key cursor tbl),
         if limit < length (rows_above key cursor tbl)
         then Some (PageCursor_encode enc (key_cursor (key (last (take limit (rows_above key cursor tbl))))))
         else None)"
proof -
  let ?S = "rows_above key cursor tbl"
  have "cursor_predicate key cursor = (\<lambda>r. above_cursor cursor (key r))"
    by (rule ext) (rule cursor_predicate_above [OF fwd])
  then have S: "sort_key key (filter (cursor_predicate key cursor) tbl) = ?S"
    by (simp add: rows_above_def)
  have trav: "rtraverse row_map xs = Inr (map (\<lambda>r. (key_cursor (key r), r)) xs)" for xs
    by (rule rtraverse_total) (rule rows)
  have "take limit ?S \<noteq> []" if "limit < length ?S"
    using that pos by auto
  then show ?thesis
    using fwd pos by (auto simp: fetch_keyset_page_def Let_def S trav last_map comp_def)
qed

lemma rows_above_set: "set (rows_above key cursor tbl) = {r \<in> set tbl. above_cursor cursor (key r)}"
  by (auto simp: rows_above_def)

lemma rows_above_strict:
  assumes "distinct (map key tbl)"
  shows "sorted_wrt (<) (map key (rows_above key cursor tbl))"
proof -
  let ?f = "filter (\<lambda>r. above_cursor cursor (key r)) tbl"
  have "distinct (map key ?f)"
    using assms by (simp add: distinct_map_filter)
  then have "distinct (map key (rows_above key cursor tbl))"
    by (simp add: rows_above_def distinct_map)
  moreover have "sorted (map key (rows_above key cursor tbl))"
    by (simp add: rows_above_def)
  ultimately show ?thesis by (simp add: strict_sorted_iff)
qed

lemma last_take_in:
  assumes "0 < n" and "n < length xs"
  shows "last (take n xs) \<in> set (take n xs)" and "last (take n xs) \<in> set xs"
proof -
  have "take n xs \<noteq> []" using assms by auto
  then show "last (take n xs) \<in> set (take n xs)" by (rule last_in_set)
  then show "last (take n xs) \<in> set xs" by (rule in_set_takeD)
qed

lemma last_take_bound:
  fixes key :: "'r \<Rightarrow> string \<times> string"
  assumes "sorted_wrt (<) (map key xs)" and "0 < n" and "n < length xs"
  shows "\<forall>x \<in> set (take n xs). key x \<le> key (last (take n xs))"
    and "\<forall>x \<in> set (drop n xs). key (last (take n xs)) < key x"
proof -
  obtain ys y where tk: "take n xs = ys @ [y]"
    using assms(2,3) by (metis length_greater_0_conv less_trans rev_exhaust take_eq_Nil2 less_irrefl)
  have "sorted_wrt (<) (map key (take n xs) @ map key (drop n xs))"
    using assms(1) by (metis append_take_drop_id map_append)
  then have less: "\<forall>x \<in> set ys. key x < key y" "\<forall>x \<in> set (drop n xs). key y < key x"
    by (auto simp: tk sorted_wrt_append)
  show "\<forall>x \<in> set (take n xs). key x \<le> key (last (take n xs))"
    using less(1) by (auto simp: tk)
  show "\<forall>x \<in> set (drop n xs). key (last (take n xs)) < key x"
    using less(2) by (simp add: tk)
qed

subsection \<open>Following the cursors\<close>

text \<open>What a client needs of the surrounding code: the base64 engine decodes what it encoded, and
  the row decoder returns the row with the cursor of its own key columns.\<close>

definition page_codec :: "(string \<Rightarrow> string) \<Rightarrow> (string \<Rightarrow> string option) \<Rightarrow> bool" where
  "page_codec enc dec \<longleftrightarrow> (\<forall>s. dec (enc s) = Some s)"

definition keyed_rows :: "('r \<Rightarrow> string \<times> string) \<Rightarrow> ('r \<Rightarrow> ApiError + (PageCursor \<times> 'r)) \<Rightarrow> bool" where
  "keyed_rows key row_map \<longleftrightarrow> (\<forall>r. row_map r = Inr (key_cursor (key r), r))"

definition good_table :: "('r \<Rightarrow> string \<times> string) \<Rightarrow> 'r list \<Rightarrow> bool" where
  "good_table key tbl \<longleftrightarrow> distinct (map key tbl) \<and> list_all (\<lambda>r. clean_key (key r)) tbl"

lemma follow_step:
  assumes codec: "page_codec enc dec" and rows: "keyed_rows key row_map" and pos: "0 < limit"
    and fwd: "\<not> is_before cursor" and tbl: "good_table key tbl"
  defines "S \<equiv> rows_above key cursor tbl"
  shows "follow_pages enc dec key row_map limit cursor (tbl # tbls) =
    (if limit < length S
     then rbind (follow_pages enc dec key row_map limit
            (Some (After, key_cursor (key (last (take limit S))))) tbls)
          (\<lambda>(rest, done). Inr (take limit S @ rest, done))
     else Inr (S, True))"
proof -
  have page: "fetch_keyset_page enc key row_map tbl limit cursor = Inr (take limit S,
      if limit < length S then Some (PageCursor_encode enc (key_cursor (key (last (take limit S))))) else None)"
    unfolding S_def using fwd pos rows by (intro forward_page) (simp_all add: keyed_rows_def)
  have "PageCursor_decode dec (PageCursor_encode enc (key_cursor (key (last (take limit S)))))
      = Inr (key_cursor (key (last (take limit S))))" if "limit < length S"
  proof (rule decode_encode)
    have "last (take limit S) \<in> set S"
      by (rule last_take_in(2) [OF pos that])
    then have "last (take limit S) \<in> set tbl"
      by (simp add: S_def rows_above_set)
    then show "clean_key (key (last (take limit S)))"
      using tbl by (simp add: good_table_def list_all_iff)
  qed (use codec in \<open>simp add: page_codec_def\<close>)
  then show ?thesis
    by (auto simp: page)
qed

lemma follow_strict:
  assumes "page_codec enc dec" and "keyed_rows key row_map" and "0 < limit"
    and "\<forall>tbl \<in> set tbls. good_table key tbl" and "\<not> is_before cursor"
    and "follow_pages enc dec key row_map limit cursor tbls = Inr (items, fin)"
  shows "sorted_wrt (<) (map key items) \<and> (\<forall>x \<in> set items. above_cursor cursor (key x))"
  using assms(4-6)
proof (induction tbls arbitrary: cursor items fin)
  case (Cons tbl tbls)
  let ?S = "rows_above key cursor tbl"
  have strict: "sorted_wrt (<) (map key ?S)"
    using Cons.prems(1) by (intro rows_above_strict) (simp add: good_table_def)
  note step = follow_step [OF assms(1-3) Cons.prems(2), of tbl tbls]
  show ?case
  proof (cases "limit < length ?S")
    case False
    then have "items = ?S"
      using step Cons.prems by simp
    with strict show ?thesis by (simp add: rows_above_set)
  next
    case True
    let ?k = "key (last (take limit ?S))"
    from True step Cons.prems obtain rest where rest: "items = take limit ?S @ rest"
      "follow_pages enc dec key row_map limit (Some (After, key_cursor ?k)) tbls = Inr (rest, fin)"
      by (auto simp: rbind_eq_Inr)
    have "sorted_wrt (<) (map key rest) \<and> (\<forall>x \<in> set rest. above_cursor (Some (After, key_cursor ?k)) (key x))"
      using Cons.prems(1) rest(2) by (intro Cons.IH) (auto simp: is_before_def)
    then have ih: "sorted_wrt (<) (map key rest)" "\<forall>x \<in> set rest. ?k < key x"
      by (auto simp: above_cursor_def)
    have le: "\<forall>x \<in> set (take limit ?S). key x \<le> ?k"
      by (rule last_take_bound(1) [OF strict assms(3) True])
    have in_S: "above_cursor cursor (key x)" if "x \<in> set (take limit ?S)" for x
      using in_set_takeD [OF that] by (simp add: rows_above_set)
    have k_above: "above_cursor cursor ?k"
      by (rule in_S) (rule last_take_in(1) [OF assms(3) True])
    have "sorted_wrt (<) (map key (take limit ?S))"
      using strict by (metis sorted_wrt_take take_map)
    then have "sorted_wrt (<) (map key items)"
      using ih le by (auto simp: rest(1) sorted_wrt_append dest: le_less_trans)
    moreover have "above_cursor cursor (key x)" if "x \<in> set rest" for x
      using ih(2) k_above that
      by (auto simp: above_cursor_def split: option.splits dest: less_trans)
    ultimately show ?thesis
      using in_S by (auto simp: rest(1))
  qed
qed simp

lemma follow_rows:
  assumes "page_codec enc dec" and "keyed_rows key row_map" and "0 < limit"
    and "\<forall>tbl \<in> set tbls. good_table key tbl" and "\<not> is_before cursor"
    and "follow_pages enc dec key row_map limit cursor tbls = Inr (items, fin)"
  shows "set items \<subseteq> \<Union> (set ` set tbls)"
  using assms(4-6)
proof (induction tbls arbitrary: cursor items fin)
  case (Cons tbl tbls)
  let ?S = "rows_above key cursor tbl"
  note step = follow_step [OF assms(1-3) Cons.prems(2), of tbl tbls]
  show ?case
  proof (cases "limit < length ?S")
    case False
    then show ?thesis using step Cons.prems by (auto simp: rows_above_set)
  next
    case True
    let ?c = "Some (After, key_cursor (key (last (take limit ?S))))"
    from True step Cons.prems obtain rest where rest: "items = take limit ?S @ rest"
      "follow_pages enc dec key row_map limit ?c tbls = Inr (rest, fin)"
      by (auto simp: rbind_eq_Inr)
    have "set rest \<subseteq> \<Union> (set ` set tbls)"
      using Cons.prems(1) rest(2) by (intro Cons.IH [of ?c]) (auto simp: is_before_def)
    moreover have "set (take limit ?S) \<subseteq> set tbl"
      using set_take_subset [of limit ?S] by (auto simp: rows_above_set)
    ultimately show ?thesis by (auto simp: rest(1))
  qed
qed simp

lemma follow_complete:
  assumes "page_codec enc dec" and "keyed_rows key row_map" and "0 < limit"
    and "\<forall>tbl \<in> set tbls. good_table key tbl" and "\<not> is_before cursor"
    and "follow_pages enc dec key row_map limit cursor tbls = Inr (items, True)"
    and "\<forall>tbl \<in> set tbls. r \<in> set tbl" and "above_cursor cursor (key r)"
  shows "r \<in> set items"
  using assms(4-8)
proof (induction tbls arbitrary: cursor items)
  case (Cons tbl tbls)
  let ?S = "rows_above key cursor tbl"
  have strict: "sorted_wrt (<) (map key ?S)"
    using Cons.prems(1) by (intro rows_above_strict) (simp add: good_table_def)
  have r: "r \<in> set ?S"
    using Cons.prems(4,5) by (simp add: rows_above_set)
  note step = follow_step [OF assms(1-3) Cons.prems(2), of tbl tbls]
  show ?case
  proof (cases "limit < length ?S")
    case False
    then show ?thesis
      using step Cons.prems r by simp
  next
    case True
    let ?k = "key (last (take limit ?S))"
    from True step Cons.prems obtain rest where rest: "items = take limit ?S @ rest"
      "follow_pages enc dec key row_map limit (Some (After, key_cursor ?k)) tbls = Inr (rest, True)"
      by (auto simp: rbind_eq_Inr)
    show ?thesis
    proof (cases "r \<in> set (take limit ?S)")
      case False
      then have "r \<in> set (drop limit ?S)"
        using r by (metis Un_iff append_take_drop_id set_append)
      then have "?k < key r"
        using last_take_bound(2) [OF strict assms(3) True] by blast
      then have "r \<in> set rest"
        using Cons.prems(1,4) rest(2)
        by (intro Cons.IH [of "Some (After, key_cursor ?k)"]) (auto simp: is_before_def above_cursor_def)
      then show ?thesis by (simp add: rest(1))
    qed (simp add: rest(1))
  qed
qed simp

lemma follow_finishes:
  assumes "page_codec enc dec" and "keyed_rows key row_map" and "0 < limit"
    and "good_table key tbl" and "\<not> is_before cursor" and "length (rows_above key cursor tbl) < n"
  shows "\<exists>items. follow_pages enc dec key row_map limit cursor (replicate n tbl) = Inr (items, True)"
  using assms(5,6)
proof (induction n arbitrary: cursor)
  case (Suc n)
  let ?S = "rows_above key cursor tbl"
  note step = follow_step [OF assms(1-3) Suc.prems(1) assms(4), of "replicate n tbl"]
  show ?case
  proof (cases "limit < length ?S")
    case True
    let ?k = "key (last (take limit ?S))"
    let ?c = "Some (After, key_cursor ?k)"
    have strict: "sorted_wrt (<) (map key ?S)"
      using assms(4) by (intro rows_above_strict) (simp add: good_table_def)
    have last: "last (take limit ?S) \<in> set ?S"
      by (rule last_take_in(2) [OF assms(3) True])
    have "set (rows_above key ?c tbl) \<subset> set ?S"
    proof
      show "set (rows_above key ?c tbl) \<subseteq> set ?S"
        using last by (auto simp: rows_above_set above_cursor_def split: option.splits dest: less_trans)
      show "set (rows_above key ?c tbl) \<noteq> set ?S"
        using last by (auto simp: rows_above_set above_cursor_def)
    qed
    moreover have "distinct (rows_above key c tbl)" for c
      using assms(4) by (simp add: rows_above_def good_table_def distinct_map)
    ultimately have "length (rows_above key ?c tbl) < length ?S"
      by (metis List.finite_set distinct_card psubset_card_mono)
    then have "\<exists>items. follow_pages enc dec key row_map limit ?c (replicate n tbl) = Inr (items, True)"
      using Suc.prems(2) by (intro Suc.IH) (auto simp: is_before_def)
    then show ?thesis
      using True step by auto
  qed (use step in simp)
qed simp

subsection \<open>Properties\<close>

text \<open>C14: following the cursors of a list endpoint enumerates the whole table.  With any positive
  page size, a client that starts without a cursor and follows \<open>next_cursor\<close> sees every row
  exactly once, in key order, and the last page reports that nothing follows.  The base64 engine is
  assumed to decode what it encoded, and the row decoder to return the row under its own key.\<close>

theorem keyset_walk_exact:
  assumes "page_codec enc dec" and "keyed_rows key row_map" and "0 < limit" and "good_table key tbl"
  shows "follow_pages enc dec key row_map limit None (replicate (Suc (length tbl)) tbl)
    = Inr (sort_key key tbl, True)"
proof -
  let ?ts = "replicate (Suc (length tbl)) tbl"
  have fwd: "\<not> is_before None" by (simp add: is_before_def)
  have good: "\<forall>t \<in> set ?ts. good_table key t" using assms(4) by simp
  obtain items where items: "follow_pages enc dec key row_map limit None ?ts = Inr (items, True)"
    using follow_finishes [OF assms fwd, of "Suc (length tbl)"]
    by (auto simp: rows_above_def above_cursor_def)
  have strict: "sorted_wrt (<) (map key items)"
    using follow_strict [OF assms(1-3) good fwd items] by simp
  have sub: "set items \<subseteq> set tbl"
    using follow_rows [OF assms(1-3) good fwd items] by auto
  have "set items = set tbl"
    using sub follow_complete [OF assms(1-3) good fwd items] by (auto simp: above_cursor_def)
  moreover have "distinct items" "distinct tbl"
    using strict assms(4) by (auto simp: strict_sorted_iff distinct_map good_table_def)
  ultimately have "mset items = mset tbl"
    by (simp add: set_eq_iff_mset_eq_distinct)
  moreover have "inj_on key (set tbl)"
    using assms(4) by (simp add: good_table_def distinct_map)
  ultimately have "sort_key key tbl = items"
    using strict by (intro sort_key_inj_key_eq) (simp_all add: strict_sorted_iff)
  with items show ?thesis by simp
qed

text \<open>C15: pagination is stable while rows are inserted and deleted between the requests.  No row is
  returned twice, the keys strictly increase over the whole walk, and a row that exists during the
  whole walk is never skipped.\<close>

theorem keyset_walk_stable:
  assumes "page_codec enc dec" and "keyed_rows key row_map" and "0 < limit"
    and "\<forall>tbl \<in> set tbls. good_table key tbl"
    and "follow_pages enc dec key row_map limit None tbls = Inr (items, fin)"
  shows "sorted_wrt (<) (map key items) \<and> distinct items
    \<and> (fin \<longrightarrow> (\<forall>r. (\<forall>tbl \<in> set tbls. r \<in> set tbl) \<longrightarrow> r \<in> set items))"
proof -
  have fwd: "\<not> is_before None" by (simp add: is_before_def)
  have strict: "sorted_wrt (<) (map key items)"
    using follow_strict [OF assms(1-4) fwd assms(5)] by simp
  moreover from strict have "distinct items"
    by (simp add: strict_sorted_iff distinct_map)
  moreover have "r \<in> set items" if fin and "\<forall>tbl \<in> set tbls. r \<in> set tbl" for r
    using follow_complete [OF assms(1-4) fwd _ that(2)] assms(5) that(1)
    by (simp add: above_cursor_def)
  ultimately show ?thesis by blast
qed

text \<open>Witness of the two properties above: three rows in pages of two, with the identity codec.\<close>

definition sample_rows :: "(string \<times> string) list" where
  "sample_rows = [(''2026-01-03'', ''c''), (''2026-01-01'', ''a''), (''2026-01-02'', ''b'')]"

lemma sample_rows_good: "good_table (\<lambda>r. r) sample_rows"
  by (simp add: good_table_def sample_rows_def clean_key_def PAGE_CURSOR_SEP_def valid_utf8_def byte_def)

lemma identity_codec: "page_codec (\<lambda>s. s) Some"
  by (simp add: page_codec_def)

lemma identity_rows: "keyed_rows (\<lambda>r. r) (\<lambda>r. Inr (key_cursor r, r))"
  by (simp add: keyed_rows_def)

lemma sample_rows_sorted:
  "sort_key (\<lambda>r. r) sample_rows = [(''2026-01-01'', ''a''), (''2026-01-02'', ''b''), (''2026-01-03'', ''c'')]"
  by code_simp

theorem keyset_walk_exact_witness:
  "follow_pages (\<lambda>s. s) Some (\<lambda>r. r) (\<lambda>r. Inr (key_cursor r, r)) 2 None (replicate 4 sample_rows)
    = Inr ([(''2026-01-01'', ''a''), (''2026-01-02'', ''b''), (''2026-01-03'', ''c'')], True)"
proof -
  have "length sample_rows = 3" by (simp add: sample_rows_def)
  then show ?thesis
    using keyset_walk_exact [OF identity_codec identity_rows _ sample_rows_good, of 2] sample_rows_sorted
    by (simp add: numeral_eq_Suc)
qed

lemma sample_walk:
  "\<exists>items fin. follow_pages (\<lambda>s. s) Some (\<lambda>r. r) (\<lambda>r. Inr (key_cursor r, r)) 2 None
     [sample_rows] = Inr (items, fin)"
proof -
  have fwd: "\<not> is_before None" by (simp add: is_before_def)
  show ?thesis
    using follow_step [OF identity_codec identity_rows _ fwd sample_rows_good, of 2 "[]"] by auto
qed

theorem keyset_walk_stable_witness:
  "\<exists>items fin. follow_pages (\<lambda>s. s) Some (\<lambda>r. r) (\<lambda>r. Inr (key_cursor r, r)) 2 None
     [sample_rows] = Inr (items, fin) \<and> sorted_wrt (<) (map (\<lambda>r. r) items)"
proof -
  obtain items fin where walk: "follow_pages (\<lambda>s. s) Some (\<lambda>r. r) (\<lambda>r. Inr (key_cursor r, r)) 2 None
     [sample_rows] = Inr (items, fin)"
    using sample_walk by blast
  have "\<forall>tbl \<in> set [sample_rows]. good_table (\<lambda>r. r) tbl"
    using sample_rows_good by simp
  from keyset_walk_stable [OF identity_codec identity_rows _ this walk] walk show ?thesis by auto
qed

text \<open>Every page request is bounded.  The resolved page size lies between one and two hundred,
  and it is the requested size whenever that is in range.\<close>

theorem resolve_page_limit_bounds:
  assumes "resolve_page_limit limit = Inr n"
  shows "1 \<le> n \<and> n \<le> 200 \<and> (\<forall>v. limit = Some v \<longrightarrow> v \<le> 200 \<longrightarrow> n = v)"
  using assms
  by (auto simp: resolve_page_limit_def DEFAULT_PAGE_LIMIT_def MAX_PAGE_LIMIT_def
      split: option.splits if_splits)

theorem resolve_page_limit_bounds_witness:
  "resolve_page_limit (Some 5000) = Inr 200 \<and> (1::nat) \<le> 200"
proof -
  have "resolve_page_limit (Some 5000) = Inr 200"
    by (simp add: resolve_page_limit_def MAX_PAGE_LIMIT_def)
  with resolve_page_limit_bounds [OF this] show ?thesis by simp
qed

end
