(* ===== verification/Tenant_Limits.thy ===== *)
theory Tenant_Limits
  imports Api_Error
begin

section \<open>Tenant rate limits and quotas\<close>

text \<open>
  \<open>crates/sandboxwich-api/src/limits.rs\<close>: the fixed-window counters that the middleware consumes
  with one upsert per request, the policies operators set, and the sweep of expired counters.
  The tables are maps on their primary keys; the clock readings are arguments, in nanoseconds.
\<close>

definition nanos :: int where
  "nanos = 1000000000"

datatype CounterKind =
  RequestCounter
| MutationCounter

record TenantLimitPolicy =
  tlp_tenant_id :: string
  tlp_request_limit :: nat
  tlp_mutation_limit :: nat
  tlp_window_seconds :: nat

record limit_counter =
  lc_used :: nat
  lc_window_started_at :: timestamp
  lc_window_expires_at :: timestamp

record limits_state =
  limit_policies :: "string \<rightharpoonup> TenantLimitPolicy"
  limit_counters :: "string \<times> CounterKind \<rightharpoonup> limit_counter"

subsection \<open>Consuming a counter\<close>

text \<open>The upsert: \<open>None\<close> is the empty \<open>returning\<close> of a conflict whose \<open>where\<close> fails.\<close>

definition consume_counter ::
  "limit_counter option \<Rightarrow> timestamp \<Rightarrow> nat \<Rightarrow> nat \<Rightarrow> limit_counter option" where
  "consume_counter counter now limit window_seconds =
     (let excluded = \<lparr>lc_used = 1, lc_window_started_at = now,
            lc_window_expires_at = now + int window_seconds * nanos\<rparr> in
      case counter of
        None \<Rightarrow> Some excluded
      | Some c \<Rightarrow>
          if lc_window_expires_at c \<le> lc_window_started_at excluded then Some excluded
          else if lc_used c < limit then Some (c\<lparr>lc_used := lc_used c + 1\<rparr>)
          else None)"

record limit_rejection =
  rej_code :: string
  rej_message :: string
  rej_retry_after :: int

definition counter_retry_after :: "limit_counter option \<Rightarrow> timestamp \<Rightarrow> int option" where
  "counter_retry_after counter now =
     map_option (\<lambda>c.
       (let d = lc_window_expires_at c - now;
            num_seconds = (if d \<ge> 0 then d div nanos else - ((- d) div nanos))
        in max num_seconds 0 + 1)) counter"

definition consume ::
  "limits_state \<Rightarrow> string \<Rightarrow> CounterKind \<Rightarrow> nat \<Rightarrow> nat \<Rightarrow> timestamp \<Rightarrow> timestamp
     \<Rightarrow> limits_state \<times> limit_rejection option" where
  "consume s tenant kind limit window_seconds now later =
     (case consume_counter (limit_counters s (tenant, kind)) now limit window_seconds of
        Some c \<Rightarrow> (s\<lparr>limit_counters := (limit_counters s)((tenant, kind) \<mapsto> c)\<rparr>, None)
      | None \<Rightarrow>
          (let retry_after = (case counter_retry_after (limit_counters s (tenant, kind)) later of
                 Some r \<Rightarrow> r | None \<Rightarrow> 1);
               (code, message) = (case kind of
                 RequestCounter \<Rightarrow> (''tenant_rate_limit_exceeded'', ''tenant request rate limit exceeded'')
               | MutationCounter \<Rightarrow> (''tenant_mutation_quota_exceeded'', ''tenant mutation quota exceeded''))
           in (s, Some \<lparr>rej_code = code, rej_message = message, rej_retry_after = retry_after\<rparr>)))"

datatype http_method =
  GET
| HEAD
| OPTIONS
| POST
| PUT
| PATCH
| DELETE

definition is_mutating :: "http_method \<Rightarrow> bool" where
  "is_mutating m \<longleftrightarrow> m \<in> {POST, PUT, PATCH, DELETE}"

text \<open>The middleware: \<open>context\<close> is the tenant of an authenticated caller with whether it is an
  operator; the four times are the clock readings of the two consumptions and of their rejections.\<close>

definition enforce_tenant_limits ::
  "limits_state \<Rightarrow> (string \<times> bool) option \<Rightarrow> http_method \<Rightarrow> timestamp \<Rightarrow> timestamp \<Rightarrow> timestamp \<Rightarrow> timestamp
     \<Rightarrow> limits_state \<times> limit_rejection option" where
  "enforce_tenant_limits s context m t1 t1' t2 t2' =
     (case context of
        None \<Rightarrow> (s, None)
      | Some (tenant, is_operator) \<Rightarrow>
          if is_operator then (s, None)
          else (case limit_policies s tenant of
            None \<Rightarrow> (s, None)
          | Some policy \<Rightarrow>
              (case consume s tenant RequestCounter (tlp_request_limit policy) (tlp_window_seconds policy) t1 t1' of
                 (s', Some rej) \<Rightarrow> (s', Some rej)
               | (s', None) \<Rightarrow>
                   if is_mutating m
                   then consume s' tenant MutationCounter (tlp_mutation_limit policy)
                          (tlp_window_seconds policy) t2 t2'
                   else (s', None))))"

subsection \<open>Policies and the sweep\<close>

definition put_tenant_limit_policy ::
  "limits_state \<Rightarrow> string \<Rightarrow> nat \<Rightarrow> nat \<Rightarrow> nat \<Rightarrow> ApiError + (limits_state \<times> TenantLimitPolicy)" where
  "put_tenant_limit_policy s tenant request_limit mutation_limit window_seconds =
     (if trim tenant = [] \<or> request_limit = 0 \<or> mutation_limit = 0 \<or> window_seconds = 0
      then Inl (bad_request ''tenant and all tenant limit values must be non-zero'')
      else
        (let policy = \<lparr>tlp_tenant_id = tenant, tlp_request_limit = request_limit,
               tlp_mutation_limit = mutation_limit, tlp_window_seconds = window_seconds\<rparr>
         in Inr (s\<lparr>limit_policies := (limit_policies s)(tenant \<mapsto> policy)\<rparr>, policy)))"

definition get_tenant_limit_policy :: "limits_state \<Rightarrow> string \<Rightarrow> ApiError + TenantLimitPolicy" where
  "get_tenant_limit_policy s tenant =
     ok_or (not_found ''tenant limit policy not found'') (limit_policies s tenant)"

text \<open>\<open>expire_tenant_limit_counters\<close> deletes a bounded batch of expired counters; \<open>batch\<close> is the set
  of keys the query selects.\<close>

definition expire_tenant_limit_counters ::
  "limits_state \<Rightarrow> timestamp \<Rightarrow> (string \<times> CounterKind) set \<Rightarrow> limits_state" where
  "expire_tenant_limit_counters s now batch =
     s\<lparr>limit_counters := (\<lambda>k. case limit_counters s k of
         Some c \<Rightarrow> if k \<in> batch \<and> lc_window_expires_at c \<le> now then None else Some c
       | None \<Rightarrow> None)\<rparr>"

subsection \<open>A run of requests against one counter\<close>

text \<open>The admitted requests with the start of the window that admitted them.  A sweep between two
  requests may remove an expired counter.\<close>

datatype counter_event =
  Request timestamp
| Sweep timestamp

fun event_time :: "counter_event \<Rightarrow> timestamp" where
  "event_time (Request t) = t"
| "event_time (Sweep t) = t"

fun run_counter ::
  "nat \<Rightarrow> nat \<Rightarrow> limit_counter option \<Rightarrow> counter_event list \<Rightarrow> (timestamp \<times> timestamp) list" where
  "run_counter limit window c [] = []"
| "run_counter limit window c (Request t # es) =
     (case consume_counter c t limit window of
        Some c' \<Rightarrow> (t, lc_window_started_at c') # run_counter limit window (Some c') es
      | None \<Rightarrow> run_counter limit window c es)"
| "run_counter limit window c (Sweep t # es) =
     run_counter limit window
       (case c of Some c' \<Rightarrow> if lc_window_expires_at c' \<le> t then None else c | None \<Rightarrow> None) es"

definition counter_ok :: "nat \<Rightarrow> nat \<Rightarrow> limit_counter option \<Rightarrow> bool" where
  "counter_ok limit window c =
     (case c of None \<Rightarrow> True
      | Some c \<Rightarrow> lc_used c \<le> limit \<and> 1 \<le> lc_used c
          \<and> lc_window_expires_at c = lc_window_started_at c + int window * nanos)"

lemma nanos_pos [simp]: "0 < nanos" "0 \<le> nanos" "nanos \<noteq> 0"
  by (simp_all add: nanos_def)

lemma consume_counter_cases:
  assumes "consume_counter c t limit window = Some c'"
  obtains
    (fresh) "lc_used c' = 1" "lc_window_started_at c' = t"
      "lc_window_expires_at c' = t + int window * nanos"
      "\<forall>d. c = Some d \<longrightarrow> lc_window_expires_at d \<le> t"
  | (more) d where "c = Some d" "lc_used d < limit" "c' = d\<lparr>lc_used := lc_used d + 1\<rparr>"
      "t < lc_window_expires_at d"
proof -
  note a = assms [unfolded consume_counter_def Let_def]
  show thesis
  proof (cases c)
    case None
    with a show thesis by (intro fresh) auto
  next
    case (Some d)
    show thesis
    proof (cases "lc_window_expires_at d \<le> t")
      case True
      with a Some show thesis by (intro fresh) auto
    next
      case False
      with a Some show thesis by (intro more [of d]) (auto split: if_splits)
    qed
  qed
qed

lemma consume_counter_ok:
  assumes "consume_counter c t limit window = Some c'" and "counter_ok limit window c" and "0 < limit"
  shows "counter_ok limit window (Some c')"
  using assms(1)
proof (cases rule: consume_counter_cases)
  case fresh
  with assms(3) show ?thesis by (simp add: counter_ok_def)
next
  case (more d)
  with assms(2) show ?thesis by (simp add: counter_ok_def)
qed

text \<open>Admissions still possible in the window that starts at \<open>s\<close>, when no event is older than
  \<open>t0\<close>.\<close>

definition window_left :: "nat \<Rightarrow> limit_counter option \<Rightarrow> timestamp \<Rightarrow> timestamp \<Rightarrow> nat" where
  "window_left limit c t0 s =
     (case c of
        Some d \<Rightarrow> if lc_window_started_at d = s then limit - lc_used d else if t0 \<le> s then limit else 0
      | None \<Rightarrow> if t0 \<le> s then limit else 0)"

definition timely :: "timestamp \<Rightarrow> counter_event list \<Rightarrow> bool" where
  "timely t0 es \<longleftrightarrow> sorted (t0 # map event_time es)"

lemma timely_Cons: "timely t0 (e # es) \<longleftrightarrow> t0 \<le> event_time e \<and> timely (event_time e) es"
  by (auto simp: timely_def)

lemma window_left_mono: "t0 \<le> t \<Longrightarrow> window_left limit c t s \<le> window_left limit c t0 s"
  by (auto simp: window_left_def split: option.split)

lemma window_left_expired:
  assumes "counter_ok limit window (Some d)" and "lc_window_expires_at d \<le> t" and "0 < window" and "t0 \<le> t"
  shows "window_left limit None t s \<le> window_left limit (Some d) t0 s"
proof -
  have "0 < int window * nanos" using assms(3) by simp
  then have "lc_window_started_at d < t"
    using assms(1,2) by (simp add: counter_ok_def)
  then show ?thesis
    using assms(4) by (auto simp: window_left_def)
qed

lemma run_counter_window_bound:
  assumes "0 < limit" and "0 < window" and "counter_ok limit window c" and "timely t0 es"
  shows "length (filter (\<lambda>x. snd x = s) (run_counter limit window c es)) \<le> window_left limit c t0 s"
  using assms(3,4)
proof (induction es arbitrary: c t0)
  case (Cons e es)
  show ?case
  proof (cases e)
    case (Sweep t)
    with Cons.prems have t: "t0 \<le> t" "timely t es" by (simp_all add: timely_Cons)
    let ?c = "case c of Some c' \<Rightarrow> if lc_window_expires_at c' \<le> t then None else c | None \<Rightarrow> None"
    have "counter_ok limit window ?c"
      using Cons.prems(1) by (auto simp: counter_ok_def split: option.splits)
    from Cons.IH [OF this t(2)] have "length (filter (\<lambda>x. snd x = s) (run_counter limit window c (e # es)))
        \<le> window_left limit ?c t s" by (simp add: Sweep)
    also have "\<dots> \<le> window_left limit c t0 s"
    proof (cases "\<exists>d. c = Some d \<and> lc_window_expires_at d \<le> t")
      case True
      then obtain d where "c = Some d" "lc_window_expires_at d \<le> t" by blast
      then show ?thesis
        using window_left_expired [OF _ _ assms(2) t(1), of limit d] Cons.prems(1) by simp
    next
      case False
      then have "?c = c" by (auto split: option.split)
      then show ?thesis using window_left_mono [OF t(1)] by simp
    qed
    finally show ?thesis .
  next
    case (Request t)
    with Cons.prems have t: "t0 \<le> t" "timely t es" by (simp_all add: timely_Cons)
    show ?thesis
    proof (cases "consume_counter c t limit window")
      case None
      then show ?thesis
        using Cons.IH [OF Cons.prems(1) t(2)] window_left_mono [OF t(1), of limit c s]
        by (simp add: Request)
    next
      case (Some c')
      have ok': "counter_ok limit window (Some c')"
        by (rule consume_counter_ok [OF Some Cons.prems(1) assms(1)])
      have run: "run_counter limit window c (e # es)
          = (t, lc_window_started_at c') # run_counter limit window (Some c') es"
        by (simp add: Request Some)
      note ih = Cons.IH [OF ok' t(2)]
      from Some show ?thesis
      proof (cases rule: consume_counter_cases)
        case fresh
        have old: "window_left limit None t s' \<le> window_left limit c t0 s'" for s'
        proof (cases c)
          case None
          then show ?thesis using t(1) by (simp add: window_left_def)
        next
          case (Some d)
          then show ?thesis
            using window_left_expired [OF _ _ assms(2) t(1), of limit d] Cons.prems(1) fresh(4) by simp
        qed
        have "length (filter (\<lambda>x. snd x = s) (run_counter limit window c (e # es)))
            \<le> window_left limit None t s"
          using ih fresh(1,2) assms(1) unfolding run by (auto simp: window_left_def)
        with old [of s] show ?thesis by simp
      next
        case (more d)
        then show ?thesis
          using ih t(1) unfolding run by (auto simp: window_left_def split: if_splits)
      qed
    qed
  qed
qed simp

lemma run_counter_starts:
  assumes "0 < limit" and "0 < window" and "counter_ok limit window c" and "timely t0 es"
    and "x \<in> set (run_counter limit window c es)"
  shows "(\<exists>d. c = Some d \<and> snd x = lc_window_started_at d)
    \<or> (t0 \<le> snd x \<and> (\<forall>d. c = Some d \<longrightarrow> lc_window_expires_at d \<le> snd x))"
  using assms(3-5)
proof (induction es arbitrary: c t0)
  case (Cons e es)
  show ?case
  proof (cases e)
    case (Sweep t)
    with Cons.prems have t: "t0 \<le> t" "timely t es" by (simp_all add: timely_Cons)
    let ?c = "case c of Some c' \<Rightarrow> if lc_window_expires_at c' \<le> t then None else c | None \<Rightarrow> None"
    have ok: "counter_ok limit window ?c"
      using Cons.prems(1) by (auto simp: counter_ok_def split: option.splits)
    have "x \<in> set (run_counter limit window ?c es)"
      using Cons.prems(3) by (simp add: Sweep)
    from Cons.IH [OF ok t(2) this] t(1) show ?thesis
      by (auto split: option.splits if_splits)
  next
    case (Request t)
    with Cons.prems have t: "t0 \<le> t" "timely t es" by (simp_all add: timely_Cons)
    show ?thesis
    proof (cases "consume_counter c t limit window")
      case None
      then have "x \<in> set (run_counter limit window c es)"
        using Cons.prems(3) by (simp add: Request)
      from Cons.IH [OF Cons.prems(1) t(2) this] t(1) show ?thesis by auto
    next
      case (Some c')
      have ok': "counter_ok limit window (Some c')"
        by (rule consume_counter_ok [OF Some Cons.prems(1) assms(1)])
      have "0 \<le> int window * nanos" by simp
      have x: "x = (t, lc_window_started_at c') \<or> x \<in> set (run_counter limit window (Some c') es)"
        using Cons.prems(3) by (simp add: Request Some)
      have later: "snd x = lc_window_started_at c' \<or> (t \<le> snd x \<and> lc_window_expires_at c' \<le> snd x)"
        using x Cons.IH [OF ok' t(2)] by auto
      from Some show ?thesis
      proof (cases rule: consume_counter_cases)
        case fresh
        then show ?thesis using later t(1) by fastforce
      next
        case (more d)
        then show ?thesis using later t(1) by auto
      qed
    qed
  qed
qed simp

lemma run_counter_spacing:
  assumes "0 < limit" and "0 < window" and "counter_ok limit window c" and "timely t0 es"
  shows "sorted_wrt (\<lambda>x y. snd x = snd y \<or> snd x + int window * nanos \<le> snd y)
      (run_counter limit window c es)"
  using assms(3,4)
proof (induction es arbitrary: c t0)
  case (Cons e es)
  show ?case
  proof (cases e)
    case (Sweep t)
    with Cons.prems have t: "timely t es" by (simp add: timely_Cons)
    show ?thesis
      using Cons.prems(1) by (auto simp: Sweep intro!: Cons.IH [OF _ t] split: option.splits)
        (simp add: counter_ok_def)
  next
    case (Request t)
    with Cons.prems have t: "timely t es" by (simp add: timely_Cons)
    show ?thesis
    proof (cases "consume_counter c t limit window")
      case None
      then show ?thesis
        using Cons.IH [OF Cons.prems(1) t] by (simp add: Request)
    next
      case (Some c')
      have ok': "counter_ok limit window (Some c')"
        by (rule consume_counter_ok [OF Some Cons.prems(1) assms(1)])
      have "lc_window_started_at c' = snd x \<or> lc_window_started_at c' + int window * nanos \<le> snd x"
        if "x \<in> set (run_counter limit window (Some c') es)" for x
        using run_counter_starts [OF assms(1,2) ok' t that] ok' by (auto simp: counter_ok_def)
      then show ?thesis
        using Cons.IH [OF ok' t] by (auto simp: Request Some)
    qed
  qed
qed simp

subsection \<open>Properties\<close>



text \<open>The retry hint of a rejection is honest.  A rejected request leaves every counter as it
  was, and a caller that waits the advertised number of whole seconds from the moment of the
  rejection finds the window expired and is admitted.\<close>

theorem rejected_retry_after:
  assumes "consume s tenant kind limit window now later = (s', Some rej)"
    and "later + rej_retry_after rej * nanos \<le> retry_at"
  shows "s' = s \<and> 1 \<le> rej_retry_after rej
    \<and> snd (consume s' tenant kind limit window retry_at retry_at) = None"
proof -
  from assms(1) have rejected: "consume_counter (limit_counters s (tenant, kind)) now limit window = None"
    and s': "s' = s"
    by (auto simp: consume_def Let_def split: option.splits CounterKind.splits)
  from rejected obtain c where c: "limit_counters s (tenant, kind) = Some c"
    by (cases "limit_counters s (tenant, kind)") (auto simp: consume_counter_def)
  let ?d = "lc_window_expires_at c - later"
  let ?secs = "if ?d \<ge> 0 then ?d div nanos else - ((- ?d) div nanos)"
  have rej: "rej_retry_after rej = max ?secs 0 + 1"
    using assms(1) rejected c
    by (auto simp: consume_def Let_def counter_retry_after_def split: CounterKind.splits)
  have "?d \<le> (max ?secs 0 + 1) * nanos"
  proof (cases "?d \<ge> 0")
    case True
    have "?d = ?d div nanos * nanos + ?d mod nanos" by simp
    also have "?d mod nanos < nanos" by simp
    finally show ?thesis
      using True by (simp add: pos_imp_zdiv_nonneg_iff algebra_simps)
  next
    case False
    have "0 \<le> (max ?secs 0 + 1) * nanos" by simp
    with False show ?thesis by linarith
  qed
  then have "lc_window_expires_at c \<le> retry_at"
    using assms(2) unfolding rej by linarith
  then have "snd (consume s tenant kind limit window retry_at retry_at) = None"
    by (simp add: consume_def c consume_counter_def)
  with s' rej show ?thesis by simp
qed

definition full_counters :: limits_state where
  "full_counters = \<lparr>limit_policies = (\<lambda>_. None),
     limit_counters = (\<lambda>k. if k = (''acme'', RequestCounter)
       then Some \<lparr>lc_used = 3, lc_window_started_at = 0, lc_window_expires_at = 60 * nanos\<rparr> else None)\<rparr>"

lemma full_counters_reject:
  "consume full_counters ''acme'' RequestCounter 3 60 (10 * nanos) (10 * nanos)
     = (full_counters, Some \<lparr>rej_code = ''tenant_rate_limit_exceeded'',
          rej_message = ''tenant request rate limit exceeded'', rej_retry_after = 51\<rparr>)"
  by (simp add: consume_def full_counters_def consume_counter_def counter_retry_after_def nanos_def)

text \<open>Witness of the property above.\<close>

theorem rejected_retry_after_witness:
  "snd (consume full_counters ''acme'' RequestCounter 3 60 (61 * nanos) (61 * nanos)) = None"
  using rejected_retry_after [OF full_counters_reject, of "61 * nanos"] by (simp add: nanos_def)

end
