(* ===== verification/Lifetimes.thy ===== *)
theory Lifetimes
  imports Sandbox_Lifecycle Sandbox_Spec Tenant_Limits
begin

section \<open>Sandbox lifetimes\<close>

text \<open>
  The lifetime arithmetic of the control plane: \<open>crates/sandboxwich-api/src/util.rs\<close>, the deadline
  decisions of \<open>crates/sandboxwich-api/src/reap.rs\<close>, the throttled activity column of
  \<open>crates/sandboxwich-api/src/activity.rs\<close> and the two casts that store a lifetime in an \<open>i64\<close>
  column.

  The addition of seconds to a \<open>DateTime\<close> belongs to the package \<open>chrono\<close> and is the parameter
  \<open>add_seconds\<close>; \<open>None\<close> is its documented panic on a value out of range.  The functions that
  reach it return an option whose \<open>None\<close> is that panic.
\<close>

type_synonym add_seconds = "timestamp \<Rightarrow> int \<Rightarrow> timestamp option"

definition i64_max :: int where
  "i64_max = 2 ^ 63 - 1"

subsection \<open>Request and configuration values\<close>

definition expires_at_from_ttl ::
  "add_seconds \<Rightarrow> timestamp \<Rightarrow> nat option \<Rightarrow> (ApiError + timestamp option) option" where
  "expires_at_from_ttl add now ttl_seconds = (case ttl_seconds of
     None \<Rightarrow> Some (Inr None)
   | Some ttl \<Rightarrow>
       if int ttl \<le> i64_max then map_option (\<lambda>t. Inr (Some t)) (add now (int ttl))
       else Some (Inl (bad_request ''ttl_seconds is too large'')))"

definition count_to_i64 :: "nat \<Rightarrow> ApiError + int" where
  "count_to_i64 cnt = (if int cnt \<le> i64_max then Inr (int cnt)
     else Inl (internal ''cleanup count is too large''))"

definition count_to_u32 :: "int \<Rightarrow> ApiError + nat" where
  "count_to_u32 cnt = (if 0 \<le> cnt \<and> cnt < 2 ^ 32 then Inr (nat cnt)
     else Inl (internal ''database count is out of range''))"

definition clamp_optional_lifetime :: "nat option \<Rightarrow> nat option \<Rightarrow> nat option \<Rightarrow> nat option" where
  "clamp_optional_lifetime requested dflt mx =
     (case (case requested of Some v \<Rightarrow> Some v | None \<Rightarrow> dflt) of
        None \<Rightarrow> None
      | Some v \<Rightarrow> Some (case mx of Some m \<Rightarrow> min v m | None \<Rightarrow> v))"

text \<open>The column is a signed 64-bit integer; both directions are \<open>as\<close> casts.\<close>

definition lifetime_to_column :: "nat \<Rightarrow> int" where
  "lifetime_to_column ttl = sint (of_nat ttl :: 64 word)"

definition lifetime_from_column :: "int \<Rightarrow> nat" where
  "lifetime_from_column ttl = unat (of_int ttl :: 64 word)"

lemma lifetime_column_roundtrip:
  assumes "ttl < 2 ^ 64"
  shows "lifetime_from_column (lifetime_to_column ttl) = ttl"
  using assms by (simp add: lifetime_from_column_def lifetime_to_column_def unat_of_nat take_bit_nat_eq_self)

subsection \<open>Deadlines\<close>

datatype ReapTrigger = MaxLifetime | IdleTtl

definition ReapTrigger_reason :: "ReapTrigger \<Rightarrow> string" where
  "ReapTrigger_reason t = (case t of MaxLifetime \<Rightarrow> ''reaped_max_lifetime'' | IdleTtl \<Rightarrow> ''reaped_idle_ttl'')"

definition deadline_from :: "add_seconds \<Rightarrow> timestamp \<Rightarrow> nat \<Rightarrow> timestamp option" where
  "deadline_from add anchor ttl_seconds =
     (let seconds = (if int ttl_seconds \<le> i64_max then int ttl_seconds else i64_max) in
      add anchor seconds)"

definition max_lifetime_expired ::
  "add_seconds \<Rightarrow> timestamp \<Rightarrow> nat \<Rightarrow> timestamp \<Rightarrow> timestamp option option" where
  "max_lifetime_expired add created_at max_lifetime_seconds now =
     map_option (\<lambda>deadline. if deadline \<le> now then Some deadline else None)
       (deadline_from add created_at max_lifetime_seconds)"

definition idle_ttl_expired ::
  "add_seconds \<Rightarrow> timestamp \<Rightarrow> nat \<Rightarrow> timestamp \<Rightarrow> timestamp option option" where
  "idle_ttl_expired add last_activity_at idle_ttl_seconds now =
     map_option (\<lambda>deadline. if deadline \<le> now then Some deadline else None)
       (deadline_from add last_activity_at idle_ttl_seconds)"

definition reapable_states :: "string list" where
  "reapable_states = map SandboxState_as_db_str STOP_LEGAL_FROM"

definition flatten_options :: "'a option list \<Rightarrow> 'a list" where
  "flatten_options xs = concat (map (\<lambda>x. case x of None \<Rightarrow> [] | Some v \<Rightarrow> [v]) xs)"

definition resolve_last_activity ::
  "timestamp \<Rightarrow> timestamp option \<Rightarrow> timestamp option \<Rightarrow> timestamp" where
  "resolve_last_activity updated_at last_command_at last_activity_at =
     Max (set (flatten_options [Some updated_at, last_command_at, last_activity_at]))"

definition expired_deadline ::
  "add_seconds \<Rightarrow> Sandbox \<Rightarrow> timestamp option \<Rightarrow> timestamp \<Rightarrow> (ReapTrigger \<times> timestamp) option option"
where
  "expired_deadline add sandbox last_command_at now =
     Option.bind
       (case sb_max_lifetime_seconds sandbox of
          None \<Rightarrow> Some None
        | Some s \<Rightarrow> max_lifetime_expired add (sb_created_at sandbox) s now)
       (\<lambda>hard. case hard of
          Some deadline \<Rightarrow> Some (Some (MaxLifetime, deadline))
        | None \<Rightarrow>
            (case sb_idle_ttl_seconds sandbox of
               None \<Rightarrow> Some None
             | Some s \<Rightarrow>
                 map_option (map_option (\<lambda>deadline. (IdleTtl, deadline)))
                   (idle_ttl_expired add
                      (resolve_last_activity (sb_updated_at sandbox) last_command_at
                         (sb_last_activity_at sandbox)) s now)))"

subsection \<open>Activity\<close>

definition ACTIVITY_BUMP_THROTTLE_SECONDS :: int where
  "ACTIVITY_BUMP_THROTTLE_SECONDS = 60"

text \<open>One \<open>update\<close> of the sandbox table; a miss changes nothing.\<close>

definition bump_sandbox_activity :: "Sandbox list \<Rightarrow> uuid \<Rightarrow> timestamp \<Rightarrow> Sandbox list" where
  "bump_sandbox_activity rows sandbox_id now =
     (let throttle_boundary = now - ACTIVITY_BUMP_THROTTLE_SECONDS * nanos in
      map (\<lambda>s. if sb_id s = sandbox_id
                 \<and> (case sb_last_activity_at s of None \<Rightarrow> True | Some t \<Rightarrow> t < throttle_boundary)
               then s\<lparr>sb_last_activity_at := Some now\<rparr> else s) rows)"

subsection \<open>The clamp\<close>

lemma resolve_last_activity_alt:
  "resolve_last_activity u c a =
     max u (max (case c of None \<Rightarrow> u | Some t \<Rightarrow> t) (case a of None \<Rightarrow> u | Some t \<Rightarrow> t))"
  by (cases c; cases a) (simp_all add: resolve_last_activity_def flatten_options_def max.commute max.left_commute)

text \<open>The operator ceiling is final and the clamp settles in one application.  Whatever the
  caller asks for and whatever the default is, an effective lifetime never exceeds a configured
  ceiling, never exceeds what was asked for (or the default when nothing was), is absent exactly
  when neither is given, keeps an explicit zero, and clamping an already clamped value (as a fork
  does with its parent's lifetime) changes nothing.\<close>

theorem clamp_optional_lifetime_final:
  "(\<forall>v m. clamp_optional_lifetime requested dflt (Some m) = Some v \<longrightarrow> v \<le> m)
   \<and> (\<forall>v r. clamp_optional_lifetime (Some r) dflt mx = Some v \<longrightarrow> v \<le> r)
   \<and> (clamp_optional_lifetime requested dflt mx = None \<longleftrightarrow> requested = None \<and> dflt = None)
   \<and> clamp_optional_lifetime (Some 0) dflt mx = Some 0
   \<and> clamp_optional_lifetime (clamp_optional_lifetime requested dflt mx) dflt mx
       = clamp_optional_lifetime requested dflt mx
   \<and> clamp_optional_lifetime requested dflt None = (if requested = None then dflt else requested)"
  by (cases requested; cases dflt; cases mx) (auto simp: clamp_optional_lifetime_def)

text \<open>Witness: the ceiling of one hour cuts a request for two hours.\<close>

theorem clamp_optional_lifetime_final_witness:
  "clamp_optional_lifetime (Some 7200) (Some 600) (Some 3600) = Some 3600 \<and> (3600::nat) \<le> 3600"
proof
  show cl: "clamp_optional_lifetime (Some 7200) (Some 600) (Some 3600) = Some 3600"
    by (simp add: clamp_optional_lifetime_def)
  show "(3600::nat) \<le> 3600"
    using clamp_optional_lifetime_final [of "Some 7200" "Some 600" "Some 3600"] cl by blast
qed

subsection \<open>Deadlines and activity\<close>

definition chrono_adds :: "add_seconds \<Rightarrow> bool" where
  "chrono_adds add \<longleftrightarrow> (\<forall>t s u. add t s = Some u \<longrightarrow> u = t + s * nanos)"

lemma deadline_from_value:
  assumes "chrono_adds add" and "deadline_from add anchor ttl = Some d" and "int ttl \<le> i64_max"
  shows "d = anchor + int ttl * nanos"
  using assms by (simp add: deadline_from_def chrono_adds_def)

text \<open>A touch is one call of the activity column update; \<open>touches\<close> replays them in order.\<close>

definition touches :: "Sandbox list \<Rightarrow> uuid \<Rightarrow> timestamp list \<Rightarrow> Sandbox list" where
  "touches rows sandbox_id ts = foldl (\<lambda>r t. bump_sandbox_activity r sandbox_id t) rows ts"

definition touch_column :: "timestamp option \<Rightarrow> timestamp \<Rightarrow> timestamp option" where
  "touch_column a now =
     (if (case a of None \<Rightarrow> True | Some t \<Rightarrow> t < now - ACTIVITY_BUMP_THROTTLE_SECONDS * nanos)
      then Some now else a)"

lemma bump_sandbox_activity_map:
  "bump_sandbox_activity rows sandbox_id now = map (\<lambda>s. if sb_id s = sandbox_id
     then s\<lparr>sb_last_activity_at := touch_column (sb_last_activity_at s) now\<rparr> else s) rows"
  by (simp add: bump_sandbox_activity_def touch_column_def Let_def split: option.split)

lemma touches_map:
  "touches rows sandbox_id ts = map (\<lambda>s. if sb_id s = sandbox_id
     then s\<lparr>sb_last_activity_at := foldl touch_column (sb_last_activity_at s) ts\<rparr> else s) rows"
proof (induction ts arbitrary: rows)
  case Nil
  show ?case by (simp add: touches_def) (induction rows; simp)
next
  case (Cons t ts)
  then show ?case
    by (simp add: touches_def bump_sandbox_activity_map comp_def cong: if_cong)
qed

lemma touch_column_recent:
  "\<exists>r. touch_column a t = Some r \<and> t - ACTIVITY_BUMP_THROTTLE_SECONDS * nanos \<le> r"
  by (cases a) (auto simp: touch_column_def ACTIVITY_BUMP_THROTTLE_SECONDS_def nanos_def)

lemma touch_column_keeps:
  assumes "a = Some r" and "b \<le> r"
  shows "\<exists>r'. touch_column a t = Some r' \<and> b \<le> r'"
  using assms by (auto simp: touch_column_def ACTIVITY_BUMP_THROTTLE_SECONDS_def nanos_def)

lemma foldl_touch_column_keeps:
  assumes "a = Some r" and "b \<le> r"
  shows "\<exists>r'. foldl touch_column a ts = Some r' \<and> b \<le> r'"
  using assms
proof (induction ts arbitrary: a r)
  case (Cons t ts)
  obtain r' where "touch_column a t = Some r'" and "b \<le> r'"
    using touch_column_keeps [OF Cons.prems] by blast
  then show ?case
    using Cons.IH by simp
qed simp

lemma foldl_touch_column_recent:
  assumes "t \<in> set ts"
  shows "\<exists>r. foldl touch_column a ts = Some r \<and> t - ACTIVITY_BUMP_THROTTLE_SECONDS * nanos \<le> r"
proof -
  obtain xs ys where ts: "ts = xs @ t # ys"
    using assms by (meson split_list)
  obtain r where "touch_column (foldl touch_column a xs) t = Some r"
    and "t - ACTIVITY_BUMP_THROTTLE_SECONDS * nanos \<le> r"
    using touch_column_recent by blast
  then show ?thesis
    using foldl_touch_column_keeps ts by simp
qed

lemma resolve_last_activity_ge:
  "u \<le> resolve_last_activity u c a"
  "a = Some t \<Longrightarrow> t \<le> resolve_last_activity u c a"
  "c = Some t \<Longrightarrow> t \<le> resolve_last_activity u c a"
  by (auto simp: resolve_last_activity_alt max_def split: option.splits)

lemma idle_expiry_value:
  assumes "chrono_adds add" and "expired_deadline add s c now = Some (Some (IdleTtl, d))"
    and "\<forall>ttl. sb_idle_ttl_seconds s = Some ttl \<longrightarrow> int ttl \<le> i64_max"
  shows "\<exists>ttl. sb_idle_ttl_seconds s = Some ttl \<and> d \<le> now
    \<and> d = resolve_last_activity (sb_updated_at s) c (sb_last_activity_at s) + int ttl * nanos"
proof -
  obtain ttl where ttl: "sb_idle_ttl_seconds s = Some ttl"
    and e: "idle_ttl_expired add (resolve_last_activity (sb_updated_at s) c (sb_last_activity_at s))
      ttl now = Some (Some d)"
    using assms(2)
    by (cases "sb_idle_ttl_seconds s")
      (auto simp: expired_deadline_def Option.bind_eq_Some_conv split: option.splits)
  have "deadline_from add (resolve_last_activity (sb_updated_at s) c (sb_last_activity_at s)) ttl
      = Some d \<and> d \<le> now"
    using e by (auto simp: idle_ttl_expired_def split: if_splits)
  then show ?thesis
    using ttl deadline_from_value [OF assms(1)] assms(3) by blast
qed

lemma hard_expiry_value:
  assumes "chrono_adds add" and "expired_deadline add s c now = Some (Some (MaxLifetime, d))"
    and "\<forall>ttl. sb_max_lifetime_seconds s = Some ttl \<longrightarrow> int ttl \<le> i64_max"
  shows "\<exists>ttl. sb_max_lifetime_seconds s = Some ttl \<and> d \<le> now \<and> d = sb_created_at s + int ttl * nanos"
proof -
  obtain ttl where ttl: "sb_max_lifetime_seconds s = Some ttl"
    and e: "max_lifetime_expired add (sb_created_at s) ttl now = Some (Some d)"
    using assms(2)
    by (cases "sb_max_lifetime_seconds s")
      (auto simp: expired_deadline_def Option.bind_eq_Some_conv split: option.splits)
  have "deadline_from add (sb_created_at s) ttl = Some d \<and> d \<le> now"
    using e by (auto simp: max_lifetime_expired_def split: if_splits)
  then show ?thesis
    using ttl deadline_from_value [OF assms(1)] assms(3) by blast
qed

text \<open>C38: the throttled activity column never costs a sandbox more than one minute of idle time.
  Replay any sequence of touches (SSH, desktop and resident-process requests) on the sandbox table:
  if one of them happened less than the idle lifetime minus the sixty-second throttle ago, or a
  command was queued or the state changed less than the idle lifetime ago, the row read back from
  the table is not past its idle deadline, although most touches wrote nothing.\<close>

theorem touched_sandbox_not_idle:
  assumes "chrono_adds add"
    and "s \<in> set (touches rows sandbox_id ts)" and "sb_id s = sandbox_id"
    and "sb_idle_ttl_seconds s = Some ttl" and "int ttl \<le> i64_max"
    and "(\<exists>t \<in> set ts. now < t + (int ttl - ACTIVITY_BUMP_THROTTLE_SECONDS) * nanos)
         \<or> (\<exists>t. last_command_at = Some t \<and> now < t + int ttl * nanos)
         \<or> now < sb_updated_at s + int ttl * nanos"
  shows "expired_deadline add s last_command_at now \<noteq> Some (Some (IdleTtl, deadline))"
proof
  let ?last = "resolve_last_activity (sb_updated_at s) last_command_at (sb_last_activity_at s)"
  assume "expired_deadline add s last_command_at now = Some (Some (IdleTtl, deadline))"
  then have late: "?last + int ttl * nanos \<le> now"
    using idle_expiry_value [OF assms(1), of s last_command_at now deadline] assms(4,5) by auto
  obtain s0 where s: "s = s0\<lparr>sb_last_activity_at := foldl touch_column (sb_last_activity_at s0) ts\<rparr>"
    using assms(2,3) by (auto simp: touches_map split: if_splits)
  from assms(6) show False
  proof (elim disjE exE bexE conjE)
    fix t assume t: "t \<in> set ts" and now: "now < t + (int ttl - ACTIVITY_BUMP_THROTTLE_SECONDS) * nanos"
    obtain r where "sb_last_activity_at s = Some r"
      and "t - ACTIVITY_BUMP_THROTTLE_SECONDS * nanos \<le> r"
      using foldl_touch_column_recent [OF t, of "sb_last_activity_at s0"] s by auto
    then have "t - ACTIVITY_BUMP_THROTTLE_SECONDS * nanos \<le> ?last"
      using resolve_last_activity_ge(2) order_trans by blast
    then show False
      using late now by (simp add: algebra_simps)
  next
    fix t assume "last_command_at = Some t" and "now < t + int ttl * nanos"
    then show False
      using late resolve_last_activity_ge(3) [of last_command_at t "sb_updated_at s" "sb_last_activity_at s"]
      by linarith
  next
    assume "now < sb_updated_at s + int ttl * nanos"
    then show False
      using late resolve_last_activity_ge(1) [of "sb_updated_at s" last_command_at "sb_last_activity_at s"]
      by linarith
  qed
qed

definition sample_sandbox :: Sandbox where
  "sample_sandbox = \<lparr>sb_id = 7, sb_tenant_id = ''acme'', sb_name = ''box'', sb_state = SandboxState.Ready,
     sb_template = ''ubuntu-dev'', sb_memory_limit = FourG,
     sb_network_egress = DenyAll, sb_workspace_mode = WorkspaceMode.Ephemeral,
     sb_runtime_profile = SandboxRuntimeProfile.Unprivileged,
     sb_execution_class = ExecutionClass.DevelopmentContainer,
     sb_created_at = 0, sb_updated_at = 0, sb_ttl_seconds = None,
     sb_max_lifetime_seconds = Some 7200, sb_idle_ttl_seconds = Some 600,
     sb_last_activity_at = None, sb_parent_snapshot_id = None\<rparr>"

definition plain_add :: add_seconds where
  "plain_add t s = Some (t + s * nanos)"

lemma plain_add_adds: "chrono_adds plain_add"
  by (simp add: chrono_adds_def plain_add_def)

lemmas deadline_defs = expired_deadline_def max_lifetime_expired_def idle_ttl_expired_def
  deadline_from_def i64_max_def Let_def

text \<open>Witness: touched at 1000 s and 1030 s (the second write is throttled), at 1500 s the sandbox is
  not idle, while at 1601 s it is.\<close>

theorem touched_sandbox_not_idle_witness:
  "expired_deadline plain_add (sample_sandbox\<lparr>sb_last_activity_at := Some (1000 * nanos)\<rparr>) None (1500 * nanos)
     \<noteq> Some (Some (IdleTtl, 1600 * nanos))
   \<and> touches [sample_sandbox] 7 [1000 * nanos, 1030 * nanos]
       = [sample_sandbox\<lparr>sb_last_activity_at := Some (1000 * nanos)\<rparr>]
   \<and> expired_deadline plain_add (sample_sandbox\<lparr>sb_last_activity_at := Some (1000 * nanos)\<rparr>) None (1601 * nanos)
       = Some (Some (IdleTtl, 1600 * nanos))"
proof (intro conjI)
  show t: "touches [sample_sandbox] 7 [1000 * nanos, 1030 * nanos]
       = [sample_sandbox\<lparr>sb_last_activity_at := Some (1000 * nanos)\<rparr>]"
    by (simp add: touches_map touch_column_def sample_sandbox_def nanos_def
        ACTIVITY_BUMP_THROTTLE_SECONDS_def)
  show "expired_deadline plain_add (sample_sandbox\<lparr>sb_last_activity_at := Some (1000 * nanos)\<rparr>) None (1500 * nanos)
     \<noteq> Some (Some (IdleTtl, 1600 * nanos))"
  proof (rule touched_sandbox_not_idle [where rows = "[sample_sandbox]" and sandbox_id = 7
        and ts = "[1000 * nanos, 1030 * nanos]" and ttl = 600])
    show "sample_sandbox\<lparr>sb_last_activity_at := Some (1000 * nanos)\<rparr>
        \<in> set (touches [sample_sandbox] 7 [1000 * nanos, 1030 * nanos])"
      unfolding t by simp
  qed (simp_all add: plain_add_adds sample_sandbox_def i64_max_def nanos_def
      ACTIVITY_BUMP_THROTTLE_SECONDS_def)
  show "expired_deadline plain_add (sample_sandbox\<lparr>sb_last_activity_at := Some (1000 * nanos)\<rparr>) None (1601 * nanos)
       = Some (Some (IdleTtl, 1600 * nanos))"
    by (simp add: deadline_defs plain_add_def sample_sandbox_def resolve_last_activity_alt nanos_def)
qed

text \<open>The deadline decision is exact.  Whenever it does not hit the range panic of the date
  library, it reports the hard cap exactly when creation plus the cap has passed, otherwise the idle
  deadline exactly when the newest recorded activity plus the idle lifetime has passed, each with
  the deadline instant, and otherwise nothing; the hard cap cannot be postponed by activity.\<close>

theorem expired_deadline_exact:
  assumes "chrono_adds add"
    and "\<forall>ttl. sb_max_lifetime_seconds s = Some ttl \<longrightarrow> int ttl \<le> i64_max"
    and "\<forall>ttl. sb_idle_ttl_seconds s = Some ttl \<longrightarrow> int ttl \<le> i64_max"
    and "expired_deadline add s c now = Some r"
  shows "r = (case sb_max_lifetime_seconds s of
      Some cap \<Rightarrow> if sb_created_at s + int cap * nanos \<le> now
                  then Some (MaxLifetime, sb_created_at s + int cap * nanos)
                  else (case sb_idle_ttl_seconds s of
                     None \<Rightarrow> None
                   | Some ttl \<Rightarrow> let d = resolve_last_activity (sb_updated_at s) c (sb_last_activity_at s)
                                         + int ttl * nanos
                                 in if d \<le> now then Some (IdleTtl, d) else None)
    | None \<Rightarrow> (case sb_idle_ttl_seconds s of
                     None \<Rightarrow> None
                   | Some ttl \<Rightarrow> let d = resolve_last_activity (sb_updated_at s) c (sb_last_activity_at s)
                                         + int ttl * nanos
                                 in if d \<le> now then Some (IdleTtl, d) else None))"
proof -
  have dl: "deadline_from add anchor ttl = Some d \<Longrightarrow> int ttl \<le> i64_max \<Longrightarrow> d = anchor + int ttl * nanos"
    for anchor ttl d
    using deadline_from_value [OF assms(1)] by blast
  show ?thesis
    using assms(2-4) dl
    by (cases "sb_max_lifetime_seconds s"; cases "sb_idle_ttl_seconds s")
      (auto simp: expired_deadline_def max_lifetime_expired_def idle_ttl_expired_def Let_def
        Option.bind_eq_Some_conv split: if_splits)
qed

text \<open>Witness: a sandbox past its cap of two hours is reported with the cap although it was touched
  a moment ago.\<close>

theorem expired_deadline_exact_witness:
  "expired_deadline plain_add sample_sandbox (Some (7199 * nanos)) (7201 * nanos)
     = Some (Some (MaxLifetime, 7200 * nanos))"
proof -
  obtain r where r: "expired_deadline plain_add sample_sandbox (Some (7199 * nanos)) (7201 * nanos) = Some r"
    by (simp add: deadline_defs plain_add_def sample_sandbox_def nanos_def)
  show ?thesis
    using expired_deadline_exact [OF plain_add_adds _ _ r] r
    by (simp add: sample_sandbox_def i64_max_def nanos_def)
qed

end
