(* ===== verification/Json.thy ===== *)
theory Json
  imports Api_Error "HOL-Library.List_Lexorder" "HOL-Library.Char_ord" "HOL-Library.Multiset"
begin

section \<open>JSON values\<close>

text \<open>
  \<open>serde_json::Value\<close> with its members in iteration order, the member access the handlers use, and
  the canonical form that \<open>completion_result_fingerprint\<close> of
  \<open>crates/sandboxwich-api/src/handlers/leases.rs\<close> hashes.  The encoder of \<open>serde_json\<close> and the
  digest of \<open>sha2\<close> are parameters.
\<close>

datatype json =
  JNull
| JBool bool
| JInt int
| JFloat "64 word"
| JString string
| JArray "json list"
| JObject "(string \<times> json) list"

definition json_get :: "string \<Rightarrow> json \<Rightarrow> json option" where
  "json_get key v = (case v of JObject ms \<Rightarrow> map_of ms key | _ \<Rightarrow> None)"

definition json_as_str :: "json \<Rightarrow> string option" where
  "json_as_str v = (case v of JString s \<Rightarrow> Some s | _ \<Rightarrow> None)"

definition json_as_u64 :: "json \<Rightarrow> nat option" where
  "json_as_u64 v = (case v of JInt i \<Rightarrow> if 0 \<le> i \<and> i < 2 ^ 64 then Some (nat i) else None | _ \<Rightarrow> None)"

function canonicalize_json :: "json \<Rightarrow> json" where
  "canonicalize_json (JObject ms) =
     JObject (map (\<lambda>(k, v). (k, canonicalize_json v)) (sort_key fst ms))"
| "canonicalize_json (JArray vs) = JArray (map canonicalize_json vs)"
| "canonicalize_json JNull = JNull"
| "canonicalize_json (JBool b) = JBool b"
| "canonicalize_json (JInt i) = JInt i"
| "canonicalize_json (JFloat f) = JFloat f"
| "canonicalize_json (JString s) = JString s"
  by pat_completeness auto

lemma json_member_size:
  "(k, v) \<in> set ms \<Longrightarrow> size v < size (JObject ms)"
  by (induction ms) (auto simp: less_Suc_eq_le)

lemma json_element_size:
  "v \<in> set vs \<Longrightarrow> size v < size (JArray vs)"
  by (induction vs) auto

termination canonicalize_json
proof (relation "measure size")
  fix ms :: "(string \<times> json) list" and x k v
  assume "x \<in> set (sort_key fst ms)" and "(k, v) = x"
  then show "(v, JObject ms) \<in> measure size"
    using json_member_size by fastforce
next
  fix vs :: "json list" and v
  assume "v \<in> set vs"
  then show "(v, JArray vs) \<in> measure size"
    using json_element_size by simp
qed simp

definition completion_result_fingerprint ::
  "('r \<Rightarrow> json option) \<Rightarrow> (json \<Rightarrow> string option) \<Rightarrow> (string \<Rightarrow> string) \<Rightarrow> 'r \<Rightarrow> ApiError + string" where
  "completion_result_fingerprint to_value to_vec sha256_hex result =
     rbind (ok_or (internal ''failed to encode lease completion result'') (to_value result)) (\<lambda>v.
     rbind (ok_or (internal ''failed to encode lease completion result'') (to_vec (canonicalize_json v)))
       (\<lambda>encoded. Inr (''sha256:v1:'' @ sha256_hex encoded)))"

subsection \<open>Equality up to the order of members\<close>

inductive json_same :: "json \<Rightarrow> json \<Rightarrow> bool" where
  same_refl: "json_same v v"
| same_array: "list_all2 json_same vs ws \<Longrightarrow> json_same (JArray vs) (JArray ws)"
| same_object: "list_all2 (\<lambda>m n. fst m = fst n \<and> json_same (snd m) (snd n)) ms ns \<Longrightarrow> mset ns = mset os
    \<Longrightarrow> json_same (JObject ms) (JObject os)"

fun json_wf :: "json \<Rightarrow> bool" where
  "json_wf (JObject ms) \<longleftrightarrow> distinct (map fst ms) \<and> (\<forall>m \<in> set ms. json_wf (snd m))"
| "json_wf (JArray vs) \<longleftrightarrow> (\<forall>v \<in> set vs. json_wf v)"
| "json_wf _ \<longleftrightarrow> True"

lemma insort_key_map_snd:
  "insort_key fst (k, c v) (map (\<lambda>(k, v). (k, c v)) ms)
     = map (\<lambda>(k, v). (k, c v)) (insort_key fst (k, v) ms)"
  by (induction ms) auto

lemma sort_key_map_snd:
  "sort_key fst (map (\<lambda>(k, v). (k, c v)) ms) = map (\<lambda>(k, v). (k, c v)) (sort_key fst ms)"
proof (induction ms)
  case (Cons m ms)
  obtain k v where "m = (k, v)" by force
  then show ?case
    using Cons.IH by (simp add: insort_key_map_snd)
qed simp

lemma sort_key_mset_eq:
  assumes "distinct (map fst ms)" and "mset ms = mset ns"
  shows "sort_key fst ms = sort_key fst ns"
proof (rule sort_key_inj_key_eq)
  show "mset ms = mset (sort_key fst ns)" using assms(2) by simp
  show "inj_on fst (set ms)" using assms(1) by (simp add: distinct_map)
qed simp
lemma canonicalize_json_same:
  "json_same a b \<Longrightarrow> json_wf a \<Longrightarrow> canonicalize_json a = canonicalize_json b"
proof (induction rule: json_same.induct)
  case (same_refl v)
  show ?case ..
next
  case (same_array vs ws)
  have "list_all2 (\<lambda>v w. canonicalize_json v = canonicalize_json w) vs ws"
    using same_array.IH same_array.prems by (auto simp: list_all2_conv_all_nth)
  then show ?case
    by (simp add: list_all2_conv_all_nth list_eq_iff_nth_eq)
next
  case (same_object ms ns os)
  let ?c = "map (\<lambda>(k, v). (k, canonicalize_json v))"
  have "list_all2 (\<lambda>m n. (\<lambda>(k, v). (k, canonicalize_json v)) m = (\<lambda>(k, v). (k, canonicalize_json v)) n) ms ns"
    using same_object.IH(1) same_object.prems
    by (auto simp: list_all2_conv_all_nth split_beta)
  then have c: "?c ms = ?c ns"
    by (simp add: list_all2_conv_all_nth list_eq_iff_nth_eq)
  have "map fst ms = map fst ns"
    using same_object.IH(1) by (auto simp: list_all2_conv_all_nth list_eq_iff_nth_eq)
  then have d: "distinct (map fst ns)"
    using same_object.prems by simp
  have "sort_key fst (?c ms) = sort_key fst (?c ns)"
    unfolding c ..
  then have "?c (sort_key fst ms) = ?c (sort_key fst ns)"
    unfolding sort_key_map_snd .
  then show ?case
    using sort_key_mset_eq [OF d same_object.hyps] by simp
qed

lemma json_wf_canonicalize: "json_wf v \<Longrightarrow> json_wf (canonicalize_json v)"
proof (induction v rule: canonicalize_json.induct)
  case (1 ms)
  have "fst \<circ> (\<lambda>(k, v). (k, canonicalize_json v)) = (fst :: string \<times> json \<Rightarrow> string)"
    by (simp add: fun_eq_iff)
  moreover have "distinct (map fst (sort_key fst ms))"
    using "1.prems" by (simp add: distinct_map)
  moreover have "\<forall>m \<in> set (sort_key fst ms). json_wf (canonicalize_json (snd m))"
    using 1 by fastforce
  ultimately show ?case
    by (auto simp: split_beta)
qed auto

lemma canonicalize_json_is_same: "json_wf v \<Longrightarrow> json_same v (canonicalize_json v)"
proof (induction v rule: canonicalize_json.induct)
  case (1 ms)
  let ?c = "map (\<lambda>(k, v). (k, canonicalize_json v))"
  have "list_all2 (\<lambda>m n. fst m = fst n \<and> json_same (snd m) (snd n)) ms (?c ms)"
    using 1 by (auto simp: list_all2_conv_all_nth split_beta) (metis nth_mem prod.collapse set_sort)
  moreover have "mset (?c ms) = mset (?c (sort_key fst ms))"
    by (simp flip: sort_key_map_snd)
  ultimately show ?case
    by (simp add: same_object)
next
  case (2 vs)
  then show ?case
    by (auto intro!: same_array simp: list_all2_conv_all_nth)
qed (simp_all add: same_refl)

text \<open>C39: the fingerprint that makes a lease completion idempotent does not depend on how the JSON
  was written.  The canonical form of a value is again well formed, equals the value up to the order
  of object members at every depth, is a fixed point of canonicalization, and is shared by all
  values that differ only in member order; so two reports of the same result always get the same
  fingerprint, whatever the encoder and the digest do.\<close>

theorem completion_fingerprint_canonical:
  assumes "to_value r1 = Some v1" and "to_value r2 = Some v2" and "json_wf v1"
  shows "json_wf (canonicalize_json v1) \<and> json_same v1 (canonicalize_json v1)
     \<and> canonicalize_json (canonicalize_json v1) = canonicalize_json v1
     \<and> (json_same v1 v2 \<longrightarrow> completion_result_fingerprint to_value to_vec sha256_hex r1
          = completion_result_fingerprint to_value to_vec sha256_hex r2)"
proof (intro conjI impI)
  show "json_wf (canonicalize_json v1)"
    using assms(3) by (rule json_wf_canonicalize)
  show same: "json_same v1 (canonicalize_json v1)"
    using assms(3) by (rule canonicalize_json_is_same)
  show "canonicalize_json (canonicalize_json v1) = canonicalize_json v1"
    using canonicalize_json_same [OF same assms(3)] by simp
  assume "json_same v1 v2"
  then have "canonicalize_json v1 = canonicalize_json v2"
    using assms(3) by (rule canonicalize_json_same)
  then show "completion_result_fingerprint to_value to_vec sha256_hex r1
      = completion_result_fingerprint to_value to_vec sha256_hex r2"
    using assms(1,2) by (simp add: completion_result_fingerprint_def)
qed

text \<open>Witness: the same command result with its members in two orders.\<close>

theorem completion_fingerprint_canonical_witness:
  "completion_result_fingerprint Some (\<lambda>v. Some (case v of JObject ms \<Rightarrow> concat (map fst ms) | _ \<Rightarrow> [])) rev
       (JObject [(''stdout'', JString ''ok''), (''exit_code'', JInt 0)])
     = Inr ''sha256:v1:tuodtsedoc_tixe''
   \<and> completion_result_fingerprint Some (\<lambda>v. Some (case v of JObject ms \<Rightarrow> concat (map fst ms) | _ \<Rightarrow> [])) rev
       (JObject [(''exit_code'', JInt 0), (''stdout'', JString ''ok'')])
     = Inr ''sha256:v1:tuodtsedoc_tixe''"
proof -
  let ?a = "JObject [(''stdout'', JString ''ok''), (''exit_code'', JInt 0)]"
  let ?b = "JObject [(''exit_code'', JInt 0), (''stdout'', JString ''ok'')]"
  let ?f = "completion_result_fingerprint Some
    (\<lambda>v. Some (case v of JObject ms \<Rightarrow> concat (map fst ms) | _ \<Rightarrow> [])) rev"
  have "json_same ?a ?b"
    by (rule same_object [where ns = "[(''stdout'', JString ''ok''), (''exit_code'', JInt 0)]"])
      (simp_all add: same_refl)
  then have "?f ?a = ?f ?b"
    using completion_fingerprint_canonical [of Some ?a ?a ?b ?b] by simp
  moreover have "?f ?b = Inr ''sha256:v1:tuodtsedoc_tixe''"
    by (simp add: completion_result_fingerprint_def)
  ultimately show ?thesis by simp
qed

end
