(* ===== verification/Command_Output.thy ===== *)
theory Command_Output
  imports Json Lifetimes
begin

section \<open>Command output\<close>

text \<open>
  The tables \<open>commands\<close>, \<open>command_output_chunks\<close>, \<open>command_output_operations\<close> and
  \<open>sandbox_events\<close>, and the operations on them: \<open>crates/sandboxwich-api/src/handlers/commands.rs\<close>
  and the output functions of \<open>crates/sandboxwich-api/src/handlers/leases.rs\<close>.  Every operation
  runs in a transaction, so a failing one leaves the tables as they were.  Deleting a chunk cascades
  to the operations that name it.  Fresh identifiers and clock readings are arguments, and the text
  form of an identifier is the parameter \<open>show_uuid\<close>.
\<close>

subsection \<open>Rows\<close>

record CommandRun =
  cmd_id :: uuid
  cmd_sandbox_id :: uuid
  cmd_status :: CommandStatus
  cmd_argv :: "string list"
  cmd_cwd :: "string option"
  cmd_exit_code :: "int option"
  cmd_stdout :: string
  cmd_stderr :: string
  cmd_created_at :: timestamp
  cmd_finished_at :: "timestamp option"

record CommandOutputCounters =
  chunk_count :: int
  byte_count :: int
  stdout_sequence :: int
  stderr_sequence :: int

record command_row =
  row_command :: CommandRun
  row_counters :: CommandOutputCounters

datatype CommandOutputAnnotation =
  ContainerFileCitation uuid string "nat option" "nat option"

record CommandOutputChunk =
  oc_id :: uuid
  oc_command_id :: uuid
  oc_stream :: CommandOutputStream
  oc_sequence :: nat
  oc_chunk :: string
  oc_annotations :: "CommandOutputAnnotation list"
  oc_created_at :: timestamp

record SandboxEvent =
  ev_id :: uuid
  ev_sandbox_id :: uuid
  ev_kind :: SandboxEventKind
  ev_data :: json
  ev_created_at :: timestamp

record output_tables =
  commands :: "command_row list"
  output_chunks :: "CommandOutputChunk list"
  output_operations :: "uuid \<times> uuid \<rightharpoonup> uuid"
  sandbox_events :: "SandboxEvent list"

text \<open>The identifiers and clock readings one append draws.\<close>

record append_env =
  env_chunk_id :: uuid
  env_event_id :: uuid
  env_now :: timestamp
  env_event_now :: timestamp

type_synonym show_uuid = "uuid \<Rightarrow> string"

abbreviation row_id :: "command_row \<Rightarrow> uuid" where
  "row_id c \<equiv> cmd_id (row_command c)"

subsection \<open>Bounds\<close>

definition MAX_COMMAND_OUTPUT_BYTES :: int where
  "MAX_COMMAND_OUTPUT_BYTES = 4 * 1024 * 1024"

definition MAX_COMMAND_OUTPUT_CHUNKS :: int where
  "MAX_COMMAND_OUTPUT_CHUNKS = 4096"

definition MAX_COMMAND_OUTPUT_CHUNK_BYTES :: nat where
  "MAX_COMMAND_OUTPUT_CHUNK_BYTES = 2 * 1024 * 1024"

definition i64_saturating_add :: "int \<Rightarrow> int \<Rightarrow> int" where
  "i64_saturating_add a b = max (- (2 ^ 63)) (min i64_max (a + b))"

definition validate_command_output_bounds :: "int \<Rightarrow> int \<Rightarrow> nat \<Rightarrow> ApiError + unit" where
  "validate_command_output_bounds existing_chunks existing_bytes new_chunk_bytes =
     rbind (ensure (\<not> new_chunk_bytes > MAX_COMMAND_OUTPUT_CHUNK_BYTES)
       (bad_request ''command output chunk exceeds 2 MiB'')) (\<lambda>_.
     rbind (ensure (\<not> existing_chunks \<ge> MAX_COMMAND_OUTPUT_CHUNKS)
       (bad_request ''command output exceeds 4096 chunks'')) (\<lambda>_.
     rbind (ensure (int new_chunk_bytes \<le> i64_max)
       (bad_request ''command output chunk is too large'')) (\<lambda>_.
     ensure (\<not> i64_saturating_add existing_bytes (int new_chunk_bytes) > MAX_COMMAND_OUTPUT_BYTES)
       (bad_request ''command output exceeds 4 MiB''))))"

subsection \<open>Statements\<close>

definition find_command :: "output_tables \<Rightarrow> uuid \<Rightarrow> command_row option" where
  "find_command st command_id = find (\<lambda>c. row_id c = command_id) (commands st)"

definition update_command :: "uuid \<Rightarrow> (command_row \<Rightarrow> command_row) \<Rightarrow> output_tables \<Rightarrow> output_tables" where
  "update_command command_id f st =
     st\<lparr>commands := map (\<lambda>c. if row_id c = command_id then f c else c) (commands st)\<rparr>"

definition delete_chunks :: "(CommandOutputChunk \<Rightarrow> bool) \<Rightarrow> output_tables \<Rightarrow> output_tables" where
  "delete_chunks P st =
     st\<lparr>output_chunks := filter (\<lambda>r. \<not> P r) (output_chunks st),
        output_operations := (\<lambda>k. case output_operations st k of
           None \<Rightarrow> None
         | Some i \<Rightarrow> if \<exists>r \<in> set (output_chunks st). oc_id r = i \<and> P r then None else Some i)\<rparr>"

definition insert_event_on_connection ::
  "output_tables \<Rightarrow> uuid \<Rightarrow> timestamp \<Rightarrow> uuid \<Rightarrow> SandboxEventKind \<Rightarrow> json
    \<Rightarrow> ApiError + SandboxEvent \<times> output_tables" where
  "insert_event_on_connection st event_id now sandbox_id kind data =
     (let event = \<lparr>ev_id = event_id, ev_sandbox_id = sandbox_id, ev_kind = kind, ev_data = data,
            ev_created_at = now\<rparr> in
      rbind (ensure (event_id \<notin> ev_id ` set (sandbox_events st)) (ApiError_from_sql UniqueViolation)) (\<lambda>_.
      Inr (event, st\<lparr>sandbox_events := sandbox_events st @ [event]\<rparr>)))"

definition insert_command_on_connection :: "output_tables \<Rightarrow> CommandRun \<Rightarrow> ApiError + output_tables" where
  "insert_command_on_connection st command =
     rbind (ensure (cmd_id command \<notin> row_id ` set (commands st)) (ApiError_from_sql UniqueViolation)) (\<lambda>_.
     Inr (st\<lparr>commands := commands st @
       [\<lparr>row_command = command,
         row_counters = \<lparr>chunk_count = 0, byte_count = 0, stdout_sequence = 0, stderr_sequence = 0\<rparr>\<rparr>]\<rparr>))"

definition lock_command_output_for_append_on_connection ::
  "output_tables \<Rightarrow> uuid \<Rightarrow> ApiError + unit" where
  "lock_command_output_for_append_on_connection st command_id =
     ensure (find_command st command_id \<noteq> None) (not_found ''command not found'')"

definition insert_output_chunk :: "output_tables \<Rightarrow> CommandOutputChunk \<Rightarrow> ApiError + output_tables" where
  "insert_output_chunk st oc =
     rbind (count_to_i64 (oc_sequence oc)) (\<lambda>_.
     rbind (ensure (\<forall>r \<in> set (output_chunks st). oc_id r \<noteq> oc_id oc
         \<and> \<not> (oc_command_id r = oc_command_id oc \<and> oc_stream r = oc_stream oc
              \<and> oc_sequence r = oc_sequence oc))
       (ApiError_from_sql UniqueViolation)) (\<lambda>_.
     Inr (st\<lparr>output_chunks := output_chunks st @ [oc]\<rparr>)))"

definition stream_sequence :: "CommandOutputStream \<Rightarrow> CommandOutputCounters \<Rightarrow> int" where
  "stream_sequence stream c = (case stream of
     CommandOutputStream.Stdout \<Rightarrow> stdout_sequence c | CommandOutputStream.Stderr \<Rightarrow> stderr_sequence c)"

definition set_stream_sequence ::
  "CommandOutputStream \<Rightarrow> int \<Rightarrow> CommandOutputCounters \<Rightarrow> CommandOutputCounters" where
  "set_stream_sequence stream n c = (case stream of
     CommandOutputStream.Stdout \<Rightarrow> c\<lparr>stdout_sequence := n\<rparr>
   | CommandOutputStream.Stderr \<Rightarrow> c\<lparr>stderr_sequence := n\<rparr>)"

definition next_sequence :: "int \<Rightarrow> ApiError + nat" where
  "next_sequence last_sequence =
     rbind (ensure (last_sequence + 1 \<le> i64_max) (internal ''command output sequence overflow'')) (\<lambda>_.
     if 0 \<le> last_sequence + 1 then Inr (nat (last_sequence + 1))
     else Inl (internal ''database contains invalid command output sequence''))"

definition bump_counters :: "CommandOutputStream \<Rightarrow> int \<Rightarrow> CommandOutputCounters \<Rightarrow> CommandOutputCounters" where
  "bump_counters stream bytes c =
     set_stream_sequence stream (stream_sequence stream c + 1)
       (c\<lparr>chunk_count := chunk_count c + 1, byte_count := byte_count c + bytes\<rparr>)"
subsection \<open>Appending\<close>

definition append_command_output_chunk_on_connection ::
  "show_uuid \<Rightarrow> output_tables \<Rightarrow> uuid \<Rightarrow> uuid \<Rightarrow> CommandOutputStream \<Rightarrow> string
    \<Rightarrow> CommandOutputAnnotation list \<Rightarrow> append_env \<Rightarrow> ApiError + CommandOutputChunk \<times> output_tables" where
  "append_command_output_chunk_on_connection show_uuid st command_id sandbox_id stream chunk annotations env =
     rbind (lock_command_output_for_append_on_connection st command_id) (\<lambda>_.
     rbind (ok_or (ApiError_from_sql OtherSqlError) (find_command st command_id)) (\<lambda>row.
     let counters = row_counters row in
     rbind (validate_command_output_bounds (chunk_count counters) (byte_count counters) (length chunk)) (\<lambda>_.
     rbind (next_sequence (stream_sequence stream counters)) (\<lambda>sequence.
     let output_chunk = \<lparr>oc_id = env_chunk_id env, oc_command_id = command_id, oc_stream = stream,
           oc_sequence = sequence, oc_chunk = chunk, oc_annotations = annotations,
           oc_created_at = env_now env\<rparr> in
     rbind (insert_output_chunk st output_chunk) (\<lambda>st1.
     rbind (ensure (int (length chunk) \<le> i64_max)
       (internal ''command output chunk byte count overflow'')) (\<lambda>_.
     let st2 = update_command command_id
           (\<lambda>c. c\<lparr>row_counters := bump_counters stream (int (length chunk)) (row_counters c)\<rparr>) st1 in
     rbind (insert_event_on_connection st2 (env_event_id env) (env_event_now env) sandbox_id
         SandboxEventKind.CommandOutput
         (JObject [(''commandId'', JString (show_uuid command_id)),
                   (''stream'', JString (CommandOutputStream_as_db_str stream)),
                   (''sequence'', JInt (int sequence))])) (\<lambda>(_, st3).
     Inr (output_chunk, st3))))))))"

definition fetch_output_chunk_on_connection :: "output_tables \<Rightarrow> uuid \<Rightarrow> ApiError + CommandOutputChunk" where
  "fetch_output_chunk_on_connection st chunk_id =
     ok_or (internal ''output idempotency record references a missing chunk'')
       (find (\<lambda>r. oc_id r = chunk_id) (output_chunks st))"

definition append_command_output_chunk ::
  "show_uuid \<Rightarrow> output_tables \<Rightarrow> uuid \<Rightarrow> uuid \<Rightarrow> CommandOutputStream \<Rightarrow> string
    \<Rightarrow> CommandOutputAnnotation list \<Rightarrow> (uuid \<times> uuid) option \<Rightarrow> append_env
    \<Rightarrow> ApiError + CommandOutputChunk \<times> output_tables" where
  "append_command_output_chunk show_uuid st command_id sandbox_id stream chunk annotations operation env =
     (case Option.bind operation (output_operations st) of
        Some chunk_id \<Rightarrow>
          rbind (fetch_output_chunk_on_connection st chunk_id) (\<lambda>c. Inr (c, st))
      | None \<Rightarrow>
          rbind (append_command_output_chunk_on_connection show_uuid st command_id sandbox_id stream chunk
            annotations env) (\<lambda>(c, st1).
          Inr (c, case operation of
              None \<Rightarrow> st1
            | Some key \<Rightarrow> st1\<lparr>output_operations := (output_operations st1)(key \<mapsto> oc_id c)\<rparr>)))"

definition reset_command_for_retry_on_connection :: "output_tables \<Rightarrow> uuid \<Rightarrow> ApiError + output_tables" where
  "reset_command_for_retry_on_connection st command_id =
     rbind (lock_command_output_for_append_on_connection st command_id) (\<lambda>_.
     let st1 = delete_chunks (\<lambda>r. oc_command_id r = command_id) st in
     rbind (ensure (find_command st1 command_id \<noteq> None) (not_found ''command not found'')) (\<lambda>_.
     Inr (update_command command_id
       (\<lambda>c. \<lparr>row_command = (row_command c)\<lparr>cmd_status := CommandStatus.Queued, cmd_stdout := [],
               cmd_stderr := [], cmd_exit_code := None, cmd_finished_at := None\<rparr>,
             row_counters = \<lparr>chunk_count = 0, byte_count = 0, stdout_sequence = 0, stderr_sequence = 0\<rparr>\<rparr>)
       st1)))"

definition finish_command_from_lease_result_on_connection ::
  "output_tables \<Rightarrow> uuid \<Rightarrow> CommandStatus \<Rightarrow> int option \<Rightarrow> timestamp \<Rightarrow> output_tables" where
  "finish_command_from_lease_result_on_connection st command_id status exit_code now =
     update_command command_id
       (\<lambda>c. c\<lparr>row_command := (row_command c)\<lparr>cmd_status := status, cmd_exit_code := exit_code,
               cmd_finished_at := Some now\<rparr>\<rparr>) st"

definition stream_rows :: "output_tables \<Rightarrow> uuid \<Rightarrow> CommandOutputStream \<Rightarrow> CommandOutputChunk list" where
  "stream_rows st command_id stream =
     filter (\<lambda>r. oc_command_id r = command_id \<and> oc_stream r = stream) (output_chunks st)"

definition command_output_for_stream_on_connection ::
  "output_tables \<Rightarrow> uuid \<Rightarrow> CommandOutputStream \<Rightarrow> string" where
  "command_output_for_stream_on_connection st command_id stream =
     concat (map oc_chunk (sort_key oc_sequence (stream_rows st command_id stream)))"

definition chunk_bytes :: "CommandOutputChunk list \<Rightarrow> int" where
  "chunk_bytes rows = int (sum_list (map (\<lambda>r. length (oc_chunk r)) rows))"

definition replace_command_output_stream_on_connection ::
  "output_tables \<Rightarrow> uuid \<Rightarrow> CommandOutputStream \<Rightarrow> ApiError + output_tables" where
  "replace_command_output_stream_on_connection st command_id stream =
     rbind (lock_command_output_for_append_on_connection st command_id) (\<lambda>_.
     let removed_chunks = int (length (stream_rows st command_id stream));
         removed_bytes = chunk_bytes (stream_rows st command_id stream);
         st1 = delete_chunks (\<lambda>r. oc_command_id r = command_id \<and> oc_stream r = stream) st in
     rbind (ensure (find_command st1 command_id \<noteq> None) (not_found ''command not found'')) (\<lambda>_.
     Inr (update_command command_id
       (\<lambda>c. \<lparr>row_command = (case stream of
               CommandOutputStream.Stdout \<Rightarrow> (row_command c)\<lparr>cmd_stdout := []\<rparr>
             | CommandOutputStream.Stderr \<Rightarrow> (row_command c)\<lparr>cmd_stderr := []\<rparr>),
             row_counters = set_stream_sequence stream 0 ((row_counters c)
               \<lparr>chunk_count := chunk_count (row_counters c) - removed_chunks,
                byte_count := byte_count (row_counters c) - removed_bytes\<rparr>)\<rparr>)
       st1)))"

definition append_completion_output_on_connection ::
  "show_uuid \<Rightarrow> output_tables \<Rightarrow> uuid \<Rightarrow> uuid \<Rightarrow> CommandOutputStream \<Rightarrow> string \<Rightarrow> append_env
    \<Rightarrow> ApiError + output_tables" where
  "append_completion_output_on_connection show_uuid st command_id sandbox_id stream chunk env =
     (if chunk = [] then Inr st
      else let current = command_output_for_stream_on_connection st command_id stream in
      if current = chunk then Inr st
      else case strip_prefix chunk current of
        Some suffix \<Rightarrow>
          if suffix = [] then Inr st
          else rbind (append_command_output_chunk_on_connection show_uuid st command_id sandbox_id stream
                 suffix [] env) (\<lambda>(_, st1). Inr st1)
      | None \<Rightarrow>
          rbind (replace_command_output_stream_on_connection st command_id stream) (\<lambda>st1.
          rbind (append_command_output_chunk_on_connection show_uuid st1 command_id sandbox_id stream
                 chunk [] env) (\<lambda>(_, st2). Inr st2)))"

subsection \<open>The invariant\<close>

definition command_rows :: "CommandOutputChunk list \<Rightarrow> uuid \<Rightarrow> CommandOutputChunk list" where
  "command_rows chunks command_id = filter (\<lambda>r. oc_command_id r = command_id) chunks"

definition counters_exact :: "CommandOutputChunk list \<Rightarrow> command_row \<Rightarrow> bool" where
  "counters_exact chunks c \<longleftrightarrow>
     (let rows = command_rows chunks (row_id c); k = row_counters c in
      chunk_count k = int (length rows) \<and> byte_count k = chunk_bytes rows
      \<and> chunk_count k \<le> MAX_COMMAND_OUTPUT_CHUNKS \<and> byte_count k \<le> MAX_COMMAND_OUTPUT_BYTES
      \<and> (\<forall>stream. 0 \<le> stream_sequence stream k
           \<and> map oc_sequence (filter (\<lambda>r. oc_stream r = stream) rows)
             = [1..<Suc (nat (stream_sequence stream k))]))"

definition output_inv :: "output_tables \<Rightarrow> bool" where
  "output_inv st \<longleftrightarrow>
     distinct (map row_id (commands st)) \<and> distinct (map oc_id (output_chunks st))
     \<and> (\<forall>c \<in> set (commands st). counters_exact (output_chunks st) c)
     \<and> (\<forall>r \<in> set (output_chunks st). oc_command_id r \<in> row_id ` set (commands st))
     \<and> (\<forall>k i. output_operations st k = Some i \<longrightarrow> i \<in> oc_id ` set (output_chunks st))"

lemma find_command_Some:
  "find_command st command_id = Some c \<Longrightarrow> c \<in> set (commands st) \<and> row_id c = command_id"
  by (auto simp: find_command_def find_Some_iff)

lemma find_command_None:
  "find_command st command_id = None \<longleftrightarrow> command_id \<notin> row_id ` set (commands st)"
  by (auto simp: find_command_def find_None_iff)

lemma stream_sequence_set [simp]:
  "stream_sequence s (set_stream_sequence t n c) = (if s = t then n else stream_sequence s c)"
  "chunk_count (set_stream_sequence t n c) = chunk_count c"
  "byte_count (set_stream_sequence t n c) = byte_count c"
  by (cases s; cases t; simp add: stream_sequence_def set_stream_sequence_def)
    (cases t; simp add: set_stream_sequence_def)+

lemma stream_sequence_update [simp]:
  "stream_sequence s (c\<lparr>chunk_count := n, byte_count := m\<rparr>) = stream_sequence s c"
  by (cases s) (simp_all add: stream_sequence_def)

lemma bump_counters_simps [simp]:
  "chunk_count (bump_counters stream b c) = chunk_count c + 1"
  "byte_count (bump_counters stream b c) = byte_count c + b"
  "stream_sequence s (bump_counters stream b c)
     = (if s = stream then stream_sequence s c + 1 else stream_sequence s c)"
  by (simp_all add: bump_counters_def)

lemma chunk_bytes_simps [simp]:
  "chunk_bytes [] = 0"
  "chunk_bytes (xs @ ys) = chunk_bytes xs + chunk_bytes ys"
  "chunk_bytes (r # xs) = int (length (oc_chunk r)) + chunk_bytes xs"
  by (simp_all add: chunk_bytes_def)

lemma chunk_bytes_nonneg [simp]: "0 \<le> chunk_bytes xs"
  by (simp add: chunk_bytes_def)

lemma chunk_bytes_split:
  "chunk_bytes xs = chunk_bytes (filter P xs) + chunk_bytes (filter (\<lambda>r. \<not> P r) xs)"
  by (induction xs) simp_all

text \<open>What a successful append did.\<close>

lemma append_InrE:
  assumes "append_command_output_chunk_on_connection sh st cid sid stream chunk ann env = Inr (oc, st')"
  obtains row where "find_command st cid = Some row"
    and "length chunk \<le> MAX_COMMAND_OUTPUT_CHUNK_BYTES"
    and "chunk_count (row_counters row) < MAX_COMMAND_OUTPUT_CHUNKS"
    and "i64_saturating_add (byte_count (row_counters row)) (int (length chunk)) \<le> MAX_COMMAND_OUTPUT_BYTES"
    and "oc = \<lparr>oc_id = env_chunk_id env, oc_command_id = cid, oc_stream = stream,
           oc_sequence = nat (stream_sequence stream (row_counters row) + 1), oc_chunk = chunk,
           oc_annotations = ann, oc_created_at = env_now env\<rparr>"
    and "env_chunk_id env \<notin> oc_id ` set (output_chunks st)"
    and "output_chunks st' = output_chunks st @ [oc]"
    and "commands st' = map (\<lambda>c. if row_id c = cid
           then c\<lparr>row_counters := bump_counters stream (int (length chunk)) (row_counters c)\<rparr> else c) (commands st)"
    and "output_operations st' = output_operations st"
    and "sandbox_events st' = sandbox_events st @ [\<lparr>ev_id = env_event_id env, ev_sandbox_id = sid,
           ev_kind = SandboxEventKind.CommandOutput,
           ev_data = JObject [(''commandId'', JString (sh cid)),
                   (''stream'', JString (CommandOutputStream_as_db_str stream)),
                   (''sequence'', JInt (int (oc_sequence oc)))],
           ev_created_at = env_event_now env\<rparr>]"
proof -
  obtain row where row: "find_command st cid = Some row"
    and b: "length chunk \<le> MAX_COMMAND_OUTPUT_CHUNK_BYTES"
      "chunk_count (row_counters row) < MAX_COMMAND_OUTPUT_CHUNKS"
      "i64_saturating_add (byte_count (row_counters row)) (int (length chunk)) \<le> MAX_COMMAND_OUTPUT_BYTES"
    and nn: "0 \<le> stream_sequence stream (row_counters row) + 1"
    and oc: "oc = \<lparr>oc_id = env_chunk_id env, oc_command_id = cid, oc_stream = stream,
           oc_sequence = nat (stream_sequence stream (row_counters row) + 1), oc_chunk = chunk,
           oc_annotations = ann, oc_created_at = env_now env\<rparr>"
    and i: "insert_output_chunk st oc = Inr (st\<lparr>output_chunks := output_chunks st @ [oc]\<rparr>)"
    and st': "st' = st\<lparr>output_chunks := output_chunks st @ [oc],
      commands := map (\<lambda>c. if row_id c = cid
           then c\<lparr>row_counters := bump_counters stream (int (length chunk)) (row_counters c)\<rparr> else c) (commands st),
      sandbox_events := sandbox_events st @ [\<lparr>ev_id = env_event_id env, ev_sandbox_id = sid,
           ev_kind = SandboxEventKind.CommandOutput,
           ev_data = JObject [(''commandId'', JString (sh cid)),
                   (''stream'', JString (CommandOutputStream_as_db_str stream)),
                   (''sequence'', JInt (int (oc_sequence oc)))],
           ev_created_at = env_event_now env\<rparr>]\<rparr>"
    using assms
    by (auto simp: append_command_output_chunk_on_connection_def rbind_eq_Inr Let_def
        validate_command_output_bounds_def next_sequence_def insert_output_chunk_def
        insert_event_on_connection_def update_command_def split: if_splits)
  have "env_chunk_id env \<notin> oc_id ` set (output_chunks st)"
    using i oc by (auto simp: insert_output_chunk_def rbind_eq_Inr)
  then show thesis
    by (rule that [OF row b oc]) (simp_all add: st')
qed

lemma saturating_bound:
  "i64_saturating_add a b \<le> MAX_COMMAND_OUTPUT_BYTES \<Longrightarrow> a + b \<le> MAX_COMMAND_OUTPUT_BYTES"
  by (auto simp: i64_saturating_add_def MAX_COMMAND_OUTPUT_BYTES_def i64_max_def)

lemma command_rows_append [simp]:
  "command_rows (rows @ [r]) cid = command_rows rows cid @ (if oc_command_id r = cid then [r] else [])"
  by (simp add: command_rows_def)

lemma counters_exact_other:
  assumes "counters_exact rows c" and "row_id c \<noteq> oc_command_id r"
  shows "counters_exact (rows @ [r]) c"
  using assms by (simp add: counters_exact_def)

lemma counters_exact_append:
  assumes "counters_exact rows c" and "oc_command_id r = row_id c"
    and "oc_sequence r = nat (stream_sequence (oc_stream r) (row_counters c) + 1)"
    and "chunk_count (row_counters c) < MAX_COMMAND_OUTPUT_CHUNKS"
    and "byte_count (row_counters c) + int (length (oc_chunk r)) \<le> MAX_COMMAND_OUTPUT_BYTES"
  shows "counters_exact (rows @ [r])
    (c\<lparr>row_counters := bump_counters (oc_stream r) (int (length (oc_chunk r))) (row_counters c)\<rparr>)"
  using assms
  by (auto simp: counters_exact_def Let_def nat_add_distrib upt_Suc_append)

lemma distinct_row_unique:
  "distinct (map row_id cs) \<Longrightarrow> c \<in> set cs \<Longrightarrow> d \<in> set cs \<Longrightarrow> row_id c = row_id d \<Longrightarrow> c = d"
  by (metis distinct_map inj_on_eq_iff)

lemma map_row_id_update:
  "(\<And>c. row_id (f c) = row_id c) \<Longrightarrow> map row_id (map (\<lambda>c. if P c then f c else c) cs) = map row_id cs"
  by (induction cs) simp_all

lemma append_inv:
  assumes inv: "output_inv st"
    and ap: "append_command_output_chunk_on_connection sh st cid sid stream chunk ann env = Inr (oc, st')"
  shows "output_inv st'"
proof (rule append_InrE [OF ap])
  fix row
  assume row: "find_command st cid = Some row"
    and b: "chunk_count (row_counters row) < MAX_COMMAND_OUTPUT_CHUNKS"
      "i64_saturating_add (byte_count (row_counters row)) (int (length chunk)) \<le> MAX_COMMAND_OUTPUT_BYTES"
    and oc: "oc = \<lparr>oc_id = env_chunk_id env, oc_command_id = cid, oc_stream = stream,
           oc_sequence = nat (stream_sequence stream (row_counters row) + 1), oc_chunk = chunk,
           oc_annotations = ann, oc_created_at = env_now env\<rparr>"
    and fresh: "env_chunk_id env \<notin> oc_id ` set (output_chunks st)"
    and chunks: "output_chunks st' = output_chunks st @ [oc]"
    and cmds: "commands st' = map (\<lambda>c. if row_id c = cid
           then c\<lparr>row_counters := bump_counters stream (int (length chunk)) (row_counters c)\<rparr> else c) (commands st)"
    and ops: "output_operations st' = output_operations st"
  have rowin: "row \<in> set (commands st)" "row_id row = cid"
    using find_command_Some [OF row] by auto
  have ids: "map row_id (commands st') = map row_id (commands st)"
    unfolding cmds by (rule map_row_id_update) simp
  have idset: "row_id ` set (commands st') = row_id ` set (commands st)"
    using arg_cong [OF ids, of set] by (simp only: list.set_map)
  have d: "distinct (map row_id (commands st))"
    using inv by (simp add: output_inv_def)
  have "counters_exact (output_chunks st') c'" if c': "c' \<in> set (commands st')" for c'
  proof -
    obtain c where c: "c \<in> set (commands st)"
      and c'c: "c' = (if row_id c = cid
        then c\<lparr>row_counters := bump_counters stream (int (length chunk)) (row_counters c)\<rparr> else c)"
      using c' unfolding cmds by auto
    have ex: "counters_exact (output_chunks st) c"
      using inv c by (simp add: output_inv_def)
    show ?thesis
    proof (cases "row_id c = cid")
      case True
      then have "c = row"
        using distinct_row_unique [OF d c rowin(1)] rowin(2) by simp
      then show ?thesis
        using counters_exact_append [OF ex, of oc] True b(1) saturating_bound [OF b(2)] c'c chunks oc
        by simp
    next
      case False
      then show ?thesis
        using counters_exact_other [OF ex, of oc] c'c chunks oc by simp
    qed
  qed
  then show ?thesis
    using inv fresh rowin oc unfolding output_inv_def ids idset chunks ops by auto
qed

subsection \<open>Deletions\<close>

lemma delete_chunks_simps [simp]:
  "commands (delete_chunks P st) = commands st"
  "output_chunks (delete_chunks P st) = filter (\<lambda>r. \<not> P r) (output_chunks st)"
  "sandbox_events (delete_chunks P st) = sandbox_events st"
  by (simp_all add: delete_chunks_def)

lemma find_command_delete [simp]: "find_command (delete_chunks P st) cid = find_command st cid"
  by (simp add: find_command_def)

lemma delete_chunks_operations:
  "(\<forall>k i. output_operations st k = Some i \<longrightarrow> i \<in> oc_id ` set (output_chunks st))
   \<Longrightarrow> output_operations (delete_chunks P st) k = Some i
   \<Longrightarrow> i \<in> oc_id ` set (output_chunks (delete_chunks P st))"
  by (fastforce simp: delete_chunks_def split: option.splits if_splits)

lemma update_command_simps [simp]:
  "output_chunks (update_command cid f st) = output_chunks st"
  "output_operations (update_command cid f st) = output_operations st"
  "sandbox_events (update_command cid f st) = sandbox_events st"
  "commands (update_command cid f st) = map (\<lambda>c. if row_id c = cid then f c else c) (commands st)"
  by (simp_all add: update_command_def)

text \<open>Deleting chunks of one command and rewriting its row keeps the invariant, when the rewritten
  row counts what is left.\<close>

lemma delete_update_inv:
  assumes inv: "output_inv st"
    and P: "\<And>r. P r \<Longrightarrow> oc_command_id r = cid"
    and f: "\<And>c. row_id (f c) = row_id c"
    and exact: "\<And>c. c \<in> set (commands st) \<Longrightarrow> row_id c = cid \<Longrightarrow> counters_exact (output_chunks st) c
      \<Longrightarrow> counters_exact (filter (\<lambda>r. \<not> P r) (output_chunks st)) (f c)"
  shows "output_inv (update_command cid f (delete_chunks P st))"
proof -
  have ids: "map row_id (map (\<lambda>c. if row_id c = cid then f c else c) (commands st)) = map row_id (commands st)"
    by (rule map_row_id_update [of f "\<lambda>c. row_id c = cid", OF f])
  have idset: "row_id ` set (map (\<lambda>c. if row_id c = cid then f c else c) (commands st))
      = row_id ` set (commands st)"
    using arg_cong [OF ids, of set] by (simp only: list.set_map)
  have other: "counters_exact (filter (\<lambda>r. \<not> P r) (output_chunks st)) c"
    if "counters_exact (output_chunks st) c" and "row_id c \<noteq> cid" for c
  proof -
    have "command_rows (filter (\<lambda>r. \<not> P r) (output_chunks st)) (row_id c)
        = command_rows (output_chunks st) (row_id c)"
      using P that(2) by (auto simp: command_rows_def intro!: filter_cong)
    then show ?thesis
      using that(1) by (simp add: counters_exact_def)
  qed
  have "\<forall>c \<in> set (commands st). counters_exact (output_chunks st) c"
    using inv by (simp add: output_inv_def)
  then have "\<forall>c \<in> set (map (\<lambda>c. if row_id c = cid then f c else c) (commands st)).
      counters_exact (filter (\<lambda>r. \<not> P r) (output_chunks st)) c"
    using exact other by auto
  moreover have "distinct (map oc_id (filter (\<lambda>r. \<not> P r) (output_chunks st)))"
    using inv by (simp add: output_inv_def distinct_map_filter)
  moreover have "\<forall>k i. output_operations (delete_chunks P st) k = Some i
      \<longrightarrow> i \<in> oc_id ` set (output_chunks (delete_chunks P st))"
    using inv delete_chunks_operations [of st P] by (simp add: output_inv_def)
  moreover have "\<forall>r \<in> set (filter (\<lambda>r. \<not> P r) (output_chunks st)). oc_command_id r \<in> row_id ` set (commands st)"
    using inv by (simp add: output_inv_def)
  moreover have "distinct (map row_id (commands st))"
    using inv by (simp add: output_inv_def)
  ultimately show ?thesis
    unfolding output_inv_def update_command_simps delete_chunks_simps ids idset by blast
qed

lemma command_rows_filter_none: "command_rows (filter (\<lambda>r. oc_command_id r \<noteq> cid) rows) cid = []"
  by (induction rows) (simp_all add: command_rows_def)

lemma reset_inv:
  assumes "output_inv st" and "reset_command_for_retry_on_connection st cid = Inr st'"
  shows "output_inv st'"
proof -
  let ?f = "\<lambda>c. \<lparr>row_command = (row_command c)\<lparr>cmd_status := CommandStatus.Queued, cmd_stdout := [],
               cmd_stderr := [], cmd_exit_code := None, cmd_finished_at := None\<rparr>,
             row_counters = \<lparr>chunk_count = 0, byte_count = 0, stdout_sequence = 0, stderr_sequence = 0\<rparr>\<rparr>"
  have st': "st' = update_command cid ?f (delete_chunks (\<lambda>r. oc_command_id r = cid) st)"
    using assms(2) by (simp add: reset_command_for_retry_on_connection_def rbind_eq_Inr Let_def)
  have seq: "stream_sequence s \<lparr>chunk_count = 0, byte_count = 0, stdout_sequence = 0, stderr_sequence = 0\<rparr> = 0" for s
    by (cases s) (simp_all add: stream_sequence_def)
  show ?thesis
    unfolding st'
    by (rule delete_update_inv [OF assms(1)])
      (simp_all add: counters_exact_def command_rows_filter_none seq
        MAX_COMMAND_OUTPUT_CHUNKS_def MAX_COMMAND_OUTPUT_BYTES_def)
qed

lemma stream_rows_command_rows:
  "stream_rows st cid stream = filter (\<lambda>r. oc_stream r = stream) (command_rows (output_chunks st) cid)"
  by (simp add: stream_rows_def command_rows_def conj_commute)

lemma counters_exact_replace:
  assumes "counters_exact rows c" and "row_id d = row_id c"
    and "mine = filter (\<lambda>r. oc_stream r = stream) (command_rows rows (row_id c))"
    and "row_counters d = set_stream_sequence stream 0 ((row_counters c)
               \<lparr>chunk_count := chunk_count (row_counters c) - int (length mine),
                byte_count := byte_count (row_counters c) - chunk_bytes mine\<rparr>)"
  shows "counters_exact (filter (\<lambda>r. \<not> (oc_command_id r = row_id c \<and> oc_stream r = stream)) rows) d"
proof -
  let ?all = "command_rows rows (row_id c)"
  let ?rest = "filter (\<lambda>r. oc_stream r \<noteq> stream) ?all"
  have rest: "command_rows (filter (\<lambda>r. \<not> (oc_command_id r = row_id c \<and> oc_stream r = stream)) rows) (row_id c)
      = ?rest"
    by (auto simp: command_rows_def intro: filter_cong)
  have len: "length ?all = length mine + length ?rest"
    using sum_length_filter_compl [of "\<lambda>r. oc_stream r = stream" ?all] assms(3) by simp
  have bytes: "chunk_bytes ?all = chunk_bytes mine + chunk_bytes ?rest"
    using chunk_bytes_split [of ?all "\<lambda>r. oc_stream r = stream"] assms(3) by simp
  have seqs: "map oc_sequence (filter (\<lambda>r. oc_stream r = s) ?rest)
      = (if s = stream then [] else map oc_sequence (filter (\<lambda>r. oc_stream r = s) ?all))" for s
    by (auto simp: filter_empty_conv intro!: arg_cong [where f = "map oc_sequence"] filter_cong)
  have c: "chunk_count (row_counters c) = int (length ?all)" "byte_count (row_counters c) = chunk_bytes ?all"
    "chunk_count (row_counters c) \<le> MAX_COMMAND_OUTPUT_CHUNKS"
    "byte_count (row_counters c) \<le> MAX_COMMAND_OUTPUT_BYTES"
    "\<And>s. 0 \<le> stream_sequence s (row_counters c) \<and> map oc_sequence (filter (\<lambda>r. oc_stream r = s) ?all)
         = [1..<Suc (nat (stream_sequence s (row_counters c)))]"
    using assms(1) unfolding counters_exact_def Let_def by blast+
  show ?thesis
    unfolding counters_exact_def Let_def assms(2) rest seqs assms(4)
    using c len bytes chunk_bytes_nonneg [of mine] by (simp del: upt_Suc chunk_bytes_nonneg)
qed

lemma replace_Inr:
  assumes "replace_command_output_stream_on_connection st cid stream = Inr st'"
  shows "st' = update_command cid
       (\<lambda>c. \<lparr>row_command = (case stream of
               CommandOutputStream.Stdout \<Rightarrow> (row_command c)\<lparr>cmd_stdout := []\<rparr>
             | CommandOutputStream.Stderr \<Rightarrow> (row_command c)\<lparr>cmd_stderr := []\<rparr>),
             row_counters = set_stream_sequence stream 0 ((row_counters c)
               \<lparr>chunk_count := chunk_count (row_counters c) - int (length (stream_rows st cid stream)),
                byte_count := byte_count (row_counters c) - chunk_bytes (stream_rows st cid stream)\<rparr>)\<rparr>)
       (delete_chunks (\<lambda>r. oc_command_id r = cid \<and> oc_stream r = stream) st)"
  using assms by (simp add: replace_command_output_stream_on_connection_def rbind_eq_Inr Let_def)

lemma replace_inv:
  assumes "output_inv st" and "replace_command_output_stream_on_connection st cid stream = Inr st'"
  shows "output_inv st'"
  unfolding replace_Inr [OF assms(2)]
proof (rule delete_update_inv [OF assms(1)])
  fix c assume "row_id c = cid" and "counters_exact (output_chunks st) c"
  then show "counters_exact (filter (\<lambda>r. \<not> (oc_command_id r = cid \<and> oc_stream r = stream)) (output_chunks st))
    \<lparr>row_command = (case stream of
               CommandOutputStream.Stdout \<Rightarrow> (row_command c)\<lparr>cmd_stdout := []\<rparr>
             | CommandOutputStream.Stderr \<Rightarrow> (row_command c)\<lparr>cmd_stderr := []\<rparr>),
             row_counters = set_stream_sequence stream 0 ((row_counters c)
               \<lparr>chunk_count := chunk_count (row_counters c) - int (length (stream_rows st cid stream)),
                byte_count := byte_count (row_counters c) - chunk_bytes (stream_rows st cid stream)\<rparr>)\<rparr>"
    using counters_exact_replace [of "output_chunks st" c _ _ stream]
    by (cases stream) (simp_all add: stream_rows_command_rows)
qed (simp_all split: CommandOutputStream.split)

lemma completion_inv:
  assumes inv: "output_inv st"
    and "append_completion_output_on_connection sh st cid sid stream chunk env = Inr st'"
  shows "output_inv st'"
  using assms append_inv [OF inv] append_inv [OF replace_inv [OF inv]]
  by (auto simp: append_completion_output_on_connection_def Let_def rbind_eq_Inr
      split: if_splits option.splits prod.splits)

end
