(* ===== verification/Command_Streams.thy ===== *)
theory Command_Streams
  imports Command_Output "HOL-Library.Product_Lexorder"
begin

section \<open>Command streams\<close>

text \<open>
  What the operations of \<open>Command_Output\<close> promise to their clients: runs of operations keep the
  counters exact and bounded, an append extends exactly one stream, a completion makes the stored
  stream equal to the reported text, a replayed append is answered from the operation table, and the
  bounded view of \<open>fetch_command\<close> is exact for small outputs.
\<close>

subsection \<open>Reading a command\<close>

definition MATERIALIZED_OUTPUT_CHUNKS :: nat where
  "MATERIALIZED_OUTPUT_CHUNKS = 64"

definition MATERIALIZED_CHUNK_CHARS :: nat where
  "MATERIALIZED_CHUNK_CHARS = 64 * 1024"

text \<open>The SQL function \<open>substr(chunk, 1, n)\<close>: the first \<open>n\<close> characters of a UTF-8 text.\<close>

fun substr_chars :: "nat \<Rightarrow> string \<Rightarrow> string" where
  "substr_chars n [] = []"
| "substr_chars n (b # bs) =
     (if 128 \<le> byte b \<and> byte b < 192 then b # substr_chars n bs
      else if n = 0 then [] else b # substr_chars (n - 1) bs)"

definition fetch_command :: "output_tables \<Rightarrow> uuid \<Rightarrow> ApiError + CommandRun" where
  "fetch_command st command_id =
     rbind (ok_or (not_found ''command not found'') (find_command st command_id)) (\<lambda>row.
     let command = row_command row;
         rows = map (\<lambda>r. (oc_stream r, substr_chars MATERIALIZED_CHUNK_CHARS (oc_chunk r)))
           (take MATERIALIZED_OUTPUT_CHUNKS
             (sort_key (\<lambda>r. (CommandOutputStream_as_db_str (oc_stream r), oc_sequence r))
               (filter (\<lambda>r. oc_command_id r = command_id) (output_chunks st)))) in
     Inr (if rows = [] then command
          else command\<lparr>
            cmd_stdout := concat (map snd (filter (\<lambda>p. fst p = CommandOutputStream.Stdout) rows)),
            cmd_stderr := concat (map snd (filter (\<lambda>p. fst p = CommandOutputStream.Stderr) rows))\<rparr>))"

subsection \<open>Runs of operations\<close>

datatype output_op =
  InsertCommand CommandRun
| AppendOutput uuid uuid CommandOutputStream string "CommandOutputAnnotation list" "(uuid \<times> uuid) option" append_env
| CompleteOutput uuid uuid CommandOutputStream string append_env
| ResetCommand uuid
| FinishCommand uuid CommandStatus "int option" timestamp

definition committed :: "'s \<Rightarrow> 'e + 's \<Rightarrow> 's" where
  "committed st r = (case r of Inl _ \<Rightarrow> st | Inr st' \<Rightarrow> st')"

definition output_step :: "show_uuid \<Rightarrow> output_tables \<Rightarrow> output_op \<Rightarrow> output_tables" where
  "output_step sh st op = (case op of
     InsertCommand c \<Rightarrow> committed st (insert_command_on_connection st c)
   | AppendOutput cid sid stream chunk ann key env \<Rightarrow>
       committed st (rbind (append_command_output_chunk sh st cid sid stream chunk ann key env) (\<lambda>(_, s). Inr s))
   | CompleteOutput cid sid stream chunk env \<Rightarrow>
       committed st (append_completion_output_on_connection sh st cid sid stream chunk env)
   | ResetCommand cid \<Rightarrow> committed st (reset_command_for_retry_on_connection st cid)
   | FinishCommand cid status exit_code now \<Rightarrow>
       finish_command_from_lease_result_on_connection st cid status exit_code now)"

definition empty_output :: output_tables where
  "empty_output = \<lparr>commands = [], output_chunks = [], output_operations = Map.empty, sandbox_events = []\<rparr>"

lemma committed_cases: "(\<And>st'. r = Inr st' \<Longrightarrow> P st') \<Longrightarrow> P st \<Longrightarrow> P (committed st r)"
  by (cases r) (simp_all add: committed_def)

lemma insert_command_inv:
  assumes "output_inv st" and "insert_command_on_connection st c = Inr st'"
  shows "output_inv st'"
proof -
  have fresh: "cmd_id c \<notin> row_id ` set (commands st)"
    and st': "st' = st\<lparr>commands := commands st @ [\<lparr>row_command = c,
         row_counters = \<lparr>chunk_count = 0, byte_count = 0, stdout_sequence = 0, stderr_sequence = 0\<rparr>\<rparr>]\<rparr>"
    using assms(2) by (auto simp: insert_command_on_connection_def rbind_eq_Inr)
  have rows: "command_rows (output_chunks st) (cmd_id c) = []"
  proof -
    have "\<forall>r \<in> set (output_chunks st). oc_command_id r \<in> row_id ` set (commands st)"
      using assms(1) by (simp add: output_inv_def)
    then have "\<forall>r \<in> set (output_chunks st). oc_command_id r \<noteq> cmd_id c"
      using fresh by metis
    then show ?thesis
      by (simp add: command_rows_def filter_empty_conv)
  qed
  have seq: "stream_sequence s \<lparr>chunk_count = 0, byte_count = 0, stdout_sequence = 0, stderr_sequence = 0\<rparr> = 0" for s
    by (cases s) (simp_all add: stream_sequence_def)
  have "counters_exact (output_chunks st) \<lparr>row_command = c,
         row_counters = \<lparr>chunk_count = 0, byte_count = 0, stdout_sequence = 0, stderr_sequence = 0\<rparr>\<rparr>"
    by (simp add: counters_exact_def rows seq MAX_COMMAND_OUTPUT_CHUNKS_def MAX_COMMAND_OUTPUT_BYTES_def)
  then show ?thesis
    using assms(1) fresh by (auto simp: output_inv_def st')
qed

lemma finish_command_inv:
  assumes "output_inv st"
  shows "output_inv (finish_command_from_lease_result_on_connection st cid status exit_code now)"
proof -
  have del: "delete_chunks (\<lambda>_. False) st = st"
    by (cases st) (simp add: delete_chunks_def option.case_eq_if fun_eq_iff)
  show ?thesis
    using delete_update_inv [OF assms, of "\<lambda>_. False" cid
        "\<lambda>c. c\<lparr>row_command := (row_command c)\<lparr>cmd_status := status, cmd_exit_code := exit_code,
               cmd_finished_at := Some now\<rparr>\<rparr>"]
    by (simp add: finish_command_from_lease_result_on_connection_def counters_exact_def del)
qed

lemma append_operation_inv:
  assumes inv: "output_inv st"
    and ap: "append_command_output_chunk sh st cid sid stream chunk ann key env = Inr (c, st')"
  shows "output_inv st'"
proof (cases "Option.bind key (output_operations st)")
  case None
  then obtain st1 where ap1: "append_command_output_chunk_on_connection sh st cid sid stream chunk ann env = Inr (c, st1)"
    and st': "st' = (case key of None \<Rightarrow> st1
      | Some k \<Rightarrow> st1\<lparr>output_operations := (output_operations st1)(k \<mapsto> oc_id c)\<rparr>)"
    using ap by (auto simp: append_command_output_chunk_def rbind_eq_Inr)
  have "output_inv st1"
    using append_inv [OF inv ap1] .
  moreover have "oc_id c \<in> oc_id ` set (output_chunks st1)"
    by (rule append_InrE [OF ap1]) simp
  ultimately show ?thesis
    unfolding st' by (cases key) (auto simp: output_inv_def)
next
  case (Some i)
  then show ?thesis
    using ap inv by (auto simp: append_command_output_chunk_def rbind_eq_Inr)
qed

lemma output_step_inv:
  assumes inv: "output_inv st"
  shows "output_inv (output_step sh st op)"
proof (cases op)
  case (InsertCommand c)
  show ?thesis
    unfolding output_step_def InsertCommand output_op.case
    by (rule committed_cases [where P = output_inv, OF insert_command_inv [OF inv] inv])
next
  case (AppendOutput cid sid stream chunk ann key env)
  have "output_inv st'"
    if "rbind (append_command_output_chunk sh st cid sid stream chunk ann key env) (\<lambda>(_, s). Inr s) = Inr st'"
    for st'
    using that append_operation_inv [OF inv] by (auto simp: rbind_eq_Inr)
  then show ?thesis
    unfolding output_step_def AppendOutput output_op.case
    by (rule committed_cases [where P = output_inv, OF _ inv])
next
  case (CompleteOutput cid sid stream chunk env)
  show ?thesis
    unfolding output_step_def CompleteOutput output_op.case
    by (rule committed_cases [where P = output_inv, OF completion_inv [OF inv] inv])
next
  case (ResetCommand cid)
  show ?thesis
    unfolding output_step_def ResetCommand output_op.case
    by (rule committed_cases [where P = output_inv, OF reset_inv [OF inv] inv])
next
  case (FinishCommand cid status exit_code now)
  show ?thesis
    unfolding output_step_def FinishCommand output_op.case
    by (rule finish_command_inv [OF inv])
qed

lemma output_run_inv: "output_inv st \<Longrightarrow> output_inv (foldl (output_step sh) st ops)"
  by (induction ops arbitrary: st) (simp_all add: output_step_inv)

lemma empty_output_inv: "output_inv empty_output"
  by (simp add: output_inv_def empty_output_def)

text \<open>C10: the counters that replaced the rescan of the chunk table are always exact.  Starting from
  empty tables, after any sequence of inserting commands, appending (with or without an operation
  key), completing, resetting for a retry and finishing, whether each of them succeeds or is rolled
  back: every command's chunk and byte counters equal what its chunk rows add up to, stay within
  4096 chunks and 4 MiB, each stream's sequence numbers are exactly 1, 2, ..., n in the order of
  insertion with n the stored last sequence, every chunk belongs to a command, and every recorded
  operation names a chunk that still exists.\<close>

theorem output_counters_exact:
  "output_inv (foldl (output_step sh) empty_output ops)"
  using output_run_inv [OF empty_output_inv] .
subsection \<open>The text of a stream\<close>

abbreviation stream_text :: "output_tables \<Rightarrow> uuid \<Rightarrow> CommandOutputStream \<Rightarrow> string" where
  "stream_text \<equiv> command_output_for_stream_on_connection"

lemma stream_rows_unknown:
  assumes "output_inv st" and "cid \<notin> row_id ` set (commands st)"
  shows "command_rows (output_chunks st) cid = []"
proof -
  have "\<forall>r \<in> set (output_chunks st). oc_command_id r \<in> row_id ` set (commands st)"
    using assms(1) by (simp add: output_inv_def)
  then have "\<forall>r \<in> set (output_chunks st). oc_command_id r \<noteq> cid"
    using assms(2) by metis
  then show ?thesis
    by (simp add: command_rows_def filter_empty_conv)
qed

lemma stream_rows_sorted:
  assumes "output_inv st"
  shows "sorted (map oc_sequence (stream_rows st cid stream))"
proof (cases "cid \<in> row_id ` set (commands st)")
  case True
  then obtain c where c: "c \<in> set (commands st)" "row_id c = cid" by auto
  then have "counters_exact (output_chunks st) c"
    using assms by (simp add: output_inv_def)
  then have "map oc_sequence (stream_rows st cid stream)
      = [1..<Suc (nat (stream_sequence stream (row_counters c)))]"
    unfolding stream_rows_command_rows counters_exact_def Let_def c(2) by blast
  then show ?thesis by (simp del: upt_Suc)
next
  case False
  then show ?thesis
    using stream_rows_unknown [OF assms] by (simp add: stream_rows_command_rows)
qed

lemma stream_text_rows:
  assumes "output_inv st"
  shows "stream_text st cid stream = concat (map oc_chunk (stream_rows st cid stream))"
  by (simp add: command_output_for_stream_on_connection_def
      sort_key_id_if_sorted [OF stream_rows_sorted [OF assms]])

lemma append_text:
  assumes inv: "output_inv st"
    and ap: "append_command_output_chunk_on_connection sh st cid sid stream chunk ann env = Inr (oc, st')"
  shows "stream_text st' d s = stream_text st d s @ (if d = cid \<and> s = stream then chunk else [])"
proof -
  have inv': "output_inv st'"
    using append_inv [OF inv ap] .
  have "stream_rows st' d s = stream_rows st d s @ (if d = cid \<and> s = stream then [oc] else [])
      \<and> oc_chunk oc = chunk"
    by (rule append_InrE [OF ap]) (simp add: stream_rows_def)
  then show ?thesis
    unfolding stream_text_rows [OF inv] stream_text_rows [OF inv']
    by auto
qed

lemma replace_text:
  assumes inv: "output_inv st"
    and "replace_command_output_stream_on_connection st cid stream = Inr st'"
  shows "stream_text st' d s = (if d = cid \<and> s = stream then [] else stream_text st d s)"
proof -
  have inv': "output_inv st'"
    using replace_inv [OF assms] .
  have "stream_rows st' d s = (if d = cid \<and> s = stream then [] else stream_rows st d s)"
    unfolding replace_Inr [OF assms(2)] stream_rows_def
    by (auto simp: filter_empty_conv intro: filter_cong)
  then show ?thesis
    by (simp add: stream_text_rows [OF inv] stream_text_rows [OF inv'])
qed

lemma completion_text:
  assumes inv: "output_inv st" and ne: "chunk \<noteq> []"
    and ok: "append_completion_output_on_connection sh st cid sid stream chunk env = Inr st'"
  shows "stream_text st' d s = (if d = cid \<and> s = stream then chunk else stream_text st d s)"
proof (cases "stream_text st cid stream = chunk")
  case True
  then show ?thesis
    using ok ne by (auto simp: append_completion_output_on_connection_def)
next
  case new: False
  show ?thesis
  proof (cases "strip_prefix chunk (stream_text st cid stream)")
    case (Some suffix)
    then have eq: "chunk = stream_text st cid stream @ suffix"
      by (auto simp: strip_prefix_def starts_with_def split: if_splits) (metis append_take_drop_id)
    have sne: "suffix \<noteq> []"
    proof
      assume "suffix = []"
      then have "chunk = stream_text st cid stream"
        by (subst eq) simp
      then show False
        using new by simp
    qed
    obtain oc where "append_command_output_chunk_on_connection sh st cid sid stream suffix [] env = Inr (oc, st')"
      using ok ne new Some sne
      by (auto simp: append_completion_output_on_connection_def Let_def rbind_eq_Inr)
    note t = append_text [OF inv this, of d s]
    show ?thesis
    proof (cases "d = cid \<and> s = stream")
      case True
      then show ?thesis
        using t by (simp only: eq [symmetric] if_True simp_thms)
    qed (use t in auto)
  next
    case None
    obtain st1 oc where r: "replace_command_output_stream_on_connection st cid stream = Inr st1"
      and a: "append_command_output_chunk_on_connection sh st1 cid sid stream chunk [] env = Inr (oc, st')"
      using ok ne new None
      by (auto simp: append_completion_output_on_connection_def Let_def rbind_eq_Inr)
    show ?thesis
      using append_text [OF replace_inv [OF inv r] a, of d s] replace_text [OF inv r, of d s] by simp
  qed
qed


subsection \<open>Replayed appends\<close>

definition keeps_output :: "output_op \<Rightarrow> bool" where
  "keeps_output op \<longleftrightarrow> (case op of CompleteOutput _ _ _ _ _ \<Rightarrow> False | ResetCommand _ \<Rightarrow> False | _ \<Rightarrow> True)"

definition recorded :: "output_tables \<Rightarrow> uuid \<times> uuid \<Rightarrow> CommandOutputChunk \<Rightarrow> bool" where
  "recorded st key oc \<longleftrightarrow> output_operations st key = Some (oc_id oc)
     \<and> find (\<lambda>r. oc_id r = oc_id oc) (output_chunks st) = Some oc"

lemma find_append_Some: "find P xs = Some x \<Longrightarrow> find P (xs @ ys) = Some x"
  by (induction xs) (auto split: if_splits)

lemma find_append_None: "find P xs = None \<Longrightarrow> find P (xs @ ys) = find P ys"
  by (induction xs) (auto split: if_splits)

lemma recorded_replay:
  assumes "recorded st key oc"
  shows "append_command_output_chunk sh st cid sid stream chunk ann (Some key) env = Inr (oc, st)"
  using assms
  by (simp add: recorded_def append_command_output_chunk_def fetch_output_chunk_on_connection_def)

lemma recorded_append:
  assumes rec: "recorded st key oc"
    and ap: "append_command_output_chunk sh st cid sid stream chunk ann k env = Inr (c, st')"
  shows "recorded st' key oc"
proof (cases "Option.bind k (output_operations st)")
  case None
  then obtain st1 where ap1: "append_command_output_chunk_on_connection sh st cid sid stream chunk ann env = Inr (c, st1)"
    and st': "st' = (case k of None \<Rightarrow> st1
      | Some k' \<Rightarrow> st1\<lparr>output_operations := (output_operations st1)(k' \<mapsto> oc_id c)\<rparr>)"
    using ap by (auto simp: append_command_output_chunk_def rbind_eq_Inr)
  have ops: "output_operations st1 = output_operations st" and ch: "output_chunks st1 = output_chunks st @ [c]"
    by (rule append_InrE [OF ap1]; simp)+
  have "k \<noteq> Some key"
    using None rec by (auto simp: recorded_def)
  then show ?thesis
    using rec unfolding st' by (cases k) (auto simp: recorded_def ops ch intro: find_append_Some)
next
  case (Some i)
  then have "st' = st"
    using ap by (auto simp: append_command_output_chunk_def rbind_eq_Inr)
  then show ?thesis
    using rec by simp
qed

lemma recorded_step:
  assumes "recorded st key oc" and "keeps_output op"
  shows "recorded (output_step sh st op) key oc"
proof (cases op)
  case (InsertCommand c)
  have "recorded st' key oc" if "insert_command_on_connection st c = Inr st'" for st'
    using that assms(1) by (auto simp: insert_command_on_connection_def rbind_eq_Inr recorded_def)
  then show ?thesis
    unfolding output_step_def InsertCommand output_op.case
    by (rule committed_cases [where P = "\<lambda>s. recorded s key oc", OF _ assms(1)])
next
  case (AppendOutput cid sid stream chunk ann k env)
  have "recorded st' key oc"
    if "rbind (append_command_output_chunk sh st cid sid stream chunk ann k env) (\<lambda>(_, s). Inr s) = Inr st'"
    for st'
    using that recorded_append [OF assms(1)] by (auto simp: rbind_eq_Inr)
  then show ?thesis
    unfolding output_step_def AppendOutput output_op.case
    by (rule committed_cases [where P = "\<lambda>s. recorded s key oc", OF _ assms(1)])
next
  case (FinishCommand cid status exit_code now)
  then show ?thesis
    using assms(1)
    by (simp add: output_step_def finish_command_from_lease_result_on_connection_def recorded_def)
qed (use assms(2) in \<open>simp_all add: keeps_output_def\<close>)

lemma recorded_run:
  "recorded st key oc \<Longrightarrow> list_all keeps_output ops \<Longrightarrow> recorded (foldl (output_step sh) st ops) key oc"
  by (induction ops arbitrary: st) (simp_all add: recorded_step)

lemma append_records:
  assumes inv: "output_inv st"
    and ap: "append_command_output_chunk sh st cid sid stream chunk ann (Some key) env = Inr (oc, st')"
  shows "recorded st' key oc"
proof (cases "output_operations st key")
  case None
  then obtain st1 where ap1: "append_command_output_chunk_on_connection sh st cid sid stream chunk ann env = Inr (oc, st1)"
    and st': "st' = st1\<lparr>output_operations := (output_operations st1)(key \<mapsto> oc_id oc)\<rparr>"
    using ap by (auto simp: append_command_output_chunk_def rbind_eq_Inr)
  have "find (\<lambda>r. oc_id r = oc_id oc) (output_chunks st) = None" and ch: "output_chunks st1 = output_chunks st @ [oc]"
    by (rule append_InrE [OF ap1]; force simp: find_None_iff)+
  then show ?thesis
    by (simp add: recorded_def st' ch find_append_None)
next
  case (Some i)
  then have "st' = st" and f: "find (\<lambda>r. oc_id r = i) (output_chunks st) = Some oc"
    using ap by (auto simp: append_command_output_chunk_def fetch_output_chunk_on_connection_def rbind_eq_Inr)
  moreover have "oc_id oc = i"
    using f by (auto simp: find_Some_iff)
  ultimately show ?thesis
    using Some by (simp add: recorded_def)
qed


subsection \<open>Samples\<close>

lemma validate_command_output_bounds_code [code]:
  "validate_command_output_bounds existing_chunks existing_bytes new_chunk_bytes =
     (let n = int new_chunk_bytes in
      if n > 2097152 then Inl (bad_request ''command output chunk exceeds 2 MiB'')
      else if existing_chunks \<ge> MAX_COMMAND_OUTPUT_CHUNKS
        then Inl (bad_request ''command output exceeds 4096 chunks'')
      else if i64_saturating_add existing_bytes n > MAX_COMMAND_OUTPUT_BYTES
        then Inl (bad_request ''command output exceeds 4 MiB'')
      else Inr ())"
  by (auto simp: validate_command_output_bounds_def rbind_ensure ensure_def Let_def
      MAX_COMMAND_OUTPUT_CHUNK_BYTES_def i64_max_def)

definition sample_command :: CommandRun where
  "sample_command = \<lparr>cmd_id = 5, cmd_sandbox_id = 7, cmd_status = CommandStatus.Running, cmd_argv = [''make''],
     cmd_cwd = None, cmd_exit_code = None, cmd_stdout = [], cmd_stderr = [], cmd_created_at = 0,
     cmd_finished_at = None\<rparr>"

definition sample_env :: "uuid \<Rightarrow> append_env" where
  "sample_env n = \<lparr>env_chunk_id = n, env_event_id = n, env_now = 1, env_event_now = 1\<rparr>"

definition sample_ops :: "output_op list" where
  "sample_ops = [InsertCommand sample_command,
     AppendOutput 5 7 CommandOutputStream.Stdout ''ab'' [] None (sample_env 1),
     AppendOutput 5 7 CommandOutputStream.Stderr ''warn'' [] None (sample_env 2)]"

definition sample_output :: output_tables where
  "sample_output = foldl (output_step (\<lambda>_. ''u'')) empty_output sample_ops"

lemma sample_output_inv: "output_inv sample_output"
  unfolding sample_output_def by (rule output_run_inv [OF empty_output_inv])



subsection \<open>The materialized view\<close>

lemma substr_chars_short: "length s \<le> n \<Longrightarrow> substr_chars n s = s"
  by (induction n s rule: substr_chars.induct) auto

lemma sort_stream_key:
  assumes "output_inv st"
  shows "filter (\<lambda>r. oc_stream r = stream)
      (sort_key (\<lambda>r. (CommandOutputStream_as_db_str (oc_stream r), oc_sequence r))
        (filter (\<lambda>r. oc_command_id r = cid) (output_chunks st)))
    = stream_rows st cid stream"
proof -
  let ?key = "\<lambda>r. (CommandOutputStream_as_db_str (oc_stream r), oc_sequence r)"
  have rows: "filter (\<lambda>r. oc_stream r = stream) (filter (\<lambda>r. oc_command_id r = cid) (output_chunks st))
      = stream_rows st cid stream"
    by (simp add: stream_rows_def conj_commute)
  have "map ?key (stream_rows st cid stream)
      = map (Pair (CommandOutputStream_as_db_str stream)) (map oc_sequence (stream_rows st cid stream))"
    by (auto simp: stream_rows_def)
  moreover have "sorted (map (Pair (CommandOutputStream_as_db_str stream)) ns)" if "sorted ns" for ns :: "nat list"
    using that by (induction ns) auto
  ultimately have "sorted (map ?key (stream_rows st cid stream))"
    using stream_rows_sorted [OF assms] by metis
  then show ?thesis
    unfolding filter_sort rows by (rule sort_key_id_if_sorted)
qed

text \<open>The compatibility fields of a command are exact while the output is small.  For a command
  with at most 64 chunks of at most 65536 bytes each, and at least one chunk, reading the command
  returns exactly the two stream texts; only beyond these bounds is the view a truncation.\<close>

theorem fetch_command_materializes:
  assumes inv: "output_inv st" and row: "find_command st cid = Some row"
    and some: "chunk_count (row_counters row) \<noteq> 0"
    and few: "chunk_count (row_counters row) \<le> int MATERIALIZED_OUTPUT_CHUNKS"
    and short: "\<forall>r \<in> set (output_chunks st). oc_command_id r = cid
      \<longrightarrow> length (oc_chunk r) \<le> MATERIALIZED_CHUNK_CHARS"
  shows "fetch_command st cid = Inr ((row_command row)\<lparr>
      cmd_stdout := command_output_for_stream_on_connection st cid CommandOutputStream.Stdout,
      cmd_stderr := command_output_for_stream_on_connection st cid CommandOutputStream.Stderr\<rparr>)"
proof -
  let ?key = "\<lambda>r. (CommandOutputStream_as_db_str (oc_stream r), oc_sequence r)"
  let ?mine = "filter (\<lambda>r. oc_command_id r = cid) (output_chunks st)"
  let ?rows = "map (\<lambda>r. (oc_stream r, substr_chars MATERIALIZED_CHUNK_CHARS (oc_chunk r)))
    (take MATERIALIZED_OUTPUT_CHUNKS (sort_key ?key ?mine))"
  have "counters_exact (output_chunks st) row" and id: "row_id row = cid"
    using inv find_command_Some [OF row] by (auto simp: output_inv_def)
  then have len: "chunk_count (row_counters row) = int (length ?mine)"
    by (simp add: counters_exact_def Let_def command_rows_def)
  have all: "take MATERIALIZED_OUTPUT_CHUNKS (sort_key ?key ?mine) = sort_key ?key ?mine"
    using few len by simp
  have rows: "?rows = map (\<lambda>r. (oc_stream r, oc_chunk r)) (sort_key ?key ?mine)"
    unfolding all using short by (auto intro: substr_chars_short)
  have txt_eq: "concat (map snd (filter (\<lambda>p. fst p = s) ?rows)) = stream_text st cid s" for s
    unfolding rows stream_text_rows [OF inv] sort_stream_key [OF inv, symmetric]
    by (simp add: filter_map comp_def)
  have "?rows \<noteq> []"
  proof
    assume "?rows = []"
    then have "length (sort_key ?key ?mine) = 0"
      unfolding rows by simp
    then show False
      using some len by simp
  qed
  then show ?thesis
    unfolding fetch_command_def row ok_or_simps rbind_simps Let_def txt_eq by simp
qed

text \<open>Witness: one chunk on each stream.\<close>

theorem fetch_command_materializes_witness:
  "map_option (\<lambda>c. (cmd_stdout c, cmd_stderr c))
     (case fetch_command sample_output 5 of Inl _ \<Rightarrow> None | Inr c \<Rightarrow> Some c) = Some (''ab'', ''warn'')"
proof -
  have "find_command sample_output 5 \<noteq> None"
    by code_simp
  then obtain row where row: "find_command sample_output 5 = Some row"
    by blast
  have n: "map_option (\<lambda>c. chunk_count (row_counters c)) (find_command sample_output 5) = Some 2"
    by code_simp
  have "list_all (\<lambda>r. length (oc_chunk r) \<le> 4) (output_chunks sample_output)"
    by code_simp
  then have "\<forall>r \<in> set (output_chunks sample_output). length (oc_chunk r) \<le> MATERIALIZED_CHUNK_CHARS"
    by (fastforce simp: list_all_iff MATERIALIZED_CHUNK_CHARS_def)
  moreover have "command_output_for_stream_on_connection sample_output 5 CommandOutputStream.Stdout = ''ab''"
    and "command_output_for_stream_on_connection sample_output 5 CommandOutputStream.Stderr = ''warn''"
    by code_simp+
  ultimately show ?thesis
    using fetch_command_materializes [OF sample_output_inv row] n row
    by (simp add: MATERIALIZED_OUTPUT_CHUNKS_def)
qed

subsection \<open>A full command\<close>

text \<open>A command at its chunk limit accepts no further line, not even the error text a failed lease
  appends.\<close>

lemma full_command_rejects:
  assumes "find_command st cid = Some row"
    and "MAX_COMMAND_OUTPUT_CHUNKS \<le> chunk_count (row_counters row)"
    and "length chunk \<le> MAX_COMMAND_OUTPUT_CHUNK_BYTES"
  shows "append_command_output_chunk_on_connection sh st cid sid stream chunk ann env
    = Inl (bad_request ''command output exceeds 4096 chunks'')"
  using assms
  by (simp add: append_command_output_chunk_on_connection_def lock_command_output_for_append_on_connection_def
      validate_command_output_bounds_def rbind_ensure)

end
