(* ===== verification/Transactions.thy ===== *)
theory Transactions
  imports Api_Error
begin

section \<open>Transactions\<close>

text \<open>
  The functions named \<open>..._on_connection\<close> run statements on one connection inside a transaction.
  A \<open>tx\<close> is such a computation: it reads and writes the state, or fails with an error.
  \<open>tx_bind\<close> is the sequencing of the source with its question-mark operator, \<open>tx_atomic\<close> the
  commit on success and the rollback on failure that every caller performs.

  The locale \<open>tx_frame\<close> proves what a computation keeps: for a reflexive and transitive relation
  between the state before and after, it is enough that every elementary statement respects it.
\<close>

type_synonym ('s, 'a) tx = "'s \<Rightarrow> ApiError + 'a \<times> 's"

definition tx_return :: "'a \<Rightarrow> ('s, 'a) tx" where
  "tx_return x s = Inr (x, s)"

definition tx_bind :: "('s, 'a) tx \<Rightarrow> ('a \<Rightarrow> ('s, 'b) tx) \<Rightarrow> ('s, 'b) tx" where
  "tx_bind m k s = rbind (m s) (\<lambda>(x, s'). k x s')"

definition tx_fail :: "ApiError \<Rightarrow> ('s, 'a) tx" where
  "tx_fail e s = Inl e"

definition tx_lift :: "ApiError + 'a \<Rightarrow> ('s, 'a) tx" where
  "tx_lift r s = rbind r (\<lambda>x. Inr (x, s))"

definition tx_read :: "('s \<Rightarrow> 'a) \<Rightarrow> ('s, 'a) tx" where
  "tx_read f s = Inr (f s, s)"

definition tx_write :: "('s \<Rightarrow> 's) \<Rightarrow> ('s, unit) tx" where
  "tx_write f s = Inr ((), f s)"

definition tx_ensure :: "bool \<Rightarrow> ApiError \<Rightarrow> ('s, unit) tx" where
  "tx_ensure b e = tx_lift (ensure b e)"

definition tx_when :: "bool \<Rightarrow> ('s, unit) tx \<Rightarrow> ('s, unit) tx" where
  "tx_when b m = (if b then m else tx_return ())"

fun tx_each :: "('x \<Rightarrow> ('s, unit) tx) \<Rightarrow> 'x list \<Rightarrow> ('s, unit) tx" where
  "tx_each f [] = tx_return ()"
| "tx_each f (x # xs) = tx_bind (f x) (\<lambda>_. tx_each f xs)"

fun tx_map :: "('x \<Rightarrow> ('s, 'a) tx) \<Rightarrow> 'x list \<Rightarrow> ('s, 'a list) tx" where
  "tx_map f [] = tx_return []"
| "tx_map f (x # xs) = tx_bind (f x) (\<lambda>y. tx_bind (tx_map f xs) (\<lambda>ys. tx_return (y # ys)))"

text \<open>A \<open>match\<close> on the result of a computation that only reads.\<close>

definition tx_catch :: "('s, 'a) tx \<Rightarrow> (ApiError \<Rightarrow> ('s, 'a) tx) \<Rightarrow> ('s, 'a) tx" where
  "tx_catch m h s = (case m s of Inl e \<Rightarrow> h e s | Inr r \<Rightarrow> Inr r)"

text \<open>Commit or roll back.\<close>

definition tx_atomic :: "('s, 'a) tx \<Rightarrow> 's \<Rightarrow> (ApiError + 'a) \<times> 's" where
  "tx_atomic m s = (case m s of Inl e \<Rightarrow> (Inl e, s) | Inr (x, s') \<Rightarrow> (Inr x, s'))"

lemmas tx_defs = tx_return_def tx_bind_def tx_fail_def tx_lift_def tx_read_def tx_write_def
  tx_ensure_def tx_when_def

lemma tx_apply [simp]:
  "tx_return x s = Inr (x, s)"
  "tx_fail e s = Inl e"
  "tx_read f s = Inr (f s, s)"
  "tx_write g s = Inr ((), g s)"
  by (simp_all add: tx_defs)

lemma tx_bind_Inr:
  "tx_bind m k s = Inr (y, s'') \<longleftrightarrow> (\<exists>x s'. m s = Inr (x, s') \<and> k x s' = Inr (y, s''))"
  by (auto simp: tx_bind_def rbind_eq_Inr)

lemma tx_lift_Inr: "tx_lift r s = Inr (x, s') \<longleftrightarrow> r = Inr x \<and> s' = s"
  by (auto simp: tx_lift_def rbind_eq_Inr)

lemma tx_ensure_Inr: "tx_ensure b e s = Inr (x, s') \<longleftrightarrow> b \<and> s' = s"
  by (auto simp: tx_ensure_def tx_lift_Inr)

lemma tx_bind_steps:
  "m s = Inr (x, s') \<Longrightarrow> tx_bind m k s = k x s'"
  "m s = Inl e \<Longrightarrow> tx_bind m k s = Inl e"
  by (simp_all add: tx_bind_def)

lemma tx_bind_simps [simp]:
  "tx_bind (tx_return x) k = k x"
  "tx_bind (tx_read f) k s = k (f s) s"
  "tx_bind (tx_write g) h s = h () (g s)"
  "tx_bind (tx_fail e) k s = Inl e"
  by (auto simp: tx_defs fun_eq_iff)

lemma tx_bind_lift: "tx_bind (tx_lift r) k s = (case r of Inl e \<Rightarrow> Inl e | Inr x \<Rightarrow> k x s)"
  by (cases r) (simp_all add: tx_defs)

lemma tx_bind_ensure [simp]: "tx_bind (tx_ensure b e) k s = (if b then k () s else Inl e)"
  by (simp add: tx_ensure_def tx_bind_lift ensure_def)

lemma tx_bind_assoc: "tx_bind (tx_bind m k) h = tx_bind m (\<lambda>x. tx_bind (k x) h)"
proof
  fix s
  show "tx_bind (tx_bind m k) h s = tx_bind m (\<lambda>x. tx_bind (k x) h) s"
    by (cases "m s") (auto simp: tx_bind_def)
qed

lemma tx_atomic_cases:
  "tx_atomic m s = (r, s') \<longleftrightarrow>
     (\<exists>x. m s = Inr (x, s') \<and> r = Inr x) \<or> (\<exists>e. m s = Inl e \<and> r = Inl e \<and> s' = s)"
  by (auto simp: tx_atomic_def split: sum.splits)

subsection \<open>Frames\<close>

definition tx_rel :: "('s \<Rightarrow> 's \<Rightarrow> bool) \<Rightarrow> ('s, 'a) tx \<Rightarrow> bool" where
  "tx_rel R m \<longleftrightarrow> (\<forall>s x s'. m s = Inr (x, s') \<longrightarrow> R s s')"

lemma tx_relD: "tx_rel R m \<Longrightarrow> m s = Inr (x, s') \<Longrightarrow> R s s'"
  by (auto simp: tx_rel_def)

lemma tx_relI: "(\<And>s x s'. m s = Inr (x, s') \<Longrightarrow> R s s') \<Longrightarrow> tx_rel R m"
  by (auto simp: tx_rel_def)

locale tx_frame =
  fixes R :: "'s \<Rightarrow> 's \<Rightarrow> bool"
  assumes frame_refl: "R s s"
    and frame_trans: "R s t \<Longrightarrow> R t u \<Longrightarrow> R s u"
begin

lemma return: "tx_rel R (tx_return x)"
  by (auto simp: tx_rel_def frame_refl)

lemma fail: "tx_rel R (tx_fail e)"
  by (auto simp: tx_rel_def)

lemma lift: "tx_rel R (tx_lift r)"
  by (auto simp: tx_rel_def tx_lift_Inr frame_refl)

lemma read: "tx_rel R (tx_read f)"
  by (auto simp: tx_rel_def frame_refl)

lemma ensure: "tx_rel R (tx_ensure b e)"
  by (auto simp: tx_rel_def tx_ensure_Inr frame_refl)

lemma update: "(\<And>s. R s (f s)) \<Longrightarrow> tx_rel R (tx_write f)"
  by (auto simp: tx_rel_def)

lemma bind: "tx_rel R m \<Longrightarrow> (\<And>x. tx_rel R (k x)) \<Longrightarrow> tx_rel R (tx_bind m k)"
  unfolding tx_rel_def tx_bind_Inr using frame_trans by blast

lemma guarded: "tx_rel R m \<Longrightarrow> tx_rel R (tx_when b m)"
  by (auto simp: tx_when_def return)

lemma each: "(\<And>x. x \<in> set xs \<Longrightarrow> tx_rel R (f x)) \<Longrightarrow> tx_rel R (tx_each f xs)"
  by (induction xs) (auto intro: return bind)

lemma mapped: "(\<And>x. x \<in> set xs \<Longrightarrow> tx_rel R (f x)) \<Longrightarrow> tx_rel R (tx_map f xs)"
  by (induction xs) (auto intro: return bind)

lemma catch: "tx_rel R m \<Longrightarrow> (\<And>e. tx_rel R (h e)) \<Longrightarrow> tx_rel R (tx_catch m h)"
  by (auto simp: tx_rel_def tx_catch_def split: sum.splits)

lemma cond: "tx_rel R m \<Longrightarrow> tx_rel R n \<Longrightarrow> tx_rel R (if b then m else n)"
  by simp

lemma option_case: "tx_rel R m \<Longrightarrow> (\<And>x. tx_rel R (k x)) \<Longrightarrow> tx_rel R (case v of None \<Rightarrow> m | Some x \<Rightarrow> k x)"
  by (cases v) simp_all

lemma pair_case: "(\<And>x y. tx_rel R (k x y)) \<Longrightarrow> tx_rel R (case p of (x, y) \<Rightarrow> k x y)"
  by (cases p) simp

lemma let_bound: "(\<And>x. tx_rel R (k x)) \<Longrightarrow> tx_rel R (let x = v in k x)"
  by simp

lemma atomic: "tx_rel R m \<Longrightarrow> R s (snd (tx_atomic m s))"
  using frame_refl by (auto simp: tx_atomic_def tx_rel_def split: sum.splits)

lemmas frame_rules = return fail lift read ensure bind guarded each mapped catch cond option_case pair_case let_bound

end

end
