(* ===== verification/Job_Payload.thy ===== *)
theory Job_Payload
  imports Json Lifetimes
begin

section \<open>Jobs and their payloads\<close>

text \<open>
  The \<open>Job\<close> row of \<open>crates/sandboxwich-core/src/lib.rs\<close>, the identifiers the handlers read from
  its JSON payload, and the checks a directly created job passes:
  \<open>crates/sandboxwich-api/src/handlers/jobs.rs\<close> and the \<open>..._from_job\<close> readers of the sibling
  handlers.  The libraries the code calls (\<open>uuid\<close>, \<open>serde_json\<close>, \<open>chrono\<close>, \<open>sha2\<close>) are the record
  \<open>externals\<close>, an argument of every definition that calls one of them.
\<close>

subsection \<open>Libraries\<close>

record externals =
  uuid_to_string :: "uuid \<Rightarrow> string"
  uuid_parse_str :: "string \<Rightarrow> uuid option"
  json_from_str :: "string \<Rightarrow> json option"
  to_rfc3339 :: "timestamp \<Rightarrow> string"
  sha256_hex :: "string \<Rightarrow> string"
  chrono_add_seconds :: add_seconds
  spec_to_value :: "SandboxProvisionSpec \<Rightarrow> json"
  spec_from_value :: "json \<Rightarrow> SandboxProvisionSpec option"

text \<open>The laws of \<open>uuid\<close> that the proofs name: an identifier parses back from its own text.\<close>

definition uuid_text_laws :: "'e externals_scheme \<Rightarrow> bool" where
  "uuid_text_laws x \<longleftrightarrow> (\<forall>u. uuid_parse_str x (uuid_to_string x u) = Some u)"

definition parse_uuid :: "'e externals_scheme \<Rightarrow> string \<Rightarrow> ApiError + uuid" where
  "parse_uuid x s = ok_or (internal ''database contains invalid uuid'') (uuid_parse_str x s)"

subsection \<open>The job row\<close>

record Job =
  jb_id :: uuid
  jb_tenant_id :: string
  jb_kind :: JobKind
  jb_status :: JobStatus
  jb_payload :: json
  jb_required_capability :: WorkerCapability
  jb_required_execution_class :: ExecutionClass
  jb_priority :: int
  jb_attempts :: int
  jb_max_attempts :: int
  jb_scheduled_at :: timestamp
  jb_created_at :: timestamp
  jb_updated_at :: timestamp
  jb_last_error :: "string option"

text \<open>\<open>Map::remove\<close> of \<open>serde_json\<close>.\<close>

definition object_remove :: "string \<Rightarrow> (string \<times> json) list \<Rightarrow> (string \<times> json) list" where
  "object_remove key ms = filter (\<lambda>(k, _). k \<noteq> key) ms"

definition redacted_job_payload :: "json \<Rightarrow> json" where
  "redacted_job_payload payload = (case payload of
     JObject ms \<Rightarrow> JObject (object_remove ''_tracestate'' (object_remove ''_traceparent''
       (object_remove ''stdin'' ms)))
   | v \<Rightarrow> v)"

subsection \<open>Reading the payload\<close>

definition payload_str :: "Job \<Rightarrow> string \<Rightarrow> string option" where
  "payload_str job key = Option.bind (json_get key (jb_payload job)) json_as_str"

definition uuid_from_job_payload ::
  "'e externals_scheme \<Rightarrow> Job \<Rightarrow> string \<Rightarrow> string \<Rightarrow> ApiError + uuid" where
  "uuid_from_job_payload x job key missing =
     rbind (ok_or (internal missing) (payload_str job key)) (parse_uuid x)"

definition sandbox_id_from_job :: "'e externals_scheme \<Rightarrow> Job \<Rightarrow> ApiError + uuid" where
  "sandbox_id_from_job x job =
     uuid_from_job_payload x job ''sandboxId'' ''run command job is missing sandbox id''"

definition parent_sandbox_id_from_job :: "'e externals_scheme \<Rightarrow> Job \<Rightarrow> ApiError + uuid" where
  "parent_sandbox_id_from_job x job =
     uuid_from_job_payload x job ''parentSandboxId'' ''fork job is missing parent sandbox id''"

definition child_sandbox_id_from_job :: "'e externals_scheme \<Rightarrow> Job \<Rightarrow> ApiError + uuid" where
  "child_sandbox_id_from_job x job =
     uuid_from_job_payload x job ''childSandboxId'' ''fork job is missing child sandbox id''"

definition command_id_from_job :: "'e externals_scheme \<Rightarrow> Job \<Rightarrow> ApiError + uuid" where
  "command_id_from_job x job =
     uuid_from_job_payload x job ''commandId'' ''run command job is missing command id''"

definition prompt_event_id_from_job :: "'e externals_scheme \<Rightarrow> Job \<Rightarrow> ApiError + uuid" where
  "prompt_event_id_from_job x job =
     uuid_from_job_payload x job ''promptEventId'' ''prompt job is missing prompt event id''"

definition snapshot_id_from_job :: "'e externals_scheme \<Rightarrow> Job \<Rightarrow> ApiError + uuid" where
  "snapshot_id_from_job x job =
     uuid_from_job_payload x job ''snapshotId'' ''snapshot job is missing snapshot id''"

definition home_id_from_job :: "'e externals_scheme \<Rightarrow> Job \<Rightarrow> ApiError + uuid" where
  "home_id_from_job x job =
     rbind (ok_or (internal ''home job is missing homeId'') (payload_str job ''homeId'')) (\<lambda>v.
     ok_or (internal ''home job has invalid homeId'') (uuid_parse_str x v))"

definition file_id_from_job :: "'e externals_scheme \<Rightarrow> Job \<Rightarrow> ApiError + uuid" where
  "file_id_from_job x job =
     rbind (ok_or (bad_request ''materialization fileId is required'') (payload_str job ''fileId'')) (\<lambda>v.
     ok_or (bad_request ''materialization fileId is invalid'') (uuid_parse_str x v))"

definition resident_process_id_from_job :: "'e externals_scheme \<Rightarrow> Job \<Rightarrow> ApiError + uuid" where
  "resident_process_id_from_job x job =
     rbind (ok_or (bad_request ''residentProcessId is required'')
       (payload_str job ''residentProcessId'')) (\<lambda>v.
     ok_or (bad_request ''residentProcessId is invalid'') (uuid_parse_str x v))"

record JobReferences =
  ref_sandbox_id :: "uuid option"
  ref_command_id :: "uuid option"
  ref_snapshot_id :: "uuid option"
  ref_parent_sandbox_id :: "uuid option"
  ref_child_sandbox_id :: "uuid option"
  ref_prompt_event_id :: "uuid option"

definition no_references :: JobReferences where
  "no_references = \<lparr>ref_sandbox_id = None, ref_command_id = None, ref_snapshot_id = None,
     ref_parent_sandbox_id = None, ref_child_sandbox_id = None, ref_prompt_event_id = None\<rparr>"

definition job_references :: "'e externals_scheme \<Rightarrow> Job \<Rightarrow> ApiError + JobReferences" where
  "job_references x job = (case jb_kind job of
     JobKind.DeleteHome \<Rightarrow> Inr no_references
   | JobKind.ForkSandbox \<Rightarrow>
       rbind (parent_sandbox_id_from_job x job) (\<lambda>p.
       rbind (child_sandbox_id_from_job x job) (\<lambda>c.
       rbind (snapshot_id_from_job x job) (\<lambda>s.
       Inr (no_references\<lparr>ref_parent_sandbox_id := Some p, ref_child_sandbox_id := Some c,
         ref_snapshot_id := Some s\<rparr>))))
   | JobKind.RunCommand \<Rightarrow>
       rbind (sandbox_id_from_job x job) (\<lambda>s.
       rbind (command_id_from_job x job) (\<lambda>c.
       Inr (no_references\<lparr>ref_sandbox_id := Some s, ref_command_id := Some c\<rparr>)))
   | JobKind.RunPrompt \<Rightarrow>
       rbind (sandbox_id_from_job x job) (\<lambda>s.
       rbind (prompt_event_id_from_job x job) (\<lambda>e.
       Inr (no_references\<lparr>ref_sandbox_id := Some s, ref_prompt_event_id := Some e\<rparr>)))
   | kind \<Rightarrow>
       rbind (sandbox_id_from_job x job) (\<lambda>s.
       if kind \<in> {JobKind.ResumeSandbox, JobKind.CreateSnapshot}
       then rbind (snapshot_id_from_job x job) (\<lambda>i.
         Inr (no_references\<lparr>ref_sandbox_id := Some s, ref_snapshot_id := Some i\<rparr>))
       else Inr (no_references\<lparr>ref_sandbox_id := Some s\<rparr>)))"

subsection \<open>Lease durations\<close>

definition MIN_LEASE_SECONDS :: nat where
  "MIN_LEASE_SECONDS = 1"

definition MAX_LEASE_SECONDS :: nat where
  "MAX_LEASE_SECONDS = 3600"

definition DEFAULT_LEASE_SECONDS :: nat where
  "DEFAULT_LEASE_SECONDS = 60"

definition effective_lease_seconds :: "nat option \<Rightarrow> nat" where
  "effective_lease_seconds requested = (case requested of
     None \<Rightarrow> DEFAULT_LEASE_SECONDS
   | Some v \<Rightarrow> max MIN_LEASE_SECONDS (min v MAX_LEASE_SECONDS))"

lemma effective_lease_seconds_bounds:
  "0 < effective_lease_seconds r" "effective_lease_seconds r \<le> 3600"
  by (auto simp: effective_lease_seconds_def MIN_LEASE_SECONDS_def MAX_LEASE_SECONDS_def
      DEFAULT_LEASE_SECONDS_def split: option.splits)

subsection \<open>Directly created jobs\<close>

datatype MaterializeFileDestination =
  CompilerCacheArchive
| ApexWorld
| ApexTask
| ApexTaskInstructions
| ApexGradingBundle

definition guest_path :: "MaterializeFileDestination \<Rightarrow> string" where
  "guest_path d = (case d of
     CompilerCacheArchive \<Rightarrow> ''/run/sandboxwich/compiler-cache/staging/compiler-cache-restore.tar.gz''
   | ApexWorld \<Rightarrow> ''/workspace/.apex/input/world''
   | ApexTask \<Rightarrow> ''/workspace/.apex/input/task''
   | MaterializeFileDestination.ApexTaskInstructions \<Rightarrow> ''/workspace/.apex/input/task-instructions''
   | ApexGradingBundle \<Rightarrow> ''/workspace/.apex/grader/bundle.zip'')"

definition destination_names :: "(string \<times> MaterializeFileDestination) list" where
  "destination_names =
    [(''compiler_cache_archive'', CompilerCacheArchive),
     (''apex_world'', ApexWorld),
     (''apex_task'', ApexTask),
     (''apex_task_instructions'', MaterializeFileDestination.ApexTaskInstructions),
     (''apex_grading_bundle'', ApexGradingBundle)]"

text \<open>
  The derived deserializer of a unit variant takes its name, or an object whose only member is the
  name with a null.
\<close>

definition destination_from_value :: "json \<Rightarrow> MaterializeFileDestination option" where
  "destination_from_value v = (case v of
     JString s \<Rightarrow> map_of destination_names s
   | JObject [(s, JNull)] \<Rightarrow> map_of destination_names s
   | _ \<Rightarrow> None)"

definition materialization_destination_from_job :: "Job \<Rightarrow> ApiError + MaterializeFileDestination" where
  "materialization_destination_from_job job =
     rbind (ok_or (bad_request ''materialization destination is required'')
       (json_get ''destination'' (jb_payload job))) (\<lambda>v.
     ok_or (bad_request ''materialization destination is invalid'') (destination_from_value v))"

definition is_ascii_hexdigit :: "char \<Rightarrow> bool" where
  "is_ascii_hexdigit c \<longleftrightarrow> is_ascii_digit c \<or> 97 \<le> byte c \<and> byte c \<le> 102 \<or> 65 \<le> byte c \<and> byte c \<le> 70"

definition materialization_digest_from_job :: "Job \<Rightarrow> ApiError + string" where
  "materialization_digest_from_job job =
     rbind (ok_or (bad_request ''materialization expectedSha256 is required'')
       (payload_str job ''expectedSha256'')) (\<lambda>v.
     rbind (ensure (\<not> (length v \<noteq> 64
         \<or> \<not> list_all (\<lambda>c. is_ascii_hexdigit c \<and> \<not> is_ascii_uppercase c) v))
       (bad_request ''materialization expectedSha256 is invalid'')) (\<lambda>_. Inr v))"

definition MAX_COMPILER_CACHE_IDENTITY_BYTES :: nat where
  "MAX_COMPILER_CACHE_IDENTITY_BYTES = 1024 * 1024"

definition compiler_cache_identity_from_job :: "Job \<Rightarrow> ApiError + string" where
  "compiler_cache_identity_from_job job =
     rbind (ok_or (bad_request ''compilerCacheIdentity is required'')
       (payload_str job ''compilerCacheIdentity'')) (\<lambda>v.
     rbind (ensure (\<not> (v = [] \<or> length v > MAX_COMPILER_CACHE_IDENTITY_BYTES))
       (bad_request ''compilerCacheIdentity is empty or exceeds its size bound'')) (\<lambda>_. Inr v))"

definition bind_compiler_cache_identity_tenant ::
  "'e externals_scheme \<Rightarrow> string \<Rightarrow> string \<Rightarrow> ApiError + unit" where
  "bind_compiler_cache_identity_tenant x identity tenant_id =
     rbind (ok_or (bad_request ''compilerCacheIdentity must be valid JSON'') (json_from_str x identity)) (\<lambda>raw.
     case Option.bind (json_get ''namespace'' raw) (json_get ''visibility'') of
       None \<Rightarrow> Inr ()
     | Some visibility \<Rightarrow>
         let kind = (case Option.bind (json_get ''kind'' visibility) json_as_str of None \<Rightarrow> [] | Some s \<Rightarrow> s)
         in if kind \<noteq> ''tenant_repository_private'' then Inr () else
         let claimed = (case Option.bind (json_get ''tenant'' visibility) json_as_str of None \<Rightarrow> [] | Some s \<Rightarrow> s)
         in rbind (ensure (claimed \<noteq> []) (bad_request
              ''compilerCacheIdentity tenant_repository_private visibility requires a tenant'')) (\<lambda>_.
            ensure (claimed = tenant_id) (bad_request_code ''compiler_cache_identity_tenant_mismatch''
              ''compilerCacheIdentity tenant must match the authenticated tenant'')))"

definition BASE_KEYS :: "string list" where
  "BASE_KEYS = [''sandboxId'', ''fileId'', ''destination'', ''expectedSha256'']"

definition materialize_probe :: "json \<Rightarrow> uuid \<Rightarrow> timestamp \<Rightarrow> Job" where
  "materialize_probe payload job_id now =
     \<lparr>jb_id = job_id, jb_tenant_id = [], jb_kind = JobKind.MaterializeFile, jb_status = JobStatus.Queued,
      jb_payload = payload, jb_required_capability = WorkerCapability.MaterializeFile,
      jb_required_execution_class = ExecutionClass.DevelopmentContainer, jb_priority = 0,
      jb_attempts = 0, jb_max_attempts = 1, jb_scheduled_at = now, jb_created_at = now,
      jb_updated_at = now, jb_last_error = None\<rparr>"

definition validate_materialize_file_job_input ::
  "'e externals_scheme \<Rightarrow> uuid \<Rightarrow> timestamp \<Rightarrow> json \<Rightarrow> ApiError + unit" where
  "validate_materialize_file_job_input x job_id now payload = (case payload of
     JObject obj \<Rightarrow>
       rbind (ensure (\<not> list_ex (\<lambda>key. map_of obj key = None) BASE_KEYS)
         (bad_request ''materialization payload is missing a required field'')) (\<lambda>_.
       let probe = materialize_probe payload job_id now in
       rbind (sandbox_id_from_job x probe) (\<lambda>_.
       rbind (file_id_from_job x probe) (\<lambda>_.
       rbind (materialization_destination_from_job probe) (\<lambda>destination.
       rbind (materialization_digest_from_job probe) (\<lambda>_.
       rbind (if destination = CompilerCacheArchive
              then rbind (compiler_cache_identity_from_job probe) (\<lambda>_. Inr (length BASE_KEYS + 1))
              else Inr (length BASE_KEYS)) (\<lambda>expected_len.
       ensure (\<not> (length obj \<noteq> expected_len
           \<or> destination \<noteq> CompilerCacheArchive \<and> map_of obj ''compilerCacheIdentity'' \<noteq> None))
         (bad_request ''materialization payload contains fields outside its destination contract'')))))))
   | _ \<Rightarrow> Inl (bad_request ''materialization payload must be an object''))"

definition validate_functional_required_capability :: "WorkerCapability \<Rightarrow> ApiError + unit" where
  "validate_functional_required_capability capability = (case capability of
     WorkerCapability.SandboxedContainer \<Rightarrow> Inl (bad_request ''required_capability must be a functional worker capability; isolation is selected by the sandbox execution_class'')
   | WorkerCapability.VirtualMachine \<Rightarrow> Inl (bad_request ''required_capability must be a functional worker capability; isolation is selected by the sandbox execution_class'')
   | _ \<Rightarrow> Inr ())"

subsection \<open>What an accepted materialization payload is\<close>

definition destination_keys :: "MaterializeFileDestination \<Rightarrow> string set" where
  "destination_keys d = set BASE_KEYS \<union> (if d = CompilerCacheArchive then {''compilerCacheIdentity''} else {})"

lemma payload_str_probe:
  "payload_str (materialize_probe payload i now) key = Option.bind (json_get key payload) json_as_str"
  by (simp add: payload_str_def materialize_probe_def)

lemma is_ok_ok_or [simp]: "is_ok (ok_or e v) \<longleftrightarrow> v \<noteq> None"
  by (cases v) (simp_all add: ok_or_def is_ok_def)

lemma is_ok_ensure [simp]: "is_ok (ensure b e) \<longleftrightarrow> b"
  by (simp add: ensure_def is_ok_def)

lemma is_ok_unit: "r = Inr () \<longleftrightarrow> is_ok r"
  by (cases r) (simp_all add: is_ok_def)

lemma rbind_unit: "rbind m k = Inr () \<longleftrightarrow> (\<exists>v. m = Inr v \<and> k v = Inr ())"
  by (auto simp: rbind_eq_Inr)

lemma keys_exact:
  assumes "distinct ks" and "S \<subseteq> set ks" and "finite S"
  shows "set ks = S \<longleftrightarrow> length ks = card S"
proof
  show "set ks = S \<Longrightarrow> length ks = card S"
    using assms(1) distinct_card by fastforce
  show "length ks = card S \<Longrightarrow> set ks = S"
    using assms by (metis card_subset_eq distinct_card finite_set)
qed

lemma destination_keys_card:
  "card (destination_keys d) = (if d = CompilerCacheArchive then length BASE_KEYS + 1 else length BASE_KEYS)"
  "finite (destination_keys d)"
  by (simp_all add: destination_keys_def BASE_KEYS_def)

lemma compiler_cache_identity_key:
  assumes "is_ok (compiler_cache_identity_from_job (materialize_probe (JObject obj) i now))"
  shows "map_of obj ''compilerCacheIdentity'' \<noteq> None"
proof
  assume "map_of obj ''compilerCacheIdentity'' = None"
  then show False
    using assms by (simp add: compiler_cache_identity_from_job_def payload_str_probe json_get_def ok_or_def is_ok_def)
qed

lemma contract_keys:
  assumes "distinct (map fst obj)" and base: "set BASE_KEYS \<subseteq> fst ` set obj"
    and archive: "d = CompilerCacheArchive \<Longrightarrow> map_of obj ''compilerCacheIdentity'' \<noteq> None"
  shows "\<not> (length obj \<noteq> card (destination_keys d)
           \<or> d \<noteq> CompilerCacheArchive \<and> map_of obj ''compilerCacheIdentity'' \<noteq> None)
         \<longleftrightarrow> fst ` set obj = destination_keys d"
proof -
  have sub: "destination_keys d \<subseteq> set (map fst obj)"
    using base archive by (auto simp: destination_keys_def map_of_eq_None_iff)
  have len: "fst ` set obj = destination_keys d \<longleftrightarrow> length obj = card (destination_keys d)"
    using keys_exact [OF assms(1) sub destination_keys_card(2)] by simp
  moreover have "d \<noteq> CompilerCacheArchive \<Longrightarrow> fst ` set obj = destination_keys d
      \<Longrightarrow> map_of obj ''compilerCacheIdentity'' = None"
    by (auto simp: map_of_eq_None_iff destination_keys_def BASE_KEYS_def)
  ultimately show ?thesis by (cases "d = CompilerCacheArchive") auto
qed

lemma is_ok_ex: "is_ok r \<longleftrightarrow> (\<exists>v. r = Inr v)"
  by (cases r) (simp_all add: is_ok_def)

text \<open>C40: a materialization payload with distinct member names is accepted exactly when it is an
  object whose member names are those of its destination, the four common ones and for the compiler
  cache archive its identity, and each of the named members reads as what the job needs.\<close>

theorem materialize_payload_exact:
  assumes "json_wf payload"
  shows "validate_materialize_file_job_input x job_id now payload = Inr () \<longleftrightarrow>
    (\<exists>obj d. payload = JObject obj
      \<and> fst ` set obj = destination_keys d
      \<and> is_ok (sandbox_id_from_job x (materialize_probe payload job_id now))
      \<and> is_ok (file_id_from_job x (materialize_probe payload job_id now))
      \<and> materialization_destination_from_job (materialize_probe payload job_id now) = Inr d
      \<and> is_ok (materialization_digest_from_job (materialize_probe payload job_id now))
      \<and> (d = CompilerCacheArchive \<longrightarrow>
           is_ok (compiler_cache_identity_from_job (materialize_probe payload job_id now))))"
proof (cases "\<exists>obj. payload = JObject obj")
  case True
  then obtain obj where payload: "payload = JObject obj" by blast
  let ?p = "materialize_probe payload job_id now"
  have dist: "distinct (map fst obj)" using assms payload by simp
  have base: "\<not> list_ex (\<lambda>key. map_of obj key = None) BASE_KEYS \<longleftrightarrow> set BASE_KEYS \<subseteq> fst ` set obj"
    by (auto simp: BASE_KEYS_def map_of_eq_None_iff)
  have step: "rbind (if d = CompilerCacheArchive
        then rbind (compiler_cache_identity_from_job ?p) (\<lambda>_. Inr (length BASE_KEYS + 1))
        else Inr (length BASE_KEYS)) (\<lambda>expected_len.
      ensure (\<not> (length obj \<noteq> expected_len
         \<or> d \<noteq> CompilerCacheArchive \<and> map_of obj ''compilerCacheIdentity'' \<noteq> None)) e) = Inr ()
    \<longleftrightarrow> (d = CompilerCacheArchive \<longrightarrow> is_ok (compiler_cache_identity_from_job ?p))
      \<and> fst ` set obj = destination_keys d"
    if "set BASE_KEYS \<subseteq> fst ` set obj" for d e
  proof (cases "d = CompilerCacheArchive \<and> \<not> is_ok (compiler_cache_identity_from_job ?p)")
    case True
    then show ?thesis
      by (cases "compiler_cache_identity_from_job ?p") (simp_all add: is_ok_def)
  next
    case False
    then have "rbind (if d = CompilerCacheArchive
        then rbind (compiler_cache_identity_from_job ?p) (\<lambda>_. Inr (length BASE_KEYS + 1))
        else Inr (length BASE_KEYS)) k = k (card (destination_keys d))" for k :: "nat \<Rightarrow> ApiError + unit"
      by (cases "compiler_cache_identity_from_job ?p") (simp_all add: is_ok_def destination_keys_card)
    moreover have "d = CompilerCacheArchive \<Longrightarrow> map_of obj ''compilerCacheIdentity'' \<noteq> None"
      using False compiler_cache_identity_key payload by blast
    ultimately show ?thesis
      using contract_keys [OF dist that, of d] False by (simp only: is_ok_unit is_ok_ensure) blast
  qed
  have base_sub: "fst ` set obj = destination_keys d \<Longrightarrow> set BASE_KEYS \<subseteq> fst ` set obj" for d
    by (auto simp: destination_keys_def)
  have "validate_materialize_file_job_input x job_id now payload = Inr () \<longleftrightarrow>
      set BASE_KEYS \<subseteq> fst ` set obj \<and> is_ok (sandbox_id_from_job x ?p) \<and> is_ok (file_id_from_job x ?p)
      \<and> (\<exists>d. materialization_destination_from_job ?p = Inr d \<and> is_ok (materialization_digest_from_job ?p)
        \<and> (d = CompilerCacheArchive \<longrightarrow> is_ok (compiler_cache_identity_from_job ?p))
        \<and> fst ` set obj = destination_keys d)"
  proof (cases "set BASE_KEYS \<subseteq> fst ` set obj")
    case True
    then have "ensure (\<not> list_ex (\<lambda>key. map_of obj key = None) BASE_KEYS) e = Inr ()" for e :: ApiError
      using base by (simp add: ensure_def)
    then show ?thesis
      unfolding validate_materialize_file_job_input_def
      by (simp only: payload json.case Let_def rbind_simps rbind_unit is_ok_ex
          step [OF True, unfolded payload is_ok_ex rbind_unit] True simp_thms ex_simps)
  next
    case False
    then have "ensure (\<not> list_ex (\<lambda>key. map_of obj key = None) BASE_KEYS) e = Inl e" for e :: ApiError
      using base by (simp add: ensure_def)
    with False show ?thesis
      by (simp add: validate_materialize_file_job_input_def payload ensure_def)
  qed
  then show ?thesis
    using base_sub payload by blast
qed (auto simp: validate_materialize_file_job_input_def split: json.splits)

text \<open>A concrete library for examples: identifiers are written in unary, with a leading letter.\<close>

definition sample_externals :: externals where
  "sample_externals = \<lparr>uuid_to_string = (\<lambda>u. CHR ''u'' # replicate (unat u) CHR ''1''),
     uuid_parse_str = (\<lambda>s. case s of [] \<Rightarrow> None
        | c # cs \<Rightarrow> if c = CHR ''u'' \<and> list_all (\<lambda>d. d = CHR ''1'') cs then Some (of_nat (length cs)) else None),
     json_from_str = (\<lambda>s. Some (JString s)), to_rfc3339 = (\<lambda>t. show_nat (nat t)),
     sha256_hex = id, chrono_add_seconds = plain_add,
     spec_to_value = (\<lambda>_. JNull), spec_from_value = (\<lambda>_. None)\<rparr>"

lemma sample_externals_laws: "uuid_text_laws sample_externals"
  by (simp add: uuid_text_laws_def sample_externals_def list_all_iff)

theorem materialize_payload_exact_witness:
  "let payload = JObject [(''destination'', JString ''apex_task''), (''sandboxId'', JString ''u1''),
       (''expectedSha256'', JString (replicate 64 CHR ''a'')), (''fileId'', JString ''u11'')]
   in json_wf payload \<and> validate_materialize_file_job_input sample_externals 7 0 payload = Inr ()
     \<and> (\<exists>obj d. payload = JObject obj \<and> fst ` set obj = destination_keys d)"
proof -
  let ?payload = "JObject [(''destination'', JString ''apex_task''), (''sandboxId'', JString ''u1''),
       (''expectedSha256'', JString (replicate 64 CHR ''a'')), (''fileId'', JString ''u11'')]"
  have "json_wf ?payload" by simp
  moreover have "validate_materialize_file_job_input sample_externals 7 0 ?payload = Inr ()"
    by code_simp
  ultimately show ?thesis
    using materialize_payload_exact [of ?payload sample_externals 7 0] by (simp add: Let_def) blast
qed

lemma redacted_job_payload_keys:
  "json_get k (redacted_job_payload v)
     = (if k \<in> {''stdin'', ''_traceparent'', ''_tracestate''} then None else json_get k v)"
proof -
  have "map_of (object_remove r ms) k = (if k = r then None else map_of ms k)" for r k :: string and ms
    by (induction ms) (auto simp: object_remove_def)
  then show ?thesis
    by (cases v) (simp_all add: redacted_job_payload_def json_get_def)
qed

end
