(* ===== verification/Tables.thy ===== *)
theory Tables
  imports Transactions Job_Payload Command_Output
begin

section \<open>The tables of the control plane\<close>

text \<open>
  The rows of the tables that the job engine reads and writes, and the database as a record of
  tables.  A row has the columns of the table; a struct of
  \<open>crates/sandboxwich-core/src/lib.rs\<close> that is read from a table is the row itself, without the columns
  that no operation of the development reads or writes.  A table is the list of its rows in insertion order.  The clock and the source of identifiers are streams of the
  database record: each \<open>Utc::now()\<close> and each fresh identifier of the source draws the next element, and
  the request that runs chooses both streams.  An instant is compared as the source compares its
  text, which orders the same way.
\<close>

subsection \<open>Rows\<close>

record job_row =
  jr_job :: Job
  jr_references :: JobReferences
  jr_archived_runtime_cleanup :: bool
  jr_cancel_requested_at :: "timestamp option"
  jr_cancel_reason :: "string option"

abbreviation jr_id :: "job_row \<Rightarrow> uuid" where
  "jr_id r \<equiv> jb_id (jr_job r)"

abbreviation jr_status :: "job_row \<Rightarrow> JobStatus" where
  "jr_status r \<equiv> jb_status (jr_job r)"

record lease_row =
  ls_id :: uuid
  ls_job_id :: uuid
  ls_worker_id :: uuid
  ls_status :: LeaseStatus
  ls_attempt :: int
  ls_leased_at :: timestamp
  ls_expires_at :: timestamp
  ls_completed_at :: "timestamp option"
  ls_error :: "string option"
  ls_completion_fingerprint :: "string option"
  ls_cancel_requested_at :: "timestamp option"
  ls_cancel_reason :: "string option"

record JobLease =
  jl_lease :: lease_row
  jl_job :: Job

record drain_receipt_row =
  dr_shutdown_id :: uuid
  dr_worker_id :: uuid
  dr_tenant_id :: string
  dr_hard_deadline :: timestamp
  dr_created_at :: timestamp
  dr_retired_at :: "timestamp option"

record drain_fence_row =
  df_shutdown_id :: uuid
  df_lease_id :: uuid
  df_worker_id :: uuid
  df_job_id :: uuid
  df_attempt :: int
  df_hard_deadline :: timestamp
  df_outcome :: "string option"
  df_resolved_at :: "timestamp option"

record sandbox_placement =
  pl_sandbox_id :: uuid
  pl_worker_id :: uuid
  pl_provider :: string
  pl_cluster :: "string option"
  pl_generation :: int
  pl_created_at :: timestamp
  pl_updated_at :: timestamp

record ResidentProcess =
  rp_id :: uuid
  rp_sandbox_id :: uuid
  rp_tenant_id :: string
  rp_name :: string
  rp_sterile_cell_id :: "uuid option"
  rp_sterile_lease_id :: "uuid option"
  rp_sterile_lease_generation :: "int option"
  rp_provider_isolation_version :: int
  rp_provider_pod_name :: "string option"
  rp_provider_pod_uid :: "string option"
  rp_desired_state :: ResidentProcessDesiredState
  rp_observed_state :: ResidentProcessObservedState
  rp_generation :: int
  rp_active_lease_id :: "uuid option"
  rp_bootstrap_sha256 :: "string option"
  rp_bootstrap_delivered_generation :: "int option"
  rp_bootstrap_delivered_lease_id :: "uuid option"
  rp_bootstrap_delivered_sha256 :: "string option"
  rp_bootstrap_acknowledged_at :: "timestamp option"
  rp_pid :: "nat option"
  rp_exited_at :: "timestamp option"
  rp_exit_code :: "int option"
  rp_last_error_class :: "ProvisioningErrorClass option"
  rp_last_error_code :: "string option"
  rp_last_error :: "string option"
  rp_updated_at :: timestamp

record Snapshot =
  sn_id :: uuid
  sn_sandbox_id :: uuid
  sn_status :: SnapshotStatus
  sn_label :: string
  sn_inventory :: json
  sn_provider_metadata :: json
  sn_created_at :: timestamp
  sn_ready_at :: "timestamp option"
  sn_expires_at :: "timestamp option"
  sn_error :: "string option"

record snapshot_restore_source =
  rs_snapshot_id :: uuid
  rs_tenant_id :: string
  rs_source_sandbox_id :: uuid
  rs_status :: SnapshotStatus
  rs_expires_at :: "timestamp option"

record ProviderRuntimeResource =
  pr_sandbox_id :: uuid
  pr_snapshot_id :: "uuid option"
  pr_provider :: string
  pr_resource_kind :: RuntimeResourceKind
  pr_purpose :: RuntimeResourcePurpose
  pr_resource_name :: string
  pr_namespace :: string
  pr_status :: RuntimeResourceStatus
  pr_cluster :: "string option"
  pr_storage_class :: "string option"
  pr_snapshot_class :: "string option"
  pr_storage_size :: "string option"
  pr_runtime_image :: "string option"
  pr_service_port :: "16 word option"
  pr_target_port :: "string option"
  pr_source_snapshot_id :: "uuid option"
  pr_ready_at :: "timestamp option"
  pr_error :: "string option"

text \<open>
  A stored resource repeats the columns the provider reports, so the row holds the report and the
  columns of the control plane beside it.
\<close>

record RuntimeResource =
  rr_id :: uuid
  rr_reported :: ProviderRuntimeResource
  rr_created_at :: timestamp
  rr_updated_at :: timestamp
  rr_observed_at :: "timestamp option"
  rr_last_reconciled_at :: "timestamp option"
  rr_deleted_at :: "timestamp option"

record SandboxFile =
  sf_id :: uuid
  sf_sandbox_id :: uuid
  sf_path :: string
  sf_size_bytes :: nat
  sf_mime_type :: "string option"
  sf_created_at :: timestamp
  sf_updated_at :: timestamp

record Home =
  hm_id :: uuid
  hm_tenant_id :: string
  hm_state :: HomeState
  hm_created_at :: timestamp
  hm_updated_at :: timestamp
  hm_error :: "string option"
  hm_external_key :: "string option"

record home_mount =
  mt_sandbox_id :: uuid
  mt_home_id :: uuid
  mt_tenant_id :: string
  mt_created_at :: timestamp

record apex_instruction_read =
  ar_job_id :: uuid
  ar_request_id :: uuid
  ar_lease_id :: "uuid option"
  ar_lease_attempt :: int
  ar_provider_apply_id :: uuid
  ar_observed_sha256 :: "string option"
  ar_observed_byte_count :: "int option"
  ar_state :: string
  ar_completed_at :: "timestamp option"

record slo_observation =
  so_source_id :: uuid
  so_tenant_id :: string
  so_metric_kind :: string
  so_outcome :: string
  so_workspace_mode :: "string option"
  so_start_type :: "string option"
  so_duration_ms :: int
  so_observed_at :: timestamp

record sterile_cell =
  sc_id :: uuid
  sc_worker_id :: uuid
  sc_provider_cell_id :: string
  sc_state :: SterileCellState
  sc_generation :: int
  sc_release_set_id :: string
  sc_runtime_class :: string
  sc_policy_digest :: string
  sc_release_signature :: string
  sc_tenant_id :: "string option"
  sc_lease_id :: "uuid option"
  sc_lease_expires_at :: "timestamp option"
  sc_activated_resident_process_id :: "uuid option"
  sc_activated_resident_generation :: "int option"
  sc_disposition :: "SterileCellDisposition option"
  sc_cell_expires_at :: timestamp
  sc_created_at :: timestamp
  sc_destroyed_at :: "timestamp option"
  sc_updated_at :: timestamp

record pool_membership =
  pm_sandbox_id :: uuid
  pm_tenant_id :: string
  pm_state :: string
  pm_worker_id :: "uuid option"
  pm_provision_job_id :: uuid
  pm_stop_job_id :: "uuid option"
  pm_release_set_id :: string
  pm_runtime_class :: string
  pm_policy_digest :: string
  pm_release_signature :: string
  pm_candidate_agent_image :: string
  pm_candidate_maestro_image :: string
  pm_candidate_service_name :: string
  pm_candidate_pod_name :: "string option"
  pm_candidate_pod_uid :: "string option"
  pm_ready_ttl_seconds :: int
  pm_expiry_spread_seconds :: int
  pm_cell_expires_at :: "timestamp option"
  pm_lease_id :: "uuid option"
  pm_generation :: "int option"
  pm_requested_disposition :: "SterileCellDisposition option"
  pm_quarantine_reason :: "string option"
  pm_provider_absent :: bool
  pm_updated_at :: timestamp

record provisioning_resource =
  po_sandbox_id :: uuid
  po_stage :: string
  po_resource_kind :: RuntimeResourceKind
  po_resource_namespace :: string
  po_resource_name :: string
  po_resource_uid :: string
  po_observed_generation :: "int option"
  po_updated_at :: timestamp

record access_credential =
  ac_id :: uuid
  ac_tenant_id :: string
  ac_sandbox_id :: uuid
  ac_token_hash :: string
  ac_expires_at :: timestamp
  ac_revoked_at :: "timestamp option"

subsection \<open>The database\<close>

record database =
  db_clock :: "nat \<Rightarrow> timestamp"
  db_ticks :: nat
  db_entropy :: "nat \<Rightarrow> uuid"
  db_drawn :: nat
  db_sandboxes :: "Sandbox list"
  db_output :: output_tables
  db_jobs :: "job_row list"
  db_leases :: "lease_row list"
  db_claim_operations :: "uuid \<times> uuid \<rightharpoonup> uuid"
  db_workers :: "Worker list"
  db_drain_receipts :: "drain_receipt_row list"
  db_drain_fences :: "drain_fence_row list"
  db_placements :: "sandbox_placement list"
  db_secret_bindings :: "(uuid \<times> SandboxSecretMount) list"
  db_residents :: "ResidentProcess list"
  db_snapshots :: "Snapshot list"
  db_restore_sources :: "snapshot_restore_source list"
  db_resources :: "RuntimeResource list"
  db_files :: "SandboxFile list"
  db_homes :: "Home list"
  db_home_mounts :: "home_mount list"
  db_apex_reads :: "apex_instruction_read list"
  db_slo :: "slo_observation list"
  db_sterile_cells :: "sterile_cell list"
  db_pool :: "pool_membership list"
  db_provisioning_resources :: "provisioning_resource list"
  db_guest_health :: "uuid \<rightharpoonup> json"
  db_guest_tokens :: "access_credential list"
  db_desktop_credentials :: "access_credential list"

definition empty_output :: output_tables where
  "empty_output = \<lparr>commands = [], output_chunks = [], output_operations = (\<lambda>_. None), sandbox_events = []\<rparr>"

definition empty_database :: database where
  "empty_database = \<lparr>db_clock = (\<lambda>_. 0), db_ticks = 0, db_entropy = of_nat, db_drawn = 0, db_sandboxes = [],
     db_output = empty_output, db_jobs = [], db_leases = [], db_claim_operations = (\<lambda>_. None), db_workers = [],
     db_drain_receipts = [], db_drain_fences = [], db_placements = [], db_secret_bindings = [],
     db_residents = [], db_snapshots = [], db_restore_sources = [], db_resources = [], db_files = [],
     db_homes = [], db_home_mounts = [], db_apex_reads = [], db_slo = [], db_sterile_cells = [],
     db_pool = [], db_provisioning_resources = [], db_guest_health = (\<lambda>_. None),
     db_guest_tokens = [], db_desktop_credentials = []\<rparr>"

type_synonym 'a dbtx = "(database, 'a) tx"

subsection \<open>Statements\<close>

text \<open>An \<open>update ... where\<close> and the number of rows it affects.\<close>

definition update_rows :: "('r \<Rightarrow> bool) \<Rightarrow> ('r \<Rightarrow> 'r) \<Rightarrow> 'r list \<Rightarrow> 'r list" where
  "update_rows P f rows = map (\<lambda>r. if P r then f r else r) rows"

definition rows_matching :: "('r \<Rightarrow> bool) \<Rightarrow> 'r list \<Rightarrow> nat" where
  "rows_matching P rows = length (filter P rows)"

lemma update_rows_simps [simp]:
  "update_rows P f [] = []"
  "update_rows P f (r # rs) = (if P r then f r else r) # update_rows P f rs"
  "length (update_rows P f rs) = length rs"
  by (simp_all add: update_rows_def)

lemma update_rows_none: "rows_matching P rows = 0 \<Longrightarrow> update_rows P f rows = rows"
  by (induction rows) (auto simp: rows_matching_def split: if_splits)

lemma rows_matching_pos: "0 < rows_matching P rows \<longleftrightarrow> (\<exists>r \<in> set rows. P r)"
  by (auto simp: rows_matching_def filter_empty_conv)

lemma map_update_rows [simp]:
  "(\<And>r. g (f r) = g r) \<Longrightarrow> map g (update_rows P f rows) = map g rows"
  by (simp add: update_rows_def)

lemma set_update_rows: "set (update_rows P f rows) = (\<lambda>r. if P r then f r else r) ` set rows"
  by (simp add: update_rows_def)

text \<open>
  One request: it draws its own clock readings and identifiers, and commits or rolls back.
\<close>

type_synonym env = "(nat \<Rightarrow> timestamp) \<times> (nat \<Rightarrow> uuid)"

definition on_request :: "env \<Rightarrow> database \<Rightarrow> database" where
  "on_request env s = s\<lparr>db_clock := fst env, db_ticks := 0, db_entropy := snd env, db_drawn := 0\<rparr>"

definition run_request :: "env \<Rightarrow> 'a dbtx \<Rightarrow> database \<Rightarrow> (ApiError + 'a) \<times> database" where
  "run_request env m s = tx_atomic m (on_request env s)"

lemma run_request_cases:
  "run_request env m s = (r, s') \<longleftrightarrow>
     (\<exists>x. m (on_request env s) = Inr (x, s') \<and> r = Inr x)
     \<or> (\<exists>e. m (on_request env s) = Inl e \<and> r = Inl e \<and> s' = on_request env s)"
  by (simp add: run_request_def tx_atomic_cases)

text \<open>\<open>Utc::now()\<close>, fresh identifiers, and the operations on the output tables.\<close>

definition utc_now :: "timestamp dbtx" where
  "utc_now s = Inr (db_clock s (db_ticks s), s\<lparr>db_ticks := Suc (db_ticks s)\<rparr>)"

definition uuid_new :: "uuid dbtx" where
  "uuid_new s = Inr (db_entropy s (db_drawn s), s\<lparr>db_drawn := Suc (db_drawn s)\<rparr>)"

lemma tx_bind_draw [simp]:
  "tx_bind utc_now k s = k (db_clock s (db_ticks s)) (s\<lparr>db_ticks := Suc (db_ticks s)\<rparr>)"
  "tx_bind uuid_new h s = h (db_entropy s (db_drawn s)) (s\<lparr>db_drawn := Suc (db_drawn s)\<rparr>)"
  by (simp_all add: tx_bind_def utc_now_def uuid_new_def)

definition on_output :: "(output_tables \<Rightarrow> ApiError + output_tables) \<Rightarrow> unit dbtx" where
  "on_output f = tx_bind (tx_read db_output) (\<lambda>st.
     tx_bind (tx_lift (f st)) (\<lambda>st'. tx_write (db_output_update (\<lambda>_. st'))))"

definition insert_event :: "uuid \<Rightarrow> SandboxEventKind \<Rightarrow> json \<Rightarrow> unit dbtx" where
  "insert_event sandbox_id kind data =
     tx_bind uuid_new (\<lambda>event_id. tx_bind utc_now (\<lambda>now.
     on_output (\<lambda>st. rbind (insert_event_on_connection st event_id now sandbox_id kind data) (\<lambda>r. Inr (snd r)))))"

end
