(* ===== verification/Job_Placement.thy ===== *)
theory Job_Placement
  imports Tables "HOL-Library.AList"
begin

section \<open>Jobs in the database and their placement\<close>

text \<open>
  Reading sandboxes, inserting jobs, and the authoritative placement fields of a job:
  \<open>apply_sandbox_placement\<close> and its callers in
  \<open>crates/sandboxwich-api/src/handlers/jobs.rs\<close> overwrite what a tenant put into the payload with
  what the control plane knows of the sandbox.  The serializer of the provision spec is a parameter.
\<close>

subsection \<open>Sandboxes\<close>

definition fetch_sandbox_on_connection :: "uuid \<Rightarrow> Sandbox dbtx" where
  "fetch_sandbox_on_connection sandbox_id =
     tx_bind (tx_read db_sandboxes) (\<lambda>rows.
     tx_lift (ok_or (not_found ''sandbox not found'') (find (\<lambda>s. sb_id s = sandbox_id) rows)))"

definition ensure_sandbox_tenant_on_connection :: "uuid \<Rightarrow> string \<Rightarrow> Sandbox dbtx" where
  "ensure_sandbox_tenant_on_connection sandbox_id tenant_id =
     tx_bind (fetch_sandbox_on_connection sandbox_id) (\<lambda>sandbox.
     tx_bind (tx_ensure (sb_tenant_id sandbox = tenant_id) (not_found ''resource not found'')) (\<lambda>_.
     tx_return sandbox))"

definition set_sandbox_state_on_connection ::
  "uuid \<Rightarrow> SandboxState list \<Rightarrow> SandboxState \<Rightarrow> json \<Rightarrow> bool dbtx" where
  "set_sandbox_state_on_connection sandbox_id allowed_from next_state event_data =
     tx_bind utc_now (\<lambda>now.
     let P = (\<lambda>s. sb_id s = sandbox_id \<and> sb_state s \<in> set allowed_from) in
     tx_bind (tx_read (\<lambda>st. rows_matching P (db_sandboxes st))) (\<lambda>affected.
     tx_bind (tx_write (db_sandboxes_update
       (update_rows P (\<lambda>s. s\<lparr>sb_state := next_state, sb_updated_at := now\<rparr>)))) (\<lambda>_.
     if affected = 0 then tx_return False else
     tx_bind (insert_event sandbox_id SandboxEventKind.LifecycleChanged event_data) (\<lambda>_.
     tx_return True))))"

subsection \<open>Inserting jobs\<close>

text \<open>
  The unique indexes of the \<open>jobs\<close> table: the identifier, one queued or leased stop job for a
  sandbox, and one queued or leased archived-runtime cleanup for a sandbox.
\<close>

definition active_status :: "JobStatus \<Rightarrow> bool" where
  "active_status s \<longleftrightarrow> s = JobStatus.Queued \<or> s = JobStatus.Leased"

definition active_stop_for :: "job_row \<Rightarrow> uuid option" where
  "active_stop_for r = (if jb_kind (jr_job r) = JobKind.StopSandbox \<and> active_status (jr_status r)
     then ref_sandbox_id (jr_references r) else None)"

definition jobs_index_conflict :: "job_row \<Rightarrow> job_row \<Rightarrow> bool" where
  "jobs_index_conflict r q \<longleftrightarrow> jr_id r = jr_id q \<or> active_stop_for r \<noteq> None \<and> active_stop_for r = active_stop_for q"

definition new_job_row :: "Job \<Rightarrow> JobReferences \<Rightarrow> bool \<Rightarrow> job_row" where
  "new_job_row job references archived_runtime_cleanup =
     \<lparr>jr_job = job, jr_references = references, jr_archived_runtime_cleanup = archived_runtime_cleanup,
      jr_cancel_requested_at = None, jr_cancel_reason = None\<rparr>"

definition insert_job_on_connection :: "'e externals_scheme \<Rightarrow> Job \<Rightarrow> unit dbtx" where
  "insert_job_on_connection x job =
     tx_bind (tx_lift (job_references x job)) (\<lambda>references.
     let row = new_job_row job references False in
     tx_bind (tx_read db_jobs) (\<lambda>rows.
     tx_bind (tx_ensure (\<not> list_ex (jobs_index_conflict row) rows) (ApiError_from_sql UniqueViolation)) (\<lambda>_.
     tx_write (db_jobs_update (\<lambda>rs. rs @ [row])))))"

definition insert_job_on_connection_if_absent :: "'e externals_scheme \<Rightarrow> Job \<Rightarrow> bool dbtx" where
  "insert_job_on_connection_if_absent x job =
     tx_bind (tx_lift (job_references x job)) (\<lambda>references.
     let row = new_job_row job references True in
     tx_bind (tx_read db_jobs) (\<lambda>rows.
     if list_ex (jobs_index_conflict row) rows then tx_return False else
     tx_bind (tx_write (db_jobs_update (\<lambda>rs. rs @ [row]))) (\<lambda>_. tx_return True)))"

subsection \<open>Authoritative placement\<close>

text \<open>\<open>Map::insert\<close> of \<open>serde_json\<close>.\<close>

definition object_insert :: "string \<Rightarrow> json \<Rightarrow> (string \<times> json) list \<Rightarrow> (string \<times> json) list" where
  "object_insert key v ms = AList.update key v ms"

definition add_provision_spec_to_payload_with_identity ::
  "'e externals_scheme \<Rightarrow> Job \<Rightarrow> Sandbox \<Rightarrow> SandboxSecretMount list \<Rightarrow> ProviderPreference
    \<Rightarrow> string option \<Rightarrow> string option \<Rightarrow> ApiError + Job" where
  "add_provision_spec_to_payload_with_identity x job sandbox secret_mounts provider_preference
      provider_external_id provider_routing_scope = (case jb_payload job of
     JObject payload \<Rightarrow> Inr (job\<lparr>jb_payload := JObject
       (object_insert ''provisionSpec'' (spec_to_value x
          \<lparr>ps_memory_limit = sb_memory_limit sandbox, ps_network_egress = sb_network_egress sandbox,
           ps_workspace_mode = sb_workspace_mode sandbox, ps_runtime_profile = sb_runtime_profile sandbox,
           ps_execution_class = sb_execution_class sandbox, ps_provider_preference = provider_preference,
           ps_tenant_id = Some (sb_tenant_id sandbox), ps_provider_external_id = provider_external_id,
           ps_provider_routing_scope = provider_routing_scope, ps_secret_mounts = secret_mounts,
           ps_sterile_pool_candidate = None\<rparr>)
       (object_insert ''runtimeImage'' (JString (sb_template sandbox)) payload))\<rparr>)
   | _ \<Rightarrow> Inl (bad_request ''job payload must be an object''))"

definition add_provision_spec_to_payload ::
  "'e externals_scheme \<Rightarrow> Job \<Rightarrow> Sandbox \<Rightarrow> SandboxSecretMount list \<Rightarrow> ApiError + Job" where
  "add_provision_spec_to_payload x job sandbox secret_mounts =
     add_provision_spec_to_payload_with_identity x job sandbox secret_mounts ProviderPreference.Any None None"

record PlacementCacheEntry =
  pe_sandbox :: Sandbox
  pe_secret_mounts :: "SandboxSecretMount list"
  pe_expected_provision_spec :: json
  pe_provider_preference :: "ProviderPreference option"
  pe_provider_external_id :: "string option"
  pe_provider_routing_scope :: "string option"
  pe_sterile_pool_candidate :: "SterilePoolCandidateV1 option"

definition placement_matches_sandbox :: "'e externals_scheme \<Rightarrow> Job \<Rightarrow> PlacementCacheEntry \<Rightarrow> bool" where
  "placement_matches_sandbox x job entry \<longleftrightarrow>
     jb_required_execution_class job = sb_execution_class (pe_sandbox entry)
     \<and> payload_str job ''runtimeImage'' = Some (sb_template (pe_sandbox entry))
     \<and> (case Option.bind (json_get ''provisionSpec'' (jb_payload job)) (spec_from_value x) of
          None \<Rightarrow> False
        | Some actual \<Rightarrow> (case spec_from_value x (pe_expected_provision_spec entry) of
            None \<Rightarrow> False
          | Some wanted \<Rightarrow>
              let wanted = (if pe_provider_preference entry = None
                then wanted\<lparr>ps_provider_preference := ps_provider_preference actual\<rparr> else wanted)
              in spec_to_value x wanted = spec_to_value x actual))"

definition apply_sandbox_placement ::
  "'e externals_scheme \<Rightarrow> Job \<Rightarrow> PlacementCacheEntry \<Rightarrow> ApiError + bool \<times> Job" where
  "apply_sandbox_placement x job entry = (if placement_matches_sandbox x job entry then Inr (False, job) else
     let requested_provider_preference = (case Option.bind (json_get ''provisionSpec'' (jb_payload job)) (spec_from_value x) of
           Some spec \<Rightarrow> ps_provider_preference spec | None \<Rightarrow> ProviderPreference.Any);
         provider_preference = (case pe_provider_preference entry of
           Some p \<Rightarrow> p | None \<Rightarrow> requested_provider_preference)
     in rbind (add_provision_spec_to_payload_with_identity x
          (job\<lparr>jb_required_execution_class := sb_execution_class (pe_sandbox entry)\<rparr>)
          (pe_sandbox entry) (pe_secret_mounts entry) provider_preference (pe_provider_external_id entry) (pe_provider_routing_scope entry)) (\<lambda>job.
     case jb_payload job of
       JObject payload \<Rightarrow>
         rbind (ok_or (internal ''job provisionSpec is missing'') (map_of payload ''provisionSpec'')) (\<lambda>v.
         rbind (ok_or (internal ''json persistence failed'') (spec_from_value x v)) (\<lambda>spec.
         let spec = spec\<lparr>ps_sterile_pool_candidate := pe_sterile_pool_candidate entry\<rparr>
         in Inr (True, job\<lparr>jb_payload := JObject (object_insert ''provisionSpec'' (spec_to_value x spec) payload)\<rparr>)))
     | _ \<Rightarrow> Inl (internal ''job payload is not an object'')))"

text \<open>
  The inputs of the placement, read once for a sandbox and cached for the rest of the poll.  A
  query ordered by a column with ties takes the first such row of the table.
\<close>

definition latest_by :: "('r \<Rightarrow> timestamp) \<Rightarrow> 'r list \<Rightarrow> 'r option" where
  "latest_by f rows = (case sort_key (\<lambda>r. - f r) rows of [] \<Rightarrow> None | r # _ \<Rightarrow> Some r)"

definition provider_preference_of_placement :: "string \<Rightarrow> ApiError + ProviderPreference" where
  "provider_preference_of_placement provider =
     (let p = map to_ascii_lowercase provider in
      if p = ''agent_sandbox'' then Inr ProviderPreference.AgentSandbox
      else if p = ''cloudflare'' then Inr ProviderPreference.Cloudflare
      else if p = ''kubernetes'' then Inr ProviderPreference.Kubernetes
      else Inl (internal (''unsupported persisted sandbox placement provider: '' @ p)))"

definition debug_str :: "string \<Rightarrow> string" where
  "debug_str s = ''\"'' @ s @ ''\"''"

definition variant_error_text :: "DbVariantError \<Rightarrow> string" where
  "variant_error_text e = ''invalid '' @ enum_name e @ '' variant '' @ debug_str (dve_value e)
     @ ''; expected one of ['' @ (case map debug_str (expected e) of [] \<Rightarrow> [] | v # vs \<Rightarrow> v @ concat (map (\<lambda>w. '', '' @ w) vs)) @ '']''"

definition pool_candidate_from_row :: "uuid \<Rightarrow> pool_membership \<Rightarrow> ApiError + SterilePoolCandidateV1" where
  "pool_candidate_from_row sandbox_id row =
     (case SterileCellRuntimeClass_parse_db_str (pm_runtime_class row) of
       Inl e \<Rightarrow> Inl (internal (variant_error_text e))
     | Inr runtime_class \<Rightarrow> Inr \<lparr>spc_cell_id = sandbox_id,
         spc_release = \<lparr>release_set_id = pm_release_set_id row, release_runtime_class = runtime_class,
           release_policy_digest = pm_policy_digest row, release_signature = pm_release_signature row\<rparr>,
         spc_agent_image = pm_candidate_agent_image row, spc_maestro_image = pm_candidate_maestro_image row,
         spc_service_name = pm_candidate_service_name row, spc_pod_name = None, spc_pod_uid = None\<rparr>)"

definition transpose_option :: "('e + 'a) option \<Rightarrow> 'e + 'a option" where
  "transpose_option v = (case v of None \<Rightarrow> Inr None | Some r \<Rightarrow> rbind r (\<lambda>y. Inr (Some y)))"

definition fetch_secret_mounts :: "database \<Rightarrow> uuid \<Rightarrow> SandboxSecretMount list" where
  "fetch_secret_mounts db sandbox_id = fetch_sandbox_secret_mounts id (db_secret_bindings db) sandbox_id"

definition load_sandbox_placement_inputs ::
  "'e externals_scheme \<Rightarrow> database \<Rightarrow> uuid \<Rightarrow> (uuid \<rightharpoonup> PlacementCacheEntry)
    \<Rightarrow> ApiError + PlacementCacheEntry \<times> (uuid \<rightharpoonup> PlacementCacheEntry)" where
  "load_sandbox_placement_inputs x db sandbox_id cache = (case cache sandbox_id of
     Some entry \<Rightarrow> Inr (entry, cache)
   | None \<Rightarrow>
       rbind (ok_or (not_found ''sandbox not found'') (find (\<lambda>s. sb_id s = sandbox_id) (db_sandboxes db))) (\<lambda>sandbox.
       let secret_mounts = fetch_secret_mounts db (sb_id sandbox);
           identity = latest_by rr_updated_at (filter (\<lambda>r. pr_sandbox_id (rr_reported r) = sandbox_id
             \<and> pr_snapshot_id (rr_reported r) = None \<and> pr_provider (rr_reported r) = ''cloudflare'') (db_resources db));
           external_id = map_option (\<lambda>r. pr_resource_name (rr_reported r)) identity;
           routing_scope = map_option (\<lambda>r. pr_namespace (rr_reported r)) identity;
           placement = latest_by pl_updated_at (filter (\<lambda>p. pl_sandbox_id p = sandbox_id) (db_placements db))
       in rbind (transpose_option (map_option (\<lambda>p. provider_preference_of_placement (pl_provider p)) placement)) (\<lambda>preference.
       rbind (transpose_option (map_option (pool_candidate_from_row sandbox_id)
         (find (\<lambda>m. pm_sandbox_id m = sandbox_id) (db_pool db)))) (\<lambda>candidate.
       let expected = spec_to_value x
             \<lparr>ps_memory_limit = sb_memory_limit sandbox, ps_network_egress = sb_network_egress sandbox,
              ps_workspace_mode = sb_workspace_mode sandbox, ps_runtime_profile = sb_runtime_profile sandbox,
              ps_execution_class = sb_execution_class sandbox,
              ps_provider_preference = (case preference of Some p \<Rightarrow> p | None \<Rightarrow> ProviderPreference.Any),
              ps_tenant_id = Some (sb_tenant_id sandbox), ps_provider_external_id = external_id,
              ps_provider_routing_scope = routing_scope, ps_secret_mounts = secret_mounts,
              ps_sterile_pool_candidate = candidate\<rparr>;
           entry = \<lparr>pe_sandbox = sandbox, pe_secret_mounts = secret_mounts,
              pe_expected_provision_spec = expected, pe_provider_preference = preference,
              pe_provider_external_id = external_id, pe_provider_routing_scope = routing_scope,
              pe_sterile_pool_candidate = candidate\<rparr>
       in Inr (entry, cache(sandbox_id \<mapsto> entry))))))"

definition enrich_job_payload_with_provision_spec_cached ::
  "'e externals_scheme \<Rightarrow> database \<Rightarrow> Job \<Rightarrow> (uuid \<rightharpoonup> PlacementCacheEntry)
    \<Rightarrow> ApiError + (bool \<times> Job) \<times> (uuid \<rightharpoonup> PlacementCacheEntry)" where
  "enrich_job_payload_with_provision_spec_cached x db job cache =
     (if jb_kind job = JobKind.DeleteHome then Inr ((False, job), cache) else
      rbind (if jb_kind job = JobKind.ForkSandbox then child_sandbox_id_from_job x job
             else sandbox_id_from_job x job) (\<lambda>sandbox_id.
      rbind (load_sandbox_placement_inputs x db sandbox_id cache) (\<lambda>(entry, cache).
      rbind (apply_sandbox_placement x job entry) (\<lambda>r. Inr (r, cache)))))"

definition enrich_job_payload_with_provision_spec ::
  "'e externals_scheme \<Rightarrow> database \<Rightarrow> Job \<Rightarrow> ApiError + bool \<times> Job" where
  "enrich_job_payload_with_provision_spec x db job =
     rbind (enrich_job_payload_with_provision_spec_cached x db job (\<lambda>_. None)) (\<lambda>(r, _). Inr r)"

subsection \<open>What the repair establishes\<close>

definition spec_codec_laws :: "'e externals_scheme \<Rightarrow> bool" where
  "spec_codec_laws x \<longleftrightarrow> (\<forall>spec. spec_from_value x (spec_to_value x spec) = Some spec)"

lemma spec_codec_inj:
  "spec_codec_laws x \<Longrightarrow> spec_to_value x a = spec_to_value x b \<longleftrightarrow> a = b"
  unfolding spec_codec_laws_def by (metis option.inject)

text \<open>The spec the control plane holds for an entry, up to the provider preference.\<close>

definition entry_spec :: "PlacementCacheEntry \<Rightarrow> ProviderPreference \<Rightarrow> SandboxProvisionSpec" where
  "entry_spec entry preference = (let sandbox = pe_sandbox entry in
     \<lparr>ps_memory_limit = sb_memory_limit sandbox, ps_network_egress = sb_network_egress sandbox,
      ps_workspace_mode = sb_workspace_mode sandbox, ps_runtime_profile = sb_runtime_profile sandbox,
      ps_execution_class = sb_execution_class sandbox, ps_provider_preference = preference,
      ps_tenant_id = Some (sb_tenant_id sandbox), ps_provider_external_id = pe_provider_external_id entry,
      ps_provider_routing_scope = pe_provider_routing_scope entry, ps_secret_mounts = pe_secret_mounts entry,
      ps_sterile_pool_candidate = pe_sterile_pool_candidate entry\<rparr>)"

definition entry_preference :: "PlacementCacheEntry \<Rightarrow> ProviderPreference \<Rightarrow> ProviderPreference" where
  "entry_preference entry requested = (case pe_provider_preference entry of Some p \<Rightarrow> p | None \<Rightarrow> requested)"

definition entry_wf :: "'e externals_scheme \<Rightarrow> PlacementCacheEntry \<Rightarrow> bool" where
  "entry_wf x entry \<longleftrightarrow> pe_expected_provision_spec entry
     = spec_to_value x (entry_spec entry (entry_preference entry ProviderPreference.Any))"

definition payload_spec :: "'e externals_scheme \<Rightarrow> Job \<Rightarrow> SandboxProvisionSpec option" where
  "payload_spec x job = Option.bind (json_get ''provisionSpec'' (jb_payload job)) (spec_from_value x)"

lemma entry_spec_preference [simp]:
  "(entry_spec entry p)\<lparr>ps_provider_preference := q\<rparr> = entry_spec entry q"
  "ps_provider_preference (entry_spec entry p) = p"
  by (simp_all add: entry_spec_def Let_def)

lemma placement_matches_iff:
  assumes "spec_codec_laws x" and "entry_wf x entry"
  shows "placement_matches_sandbox x job entry \<longleftrightarrow>
    jb_required_execution_class job = sb_execution_class (pe_sandbox entry)
    \<and> payload_str job ''runtimeImage'' = Some (sb_template (pe_sandbox entry))
    \<and> (\<exists>requested. payload_spec x job = Some (entry_spec entry (entry_preference entry requested)))"
proof -
  have expected: "spec_from_value x (pe_expected_provision_spec entry)
      = Some (entry_spec entry (entry_preference entry ProviderPreference.Any))"
    using assms by (simp add: entry_wf_def spec_codec_laws_def)
  have "(case payload_spec x job of None \<Rightarrow> False
      | Some actual \<Rightarrow> (let wanted = (if pe_provider_preference entry = None
          then (entry_spec entry (entry_preference entry ProviderPreference.Any))\<lparr>ps_provider_preference := ps_provider_preference actual\<rparr>
          else entry_spec entry (entry_preference entry ProviderPreference.Any))
        in spec_to_value x wanted = spec_to_value x actual))
    \<longleftrightarrow> (\<exists>requested. payload_spec x job = Some (entry_spec entry (entry_preference entry requested)))"
  proof (cases "payload_spec x job")
    case (Some actual)
    show ?thesis
    proof (cases "pe_provider_preference entry")
      case None
      then have "entry_preference entry q = q" for q by (simp add: entry_preference_def)
      moreover have "entry_spec entry (ps_provider_preference actual) = actual
          \<longleftrightarrow> (\<exists>q. actual = entry_spec entry q)"
        by (metis entry_spec_preference(2))
      ultimately show ?thesis
        using Some None by (simp add: spec_codec_inj [OF assms(1)])
    next
      case (Some p)
      then show ?thesis
        using \<open>payload_spec x job = Some actual\<close>
        by (auto simp: spec_codec_inj [OF assms(1)] entry_preference_def)
    qed
  qed simp
  then show ?thesis
    by (simp only: placement_matches_sandbox_def expected option.case payload_spec_def [symmetric])
qed

lemma map_of_object_insert [simp]: "map_of (object_insert k v ms) = (map_of ms)(k \<mapsto> v)"
  by (simp add: object_insert_def update_conv')

lemma apply_sandbox_placement_result:
  assumes "spec_codec_laws x" and "entry_wf x entry" and "apply_sandbox_placement x job entry = Inr (changed, job')"
  shows "placement_matches_sandbox x job' entry"
    and "\<not> changed \<Longrightarrow> job' = job"
    and "k \<notin> {''runtimeImage'', ''provisionSpec''} \<Longrightarrow> json_get k (jb_payload job') = json_get k (jb_payload job)"
    and "jb_kind job' = jb_kind job"
proof -
  have "placement_matches_sandbox x job' entry \<and> (\<not> changed \<longrightarrow> job' = job)
    \<and> (k \<notin> {''runtimeImage'', ''provisionSpec''} \<longrightarrow> json_get k (jb_payload job') = json_get k (jb_payload job))
    \<and> jb_kind job' = jb_kind job"
  proof (cases "placement_matches_sandbox x job entry")
    case True
    then show ?thesis using assms(3) by (simp add: apply_sandbox_placement_def)
  next
    case False
    then obtain ms where payload: "jb_payload job = JObject ms"
      using assms(3) by (cases "jb_payload job")
        (auto simp: apply_sandbox_placement_def add_provision_spec_to_payload_with_identity_def Let_def)
    define requested where "requested = (case payload_spec x job of
      Some spec \<Rightarrow> ps_provider_preference spec | None \<Rightarrow> ProviderPreference.Any)"
    have codec: "spec_from_value x (spec_to_value x s) = Some s" for s
      using assms(1) by (simp add: spec_codec_laws_def)
    have "apply_sandbox_placement x job entry = Inr (True, job\<lparr>jb_required_execution_class := sb_execution_class (pe_sandbox entry),
        jb_payload := JObject (object_insert ''provisionSpec'' (spec_to_value x (entry_spec entry (entry_preference entry requested)))
          (object_insert ''provisionSpec'' (spec_to_value x ((entry_spec entry (entry_preference entry requested))\<lparr>ps_sterile_pool_candidate := None\<rparr>))
          (object_insert ''runtimeImage'' (JString (sb_template (pe_sandbox entry))) ms)))\<rparr>)"
      unfolding apply_sandbox_placement_def payload_spec_def [symmetric] Let_def requested_def [symmetric]
        entry_preference_def [symmetric]
      by (simp add: False payload add_provision_spec_to_payload_with_identity_def codec ok_or_def entry_spec_def Let_def)
    then obtain ps where job': "changed"
        "job' = job\<lparr>jb_required_execution_class := sb_execution_class (pe_sandbox entry), jb_payload := JObject ps\<rparr>"
        "map_of ps = (map_of ms)(''runtimeImage'' \<mapsto> JString (sb_template (pe_sandbox entry)),
          ''provisionSpec'' \<mapsto> spec_to_value x (entry_spec entry (entry_preference entry requested)))"
      using assms(3) by simp
    have "payload_spec x job' = Some (entry_spec entry (entry_preference entry requested))"
      by (simp add: payload_spec_def job' json_get_def codec)
    moreover have "payload_str job' ''runtimeImage'' = Some (sb_template (pe_sandbox entry))"
      by (simp add: payload_str_def job' json_get_def json_as_str_def)
    ultimately show ?thesis
      by (auto simp: placement_matches_iff [OF assms(1,2)] job' payload json_get_def)
  qed
  then show "placement_matches_sandbox x job' entry" and "\<not> changed \<Longrightarrow> job' = job"
    and "k \<notin> {''runtimeImage'', ''provisionSpec''} \<Longrightarrow> json_get k (jb_payload job') = json_get k (jb_payload job)"
    and "jb_kind job' = jb_kind job"
    by simp_all
qed

lemma rbind_InrE:
  assumes "rbind m k = Inr y"
  obtains v where "m = Inr v" and "k v = Inr y"
  using assms by (auto simp: rbind_eq_Inr)

lemma loaded_entry:
  assumes "load_sandbox_placement_inputs x db sandbox_id (\<lambda>_. None) = Inr (entry, cache)"
  shows "entry_wf x entry" and "pe_sandbox entry \<in> set (db_sandboxes db)" and "sb_id (pe_sandbox entry) = sandbox_id"
    and "pe_secret_mounts entry = fetch_secret_mounts db sandbox_id"
    and "pe_sterile_pool_candidate entry = None \<longleftrightarrow> sandbox_id \<notin> pm_sandbox_id ` set (db_pool db)"
proof -
  obtain sandbox where sandbox: "find (\<lambda>s. sb_id s = sandbox_id) (db_sandboxes db) = Some sandbox"
    using assms by (auto simp: load_sandbox_placement_inputs_def rbind_eq_Inr ok_or_def split: option.splits)
  then have in_table: "sandbox \<in> set (db_sandboxes db)" "sb_id sandbox = sandbox_id"
    by (auto simp: find_Some_iff)
  obtain preference candidate external_id routing_scope where
      candidate: "transpose_option (map_option (pool_candidate_from_row sandbox_id)
         (find (\<lambda>m. pm_sandbox_id m = sandbox_id) (db_pool db))) = Inr candidate"
    and entry: "entry = \<lparr>pe_sandbox = sandbox, pe_secret_mounts = fetch_secret_mounts db (sb_id sandbox),
      pe_expected_provision_spec = spec_to_value x
             \<lparr>ps_memory_limit = sb_memory_limit sandbox, ps_network_egress = sb_network_egress sandbox,
              ps_workspace_mode = sb_workspace_mode sandbox, ps_runtime_profile = sb_runtime_profile sandbox,
              ps_execution_class = sb_execution_class sandbox,
              ps_provider_preference = (case preference of Some p \<Rightarrow> p | None \<Rightarrow> ProviderPreference.Any),
              ps_tenant_id = Some (sb_tenant_id sandbox), ps_provider_external_id = external_id,
              ps_provider_routing_scope = routing_scope,
              ps_secret_mounts = fetch_secret_mounts db (sb_id sandbox),
              ps_sterile_pool_candidate = candidate\<rparr>,
      pe_provider_preference = preference, pe_provider_external_id = external_id,
      pe_provider_routing_scope = routing_scope, pe_sterile_pool_candidate = candidate\<rparr>"
    using assms unfolding load_sandbox_placement_inputs_def sandbox Let_def option.case ok_or_def rbind_simps
    by (elim rbind_InrE) (simp only: sum.inject prod.inject, elim conjE, rule that, assumption, erule sym)
  show "entry_wf x entry"
    by (simp add: entry_wf_def entry entry_spec_def entry_preference_def)
  show "pe_sandbox entry \<in> set (db_sandboxes db)" and "sb_id (pe_sandbox entry) = sandbox_id"
    and "pe_secret_mounts entry = fetch_secret_mounts db sandbox_id"
    using in_table by (simp_all add: entry)
  have "candidate = None \<longleftrightarrow> find (\<lambda>m. pm_sandbox_id m = sandbox_id) (db_pool db) = None"
    using candidate by (auto simp: transpose_option_def rbind_eq_Inr split: option.splits)
  then show "pe_sterile_pool_candidate entry = None \<longleftrightarrow> sandbox_id \<notin> pm_sandbox_id ` set (db_pool db)"
    by (auto simp: entry find_None_iff)
qed

definition job_subject :: "'e externals_scheme \<Rightarrow> Job \<Rightarrow> ApiError + uuid" where
  "job_subject x job = (if jb_kind job = JobKind.ForkSandbox then child_sandbox_id_from_job x job
     else sandbox_id_from_job x job)"

lemma job_subject_cong:
  assumes "jb_kind job' = jb_kind job"
    and "\<And>k. k \<notin> {''runtimeImage'', ''provisionSpec''} \<Longrightarrow> json_get k (jb_payload job') = json_get k (jb_payload job)"
  shows "job_subject x job' = job_subject x job"
  using assms by (simp add: job_subject_def child_sandbox_id_from_job_def sandbox_id_from_job_def
      uuid_from_job_payload_def payload_str_def)


subsection \<open>An example\<close>

text \<open>A codec that satisfies the law: the fields in order, as an array.\<close>

definition arm_or_first :: "(string \<times> 'a) list \<Rightarrow> json \<Rightarrow> 'a" where
  "arm_or_first arms v = (case map_of arms (case v of JString s \<Rightarrow> s | _ \<Rightarrow> []) of
     Some a \<Rightarrow> a | None \<Rightarrow> snd (hd arms))"

definition decode_text :: "json \<Rightarrow> string" where
  "decode_text v = (case v of JString s \<Rightarrow> s | _ \<Rightarrow> [])"

definition decode_items :: "json \<Rightarrow> json list" where
  "decode_items v = (case v of JArray vs \<Rightarrow> vs | _ \<Rightarrow> [])"

definition decode_uuid :: "json \<Rightarrow> uuid" where
  "decode_uuid v = (case v of JInt i \<Rightarrow> word_of_int i | _ \<Rightarrow> 0)"

definition encode_option :: "('a \<Rightarrow> json) \<Rightarrow> 'a option \<Rightarrow> json" where
  "encode_option f v = (case v of None \<Rightarrow> JNull | Some a \<Rightarrow> JArray [f a])"

definition decode_option :: "(json \<Rightarrow> 'a) \<Rightarrow> json \<Rightarrow> 'a option" where
  "decode_option f v = (case v of JArray [a] \<Rightarrow> Some (f a) | _ \<Rightarrow> None)"

definition encode_egress :: "NetworkEgress \<Rightarrow> json" where
  "encode_egress e = JArray (JString (NetworkEgressMode_as_db_str (egress_mode e))
     # map (\<lambda>r. JArray [JString (NetworkAllowRuleKind_as_db_str (rule_kind r)), JString (rule_value r)]) (egress_rules e))"

definition decode_egress :: "json \<Rightarrow> NetworkEgress" where
  "decode_egress v = (case arm_or_first NetworkEgressMode_arms (decode_items v ! 0) of
     NetworkEgressMode.DenyAll \<Rightarrow> NetworkEgress.DenyAll
   | NetworkEgressMode.AllowAll \<Rightarrow> NetworkEgress.AllowAll
   | NetworkEgressMode.Allowlist \<Rightarrow> NetworkEgress.Allowlist (map (\<lambda>r.
       \<lparr>rule_kind = arm_or_first NetworkAllowRuleKind_arms (decode_items r ! 0),
        rule_value = decode_text (decode_items r ! 1)\<rparr>) (tl (decode_items v))))"

definition encode_mount :: "SandboxSecretMount \<Rightarrow> json" where
  "encode_mount m = JArray [JInt (uint (ssm_secret_ref_id m)), JString (ssm_name m),
     JString (SecretBackend_as_db_str (backend (ssm_source m))), JString (object_name (ssm_source m)),
     JString (object_key (ssm_source m)), JString (SecretDelivery_as_db_str (ssm_delivery m)),
     JString (ssm_mount_dir m), JString (ssm_file_path m), JString (ssm_env_file_variable m)]"

definition decode_mount :: "json \<Rightarrow> SandboxSecretMount" where
  "decode_mount v = (let a = decode_items v in
     \<lparr>ssm_secret_ref_id = decode_uuid (a ! 0), ssm_name = decode_text (a ! 1),
      ssm_source = \<lparr>backend = arm_or_first SecretBackend_arms (a ! 2), object_name = decode_text (a ! 3),
        object_key = decode_text (a ! 4)\<rparr>,
      ssm_delivery = arm_or_first SecretDelivery_arms (a ! 5), ssm_mount_dir = decode_text (a ! 6),
      ssm_file_path = decode_text (a ! 7), ssm_env_file_variable = decode_text (a ! 8)\<rparr>)"

definition encode_candidate :: "SterilePoolCandidateV1 \<Rightarrow> json" where
  "encode_candidate c = JArray [JInt (uint (spc_cell_id c)), JString (release_set_id (spc_release c)),
     JString (SterileCellRuntimeClass_as_db_str (release_runtime_class (spc_release c))),
     JString (release_policy_digest (spc_release c)), JString (release_signature (spc_release c)),
     JString (spc_agent_image c), JString (spc_maestro_image c), JString (spc_service_name c),
     encode_option JString (spc_pod_name c), encode_option JString (spc_pod_uid c)]"

definition decode_candidate :: "json \<Rightarrow> SterilePoolCandidateV1" where
  "decode_candidate v = (let a = decode_items v in
     \<lparr>spc_cell_id = decode_uuid (a ! 0),
      spc_release = \<lparr>release_set_id = decode_text (a ! 1),
        release_runtime_class = arm_or_first SterileCellRuntimeClass_arms (a ! 2),
        release_policy_digest = decode_text (a ! 3), release_signature = decode_text (a ! 4)\<rparr>,
      spc_agent_image = decode_text (a ! 5), spc_maestro_image = decode_text (a ! 6),
      spc_service_name = decode_text (a ! 7), spc_pod_name = decode_option decode_text (a ! 8),
      spc_pod_uid = decode_option decode_text (a ! 9)\<rparr>)"

definition encode_spec :: "SandboxProvisionSpec \<Rightarrow> json" where
  "encode_spec s = JArray [JString (MemoryLimit_as_db_str (ps_memory_limit s)), encode_egress (ps_network_egress s),
     JString (WorkspaceMode_as_db_str (ps_workspace_mode s)),
     JString (SandboxRuntimeProfile_as_db_str (ps_runtime_profile s)),
     JString (ExecutionClass_as_db_str (ps_execution_class s)),
     JString (ProviderPreference_as_db_str (ps_provider_preference s)),
     encode_option JString (ps_tenant_id s), encode_option JString (ps_provider_external_id s),
     encode_option JString (ps_provider_routing_scope s), JArray (map encode_mount (ps_secret_mounts s)),
     encode_option encode_candidate (ps_sterile_pool_candidate s)]"

definition decode_spec :: "json \<Rightarrow> SandboxProvisionSpec option" where
  "decode_spec v = (let a = decode_items v in if length a \<noteq> 11 then None else Some
     \<lparr>ps_memory_limit = arm_or_first MemoryLimit_arms (a ! 0), ps_network_egress = decode_egress (a ! 1),
      ps_workspace_mode = arm_or_first WorkspaceMode_arms (a ! 2),
      ps_runtime_profile = arm_or_first SandboxRuntimeProfile_arms (a ! 3),
      ps_execution_class = arm_or_first ExecutionClass_arms (a ! 4),
      ps_provider_preference = arm_or_first ProviderPreference_arms (a ! 5),
      ps_tenant_id = decode_option decode_text (a ! 6), ps_provider_external_id = decode_option decode_text (a ! 7),
      ps_provider_routing_scope = decode_option decode_text (a ! 8),
      ps_secret_mounts = map decode_mount (decode_items (a ! 9)),
      ps_sterile_pool_candidate = decode_option decode_candidate (a ! 10)\<rparr>)"

definition placement_externals :: externals where
  "placement_externals = sample_externals\<lparr>spec_to_value := encode_spec, spec_from_value := decode_spec\<rparr>"

lemma decode_simps [simp]:
  "decode_text (JString s) = s" "decode_items (JArray vs) = vs" "decode_uuid (JInt (uint u)) = u"
  by (simp_all add: decode_text_def decode_items_def decode_uuid_def)

lemma decode_encode_option [simp]:
  "(\<And>a. g (f a) = a) \<Longrightarrow> decode_option g (encode_option f v) = v"
  by (cases v) (simp_all add: decode_option_def encode_option_def)

lemma arm_or_first_arm: "map_of arms s = Some v \<Longrightarrow> arm_or_first arms (JString s) = v"
  by (simp add: arm_or_first_def)

lemmas decode_arms [simp] =
  arm_or_first_arm [OF MemoryLimit.map_of_arms [THEN iffD2, OF refl]]
  arm_or_first_arm [OF WorkspaceMode.map_of_arms [THEN iffD2, OF refl]]
  arm_or_first_arm [OF SandboxRuntimeProfile.map_of_arms [THEN iffD2, OF refl]]
  arm_or_first_arm [OF ExecutionClass.map_of_arms [THEN iffD2, OF refl]]
  arm_or_first_arm [OF ProviderPreference.map_of_arms [THEN iffD2, OF refl]]
  arm_or_first_arm [OF NetworkEgressMode.map_of_arms [THEN iffD2, OF refl]]
  arm_or_first_arm [OF NetworkAllowRuleKind.map_of_arms [THEN iffD2, OF refl]]
  arm_or_first_arm [OF SecretBackend.map_of_arms [THEN iffD2, OF refl]]
  arm_or_first_arm [OF SecretDelivery.map_of_arms [THEN iffD2, OF refl]]
  arm_or_first_arm [OF SterileCellRuntimeClass.map_of_arms [THEN iffD2, OF refl]]

lemma decode_encode_mount [simp]: "decode_mount (encode_mount m) = m"
  by (simp add: decode_mount_def encode_mount_def)

lemma decode_encode_candidate [simp]: "decode_candidate (encode_candidate c) = c"
  by (simp add: decode_candidate_def encode_candidate_def)

lemma decode_encode_egress [simp]: "decode_egress (encode_egress e) = e"
  by (cases e) (simp_all add: decode_egress_def encode_egress_def o_def map_idI del: NetworkEgressMode_as_db_str.simps)

lemma placement_externals_laws: "spec_codec_laws placement_externals"
  by (simp add: spec_codec_laws_def placement_externals_def decode_spec_def encode_spec_def o_def)

definition sample_job :: "JobKind \<Rightarrow> json \<Rightarrow> Job" where
  "sample_job kind payload =
     \<lparr>jb_id = 100, jb_tenant_id = ''acme'', jb_kind = kind, jb_status = JobStatus.Queued,
      jb_payload = payload, jb_required_capability = WorkerCapability.ProvisionSandbox,
      jb_required_execution_class = ExecutionClass.DevelopmentContainer, jb_priority = 0,
      jb_attempts = 0, jb_max_attempts = 3, jb_scheduled_at = 0, jb_created_at = 0,
      jb_updated_at = 0, jb_last_error = None\<rparr>"

text \<open>A stop job for the sample sandbox that claims another image.\<close>

definition forged_job :: Job where
  "forged_job = sample_job JobKind.StopSandbox
     (JObject [(''runtimeImage'', JString ''evil''), (''sandboxId'', JString ''u1111111'')])"

lemma forged_job_enriched:
  "is_ok (enrich_job_payload_with_provision_spec placement_externals
     (empty_database\<lparr>db_sandboxes := [sample_sandbox]\<rparr>) forged_job)"
proof -
  let ?db = "empty_database\<lparr>db_sandboxes := [sample_sandbox]\<rparr>"
  have kind: "jb_kind forged_job = JobKind.StopSandbox" and payload: "jb_payload forged_job
      = JObject [(''runtimeImage'', JString ''evil''), (''sandboxId'', JString ''u1111111'')]"
    by (simp_all add: forged_job_def sample_job_def)
  have subject: "sandbox_id_from_job placement_externals forged_job = Inr 7"
    by (simp add: sandbox_id_from_job_def uuid_from_job_payload_def payload_str_def payload json_get_def
        json_as_str_def ok_or_def parse_uuid_def placement_externals_def sample_externals_def)
  obtain entry cache where load: "load_sandbox_placement_inputs placement_externals ?db 7 (\<lambda>_. None) = Inr (entry, cache)"
    by (simp add: load_sandbox_placement_inputs_def sample_sandbox_def ok_or_def Let_def latest_by_def
        empty_database_def transpose_option_def)
  have "\<exists>r. apply_sandbox_placement placement_externals forged_job entry = Inr r"
    unfolding apply_sandbox_placement_def Let_def
    using placement_externals_laws
    by (auto simp: add_provision_spec_to_payload_with_identity_def payload ok_or_def spec_codec_laws_def)
  then show ?thesis
    using subject load kind
    by (auto simp: enrich_job_payload_with_provision_spec_def enrich_job_payload_with_provision_spec_cached_def is_ok_def)
qed


end
