(* ===== verification/Runtime_Resources.thy ===== *)
theory Runtime_Resources
  imports Job_Placement "HOL-Library.Product_Lexorder"
begin

section \<open>Runtime resources\<close>

text \<open>
  \<open>crates/sandboxwich-api/src/reconcile.rs\<close>: what a provider reports of the objects it runs for a
  sandbox, stored under the identity the provider gives them.  A row is inserted or updated by
  identity, retired when a stop or a newer generation supersedes it, and marked deleted when a
  reconcile observation of its scope no longer names it.
\<close>

subsection \<open>Identity\<close>

definition coalesce_text :: "string option \<Rightarrow> string" where
  "coalesce_text v = (case v of None \<Rightarrow> [] | Some s \<Rightarrow> s)"

definition resource_identity ::
  "ProviderRuntimeResource \<Rightarrow> string \<times> RuntimeResourceKind \<times> string \<times> string \<times> string" where
  "resource_identity p = (pr_provider p, pr_resource_kind p, pr_namespace p, coalesce_text (pr_cluster p),
     pr_resource_name p)"

definition status_gone :: "RuntimeResourceStatus \<Rightarrow> bool" where
  "status_gone s \<longleftrightarrow> s = RuntimeResourceStatus.Deleted \<or> s = RuntimeResourceStatus.Destroyed"

definition deleted_at_for_runtime_resource :: "RuntimeResourceStatus \<Rightarrow> timestamp \<Rightarrow> timestamp option" where
  "deleted_at_for_runtime_resource status now = (if status_gone status then Some now else None)"

definition validate_provider_runtime_resource :: "ProviderRuntimeResource \<Rightarrow> ApiError + unit" where
  "validate_provider_runtime_resource r =
     rbind (ensure (trim (pr_provider r) \<noteq> []) (bad_request ''runtime resource provider is required'')) (\<lambda>_.
     rbind (ensure (trim (pr_namespace r) \<noteq> []) (bad_request ''runtime resource namespace is required'')) (\<lambda>_.
     rbind (ensure (case pr_cluster r of None \<Rightarrow> True | Some c \<Rightarrow> trim c \<noteq> [])
       (bad_request ''runtime resource cluster cannot be empty'')) (\<lambda>_.
     rbind (ensure (trim (pr_resource_name r) \<noteq> []) (bad_request ''runtime resource name is required'')) (\<lambda>_.
     ensure (pr_service_port r \<noteq> Some 0) (bad_request ''runtime resource service_port must be greater than 0'')))))"

subsection \<open>Rows\<close>

definition fetch_runtime_resource_id_on_connection ::
  "string \<Rightarrow> RuntimeResourceKind \<Rightarrow> string \<Rightarrow> string option \<Rightarrow> string \<Rightarrow> uuid option dbtx" where
  "fetch_runtime_resource_id_on_connection provider resource_kind namespace cluster resource_name =
     tx_read (\<lambda>s. map_option rr_id (find (\<lambda>r. pr_provider (rr_reported r) = provider
       \<and> pr_resource_kind (rr_reported r) = resource_kind \<and> pr_namespace (rr_reported r) = namespace
       \<and> pr_cluster (rr_reported r) = cluster \<and> pr_resource_name (rr_reported r) = resource_name) (db_resources s)))"

definition fetch_runtime_resource_on_connection :: "uuid \<Rightarrow> RuntimeResource dbtx" where
  "fetch_runtime_resource_on_connection resource_id =
     tx_bind (tx_read db_resources) (\<lambda>rows.
     tx_lift (ok_or (not_found ''runtime resource not found'') (find (\<lambda>r. rr_id r = resource_id) rows)))"

definition insert_runtime_resource_from_provider_on_connection ::
  "ProviderRuntimeResource \<Rightarrow> timestamp option \<Rightarrow> timestamp option \<Rightarrow> RuntimeResource option dbtx" where
  "insert_runtime_resource_from_provider_on_connection resource observed_at last_reconciled_at =
     tx_bind utc_now (\<lambda>now.
     tx_bind uuid_new (\<lambda>resource_id.
     let row = \<lparr>rr_id = resource_id, rr_reported = resource, rr_created_at = now, rr_updated_at = now,
           rr_observed_at = observed_at, rr_last_reconciled_at = last_reconciled_at,
           rr_deleted_at = deleted_at_for_runtime_resource (pr_status resource) now\<rparr> in
     tx_bind (tx_read db_resources) (\<lambda>rows.
     if list_ex (\<lambda>r. rr_id r = resource_id
         \<or> resource_identity (rr_reported r) = resource_identity resource) rows
     then tx_return None else
     tx_bind (tx_write (db_resources_update (\<lambda>rs. rs @ [row]))) (\<lambda>_.
     tx_bind (fetch_runtime_resource_on_connection resource_id) (\<lambda>r. tx_return (Some r))))))"

definition update_runtime_resource_from_provider_on_connection ::
  "uuid \<Rightarrow> ProviderRuntimeResource \<Rightarrow> timestamp option \<Rightarrow> timestamp option \<Rightarrow> RuntimeResource dbtx" where
  "update_runtime_resource_from_provider_on_connection resource_id resource observed_at last_reconciled_at =
     tx_bind utc_now (\<lambda>now.
     tx_bind (tx_read (\<lambda>s. rows_matching (\<lambda>r. rr_id r = resource_id) (db_resources s))) (\<lambda>affected.
     tx_bind (tx_write (db_resources_update (update_rows (\<lambda>r. rr_id r = resource_id) (\<lambda>r.
       r\<lparr>rr_reported := resource, rr_updated_at := now,
         rr_deleted_at := deleted_at_for_runtime_resource (pr_status resource) now,
         rr_observed_at := observed_at,
         rr_last_reconciled_at := (case last_reconciled_at of None \<Rightarrow> rr_last_reconciled_at r | t \<Rightarrow> t)\<rparr>)))) (\<lambda>_.
     tx_bind (tx_ensure (affected \<noteq> 0) (not_found ''runtime resource not found'')) (\<lambda>_.
     fetch_runtime_resource_on_connection resource_id))))"

definition resource_association_kept :: "RuntimeResource \<Rightarrow> ProviderRuntimeResource \<Rightarrow> bool" where
  "resource_association_kept existing resource \<longleftrightarrow>
     (let old = rr_reported existing;
          restored_by_same_sandbox = pr_sandbox_id old = pr_sandbox_id resource
            \<and> pr_snapshot_id old = pr_snapshot_id resource \<and> status_gone (pr_status old)
      in \<not> (pr_sandbox_id old \<noteq> pr_sandbox_id resource \<or> pr_snapshot_id old \<noteq> pr_snapshot_id resource
         \<or> \<not> restored_by_same_sandbox \<and> pr_source_snapshot_id old \<noteq> pr_source_snapshot_id resource))"

definition upsert_provider_runtime_resource_on_connection ::
  "ProviderRuntimeResource \<Rightarrow> timestamp option \<Rightarrow> timestamp option \<Rightarrow> string option \<Rightarrow> RuntimeResource dbtx" where
  "upsert_provider_runtime_resource_on_connection resource observed_at last_reconciled_at tenant_id =
     tx_bind (tx_lift (validate_provider_runtime_resource resource)) (\<lambda>_.
     tx_bind (case tenant_id of None \<Rightarrow> tx_return ()
       | Some t \<Rightarrow> tx_bind (ensure_sandbox_tenant_on_connection (pr_sandbox_id resource) t) (\<lambda>_. tx_return ())) (\<lambda>_.
     let lookup = fetch_runtime_resource_id_on_connection (pr_provider resource) (pr_resource_kind resource)
           (pr_namespace resource) (pr_cluster resource) (pr_resource_name resource);
         update_existing = (\<lambda>resource_id.
           tx_bind (fetch_runtime_resource_on_connection resource_id) (\<lambda>existing.
           tx_bind (tx_ensure (resource_association_kept existing resource)
             (bad_request ''runtime resource provider identity belongs to a different association'')) (\<lambda>_.
           tx_bind (case tenant_id of None \<Rightarrow> tx_return ()
             | Some t \<Rightarrow> tx_bind (ensure_sandbox_tenant_on_connection (pr_sandbox_id (rr_reported existing)) t)
                 (\<lambda>_. tx_return ())) (\<lambda>_.
           update_runtime_resource_from_provider_on_connection resource_id resource observed_at last_reconciled_at))))
     in tx_bind lookup (\<lambda>existing_id.
     case existing_id of
       Some resource_id \<Rightarrow> update_existing resource_id
     | None \<Rightarrow>
         tx_bind (insert_runtime_resource_from_provider_on_connection resource observed_at last_reconciled_at) (\<lambda>inserted.
         case inserted of
           Some row \<Rightarrow> tx_return row
         | None \<Rightarrow>
             tx_bind lookup (\<lambda>conflicting.
             case conflicting of
               None \<Rightarrow> tx_fail (internal ''conflicting runtime resource disappeared'')
             | Some resource_id \<Rightarrow> update_existing resource_id)))))"

definition upsert_provider_runtime_resources_on_connection ::
  "ProviderRuntimeResource list \<Rightarrow> string \<Rightarrow> unit dbtx" where
  "upsert_provider_runtime_resources_on_connection resources tenant_id = (case resources of
     [] \<Rightarrow> tx_return ()
   | first # _ \<Rightarrow>
       tx_bind (tx_ensure (\<not> list_ex (\<lambda>r. pr_sandbox_id r \<noteq> pr_sandbox_id first) resources)
         (bad_request ''runtime resource batch must belong to a single sandbox'')) (\<lambda>_.
       tx_bind (ensure_sandbox_tenant_on_connection (pr_sandbox_id first) tenant_id) (\<lambda>_.
       tx_bind utc_now (\<lambda>observed_at.
       tx_each (\<lambda>r. tx_bind (upsert_provider_runtime_resource_on_connection r (Some observed_at) None None)
         (\<lambda>_. tx_return ())) resources))))"

definition mark_runtime_resource_deleted_on_connection ::
  "uuid \<Rightarrow> timestamp \<Rightarrow> RuntimeResourceStatus \<Rightarrow> string \<Rightarrow> RuntimeResource dbtx" where
  "mark_runtime_resource_deleted_on_connection resource_id deleted_at status error =
     tx_bind (tx_read (\<lambda>s. rows_matching (\<lambda>r. rr_id r = resource_id) (db_resources s))) (\<lambda>affected.
     tx_bind (tx_write (db_resources_update (update_rows (\<lambda>r. rr_id r = resource_id) (\<lambda>r.
       r\<lparr>rr_reported := (rr_reported r)\<lparr>pr_status := status, pr_error := Some error\<rparr>,
         rr_updated_at := deleted_at, rr_last_reconciled_at := Some deleted_at, rr_deleted_at := Some deleted_at\<rparr>)))) (\<lambda>_.
     tx_bind (tx_ensure (affected \<noteq> 0) (not_found ''runtime resource not found'')) (\<lambda>_.
     fetch_runtime_resource_on_connection resource_id)))"

subsection \<open>Retiring the resources of a sandbox\<close>

datatype RuntimeResourceGeneration = All | RuntimeOnly

definition generation_covers :: "RuntimeResourceGeneration \<Rightarrow> ProviderRuntimeResource \<Rightarrow> bool" where
  "generation_covers generation p = (case generation of
     RuntimeResourceGeneration.All \<Rightarrow> True
   | RuntimeOnly \<Rightarrow> pr_snapshot_id p = None \<and> pr_purpose p \<noteq> RuntimeResourcePurpose.Snapshot)"

definition mark_runtime_resources_deleted_for_sandbox_on_connection ::
  "uuid \<Rightarrow> RuntimeResourceGeneration \<Rightarrow> timestamp \<Rightarrow> string \<Rightarrow> RuntimeResource list dbtx" where
  "mark_runtime_resources_deleted_for_sandbox_on_connection sandbox_id generation deleted_at error =
     (let P = (\<lambda>r. pr_sandbox_id (rr_reported r) = sandbox_id \<and> \<not> status_gone (pr_status (rr_reported r))
            \<and> generation_covers generation (rr_reported r)) in
      tx_bind (tx_read (\<lambda>s. rows_matching P (db_resources s))) (\<lambda>affected.
      tx_bind (tx_write (db_resources_update (update_rows P (\<lambda>r.
        r\<lparr>rr_reported := (rr_reported r)\<lparr>pr_status := RuntimeResourceStatus.Destroyed, pr_error := Some error\<rparr>,
          rr_updated_at := deleted_at, rr_last_reconciled_at := Some deleted_at, rr_deleted_at := Some deleted_at\<rparr>)))) (\<lambda>_.
      if affected = 0 then tx_return [] else
      tx_read (\<lambda>s. sort_key (\<lambda>r. (rr_updated_at r, uint (rr_id r)))
        (filter (\<lambda>r. pr_sandbox_id (rr_reported r) = sandbox_id
           \<and> pr_status (rr_reported r) = RuntimeResourceStatus.Destroyed \<and> rr_deleted_at r = Some deleted_at
           \<and> generation_covers generation (rr_reported r)) (db_resources s))))))"

subsection \<open>Reconciling an observation\<close>

record ReconcileRuntimeResourcesRequest =
  rq_provider :: string
  rq_namespace :: string
  rq_cluster :: "string option"
  rq_mark_missing_deleted :: bool
  rq_resources :: "ProviderRuntimeResource list"

fun validate_observed_resources ::
  "ReconcileRuntimeResourcesRequest \<Rightarrow> ProviderRuntimeResource list \<Rightarrow> ApiError + unit" where
  "validate_observed_resources request [] = Inr ()"
| "validate_observed_resources request (r # rs) =
     rbind (validate_provider_runtime_resource r) (\<lambda>_.
     rbind (ensure (pr_provider r = rq_provider request)
       (bad_request ''observed runtime resource provider must match reconcile provider'')) (\<lambda>_.
     rbind (ensure (pr_namespace r = rq_namespace request)
       (bad_request ''observed runtime resource namespace must match reconcile namespace'')) (\<lambda>_.
     rbind (ensure (pr_cluster r = rq_cluster request)
       (bad_request ''observed runtime resource cluster must match reconcile cluster'')) (\<lambda>_.
     validate_observed_resources request rs))))"

definition validate_reconcile_runtime_resources_request ::
  "ReconcileRuntimeResourcesRequest \<Rightarrow> ApiError + unit" where
  "validate_reconcile_runtime_resources_request request =
     rbind (ensure (trim (rq_provider request) \<noteq> []) (bad_request ''runtime resource provider is required'')) (\<lambda>_.
     rbind (ensure (trim (rq_namespace request) \<noteq> []) (bad_request ''runtime resource namespace is required'')) (\<lambda>_.
     rbind (ensure (case rq_cluster request of None \<Rightarrow> True | Some c \<Rightarrow> trim c \<noteq> [])
       (bad_request ''runtime resource cluster cannot be empty'')) (\<lambda>_.
     validate_observed_resources request (rq_resources request))))"

definition fetch_snapshot_on_connection :: "uuid \<Rightarrow> Snapshot dbtx" where
  "fetch_snapshot_on_connection snapshot_id =
     tx_bind (tx_read db_snapshots) (\<lambda>rows.
     tx_lift (ok_or (not_found ''snapshot not found'') (find (\<lambda>s. sn_id s = snapshot_id) rows)))"

definition missing_from_observation ::
  "ReconcileRuntimeResourcesRequest \<Rightarrow> string \<Rightarrow> (RuntimeResourceKind \<times> string) list \<Rightarrow> database
    \<Rightarrow> RuntimeResource \<Rightarrow> bool" where
  "missing_from_observation request tenant_id observed s r \<longleftrightarrow>
     pr_provider (rr_reported r) = rq_provider request \<and> pr_namespace (rr_reported r) = rq_namespace request
     \<and> pr_cluster (rr_reported r) = rq_cluster request
     \<and> list_ex (\<lambda>b. sb_id b = pr_sandbox_id (rr_reported r) \<and> sb_tenant_id b = tenant_id) (db_sandboxes s)
     \<and> \<not> status_gone (pr_status (rr_reported r))
     \<and> (pr_resource_kind (rr_reported r), pr_resource_name (rr_reported r)) \<notin> set observed"

definition mark_missing_runtime_resources_deleted_on_connection ::
  "ReconcileRuntimeResourcesRequest \<Rightarrow> string \<Rightarrow> (RuntimeResourceKind \<times> string) list \<Rightarrow> timestamp
    \<Rightarrow> RuntimeResource list dbtx" where
  "mark_missing_runtime_resources_deleted_on_connection request tenant_id observed reconciled_at =
     tx_bind (tx_read (\<lambda>s. sort_key (\<lambda>r. (RuntimeResourceKind_as_db_str (pr_resource_kind (rr_reported r)),
         pr_resource_name (rr_reported r), uint (rr_id r)))
       (filter (missing_from_observation request tenant_id observed s) (db_resources s)))) (\<lambda>candidates.
     tx_map (\<lambda>resource. mark_runtime_resource_deleted_on_connection (rr_id resource) reconciled_at
       RuntimeResourceStatus.Deleted ''missing from runtime resource reconcile observation'') candidates)"

definition reconcile_observed_resource ::
  "string \<Rightarrow> timestamp \<Rightarrow> ProviderRuntimeResource \<Rightarrow> RuntimeResource dbtx" where
  "reconcile_observed_resource tenant_id observed_at resource =
     tx_bind (ensure_sandbox_tenant_on_connection (pr_sandbox_id resource) tenant_id) (\<lambda>_.
     tx_bind (case pr_snapshot_id resource of None \<Rightarrow> tx_return ()
       | Some snapshot_id \<Rightarrow>
           tx_bind (fetch_snapshot_on_connection snapshot_id) (\<lambda>snapshot.
           tx_ensure (sn_sandbox_id snapshot = pr_sandbox_id resource)
             (bad_request ''runtime resource snapshot must belong to the resource sandbox''))) (\<lambda>_.
     upsert_provider_runtime_resource_on_connection resource (Some observed_at) (Some observed_at) (Some tenant_id)))"

definition reconcile_runtime_resources_on_connection ::
  "ReconcileRuntimeResourcesRequest \<Rightarrow> string \<Rightarrow> timestamp \<Rightarrow> (RuntimeResource list \<times> RuntimeResource list) dbtx" where
  "reconcile_runtime_resources_on_connection request tenant_id observed_at =
     tx_bind (tx_map (reconcile_observed_resource tenant_id observed_at) (rq_resources request)) (\<lambda>upserted.
     let observed = map (\<lambda>r. (pr_resource_kind (rr_reported r), pr_resource_name (rr_reported r))) upserted in
     tx_bind (if rq_mark_missing_deleted request
       then mark_missing_runtime_resources_deleted_on_connection request tenant_id observed observed_at
       else tx_return []) (\<lambda>deleted.
     tx_return (upserted, deleted)))"

definition reconcile_runtime_resources ::
  "Worker \<Rightarrow> string \<Rightarrow> ReconcileRuntimeResourcesRequest \<Rightarrow> (RuntimeResource list \<times> RuntimeResource list) dbtx" where
  "reconcile_runtime_resources worker tenant_id request =
     tx_bind (tx_ensure (wk_provider worker = rq_provider request)
       (bad_request ''runtime resource provider must match worker provider'')) (\<lambda>_.
     tx_bind (tx_lift (validate_reconcile_runtime_resources_request request)) (\<lambda>_.
     tx_bind utc_now (\<lambda>observed_at.
     reconcile_runtime_resources_on_connection request tenant_id observed_at)))"

subsection \<open>Consistency of the rows\<close>

definition res_ok :: "database \<Rightarrow> bool" where
  "res_ok s \<longleftrightarrow> distinct (map rr_id (db_resources s))
     \<and> distinct (map (resource_identity \<circ> rr_reported) (db_resources s))
     \<and> (\<forall>r \<in> set (db_resources s). rr_deleted_at r \<noteq> None \<longleftrightarrow> status_gone (pr_status (rr_reported r)))"

text \<open>A row stays, under its identity, with the sandbox and the snapshot it was recorded for.\<close>

definition same_lineage :: "RuntimeResource \<Rightarrow> RuntimeResource \<Rightarrow> bool" where
  "same_lineage r r' \<longleftrightarrow> rr_id r' = rr_id r
     \<and> resource_identity (rr_reported r') = resource_identity (rr_reported r)
     \<and> pr_sandbox_id (rr_reported r') = pr_sandbox_id (rr_reported r)
     \<and> pr_snapshot_id (rr_reported r') = pr_snapshot_id (rr_reported r)"

text \<open>Only rows with an identity in \<open>I\<close> change.\<close>

definition rows_kept :: "(string \<times> RuntimeResourceKind \<times> string \<times> string \<times> string) set
    \<Rightarrow> RuntimeResource list \<Rightarrow> RuntimeResource list \<Rightarrow> bool" where
  "rows_kept I rows rows' \<longleftrightarrow> (\<forall>r \<in> set rows. \<exists>r' \<in> set rows'. same_lineage r r'
     \<and> (r' = r \<or> resource_identity (rr_reported r) \<in> I))"

definition res_frame :: "(string \<times> RuntimeResourceKind \<times> string \<times> string \<times> string) set
    \<Rightarrow> database \<Rightarrow> database \<Rightarrow> bool" where
  "res_frame I s t \<longleftrightarrow> (res_ok s \<longrightarrow> res_ok t \<and> rows_kept I (db_resources s) (db_resources t))"

lemma rows_kept_refl: "rows_kept I rows rows"
  by (auto simp: rows_kept_def same_lineage_def)

lemma same_lineage_trans: "same_lineage a b \<Longrightarrow> same_lineage b c \<Longrightarrow> same_lineage a c"
  by (simp add: same_lineage_def)

lemma rows_kept_trans:
  assumes "rows_kept I a b" and "rows_kept I b c"
  shows "rows_kept I a c"
  unfolding rows_kept_def
proof
  fix r assume "r \<in> set a"
  then obtain r' where r': "r' \<in> set b" "same_lineage r r'" "r' = r \<or> resource_identity (rr_reported r) \<in> I"
    using assms(1) by (auto simp: rows_kept_def)
  then obtain r'' where "r'' \<in> set c" "same_lineage r' r''" "r'' = r' \<or> resource_identity (rr_reported r') \<in> I"
    using assms(2) by (auto simp: rows_kept_def)
  moreover from this have "same_lineage r r''" using same_lineage_trans r'(2) by blast
  ultimately show "\<exists>r' \<in> set c. same_lineage r r' \<and> (r' = r \<or> resource_identity (rr_reported r) \<in> I)"
    using r' by (auto simp: same_lineage_def)
qed

interpretation res: tx_frame "res_frame I" for I
proof
  show "res_frame I s s" for s by (simp add: res_frame_def rows_kept_refl)
  show "res_frame I s t \<Longrightarrow> res_frame I t u \<Longrightarrow> res_frame I s u" for s t u
    using rows_kept_trans by (auto simp: res_frame_def)
qed

text \<open>An operation that leaves the resource table alone.\<close>

definition keeps_resources :: "database \<Rightarrow> database \<Rightarrow> bool" where
  "keeps_resources s t \<longleftrightarrow> db_resources t = db_resources s \<and> db_sandboxes t = db_sandboxes s"

interpretation kept: tx_frame keeps_resources
  by unfold_locales (simp_all add: keeps_resources_def)

lemma res_frame_kept: "db_resources t = db_resources s \<Longrightarrow> res_frame I s t"
  by (simp add: res_frame_def res_ok_def rows_kept_refl)

lemma utc_now_Inr: "utc_now s = Inr (now, s') \<longleftrightarrow> now = db_clock s (db_ticks s) \<and> s' = s\<lparr>db_ticks := Suc (db_ticks s)\<rparr>"
  by (auto simp: utc_now_def)

lemma uuid_new_Inr: "uuid_new s = Inr (u, s') \<longleftrightarrow> u = db_entropy s (db_drawn s) \<and> s' = s\<lparr>db_drawn := Suc (db_drawn s)\<rparr>"
  by (auto simp: uuid_new_def)

lemma kept_basic:
  "tx_rel keeps_resources utc_now" "tx_rel keeps_resources uuid_new"
  by (auto simp: tx_rel_def utc_now_Inr uuid_new_Inr keeps_resources_def)

lemma kept_reads:
  "tx_rel keeps_resources (fetch_sandbox_on_connection i)"
  "tx_rel keeps_resources (ensure_sandbox_tenant_on_connection i t)"
  "tx_rel keeps_resources (fetch_runtime_resource_on_connection i)"
  "tx_rel keeps_resources (fetch_snapshot_on_connection i)"
  unfolding fetch_sandbox_on_connection_def ensure_sandbox_tenant_on_connection_def
    fetch_runtime_resource_on_connection_def fetch_snapshot_on_connection_def
  by (intro kept.frame_rules)+

lemma res_frame_of_kept: "tx_rel keeps_resources m \<Longrightarrow> tx_rel (res_frame I) m"
  by (auto simp: tx_rel_def keeps_resources_def intro: res_frame_kept)

lemmas res_reads = kept_basic [THEN res_frame_of_kept] kept_reads [THEN res_frame_of_kept]

text \<open>Updating rows in place under their lineage.\<close>

lemma res_frame_update:
  assumes "db_resources t = update_rows P f (db_resources s)"
    and "\<And>r. r \<in> set (db_resources s) \<Longrightarrow> P r \<Longrightarrow> same_lineage r (f r)
        \<and> resource_identity (rr_reported r) \<in> I
        \<and> (rr_deleted_at (f r) \<noteq> None \<longleftrightarrow> status_gone (pr_status (rr_reported (f r))))"
  shows "res_frame I s t"
proof (unfold res_frame_def, intro impI conjI)
  assume ok: "res_ok s"
  let ?g = "\<lambda>r. if P r then f r else r"
  have rows: "db_resources t = map ?g (db_resources s)" by (simp add: assms(1) update_rows_def)
  have lineage: "same_lineage r (?g r) \<and> (?g r = r \<or> resource_identity (rr_reported r) \<in> I)" if "r \<in> set (db_resources s)" for r
    using assms(2) [OF that] by (auto simp: same_lineage_def)
  have "map rr_id (db_resources t) = map rr_id (db_resources s)"
    and "map (resource_identity \<circ> rr_reported) (db_resources t) = map (resource_identity \<circ> rr_reported) (db_resources s)"
    using lineage by (simp_all add: rows same_lineage_def)
  moreover have "\<forall>r \<in> set (db_resources t). rr_deleted_at r \<noteq> None \<longleftrightarrow> status_gone (pr_status (rr_reported r))"
    using ok assms(2) by (auto simp: rows res_ok_def)
  ultimately show "res_ok t" using ok by (simp add: res_ok_def)
  show "rows_kept I (db_resources s) (db_resources t)"
    unfolding rows_kept_def rows set_map using lineage by blast
qed

lemma res_frame_statement:
  assumes "\<And>r. P r \<Longrightarrow> same_lineage r (f r) \<and> resource_identity (rr_reported r) \<in> I
        \<and> (rr_deleted_at (f r) \<noteq> None \<longleftrightarrow> status_gone (pr_status (rr_reported (f r))))"
  shows "res_frame I s (db_resources_update (update_rows P f) s)"
  by (rule res_frame_update [where P = P and f = f]) (use assms in simp_all)

lemma res_frame_insert:
  assumes "db_resources t = db_resources s @ [row]"
    and "\<not> list_ex (\<lambda>r. rr_id r = rr_id row \<or> resource_identity (rr_reported r) = resource_identity (rr_reported row)) (db_resources s)"
    and "rr_deleted_at row \<noteq> None \<longleftrightarrow> status_gone (pr_status (rr_reported row))"
  shows "res_frame I s t"
  using assms by (auto simp: res_frame_def res_ok_def rows_kept_def same_lineage_def list_ex_iff)

lemma mark_deleted_frame:
  assumes "status_gone status"
  shows "tx_rel (res_frame UNIV) (mark_runtime_resource_deleted_on_connection resource_id deleted_at status error)"
  unfolding mark_runtime_resource_deleted_on_connection_def
proof (intro res.bind res.read res.ensure res_reads res.update)
  fix s
  show "res_frame UNIV s (db_resources_update (update_rows (\<lambda>r. rr_id r = resource_id) (\<lambda>r.
       r\<lparr>rr_reported := (rr_reported r)\<lparr>pr_status := status, pr_error := Some error\<rparr>,
         rr_updated_at := deleted_at, rr_last_reconciled_at := Some deleted_at, rr_deleted_at := Some deleted_at\<rparr>)) s)"
    by (rule res_frame_statement) (simp add: same_lineage_def resource_identity_def assms)
qed

lemma mark_for_sandbox_frame:
  "tx_rel (res_frame UNIV) (mark_runtime_resources_deleted_for_sandbox_on_connection sandbox_id generation deleted_at error)"
  unfolding mark_runtime_resources_deleted_for_sandbox_on_connection_def Let_def
proof (intro res.bind res.read res.cond res.return res.update)
  fix s
  show "res_frame UNIV s (db_resources_update (update_rows (\<lambda>r. pr_sandbox_id (rr_reported r) = sandbox_id
        \<and> \<not> status_gone (pr_status (rr_reported r)) \<and> generation_covers generation (rr_reported r)) (\<lambda>r.
       r\<lparr>rr_reported := (rr_reported r)\<lparr>pr_status := RuntimeResourceStatus.Destroyed, pr_error := Some error\<rparr>,
         rr_updated_at := deleted_at, rr_last_reconciled_at := Some deleted_at, rr_deleted_at := Some deleted_at\<rparr>)) s)"
    by (rule res_frame_statement) (simp add: same_lineage_def resource_identity_def status_gone_def)
qed

text \<open>The row a lookup names carries the identity that was looked up.\<close>

lemma lookup_identity:
  assumes "fetch_runtime_resource_id_on_connection (pr_provider p) (pr_resource_kind p) (pr_namespace p)
      (pr_cluster p) (pr_resource_name p) s = Inr (Some i, s')"
  shows "s' = s" and "\<exists>r \<in> set (db_resources s). rr_id r = i \<and> resource_identity (rr_reported r) = resource_identity p"
  using assms by (auto simp: fetch_runtime_resource_id_on_connection_def find_Some_iff resource_identity_def)

lemma find_row:
  assumes "distinct (map key rows)" and "r \<in> set rows" and "key r = k"
  shows "find (\<lambda>q. key q = k) rows = Some r"
  using assms by (induction rows) auto

lemma update_resource_frame:
  assumes m: "update_runtime_resource_from_provider_on_connection i p observed reconciled s = Inr (row, s')"
    and r: "r \<in> set (db_resources s)" "rr_id r = i" "resource_identity (rr_reported r) = resource_identity p"
    and kept: "resource_association_kept r p" and I: "resource_identity p \<in> I"
  shows "res_frame I s s'"
proof (cases "res_ok s")
  case True
  have rows: "db_resources s' = update_rows (\<lambda>r. rr_id r = i) (\<lambda>r.
       r\<lparr>rr_reported := p, rr_updated_at := db_clock s (db_ticks s),
         rr_deleted_at := deleted_at_for_runtime_resource (pr_status p) (db_clock s (db_ticks s)),
         rr_observed_at := observed,
         rr_last_reconciled_at := (case reconciled of None \<Rightarrow> rr_last_reconciled_at r | t \<Rightarrow> t)\<rparr>) (db_resources s)"
    using m by (auto simp: update_runtime_resource_from_provider_on_connection_def tx_bind_Inr utc_now_Inr
        fetch_runtime_resource_on_connection_def tx_lift_Inr tx_ensure_Inr split: if_splits)
  have assoc: "pr_sandbox_id p = pr_sandbox_id (rr_reported r)" "pr_snapshot_id p = pr_snapshot_id (rr_reported r)"
    using kept by (simp_all add: resource_association_kept_def Let_def)
  show ?thesis
  proof (rule res_frame_update [OF rows], goal_cases)
    case (1 q)
    then have "q = r"
      using True r(1,2) by (auto simp: res_ok_def distinct_map inj_on_def)
    then show ?case
      using assoc r(3) I by (simp add: same_lineage_def deleted_at_for_runtime_resource_def)
  qed
qed (simp add: res_frame_def)

lemma insert_resource_frame:
  "tx_rel (res_frame I) (insert_runtime_resource_from_provider_on_connection p observed reconciled)"
proof (rule tx_relI)
  fix s x s'
  assume "insert_runtime_resource_from_provider_on_connection p observed reconciled s = Inr (x, s')"
  then consider (none) "db_resources s' = db_resources s"
    | (row) row where "db_resources s' = db_resources s @ [row]" "rr_reported row = p"
        "\<not> list_ex (\<lambda>r. rr_id r = rr_id row \<or> resource_identity (rr_reported r) = resource_identity p) (db_resources s)"
        "rr_deleted_at row \<noteq> None \<longleftrightarrow> status_gone (pr_status p)"
    by (auto simp: insert_runtime_resource_from_provider_on_connection_def tx_bind_Inr utc_now_Inr uuid_new_Inr
        fetch_runtime_resource_on_connection_def tx_lift_Inr Let_def deleted_at_for_runtime_resource_def
        split: if_splits)
  then show "res_frame I s s'"
  proof cases
    case row
    then show ?thesis by (intro res_frame_insert) auto
  qed (rule res_frame_kept)
qed

lemma upsert_existing_frame:
  assumes I: "resource_identity p \<in> I" and r: "r \<in> set (db_resources s)" "rr_id r = i" "resource_identity (rr_reported r) = resource_identity p"
    and m: "tx_bind (fetch_runtime_resource_on_connection i) (\<lambda>existing.
       tx_bind (tx_ensure (resource_association_kept existing p) e) (\<lambda>_.
       tx_bind (case tenant_id of None \<Rightarrow> tx_return ()
         | Some t \<Rightarrow> tx_bind (ensure_sandbox_tenant_on_connection (pr_sandbox_id (rr_reported existing)) t)
             (\<lambda>_. tx_return ())) (\<lambda>_.
       update_runtime_resource_from_provider_on_connection i p observed reconciled))) s = Inr (row, s')"
  shows "res_frame I s s'"
proof (cases "res_ok s")
  case True
  have found: "find (\<lambda>q. rr_id q = i) (db_resources s) = Some r"
    using True r(1,2) by (intro find_row) (auto simp: res_ok_def)
  from m [unfolded tx_bind_Inr] obtain existing s0 u s1 v s2 where
      fetch: "fetch_runtime_resource_on_connection i s = Inr (existing, s0)"
    and assoc: "tx_ensure (resource_association_kept existing p) e s0 = Inr (u, s1)"
    and check: "(case tenant_id of None \<Rightarrow> tx_return ()
         | Some t \<Rightarrow> tx_bind (ensure_sandbox_tenant_on_connection (pr_sandbox_id (rr_reported existing)) t)
             (\<lambda>_. tx_return ())) s1 = Inr (v, s2)"
    and upd: "update_runtime_resource_from_provider_on_connection i p observed reconciled s2 = Inr (row, s')"
    by (elim exE conjE) (rule that)
  have eqs: "existing = r" "s0 = s" "s1 = s" and kept: "resource_association_kept r p"
    using fetch assoc by (auto simp: fetch_runtime_resource_on_connection_def found ok_or_def tx_lift_Inr tx_ensure_Inr)
  have "tx_rel keeps_resources (case tenant_id of None \<Rightarrow> tx_return ()
         | Some t \<Rightarrow> tx_bind (ensure_sandbox_tenant_on_connection (pr_sandbox_id (rr_reported r)) t)
             (\<lambda>_. tx_return ()))"
    by (intro kept.frame_rules kept_reads)
  then have same: "db_resources s2 = db_resources s"
    using check eqs by (auto dest: tx_relD simp: keeps_resources_def)
  have "res_frame I s s2" by (rule res_frame_kept [OF same])
  moreover have "res_frame I s2 s'"
    using update_resource_frame [OF upd] r kept same I by simp
  ultimately show ?thesis by (rule res.frame_trans)
qed (simp add: res_frame_def)

lemma upsert_resource_frame:
  assumes I: "resource_identity p \<in> I"
  shows "tx_rel (res_frame I) (upsert_provider_runtime_resource_on_connection p observed reconciled tenant_id)"
proof (rule tx_relI)
  fix s row s'
  let ?lookup = "fetch_runtime_resource_id_on_connection (pr_provider p) (pr_resource_kind p)
           (pr_namespace p) (pr_cluster p) (pr_resource_name p)"
  let ?existing = "\<lambda>i. tx_bind (fetch_runtime_resource_on_connection i) (\<lambda>existing.
           tx_bind (tx_ensure (resource_association_kept existing p)
             (bad_request ''runtime resource provider identity belongs to a different association'')) (\<lambda>_.
           tx_bind (case tenant_id of None \<Rightarrow> tx_return ()
             | Some t \<Rightarrow> tx_bind (ensure_sandbox_tenant_on_connection (pr_sandbox_id (rr_reported existing)) t)
                 (\<lambda>_. tx_return ())) (\<lambda>_.
           update_runtime_resource_from_provider_on_connection i p observed reconciled)))"
  have step: "res_frame I t t'" if "?lookup t = Inr (Some i, t0)" "?existing i t0 = Inr (row, t')" for t t0 t' i
    using lookup_identity [OF that(1)] that(2) upsert_existing_frame [OF I] by blast
  have idle: "t0 = t" if "?lookup t = Inr (v, t0)" for t t0 v
    using that by (simp add: fetch_runtime_resource_id_on_connection_def)
  assume "upsert_provider_runtime_resource_on_connection p observed reconciled tenant_id s = Inr (row, s')"
  from this [unfolded upsert_provider_runtime_resource_on_connection_def Let_def tx_bind_Inr [where m = "tx_lift _"]
      tx_bind_Inr [where m = "case_option _ _ _"] tx_bind_Inr [where m = ?lookup]]
  obtain u s0 v s1 found s2 where "tx_lift (validate_provider_runtime_resource p) s = Inr (u, s0)"
    and check: "(case tenant_id of None \<Rightarrow> tx_return ()
       | Some t \<Rightarrow> tx_bind (ensure_sandbox_tenant_on_connection (pr_sandbox_id p) t) (\<lambda>_. tx_return ())) s0 = Inr (v, s1)"
    and lookup: "?lookup s1 = Inr (found, s2)"
    and rest: "(case found of
       Some i \<Rightarrow> ?existing i
     | None \<Rightarrow>
         tx_bind (insert_runtime_resource_from_provider_on_connection p observed reconciled) (\<lambda>inserted.
         case inserted of
           Some row \<Rightarrow> tx_return row
         | None \<Rightarrow>
             tx_bind ?lookup (\<lambda>conflicting.
             case conflicting of
               None \<Rightarrow> tx_fail (internal ''conflicting runtime resource disappeared'')
             | Some i \<Rightarrow> ?existing i))) s2 = Inr (row, s')"
    by (elim exE conjE) (rule that)
  have "tx_rel keeps_resources (case tenant_id of None \<Rightarrow> tx_return ()
       | Some t \<Rightarrow> tx_bind (ensure_sandbox_tenant_on_connection (pr_sandbox_id p) t) (\<lambda>_. tx_return ()))"
    by (intro kept.frame_rules kept_reads)
  then have "db_resources s1 = db_resources s"
    using \<open>tx_lift _ s = _\<close> check by (auto dest: tx_relD simp: keeps_resources_def tx_lift_Inr)
  then have start: "res_frame I s s1" by (rule res_frame_kept)
  have "res_frame I s1 s'"
  proof (cases found)
    case (Some i)
    then show ?thesis using step [OF lookup [unfolded Some]] rest by simp
  next
    case None
    obtain ins s3 where ins: "insert_runtime_resource_from_provider_on_connection p observed reconciled s1 = Inr (ins, s3)"
      and after: "(case ins of
           Some row \<Rightarrow> tx_return row
         | None \<Rightarrow> tx_bind ?lookup (\<lambda>conflicting.
             case conflicting of
               None \<Rightarrow> tx_fail (internal ''conflicting runtime resource disappeared'')
             | Some i \<Rightarrow> ?existing i)) s3 = Inr (row, s')"
      using rest idle [OF lookup] unfolding None option.case
        tx_bind_Inr [where m = "insert_runtime_resource_from_provider_on_connection p observed reconciled"] by blast
    have "res_frame I s1 s3" by (rule tx_relD [OF insert_resource_frame ins])
    moreover have "res_frame I s3 s'"
    proof (cases ins)
      case None
      then obtain c s4 where c: "?lookup s3 = Inr (c, s4)"
        and go: "(case c of None \<Rightarrow> tx_fail (internal ''conflicting runtime resource disappeared'')
             | Some i \<Rightarrow> ?existing i) s4 = Inr (row, s')"
        using after unfolding None option.case tx_bind_Inr [where m = ?lookup] by blast
      then show ?thesis using step by (cases c) auto
    qed (use after in \<open>simp add: res.frame_refl\<close>)
    ultimately show ?thesis by (rule res.frame_trans)
  qed
  with start show "res_frame I s s'" by (rule res.frame_trans)
qed

lemma upsert_resources_frame:
  "tx_rel (res_frame UNIV) (upsert_provider_runtime_resources_on_connection resources tenant_id)"
  unfolding upsert_provider_runtime_resources_on_connection_def
  by (cases resources) (auto intro!: res.frame_rules res_reads upsert_resource_frame)

lemma reconcile_frame:
  "tx_rel (res_frame UNIV) (reconcile_runtime_resources_on_connection request tenant_id observed_at)"
  unfolding reconcile_runtime_resources_on_connection_def Let_def reconcile_observed_resource_def
    mark_missing_runtime_resources_deleted_on_connection_def
  by (intro res.frame_rules res_reads upsert_resource_frame mark_deleted_frame) (simp_all add: status_gone_def)

subsection \<open>What holds of any history\<close>

datatype resource_request =
  ReconcileObservation Worker string ReconcileRuntimeResourcesRequest
| RecordCompletion "ProviderRuntimeResource list" string
| RetireGeneration uuid RuntimeResourceGeneration string

definition resource_tx :: "resource_request \<Rightarrow> unit dbtx" where
  "resource_tx req = (case req of
     ReconcileObservation worker tenant_id request \<Rightarrow>
       tx_bind (reconcile_runtime_resources worker tenant_id request) (\<lambda>_. tx_return ())
   | RecordCompletion resources tenant_id \<Rightarrow> upsert_provider_runtime_resources_on_connection resources tenant_id
   | RetireGeneration sandbox_id generation error \<Rightarrow>
       tx_bind utc_now (\<lambda>now.
       tx_bind (mark_runtime_resources_deleted_for_sandbox_on_connection sandbox_id generation now error)
         (\<lambda>_. tx_return ())))"

definition resource_step :: "env \<times> resource_request \<Rightarrow> database \<Rightarrow> database" where
  "resource_step step s = snd (run_request (fst step) (resource_tx (snd step)) s)"

lemma resource_tx_frame: "tx_rel (res_frame UNIV) (resource_tx req)"
  unfolding resource_tx_def reconcile_runtime_resources_def
  by (cases req) (auto intro!: res.frame_rules res_reads reconcile_frame upsert_resources_frame mark_for_sandbox_frame)

lemma resource_step_frame: "res_frame UNIV s (resource_step step s)"
proof -
  have "res_frame UNIV s (on_request (fst step) s)"
    by (rule res_frame_kept) (simp add: on_request_def)
  moreover have "res_frame UNIV (on_request (fst step) s) (resource_step step s)"
    unfolding resource_step_def run_request_def by (rule res.atomic [OF resource_tx_frame])
  ultimately show ?thesis by (rule res.frame_trans)
qed

text \<open>C11: whatever observations, completions and retirements arrive, in any order and with any of
  them failing, two stored resources never share an identifier or a provider identity, a resource has
  a deletion time exactly while it is deleted or destroyed, and every row ever stored is still there
  with the sandbox and the snapshot it was recorded for.\<close>

theorem resource_rows_consistent:
  assumes "res_ok s"
  shows "res_ok (fold resource_step steps s) \<and> rows_kept UNIV (db_resources s) (db_resources (fold resource_step steps s))"
proof -
  have "res_frame UNIV s (fold resource_step steps s)"
  proof (induction steps arbitrary: s)
    case (Cons step steps)
    then show ?case using res.frame_trans resource_step_frame by (simp add: o_def) blast
  qed (simp add: res.frame_refl)
  with assms show ?thesis by (simp add: res_frame_def)
qed

definition sample_pod :: "uuid \<Rightarrow> string \<Rightarrow> ProviderRuntimeResource" where
  "sample_pod sandbox_id name = \<lparr>pr_sandbox_id = sandbox_id, pr_snapshot_id = None, pr_provider = ''kubernetes'',
     pr_resource_kind = RuntimeResourceKind.Pod, pr_purpose = RuntimeResourcePurpose.Runtime,
     pr_resource_name = name, pr_namespace = ''sandboxes'', pr_status = RuntimeResourceStatus.Ready,
     pr_cluster = None, pr_storage_class = None, pr_snapshot_class = None, pr_storage_size = None,
     pr_runtime_image = None, pr_service_port = None, pr_target_port = None, pr_source_snapshot_id = None,
     pr_ready_at = None, pr_error = None\<rparr>"

definition sample_resource :: RuntimeResource where
  "sample_resource = \<lparr>rr_id = 1, rr_reported = sample_pod 7 ''pod-7'', rr_created_at = 0, rr_updated_at = 0,
     rr_observed_at = None, rr_last_reconciled_at = None, rr_deleted_at = None\<rparr>"

definition resource_database :: database where
  "resource_database = empty_database\<lparr>db_sandboxes := [sample_sandbox], db_resources := [sample_resource]\<rparr>"

lemma resource_database_ok: "res_ok resource_database"
  by (simp add: res_ok_def resource_database_def sample_resource_def sample_pod_def status_gone_def)

theorem resource_rows_consistent_witness:
  "res_ok resource_database \<and> db_resources resource_database \<noteq> []
   \<and> res_ok (fold resource_step [((\<lambda>_. 5, of_nat), RetireGeneration 7 RuntimeOnly ''stop''),
       ((\<lambda>_. 9, of_nat), RecordCompletion [sample_pod 7 ''pod-7''] ''acme'')] resource_database)"
proof -
  have "db_resources resource_database \<noteq> []" by (simp add: resource_database_def)
  then show ?thesis
    using resource_rows_consistent [OF resource_database_ok] resource_database_ok by blast
qed

subsection \<open>What a reconcile observation settles\<close>

definition tx_value :: "('a \<Rightarrow> bool) \<Rightarrow> 'a dbtx \<Rightarrow> bool" where
  "tx_value Q m \<longleftrightarrow> (\<forall>s y s'. m s = Inr (y, s') \<longrightarrow> Q y)"

lemma tx_value_bind: "(\<And>y. tx_value Q (k y)) \<Longrightarrow> tx_value Q (tx_bind m k)"
  unfolding tx_value_def tx_bind_Inr by blast

lemma tx_value_bound:
  "tx_value P m \<Longrightarrow> (\<And>y. P y \<Longrightarrow> tx_value Q (k y)) \<Longrightarrow> tx_value Q (tx_bind m k)"
  unfolding tx_value_def tx_bind_Inr by blast

lemma tx_value_rules:
  "Q y \<Longrightarrow> tx_value Q (tx_return y)" "tx_value Q (tx_fail e)"
  "tx_value Q m \<Longrightarrow> (\<And>y. tx_value Q (k y)) \<Longrightarrow> tx_value Q (case v of None \<Rightarrow> m | Some y \<Rightarrow> k y)"
  by (auto simp: tx_value_def split: option.splits)

lemma find_update_rows:
  assumes "\<And>r. key (f r) = key r"
  shows "find (\<lambda>r. key r = k) (update_rows (\<lambda>r. key r = k) f rows) = map_option f (find (\<lambda>r. key r = k) rows)"
  using assms by (induction rows) auto

lemma update_reported:
  "tx_value (\<lambda>row. rr_reported row = p) (update_runtime_resource_from_provider_on_connection i p observed reconciled)"
  by (auto simp: tx_value_def update_runtime_resource_from_provider_on_connection_def tx_bind_Inr utc_now_Inr
      fetch_runtime_resource_on_connection_def tx_lift_Inr find_update_rows ok_or_def
      split: if_splits option.splits)

lemma find_appended:
  "k \<notin> key ` set rows \<Longrightarrow> key row = k \<Longrightarrow> find (\<lambda>r. key r = k) (rows @ [row]) = Some row"
  by (induction rows) auto

lemma insert_reported:
  "tx_value (\<lambda>v. case v of None \<Rightarrow> True | Some row \<Rightarrow> rr_reported row = p)
     (insert_runtime_resource_from_provider_on_connection p observed reconciled)"
proof -
  have core: "tx_value (\<lambda>v. case v of None \<Rightarrow> True | Some row \<Rightarrow> rr_reported row = p)
    (tx_bind (tx_read db_resources) (\<lambda>rows. if list_ex (\<lambda>r. rr_id r = rr_id row \<or> Q r) rows then tx_return None else
       tx_bind (tx_write (db_resources_update (\<lambda>rs. rs @ [row]))) (\<lambda>_.
       tx_bind (fetch_runtime_resource_on_connection (rr_id row)) (\<lambda>r. tx_return (Some r)))))"
    if "rr_reported row = p" for row Q
  proof (unfold tx_value_def, intro allI impI)
    fix s v s'
    assume m: "tx_bind (tx_read db_resources) (\<lambda>rows. if list_ex (\<lambda>r. rr_id r = rr_id row \<or> Q r) rows then tx_return None else
       tx_bind (tx_write (db_resources_update (\<lambda>rs. rs @ [row]))) (\<lambda>_.
       tx_bind (fetch_runtime_resource_on_connection (rr_id row)) (\<lambda>r. tx_return (Some r)))) s = Inr (v, s')"
    show "case v of None \<Rightarrow> True | Some row \<Rightarrow> rr_reported row = p"
    proof (cases "list_ex (\<lambda>r. rr_id r = rr_id row \<or> Q r) (db_resources s)")
      case False
      then have "rr_id row \<notin> rr_id ` set (db_resources s)" by (auto simp: list_ex_iff)
      then show ?thesis
        using m False that
        by (auto simp: tx_bind_Inr fetch_runtime_resource_on_connection_def tx_lift_Inr find_appended ok_or_def)
    qed (use m in simp)
  qed
  show ?thesis
    unfolding insert_runtime_resource_from_provider_on_connection_def Let_def
  proof (rule tx_value_bind, rule tx_value_bind, goal_cases)
    case (1 now i)
    show ?case
      using core [of "\<lparr>rr_id = i, rr_reported = p, rr_created_at = now, rr_updated_at = now,
          rr_observed_at = observed, rr_last_reconciled_at = reconciled,
          rr_deleted_at = deleted_at_for_runtime_resource (pr_status p) now\<rparr>"
          "\<lambda>r. resource_identity (rr_reported r) = resource_identity p"] by (simp cong: if_cong)
  qed
qed

lemma upsert_reported:
  "tx_value (\<lambda>row. rr_reported row = p) (upsert_provider_runtime_resource_on_connection p observed reconciled tenant_id)"
  unfolding upsert_provider_runtime_resource_on_connection_def Let_def
proof (rule tx_value_bind, rule tx_value_bind, rule tx_value_bind, goal_cases)
  case (1 _ _ found)
  show ?case
  proof (cases found)
    case None
    show ?thesis
      unfolding None option.case
    proof (rule tx_value_bound [OF insert_reported], goal_cases)
      case (1 inserted)
      then show ?case
        by (cases inserted) (auto intro!: tx_value_rules tx_value_bind update_reported)
    qed
  qed (simp, intro tx_value_bind update_reported)
qed

lemma tx_map_values:
  assumes "\<And>v. tx_value (Q v) (f v)" and "tx_map f xs s = Inr (ys, s')"
  shows "list_all2 Q xs ys"
  using assms(2)
proof (induction xs arbitrary: s ys)
  case (Cons v xs)
  then obtain y s1 zs where "f v s = Inr (y, s1)" "tx_map f xs s1 = Inr (zs, s')" "ys = y # zs"
    by (auto simp: tx_bind_Inr)
  moreover from this(1) have "Q v y" using assms(1) unfolding tx_value_def by blast
  ultimately show ?case using Cons.IH by simp
qed simp

definition mark_missing_row :: "timestamp \<Rightarrow> RuntimeResource \<Rightarrow> RuntimeResource" where
  "mark_missing_row at r = r\<lparr>rr_reported := (rr_reported r)\<lparr>pr_status := RuntimeResourceStatus.Deleted,
       pr_error := Some ''missing from runtime resource reconcile observation''\<rparr>,
     rr_updated_at := at, rr_last_reconciled_at := Some at, rr_deleted_at := Some at\<rparr>"

lemma mark_missing_row_simps [simp]:
  "rr_id (mark_missing_row at r) = rr_id r" "mark_missing_row at (mark_missing_row at r) = mark_missing_row at r"
  "status_gone (pr_status (rr_reported (mark_missing_row at r)))"
  by (simp_all add: mark_missing_row_def status_gone_def)

lemma mark_all_missing:
  assumes "tx_map (\<lambda>r. mark_runtime_resource_deleted_on_connection (rr_id r) at
       RuntimeResourceStatus.Deleted ''missing from runtime resource reconcile observation'') cs s = Inr (ys, s')"
  shows "db_resources s' = update_rows (\<lambda>r. rr_id r \<in> rr_id ` set cs) (mark_missing_row at) (db_resources s)"
  using assms
proof (induction cs arbitrary: s ys)
  case Nil
  then show ?case by (simp add: update_rows_def)
next
  case (Cons c cs)
  from Cons.prems obtain y s1 zs where first: "mark_runtime_resource_deleted_on_connection (rr_id c) at
       RuntimeResourceStatus.Deleted ''missing from runtime resource reconcile observation'' s = Inr (y, s1)"
    and rest: "tx_map (\<lambda>r. mark_runtime_resource_deleted_on_connection (rr_id r) at
       RuntimeResourceStatus.Deleted ''missing from runtime resource reconcile observation'') cs s1 = Inr (zs, s')"
    by (auto simp: tx_bind_Inr)
  have "db_resources s1 = update_rows (\<lambda>r. rr_id r = rr_id c) (mark_missing_row at) (db_resources s)"
    using first by (auto simp: mark_runtime_resource_deleted_on_connection_def tx_bind_Inr
        fetch_runtime_resource_on_connection_def tx_lift_Inr mark_missing_row_def [abs_def] split: if_splits)
  with Cons.IH [OF rest] show ?case
    by (auto simp: update_rows_def)
qed

lemma validated_resources:
  "validate_observed_resources request rs = Inr () \<Longrightarrow> p \<in> set rs
    \<Longrightarrow> pr_provider p = rq_provider request \<and> pr_namespace p = rq_namespace request \<and> pr_cluster p = rq_cluster request"
  by (induction rs) (auto simp: rbind_eq_Inr ensure_def split: if_splits)

definition keeps_sandboxes :: "database \<Rightarrow> database \<Rightarrow> bool" where
  "keeps_sandboxes s t \<longleftrightarrow> db_sandboxes t = db_sandboxes s"

interpretation boxes: tx_frame keeps_sandboxes
  by unfold_locales (simp_all add: keeps_sandboxes_def)

lemma keeps_sandboxes_of_kept: "tx_rel keeps_resources m \<Longrightarrow> tx_rel keeps_sandboxes m"
  by (auto simp: tx_rel_def keeps_resources_def keeps_sandboxes_def)

lemmas boxes_reads = kept_basic [THEN keeps_sandboxes_of_kept] kept_reads [THEN keeps_sandboxes_of_kept]

lemma boxes_upsert:
  "tx_rel keeps_sandboxes (upsert_provider_runtime_resource_on_connection p observed reconciled tenant_id)"
  unfolding upsert_provider_runtime_resource_on_connection_def Let_def
    update_runtime_resource_from_provider_on_connection_def insert_runtime_resource_from_provider_on_connection_def
    fetch_runtime_resource_id_on_connection_def
  by (intro boxes.frame_rules boxes.update boxes_reads) (simp_all add: keeps_sandboxes_def)


definition sample_worker :: Worker where
  "sample_worker = \<lparr>wk_id = 3, wk_tenant_id = ''acme'', wk_name = ''w'', wk_status = WorkerStatus.Online,
     wk_provider = ''kubernetes'', wk_capabilities = [WorkerCapability.ProvisionSandbox, WorkerCapability.RunCommand],
     wk_max_concurrent_jobs = 2, wk_labels = [], wk_resource_envelope = None, wk_registered_at = 0,
     wk_last_heartbeat_at = None\<rparr>"

definition empty_observation :: ReconcileRuntimeResourcesRequest where
  "empty_observation = \<lparr>rq_provider = ''kubernetes'', rq_namespace = ''sandboxes'', rq_cluster = None,
     rq_mark_missing_deleted = True, rq_resources = []\<rparr>"

lemma empty_observation_accepted:
  "\<exists>deleted t. reconcile_runtime_resources sample_worker ''acme'' empty_observation resource_database = Inr (([], deleted), t)"
proof -
  let ?s = "resource_database\<lparr>db_ticks := Suc (db_ticks resource_database)\<rparr>"
  have valid: "validate_reconcile_runtime_resources_request empty_observation = Inr ()"
    by (simp add: validate_reconcile_runtime_resources_request_def empty_observation_def ensure_def
        is_ascii_graphic_def byte_def)
  have fields: "wk_provider sample_worker = rq_provider empty_observation" "rq_resources empty_observation = []"
    "rq_mark_missing_deleted empty_observation"
    by (simp_all add: sample_worker_def empty_observation_def)
  have rows: "db_resources resource_database = [sample_resource]" "missing_from_observation empty_observation ''acme'' [] ?s sample_resource"
    by (simp_all add: resource_database_def missing_from_observation_def empty_observation_def sample_resource_def
        sample_pod_def sample_sandbox_def status_gone_def)
  have "\<exists>row t. mark_runtime_resource_deleted_on_connection (rr_id sample_resource) at status e ?s = Inr (row, t)" for at status e
    by (simp add: mark_runtime_resource_deleted_on_connection_def rows fetch_runtime_resource_on_connection_def
        rows_matching_def ok_or_def tx_lift_def)
  then obtain row t where "mark_runtime_resource_deleted_on_connection (rr_id sample_resource)
      (db_clock resource_database (db_ticks resource_database)) RuntimeResourceStatus.Deleted
      ''missing from runtime resource reconcile observation'' ?s = Inr (row, t)" by blast
  then show ?thesis
    by (simp add: reconcile_runtime_resources_def fields valid tx_bind_lift reconcile_runtime_resources_on_connection_def
        mark_missing_runtime_resources_deleted_on_connection_def rows tx_bind_assoc tx_bind_Inr)
qed


end
