(* ===== verification/Sterile_Pool.thy ===== *)
theory Sterile_Pool
  imports Job_Placement
begin

section \<open>The sterile pool\<close>

text \<open>
  The operations of \<open>crates/sandboxwich-api/src/sterile_pool.rs\<close> that jobs run: admitting a
  provisioned cell with a staggered expiry, recording a claim, terminalizing a stop, and
  quarantining.  The state of a membership is the text of its column, and an update obeys the check
  constraint of the table.
\<close>

definition POOL_JOB_MARKER :: string where
  "POOL_JOB_MARKER = ''sterilePool''"

subsection \<open>Expiries\<close>

definition i64_saturating_mul :: "int \<Rightarrow> int \<Rightarrow> int" where
  "i64_saturating_mul a b = max (- (2 ^ 63)) (min i64_max (a * b))"

definition expiry_spread_seconds :: "nat \<Rightarrow> nat \<Rightarrow> int" where
  "expiry_spread_seconds ready_ttl target =
     (let ttl = (if int ready_ttl \<le> i64_max then int ready_ttl else i64_max)
      in ttl div int (max target 1))"

text \<open>\<open>None\<close> is a panic: of the addition, or of \<open>clamp\<close> when its bounds are crossed.\<close>

definition staggered_ready_expiry ::
  "add_seconds \<Rightarrow> timestamp \<Rightarrow> int \<Rightarrow> int \<Rightarrow> timestamp option \<Rightarrow> timestamp option" where
  "staggered_ready_expiry add now ready_ttl_seconds spread latest_ready_peer_expiry =
     Option.bind (add now ready_ttl_seconds) (\<lambda>floor.
     if spread \<le> 0 then Some floor else
     case latest_ready_peer_expiry of
       None \<Rightarrow> Some floor
     | Some peer \<Rightarrow>
         Option.bind (add now (i64_saturating_mul ready_ttl_seconds 2)) (\<lambda>ceiling.
         Option.bind (add peer spread) (\<lambda>slot.
         if floor > ceiling then None
         else Some (if slot < floor then floor else if slot > ceiling then ceiling else slot))))"

subsection \<open>Memberships and cells\<close>

definition membership_check :: "pool_membership \<Rightarrow> bool" where
  "membership_check m \<longleftrightarrow>
     (let s = pm_state m;
          fenced = (\<exists>g. pm_generation m = Some g \<and> g \<ge> 1 \<and> pm_requested_disposition m \<noteq> None
            \<and> (g = 1 \<and> pm_lease_id m = None \<and> pm_requested_disposition m = Some SterileCellDisposition.Quarantined
               \<or> g \<ge> 2 \<and> pm_lease_id m \<noteq> None))
      in s = ''provisioning'' \<and> pm_worker_id m = None \<and> pm_lease_id m = None \<and> pm_generation m = None
           \<and> pm_candidate_pod_name m = None \<and> pm_candidate_pod_uid m = None \<and> pm_cell_expires_at m = None
       \<or> s = ''ready'' \<and> pm_worker_id m \<noteq> None \<and> pm_lease_id m = None \<and> pm_generation m = Some 1
           \<and> pm_candidate_pod_name m \<noteq> None \<and> pm_candidate_pod_uid m \<noteq> None \<and> pm_cell_expires_at m \<noteq> None
       \<or> s = ''leased'' \<and> pm_worker_id m \<noteq> None \<and> pm_lease_id m \<noteq> None \<and> (\<exists>g. pm_generation m = Some g \<and> g \<ge> 2)
           \<and> pm_candidate_pod_name m \<noteq> None \<and> pm_candidate_pod_uid m \<noteq> None
       \<or> s = ''stopping'' \<and> pm_worker_id m \<noteq> None \<and> pm_stop_job_id m \<noteq> None \<and> fenced
       \<or> s = ''cleanup_pending'' \<and> pm_worker_id m \<noteq> None \<and> fenced
       \<or> s = ''destroyed'' \<or> s = ''quarantined'')"

lemma membership_check_generation [code]:
  "membership_check m \<longleftrightarrow>
     (let s = pm_state m;
          fenced = (case pm_generation m of None \<Rightarrow> False | Some g \<Rightarrow> g \<ge> 1 \<and> pm_requested_disposition m \<noteq> None
            \<and> (g = 1 \<and> pm_lease_id m = None \<and> pm_requested_disposition m = Some SterileCellDisposition.Quarantined
               \<or> g \<ge> 2 \<and> pm_lease_id m \<noteq> None))
      in s = ''provisioning'' \<and> pm_worker_id m = None \<and> pm_lease_id m = None \<and> pm_generation m = None
           \<and> pm_candidate_pod_name m = None \<and> pm_candidate_pod_uid m = None \<and> pm_cell_expires_at m = None
       \<or> s = ''ready'' \<and> pm_worker_id m \<noteq> None \<and> pm_lease_id m = None \<and> pm_generation m = Some 1
           \<and> pm_candidate_pod_name m \<noteq> None \<and> pm_candidate_pod_uid m \<noteq> None \<and> pm_cell_expires_at m \<noteq> None
       \<or> s = ''leased'' \<and> pm_worker_id m \<noteq> None \<and> pm_lease_id m \<noteq> None
           \<and> (case pm_generation m of None \<Rightarrow> False | Some g \<Rightarrow> g \<ge> 2)
           \<and> pm_candidate_pod_name m \<noteq> None \<and> pm_candidate_pod_uid m \<noteq> None
       \<or> s = ''stopping'' \<and> pm_worker_id m \<noteq> None \<and> pm_stop_job_id m \<noteq> None \<and> fenced
       \<or> s = ''cleanup_pending'' \<and> pm_worker_id m \<noteq> None \<and> fenced
       \<or> s = ''destroyed'' \<or> s = ''quarantined'')"
  by (cases "pm_generation m") (simp_all add: membership_check_def)

definition update_memberships :: "(pool_membership \<Rightarrow> bool) \<Rightarrow> (pool_membership \<Rightarrow> pool_membership) \<Rightarrow> nat dbtx" where
  "update_memberships P f =
     tx_bind (tx_read db_pool) (\<lambda>rows.
     tx_bind (tx_ensure (list_all (\<lambda>m. P m \<longrightarrow> membership_check (f m)) rows) (ApiError_from_sql CheckViolation)) (\<lambda>_.
     tx_bind (tx_write (db_pool_update (update_rows P f))) (\<lambda>_.
     tx_return (rows_matching P rows))))"

definition update_cells :: "(sterile_cell \<Rightarrow> bool) \<Rightarrow> (sterile_cell \<Rightarrow> sterile_cell) \<Rightarrow> nat dbtx" where
  "update_cells P f =
     tx_bind (tx_read db_sterile_cells) (\<lambda>rows.
     tx_bind (tx_write (db_sterile_cells_update (update_rows P f))) (\<lambda>_.
     tx_return (rows_matching P rows)))"

subsection \<open>Quarantine\<close>

definition quarantine_pool_cell_record_on_connection :: "uuid \<Rightarrow> unit dbtx" where
  "quarantine_pool_cell_record_on_connection cell_id =
     tx_bind utc_now (\<lambda>now.
     tx_bind (update_cells (\<lambda>c. sc_id c = cell_id \<and> sc_state c \<in> {SterileCellState.Ready, SterileCellState.Leased})
       (\<lambda>c. c\<lparr>sc_state := SterileCellState.Quarantined, sc_disposition := Some SterileCellDisposition.Quarantined,
             sc_destroyed_at := Some now, sc_updated_at := now\<rparr>)) (\<lambda>_. tx_return ()))"

definition membership_open :: "uuid \<Rightarrow> pool_membership \<Rightarrow> bool" where
  "membership_open cell_id m \<longleftrightarrow> pm_sandbox_id m = cell_id \<and> pm_state m \<notin> {''destroyed'', ''quarantined''}"

definition mark_pool_cleanup_pending_on_connection :: "uuid \<Rightarrow> string \<Rightarrow> bool \<Rightarrow> unit dbtx" where
  "mark_pool_cleanup_pending_on_connection cell_id reason clear_stop_job =
     tx_bind (quarantine_pool_cell_record_on_connection cell_id) (\<lambda>_.
     tx_bind utc_now (\<lambda>now.
     tx_bind (update_memberships (membership_open cell_id)
       (\<lambda>m. m\<lparr>pm_state := ''cleanup_pending'',
             pm_stop_job_id := (if clear_stop_job then None else pm_stop_job_id m),
             pm_requested_disposition := (case pm_requested_disposition m of
               None \<Rightarrow> Some SterileCellDisposition.Quarantined | d \<Rightarrow> d),
             pm_quarantine_reason := Some reason, pm_updated_at := now\<rparr>)) (\<lambda>_. tx_return ())))"

definition quarantine_pool_cell_on_connection :: "uuid \<Rightarrow> string \<Rightarrow> unit dbtx" where
  "quarantine_pool_cell_on_connection cell_id reason =
     tx_bind (quarantine_pool_cell_record_on_connection cell_id) (\<lambda>_.
     tx_bind utc_now (\<lambda>now.
     tx_bind (update_memberships (membership_open cell_id)
       (\<lambda>m. m\<lparr>pm_state := ''quarantined'', pm_quarantine_reason := Some reason, pm_updated_at := now\<rparr>)) (\<lambda>_.
     tx_return ())))"

definition quarantine_failed_pool_job_on_connection :: "'e externals_scheme \<Rightarrow> Job \<Rightarrow> string \<Rightarrow> unit dbtx" where
  "quarantine_failed_pool_job_on_connection x job error =
     (if json_get POOL_JOB_MARKER (jb_payload job) = None then tx_return () else
      tx_bind (tx_lift (sandbox_id_from_job x job)) (\<lambda>cell_id.
      if jb_kind job = JobKind.StopSandbox
      then mark_pool_cleanup_pending_on_connection cell_id error False
      else quarantine_pool_cell_on_connection cell_id error))"

subsection \<open>Admission and claims\<close>

text \<open>A panic ends the task: the transaction is dropped and rolls back.\<close>

definition or_panic :: "'a option \<Rightarrow> ApiError + 'a" where
  "or_panic v = ok_or (internal ''task panicked'') v"

definition cohort_peer :: "pool_membership \<Rightarrow> pool_membership \<Rightarrow> bool" where
  "cohort_peer admitted peer \<longleftrightarrow> pm_sandbox_id peer \<noteq> pm_sandbox_id admitted \<and> pm_state peer = ''ready''
     \<and> pm_cell_expires_at peer \<noteq> None \<and> pm_tenant_id peer = pm_tenant_id admitted
     \<and> pm_release_set_id peer = pm_release_set_id admitted \<and> pm_runtime_class peer = pm_runtime_class admitted
     \<and> pm_policy_digest peer = pm_policy_digest admitted \<and> pm_release_signature peer = pm_release_signature admitted
     \<and> pm_candidate_agent_image peer = pm_candidate_agent_image admitted
     \<and> pm_candidate_maestro_image peer = pm_candidate_maestro_image admitted"

definition latest_peer_expiry :: "pool_membership list \<Rightarrow> uuid \<Rightarrow> timestamp option" where
  "latest_peer_expiry rows sandbox_id =
     (let es = [e. admitted \<leftarrow> rows, pm_sandbox_id admitted = sandbox_id, peer \<leftarrow> rows, cohort_peer admitted peer,
                e \<leftarrow> (case pm_cell_expires_at peer of None \<Rightarrow> [] | Some t \<Rightarrow> [t])]
      in if es = [] then None else Some (foldr max es (hd es)))"

definition admit_provisioned_cell_on_connection :: "'e externals_scheme \<Rightarrow> Job \<Rightarrow> unit dbtx" where
  "admit_provisioned_cell_on_connection x job =
     (if json_get POOL_JOB_MARKER (jb_payload job) = None then tx_return () else
      tx_bind (tx_lift (sandbox_id_from_job x job)) (\<lambda>sandbox_id.
      tx_bind (tx_read (\<lambda>s. find (\<lambda>p. pl_sandbox_id p = sandbox_id) (db_placements s))) (\<lambda>placement.
      tx_bind (tx_lift (ok_or (ApiError_from_sql OtherSqlError) placement)) (\<lambda>placement.
      let worker_id = pl_worker_id placement;
          provisioning = (\<lambda>m. pm_sandbox_id m = sandbox_id \<and> pm_provision_job_id m = jb_id job
            \<and> pm_state m = ''provisioning'') in
      tx_bind (tx_read (\<lambda>s. find provisioning (db_pool s))) (\<lambda>membership.
      tx_bind (tx_lift (ok_or (ApiError_from_sql OtherSqlError) membership)) (\<lambda>membership.
      let expected_pod_name = ''sandboxwich-'' @ uuid_to_string x sandbox_id in
      tx_bind (tx_read (\<lambda>s. find (\<lambda>r. po_sandbox_id r = sandbox_id \<and> po_stage r = ''pod_ready''
        \<and> po_resource_kind r = RuntimeResourceKind.Pod \<and> po_resource_name r = expected_pod_name)
        (db_provisioning_resources s))) (\<lambda>pod_identity.
      tx_bind (tx_lift (ok_or
        (conflict ''sterile pool candidate completion is missing its exact Pod identity'') pod_identity)) (\<lambda>pod_identity.
      tx_bind (tx_ensure (trim (po_resource_uid pod_identity) \<noteq> [])
        (conflict ''sterile pool candidate completion reported an empty Pod UID'')) (\<lambda>_.
      tx_bind (tx_read (\<lambda>s. latest_peer_expiry (db_pool s) sandbox_id)) (\<lambda>latest_peer.
      tx_bind utc_now (\<lambda>admitted_at.
      tx_bind (tx_lift (or_panic (staggered_ready_expiry (chrono_add_seconds x) admitted_at
        (pm_ready_ttl_seconds membership) (pm_expiry_spread_seconds membership) latest_peer))) (\<lambda>expires_at.
      tx_bind (tx_read (\<lambda>s. (filter provisioning (db_pool s), map sc_id (db_sterile_cells s)))) (\<lambda>(admitted, cells).
      let fresh = filter (\<lambda>m. pm_sandbox_id m \<notin> set cells) admitted in
      tx_bind (tx_write (db_sterile_cells_update (\<lambda>cs. cs @ map (\<lambda>m.
        \<lparr>sc_id = pm_sandbox_id m, sc_worker_id = worker_id, sc_provider_cell_id = uuid_to_string x (pm_sandbox_id m),
         sc_state = SterileCellState.Ready, sc_generation = 1, sc_release_set_id = pm_release_set_id m,
         sc_runtime_class = pm_runtime_class m, sc_policy_digest = pm_policy_digest m,
         sc_release_signature = pm_release_signature m, sc_tenant_id = Some (pm_tenant_id m), sc_lease_id = None,
         sc_lease_expires_at = None, sc_activated_resident_process_id = None,
         sc_activated_resident_generation = None, sc_disposition = None, sc_cell_expires_at = expires_at,
         sc_created_at = admitted_at, sc_destroyed_at = None, sc_updated_at = admitted_at\<rparr>) fresh))) (\<lambda>_.
      tx_bind (tx_ensure (length fresh = 1)
        (conflict ''sterile pool provision completion is stale or ambiguous'')) (\<lambda>_.
      tx_bind (update_memberships provisioning (\<lambda>m. m\<lparr>pm_state := ''ready'', pm_worker_id := Some worker_id,
        pm_generation := Some 1, pm_candidate_pod_name := Some (po_resource_name pod_identity),
        pm_candidate_pod_uid := Some (po_resource_uid pod_identity), pm_cell_expires_at := Some expires_at,
        pm_updated_at := admitted_at\<rparr>)) (\<lambda>updated.
      tx_ensure (updated = 1) (conflict ''sterile pool admission fence changed'')))))))))))))))))"

definition record_pool_claim_on_connection :: "uuid \<Rightarrow> uuid \<Rightarrow> nat \<Rightarrow> unit dbtx" where
  "record_pool_claim_on_connection cell_id lease_id generation =
     tx_bind (tx_ensure (int generation \<le> i64_max) (bad_request ''generation too large'')) (\<lambda>_.
     tx_bind utc_now (\<lambda>now.
     tx_bind (update_memberships (\<lambda>m. pm_sandbox_id m = cell_id \<and> pm_state m = ''ready'' \<and> pm_generation m = Some 1)
       (\<lambda>m. m\<lparr>pm_state := ''leased'', pm_lease_id := Some lease_id, pm_generation := Some (int generation),
             pm_updated_at := now\<rparr>)) (\<lambda>updated.
     tx_when (updated \<noteq> 1)
       (tx_bind (tx_read (\<lambda>s. list_ex (\<lambda>m. pm_sandbox_id m = cell_id) (db_pool s))) (\<lambda>member.
        tx_ensure (\<not> member) (conflict ''sterile pool claim membership fence changed''))))))"

subsection \<open>Completing a stop\<close>

definition uuid_from_value :: "'e externals_scheme \<Rightarrow> json \<Rightarrow> ApiError + uuid" where
  "uuid_from_value x v = ok_or (internal ''json persistence failed'') (Option.bind (json_as_str v) (uuid_parse_str x))"

definition disposition_from_value :: "json \<Rightarrow> ApiError + SterileCellDisposition" where
  "disposition_from_value v = ok_or (internal ''json persistence failed'')
     (Option.bind (json_as_str v) (map_of SterileCellDisposition_arms))"

record pool_stop_fence =
  pf_cell_id :: uuid
  pf_lease_id :: "uuid option"
  pf_generation :: nat
  pf_disposition :: SterileCellDisposition

definition pool_stop_fence_from_value :: "'e externals_scheme \<Rightarrow> json \<Rightarrow> ApiError + pool_stop_fence" where
  "pool_stop_fence_from_value x fence =
     rbind (ok_or (internal ''pool stop is missing cellId'') (json_get ''cellId'' fence)) (\<lambda>v.
     rbind (uuid_from_value x v) (\<lambda>cell_id.
     rbind (case json_get ''leaseId'' fence of
         None \<Rightarrow> Inr None
       | Some v \<Rightarrow> if v = JNull then Inr None else rbind (uuid_from_value x v) (\<lambda>u. Inr (Some u))) (\<lambda>lease_id.
     rbind (ok_or (internal ''pool stop is missing generation'')
       (Option.bind (json_get ''generation'' fence) json_as_u64)) (\<lambda>generation.
     rbind (ok_or (internal ''pool stop is missing disposition'') (json_get ''disposition'' fence)) (\<lambda>v.
     rbind (disposition_from_value v) (\<lambda>disposition.
     rbind (ensure (int generation \<le> i64_max) (internal ''generation exceeds database range'')) (\<lambda>_.
     Inr \<lparr>pf_cell_id = cell_id, pf_lease_id = lease_id, pf_generation = generation,
          pf_disposition = disposition\<rparr>)))))))"

definition membership_stopping :: "pool_stop_fence \<Rightarrow> pool_membership \<Rightarrow> bool" where
  "membership_stopping fence m \<longleftrightarrow> pm_sandbox_id m = pf_cell_id fence
     \<and> pm_state m \<in> {''stopping'', ''cleanup_pending''} \<and> pm_lease_id m = pf_lease_id fence
     \<and> pm_generation m = Some (int (pf_generation fence))
     \<and> pm_requested_disposition m = Some (pf_disposition fence)"

definition cell_stoppable :: "pool_stop_fence \<Rightarrow> sterile_cell \<Rightarrow> bool" where
  "cell_stoppable fence c \<longleftrightarrow> sc_id c = pf_cell_id fence \<and> sc_lease_id c = pf_lease_id fence
     \<and> sc_generation c = int (pf_generation fence)
     \<and> sc_state c \<in> {if pf_lease_id fence \<noteq> None then SterileCellState.Leased else SterileCellState.Ready,
          SterileCellState.Destroyed, SterileCellState.Quarantined}"

definition complete_pool_stop_on_connection :: "'e externals_scheme \<Rightarrow> Job \<Rightarrow> unit dbtx" where
  "complete_pool_stop_on_connection x job = (case json_get POOL_JOB_MARKER (jb_payload job) of
     None \<Rightarrow> tx_return ()
   | Some fence \<Rightarrow>
     if jb_kind job \<noteq> JobKind.StopSandbox then tx_return () else
     tx_bind (tx_lift (pool_stop_fence_from_value x fence)) (\<lambda>fence.
     let cell_id = pf_cell_id fence;
         pending = (\<lambda>reason. mark_pool_cleanup_pending_on_connection cell_id reason True) in
     tx_bind (tx_read (\<lambda>s. list_ex (membership_stopping fence) (db_pool s))) (\<lambda>fenced.
     if \<not> fenced then pending ''provider_stop_completion_fence_mismatch'' else
     tx_bind (tx_read (\<lambda>s. find (cell_stoppable fence) (db_sterile_cells s))) (\<lambda>cell_row.
     case cell_row of
       None \<Rightarrow> pending ''provider_stop_cell_fence_mismatch''
     | Some cell \<Rightarrow>
       if sc_state cell = SterileCellState.Destroyed \<and> sc_disposition cell \<noteq> Some (pf_disposition fence)
       then pending ''provider_stop_terminal_disposition_mismatch'' else
       tx_bind utc_now (\<lambda>now.
       let terminal_disposition = (if sc_state cell = SterileCellState.Quarantined
             then SterileCellDisposition.Quarantined else pf_disposition fence);
           cell_state = (case terminal_disposition of
             SterileCellDisposition.Destroyed \<Rightarrow> SterileCellState.Destroyed
           | SterileCellDisposition.Quarantined \<Rightarrow> SterileCellState.Quarantined) in
       tx_bind (update_cells (cell_stoppable fence) (\<lambda>c. c\<lparr>sc_state := cell_state,
         sc_disposition := Some terminal_disposition, sc_destroyed_at := Some now, sc_updated_at := now\<rparr>)) (\<lambda>updated.
       if updated \<noteq> 1 then pending ''provider_stop_completion_fence_mismatch'' else
       tx_bind (update_memberships (membership_stopping fence) (\<lambda>m. m\<lparr>pm_state := SterileCellState_as_db_str cell_state,
         pm_provider_absent := True, pm_updated_at := now\<rparr>)) (\<lambda>member.
       if member \<noteq> 1 then pending ''provider_stop_membership_fence_mismatch'' else tx_return ())))))))"

end
