(* ===== verification/Job_Effects.thy ===== *)
theory Job_Effects
  imports Runtime_Resources Sterile_Pool
begin

section \<open>What a job does to the rest of the control plane\<close>

text \<open>
  The effects of claiming, completing, retrying and failing a job:
  \<open>apply_claimed_job_on_connection\<close>, \<open>apply_completed_job_on_connection\<close>,
  \<open>apply_retryable_job_on_connection\<close> and \<open>apply_failed_job_on_connection\<close> of
  \<open>crates/sandboxwich-api/src/handlers/leases.rs\<close>, with the operations on snapshots, files and homes
  that they call.  Each runs inside the transaction of its caller.
\<close>

subsection \<open>Results\<close>

record AgentCommandResult =
  cr_exit_code :: "int option"
  cr_stdout :: string
  cr_stderr :: string
  cr_started_at :: timestamp
  cr_finished_at :: timestamp

datatype MaterializeFileCleanupOwner = ControlPlane

record MaterializeFileReceipt =
  mr_sandbox_id :: uuid
  mr_file_id :: uuid
  mr_destination :: MaterializeFileDestination
  mr_sha256 :: string
  mr_destination_sha256 :: string
  mr_size_bytes :: nat
  mr_cleanup_owner :: MaterializeFileCleanupOwner

record ProviderSandboxHandle =
  sh_provider :: string
  sh_sandbox_id :: uuid
  sh_resources :: "ProviderRuntimeResource list"
  sh_metadata :: json

record ProviderSnapshotHandle =
  nh_provider :: string
  nh_snapshot_id :: uuid
  nh_resources :: "ProviderRuntimeResource list"
  nh_metadata :: json

record ProviderForkHandle =
  fh_provider :: string
  fh_parent_sandbox_id :: uuid
  fh_child_sandbox_id :: uuid
  fh_snapshot_id :: uuid
  fh_resources :: "ProviderRuntimeResource list"
  fh_metadata :: json

record ProviderResumeHandle =
  uh_provider :: string
  uh_sandbox_id :: uuid
  uh_snapshot_id :: uuid
  uh_resources :: "ProviderRuntimeResource list"
  uh_metadata :: json

record ApexInstructionResult =
  ai_request_id :: uuid
  ai_sandbox_id :: uuid
  ai_lease_id :: uuid
  ai_lease_attempt :: int
  ai_provider_apply_id :: uuid
  ai_sha256 :: string
  ai_byte_count :: nat
  ai_output_unavailable :: bool

text \<open>The custody receipt of a stop is only written into an event, as its JSON value.\<close>

datatype WorkerJobResult =
  ProvisionSandboxResult ProviderSandboxHandle
| RunCommandResult AgentCommandResult
| RunResidentProcessResult uuid nat "int option"
| MaterializeFileResult MaterializeFileReceipt
| ApexTaskInstructionsResult ApexInstructionResult
| RunPromptResult string
| CreateSnapshotResult ProviderSnapshotHandle
| ForkSandboxResult ProviderForkHandle
| StopSandboxResult string uuid "json option"
| ResumeSandboxResult ProviderResumeHandle
| DeleteHomeResult string uuid

subsection \<open>JSON of the events\<close>

definition js_uuid :: "'e externals_scheme \<Rightarrow> uuid \<Rightarrow> json" where
  "js_uuid x u = JString (uuid_to_string x u)"

definition js_state :: "SandboxState \<Rightarrow> json" where
  "js_state s = JString (SandboxState_as_db_str s)"

definition js_option :: "('a \<Rightarrow> json) \<Rightarrow> 'a option \<Rightarrow> json" where
  "js_option f v = (case v of None \<Rightarrow> JNull | Some a \<Rightarrow> f a)"

definition destination_text :: "MaterializeFileDestination \<Rightarrow> string" where
  "destination_text d = (case d of
     CompilerCacheArchive \<Rightarrow> ''compiler_cache_archive''
   | ApexWorld \<Rightarrow> ''apex_world''
   | ApexTask \<Rightarrow> ''apex_task''
   | MaterializeFileDestination.ApexTaskInstructions \<Rightarrow> ''apex_task_instructions''
   | ApexGradingBundle \<Rightarrow> ''apex_grading_bundle'')"

subsection \<open>Output, files and homes\<close>

definition draw_append_env :: "append_env dbtx" where
  "draw_append_env =
     tx_bind uuid_new (\<lambda>chunk_id. tx_bind utc_now (\<lambda>now.
     tx_bind uuid_new (\<lambda>event_id. tx_bind utc_now (\<lambda>event_now.
     tx_return \<lparr>env_chunk_id = chunk_id, env_event_id = event_id, env_now = now, env_event_now = event_now\<rparr>))))"

definition append_chunk :: "'e externals_scheme \<Rightarrow> uuid \<Rightarrow> uuid \<Rightarrow> CommandOutputStream \<Rightarrow> string \<Rightarrow> unit dbtx" where
  "append_chunk x command_id sandbox_id stream chunk =
     tx_bind draw_append_env (\<lambda>env.
     on_output (\<lambda>st. rbind (append_command_output_chunk_on_connection (uuid_to_string x) st command_id sandbox_id
       stream chunk [] env) (\<lambda>r. Inr (snd r))))"

definition append_completion ::
  "'e externals_scheme \<Rightarrow> uuid \<Rightarrow> uuid \<Rightarrow> CommandOutputStream \<Rightarrow> string \<Rightarrow> unit dbtx" where
  "append_completion x command_id sandbox_id stream chunk =
     tx_bind draw_append_env (\<lambda>env.
     on_output (\<lambda>st. append_completion_output_on_connection (uuid_to_string x) st command_id sandbox_id
       stream chunk env))"

definition finish_command :: "uuid \<Rightarrow> CommandStatus \<Rightarrow> int option \<Rightarrow> unit dbtx" where
  "finish_command command_id status exit_code =
     tx_bind utc_now (\<lambda>now.
     on_output (\<lambda>st. Inr (finish_command_from_lease_result_on_connection st command_id status exit_code now)))"

definition fetch_sandbox_file_metadata_on_connection :: "uuid \<Rightarrow> uuid \<Rightarrow> SandboxFile dbtx" where
  "fetch_sandbox_file_metadata_on_connection sandbox_id file_id =
     tx_bind (tx_read (\<lambda>s. find (\<lambda>f. sf_sandbox_id f = sandbox_id \<and> sf_id f = file_id) (db_files s))) (\<lambda>f.
     tx_lift (ok_or (not_found ''file not found'') f))"

definition delete_sandbox_file_if_present_on_connection :: "uuid \<Rightarrow> uuid \<Rightarrow> unit dbtx" where
  "delete_sandbox_file_if_present_on_connection sandbox_id file_id =
     tx_write (db_files_update (filter (\<lambda>f. \<not> (sf_sandbox_id f = sandbox_id \<and> sf_id f = file_id))))"

definition delete_sandbox_file_on_connection :: "uuid \<Rightarrow> uuid \<Rightarrow> unit dbtx" where
  "delete_sandbox_file_on_connection sandbox_id file_id =
     tx_bind (tx_read (\<lambda>s. rows_matching (\<lambda>f. sf_sandbox_id f = sandbox_id \<and> sf_id f = file_id) (db_files s))) (\<lambda>affected.
     tx_bind (delete_sandbox_file_if_present_on_connection sandbox_id file_id) (\<lambda>_.
     tx_ensure (affected = 1) (not_found ''sandbox file not found'')))"

definition mark_home_delete_failed_on_connection :: "uuid \<Rightarrow> string \<Rightarrow> unit dbtx" where
  "mark_home_delete_failed_on_connection home_id error =
     tx_bind utc_now (\<lambda>now.
     tx_write (db_homes_update (update_rows (\<lambda>h. hm_id h = home_id \<and> hm_state h = HomeState.Deleting)
       (\<lambda>h. h\<lparr>hm_state := HomeState.DeleteFailed, hm_updated_at := now, hm_error := Some error\<rparr>))))"

subsection \<open>Snapshots\<close>

definition set_restore_source_status :: "uuid \<Rightarrow> SnapshotStatus \<Rightarrow> unit dbtx" where
  "set_restore_source_status snapshot_id status =
     tx_write (db_restore_sources_update (update_rows (\<lambda>r. rs_snapshot_id r = snapshot_id)
       (\<lambda>r. r\<lparr>rs_status := status\<rparr>)))"

definition update_snapshot_status_on_connection :: "uuid \<Rightarrow> SnapshotStatus \<Rightarrow> string option \<Rightarrow> unit dbtx" where
  "update_snapshot_status_on_connection snapshot_id status error =
     tx_bind (tx_read (\<lambda>s. rows_matching (\<lambda>r. sn_id r = snapshot_id) (db_snapshots s))) (\<lambda>affected.
     tx_bind (tx_write (db_snapshots_update (update_rows (\<lambda>r. sn_id r = snapshot_id)
       (\<lambda>r. r\<lparr>sn_status := status, sn_error := error\<rparr>)))) (\<lambda>_.
     tx_bind (tx_ensure (affected \<noteq> 0) (not_found ''snapshot not found'')) (\<lambda>_.
     set_restore_source_status snapshot_id status)))"

text \<open>The sandboxes planned as forks of a snapshot, oldest first.\<close>

definition planned_forks :: "uuid \<Rightarrow> database \<Rightarrow> Sandbox list" where
  "planned_forks snapshot_id s = sort_key (\<lambda>b. (sb_created_at b, sb_id b))
     (filter (\<lambda>b. sb_parent_snapshot_id b = Some snapshot_id \<and> sb_state b = SandboxState.Planning) (db_sandboxes s))"

definition fork_job_payload :: "'e externals_scheme \<Rightarrow> uuid \<Rightarrow> uuid \<Rightarrow> Sandbox \<Rightarrow> json" where
  "fork_job_payload x parent_sandbox_id snapshot_id child = JObject
     [(''parentSandboxId'', js_uuid x parent_sandbox_id), (''childSandboxId'', js_uuid x (sb_id child)),
      (''snapshotId'', js_uuid x snapshot_id), (''runtimeImage'', JString (sb_template child)),
      (''provisionSpec'', spec_to_value x
         \<lparr>ps_memory_limit = sb_memory_limit child, ps_network_egress = sb_network_egress child,
          ps_workspace_mode = sb_workspace_mode child, ps_runtime_profile = sb_runtime_profile child,
          ps_execution_class = sb_execution_class child, ps_provider_preference = ProviderPreference.Any,
          ps_tenant_id = None, ps_provider_external_id = None, ps_provider_routing_scope = None,
          ps_secret_mounts = [], ps_sterile_pool_candidate = None\<rparr>)]"

definition queue_forks_waiting_on_snapshot_on_connection :: "'e externals_scheme \<Rightarrow> uuid \<Rightarrow> uuid \<Rightarrow> unit dbtx" where
  "queue_forks_waiting_on_snapshot_on_connection x snapshot_id parent_sandbox_id =
     tx_bind (tx_read (planned_forks snapshot_id)) (\<lambda>children.
     tx_each (\<lambda>child.
       tx_bind utc_now (\<lambda>now. tx_bind uuid_new (\<lambda>job_id.
       tx_bind (insert_job_on_connection x
         \<lparr>jb_id = job_id, jb_tenant_id = sb_tenant_id child, jb_kind = JobKind.ForkSandbox,
          jb_status = JobStatus.Queued, jb_payload = fork_job_payload x parent_sandbox_id snapshot_id child,
          jb_required_capability = fork_capability (sb_runtime_profile child) (sb_network_egress child),
          jb_required_execution_class = sb_execution_class child, jb_priority = 0, jb_attempts = 0,
          jb_max_attempts = 3, jb_scheduled_at = now, jb_created_at = now, jb_updated_at = now,
          jb_last_error = None\<rparr>) (\<lambda>_.
       insert_event (sb_id child) SandboxEventKind.LifecycleChanged
         (JObject [(''state'', js_state (sb_state child)), (''reason'', JString ''fork_snapshot_ready''),
           (''parentSandboxId'', js_uuid x parent_sandbox_id), (''parentSnapshotId'', js_uuid x snapshot_id)])))))
       children)"

definition fail_sandboxes_waiting_on_snapshot_on_connection ::
  "'e externals_scheme \<Rightarrow> uuid \<Rightarrow> string \<Rightarrow> string \<Rightarrow> unit dbtx" where
  "fail_sandboxes_waiting_on_snapshot_on_connection x snapshot_id reason error =
     tx_bind (tx_read (planned_forks snapshot_id)) (\<lambda>children.
     tx_each (\<lambda>child.
       tx_bind (set_sandbox_state_on_connection (sb_id child) SNAPSHOT_FAILED_CHILD_LEGAL_FROM SandboxState.Error
         (JObject [(''state'', js_state SandboxState.Error), (''reason'', JString reason),
           (''parentSnapshotId'', js_uuid x snapshot_id), (''error'', JString error)])) (\<lambda>_. tx_return ()))
       children)"

definition snapshot_inventory :: "'e externals_scheme \<Rightarrow> uuid \<Rightarrow> uuid \<Rightarrow> string \<Rightarrow> json \<Rightarrow> json" where
  "snapshot_inventory x sandbox_id snapshot_id provider inventory =
     (if inventory = JObject [] then JObject [(''sandboxId'', js_uuid x sandbox_id),
        (''snapshotId'', js_uuid x snapshot_id), (''provider'', JString provider)] else inventory)"

definition mark_snapshot_ready_from_provider_handle_on_connection ::
  "'e externals_scheme \<Rightarrow> uuid \<Rightarrow> string \<Rightarrow> ProviderSnapshotHandle \<Rightarrow> unit dbtx" where
  "mark_snapshot_ready_from_provider_handle_on_connection x sandbox_id tenant_id handle =
     (let snapshot_id = nh_snapshot_id handle in
      tx_bind (upsert_provider_runtime_resources_on_connection (nh_resources handle) tenant_id) (\<lambda>_.
      tx_bind (fetch_snapshot_on_connection snapshot_id) (\<lambda>snapshot.
      tx_bind utc_now (\<lambda>now.
      tx_bind (tx_write (db_snapshots_update (update_rows (\<lambda>r. sn_id r = snapshot_id)
        (\<lambda>r. r\<lparr>sn_status := SnapshotStatus.Ready,
          sn_inventory := snapshot_inventory x sandbox_id snapshot_id (nh_provider handle) (sn_inventory snapshot),
          sn_provider_metadata := nh_metadata handle, sn_ready_at := Some now, sn_error := None\<rparr>)))) (\<lambda>_.
      tx_bind (set_restore_source_status snapshot_id SnapshotStatus.Ready) (\<lambda>_.
      queue_forks_waiting_on_snapshot_on_connection x snapshot_id sandbox_id))))))"

subsection \<open>Cleanup of an archived sandbox\<close>

definition ARCHIVED_RUNTIME_CLEANUP_MARKER :: string where
  "ARCHIVED_RUNTIME_CLEANUP_MARKER = ''archivedRuntimeCleanup''"

definition cleanup_spec :: "json option \<Rightarrow> json option" where
  "cleanup_spec source_payload = (case Option.bind source_payload (json_get ''provisionSpec'') of
     Some (JObject ms) \<Rightarrow> Some (JObject ms)
   | _ \<Rightarrow> None)"

definition cleanup_job_payload :: "'e externals_scheme \<Rightarrow> uuid \<Rightarrow> string \<Rightarrow> (string \<times> json) list" where
  "cleanup_job_payload x sandbox_id reason =
     [(''sandboxId'', js_uuid x sandbox_id), (''deleteGkeFqdnPolicy'', JBool True),
      (ARCHIVED_RUNTIME_CLEANUP_MARKER, JBool True), (''cleanupReason'', JString reason)]"

definition enqueue_archived_runtime_cleanup_on_connection ::
  "'e externals_scheme \<Rightarrow> Sandbox \<Rightarrow> json option \<Rightarrow> string \<Rightarrow> bool dbtx" where
  "enqueue_archived_runtime_cleanup_on_connection x sandbox source_payload reason =
     tx_bind (tx_read (\<lambda>s. list_ex (\<lambda>r. ref_sandbox_id (jr_references r) = Some (sb_id sandbox)
       \<and> jb_kind (jr_job r) = JobKind.StopSandbox \<and> active_status (jr_status r)) (db_jobs s))) (\<lambda>existing.
     if existing then tx_return False else
     tx_bind utc_now (\<lambda>now. tx_bind uuid_new (\<lambda>job_id.
     let base = cleanup_job_payload x (sb_id sandbox) reason;
         job = \<lparr>jb_id = job_id, jb_tenant_id = sb_tenant_id sandbox, jb_kind = JobKind.StopSandbox,
           jb_status = JobStatus.Queued, jb_payload = JObject base,
           jb_required_capability = WorkerCapability.ProvisionSandbox,
           jb_required_execution_class = sb_execution_class sandbox, jb_priority = 1000, jb_attempts = 0,
           jb_max_attempts = 5, jb_scheduled_at = now, jb_created_at = now, jb_updated_at = now,
           jb_last_error = None\<rparr> in
     tx_bind (case cleanup_spec source_payload of
         Some spec \<Rightarrow>
           let with_spec = object_insert ''provisionSpec'' spec base in
           tx_return (job\<lparr>jb_payload := JObject (case Option.bind source_payload (json_get ''runtimeImage'') of
             Some runtime_image \<Rightarrow> object_insert ''runtimeImage'' runtime_image with_spec
           | None \<Rightarrow> with_spec)\<rparr>)
       | None \<Rightarrow>
           tx_bind (tx_read (\<lambda>s. fetch_secret_mounts s (sb_id sandbox))) (\<lambda>mounts.
           tx_lift (add_provision_spec_to_payload x job sandbox mounts)))
       (insert_job_on_connection_if_absent x))))"

subsection \<open>Completion\<close>

definition validate_completed_runtime_resources ::
  "ProviderRuntimeResource list \<Rightarrow> uuid \<Rightarrow> uuid option \<Rightarrow> uuid option \<Rightarrow> ApiError + unit" where
  "validate_completed_runtime_resources resources sandbox_id snapshot_id allowed_source_snapshot_id =
     ensure (\<not> list_ex (\<lambda>r. pr_sandbox_id r \<noteq> sandbox_id \<or> pr_snapshot_id r \<noteq> snapshot_id
         \<or> (case pr_source_snapshot_id r of Some source_id \<Rightarrow> Some source_id \<noteq> allowed_source_snapshot_id | None \<Rightarrow> False))
       resources)
       (bad_request ''runtime resource completion does not match job'')"

definition payload_u64 :: "Job \<Rightarrow> string \<Rightarrow> nat option" where
  "payload_u64 job key = Option.bind (json_get key (jb_payload job)) json_as_u64"

text \<open>The cast of an unsigned value to \<open>i64\<close> wraps.\<close>

definition u64_as_i64 :: "nat \<Rightarrow> int" where
  "u64_as_i64 n = sint (word_of_nat n :: 64 word)"

definition complete_resident_process ::
  "'e externals_scheme \<Rightarrow> Job \<Rightarrow> uuid \<Rightarrow> nat \<Rightarrow> int option \<Rightarrow> unit dbtx" where
  "complete_resident_process x job process_id generation exit_code =
     tx_bind (tx_lift (resident_process_id_from_job x job)) (\<lambda>job_process_id.
     tx_bind (tx_ensure (process_id = job_process_id \<and> payload_u64 job ''generation'' = Some generation)
       (bad_request ''resident process completion does not match job'')) (\<lambda>_.
     tx_bind utc_now (\<lambda>now.
     let P = (\<lambda>r. rp_id r = process_id \<and> rp_generation r = u64_as_i64 generation);
         observed_state = (if exit_code = Some 0 then ResidentProcessObservedState.Stopped
           else ResidentProcessObservedState.Failed) in
     tx_bind (tx_read (\<lambda>s. rows_matching P (db_residents s))) (\<lambda>updated.
     tx_bind (tx_write (db_residents_update (update_rows P (\<lambda>r. r\<lparr>rp_observed_state := observed_state,
       rp_exit_code := exit_code, rp_exited_at := Some now, rp_updated_at := now, rp_active_lease_id := None,
       rp_last_error_class := None, rp_last_error_code := None, rp_last_error := None\<rparr>)))) (\<lambda>_.
     tx_ensure (updated = 1)
       (conflict_code ''resident_process_generation_conflict'' ''resident process changed before completion''))))))"

definition complete_command :: "'e externals_scheme \<Rightarrow> Job \<Rightarrow> AgentCommandResult \<Rightarrow> unit dbtx" where
  "complete_command x job result =
     tx_bind (tx_lift (command_id_from_job x job)) (\<lambda>command_id.
     tx_bind (tx_lift (sandbox_id_from_job x job)) (\<lambda>sandbox_id.
     let exit_code = cr_exit_code result;
         status = (if exit_code = Some 0 then CommandStatus.Finished else CommandStatus.Failed) in
     tx_bind (append_completion x command_id sandbox_id CommandOutputStream.Stdout (cr_stdout result)) (\<lambda>_.
     tx_bind (append_completion x command_id sandbox_id CommandOutputStream.Stderr (cr_stderr result)) (\<lambda>_.
     tx_bind (finish_command command_id status exit_code) (\<lambda>_.
     insert_event sandbox_id SandboxEventKind.CommandFinished (JObject
       [(''commandId'', js_uuid x command_id), (''exitCode'', js_option JInt exit_code),
        (''stdout'', JString (cr_stdout result)), (''stderr'', JString (cr_stderr result))]))))))"

definition complete_materialization :: "'e externals_scheme \<Rightarrow> Job \<Rightarrow> MaterializeFileReceipt \<Rightarrow> unit dbtx" where
  "complete_materialization x job receipt =
     tx_bind (tx_lift (sandbox_id_from_job x job)) (\<lambda>sandbox_id.
     tx_bind (tx_lift (file_id_from_job x job)) (\<lambda>file_id.
     tx_bind (fetch_sandbox_file_metadata_on_connection sandbox_id file_id) (\<lambda>stored.
     tx_bind (tx_ensure (mr_sandbox_id receipt = sandbox_id \<and> mr_file_id receipt = file_id)
       (bad_request ''materialization completion does not match job'')) (\<lambda>_.
     tx_bind (tx_lift (materialization_destination_from_job job)) (\<lambda>destination.
     tx_bind (tx_ensure (mr_destination receipt = destination)
       (bad_request ''materialization completion does not match job'')) (\<lambda>_.
     tx_bind (tx_lift (materialization_digest_from_job job)) (\<lambda>digest.
     tx_bind (tx_ensure (mr_sha256 receipt = digest \<and> mr_destination_sha256 receipt = digest
         \<and> mr_size_bytes receipt = sf_size_bytes stored \<and> mr_cleanup_owner receipt = ControlPlane)
       (bad_request ''materialization completion does not match job'')) (\<lambda>_.
     tx_bind (delete_sandbox_file_on_connection sandbox_id file_id) (\<lambda>_.
     insert_event sandbox_id SandboxEventKind.FileMaterialized (JObject
       [(''materialized'', JBool True), (''fileId'', js_uuid x file_id),
        (''destination'', JString (destination_text (mr_destination receipt))),
        (''sha256'', JString (mr_sha256 receipt)), (''destinationSha256'', JString (mr_destination_sha256 receipt)),
        (''sizeBytes'', JInt (int (mr_size_bytes receipt))), (''cleanupOwner'', JString ''control_plane'')]))))))))))"

definition apex_authority_matches :: "ApexInstructionResult \<Rightarrow> apex_instruction_read \<Rightarrow> bool" where
  "apex_authority_matches r row \<longleftrightarrow> ar_lease_id row = Some (ai_lease_id r)
     \<and> ar_lease_attempt row = ai_lease_attempt r \<and> ar_provider_apply_id row = ai_provider_apply_id r
     \<and> ar_observed_sha256 row = Some (ai_sha256 r)
     \<and> ar_observed_byte_count row = Some (int (ai_byte_count r))
     \<and> (ar_state row = ''unavailable'') = ai_output_unavailable r
     \<and> ar_state row \<in> {''completed'', ''unavailable''}"

definition complete_apex_instructions :: "'e externals_scheme \<Rightarrow> Job \<Rightarrow> ApexInstructionResult \<Rightarrow> unit dbtx" where
  "complete_apex_instructions x job r =
     tx_bind (tx_lift (sandbox_id_from_job x job)) (\<lambda>sandbox_id.
     tx_bind (tx_ensure (ai_sandbox_id r = sandbox_id
         \<and> payload_str job ''requestId'' = Some (uuid_to_string x (ai_request_id r))
         \<and> payload_str job ''providerApplyId'' = Some (uuid_to_string x (ai_provider_apply_id r))
         \<and> payload_str job ''expectedSha256'' = Some (ai_sha256 r)
         \<and> payload_u64 job ''expectedByteCount'' = Some (ai_byte_count r))
       (bad_request ''instruction completion does not match job lineage'')) (\<lambda>_.
     tx_bind (tx_read (\<lambda>s. find (\<lambda>row. ar_request_id row = ai_request_id r) (db_apex_reads s))) (\<lambda>found.
     tx_bind (tx_lift (ok_or (bad_request ''instruction read authority is missing'') found)) (\<lambda>row.
     tx_ensure (apex_authority_matches r row)
       (bad_request ''instruction completion does not match callback authority'')))))"

definition complete_snapshot :: "'e externals_scheme \<Rightarrow> Job \<Rightarrow> ProviderSnapshotHandle \<Rightarrow> unit dbtx" where
  "complete_snapshot x job handle =
     tx_bind (tx_lift (snapshot_id_from_job x job)) (\<lambda>snapshot_id.
     tx_bind (tx_ensure (nh_snapshot_id handle = snapshot_id)
       (bad_request ''snapshot completion result does not match job snapshot'')) (\<lambda>_.
     tx_bind (tx_lift (sandbox_id_from_job x job)) (\<lambda>sandbox_id.
     tx_bind (tx_lift (validate_completed_runtime_resources (nh_resources handle) sandbox_id (Some snapshot_id) None)) (\<lambda>_.
     mark_snapshot_ready_from_provider_handle_on_connection x sandbox_id (jb_tenant_id job) handle))))"

definition complete_prompt :: "'e externals_scheme \<Rightarrow> Job \<Rightarrow> string \<Rightarrow> unit dbtx" where
  "complete_prompt x job out =
     tx_bind (tx_lift (sandbox_id_from_job x job)) (\<lambda>sandbox_id.
     tx_bind (tx_lift (prompt_event_id_from_job x job)) (\<lambda>prompt_event_id.
     insert_event sandbox_id SandboxEventKind.PromptFinished (JObject
       [(''promptEventId'', js_uuid x prompt_event_id), (''output'', JString out)])))"

definition complete_fork :: "'e externals_scheme \<Rightarrow> Job \<Rightarrow> ProviderForkHandle \<Rightarrow> unit dbtx" where
  "complete_fork x job handle =
     tx_bind (tx_lift (parent_sandbox_id_from_job x job)) (\<lambda>parent_id.
     tx_bind (tx_lift (child_sandbox_id_from_job x job)) (\<lambda>child_id.
     tx_bind (tx_lift (snapshot_id_from_job x job)) (\<lambda>snapshot_id.
     tx_bind (tx_ensure (fh_parent_sandbox_id handle = parent_id \<and> fh_child_sandbox_id handle = child_id
         \<and> fh_snapshot_id handle = snapshot_id)
       (bad_request ''fork completion result does not match job payload'')) (\<lambda>_.
     tx_bind (tx_lift (validate_completed_runtime_resources (fh_resources handle) child_id None (Some snapshot_id))) (\<lambda>_.
     tx_bind (upsert_provider_runtime_resources_on_connection (fh_resources handle) (jb_tenant_id job)) (\<lambda>_.
     tx_bind (set_sandbox_state_on_connection child_id FORK_COMPLETED_LEGAL_FROM SandboxState.Ready
       (JObject [(''state'', js_state SandboxState.Ready), (''reason'', JString ''fork_ready''),
         (''parentSnapshotId'', js_uuid x snapshot_id)])) (\<lambda>_. tx_return ())))))))"

definition archiving_or_archived :: "SandboxState \<Rightarrow> bool" where
  "archiving_or_archived st \<longleftrightarrow> st = SandboxState.Archiving \<or> st = SandboxState.Archived"

text \<open>The sandbox as it is now; a sandbox that retention removed reads as \<open>None\<close>.\<close>

definition fetch_sandbox_if_kept :: "uuid \<Rightarrow> Sandbox option dbtx" where
  "fetch_sandbox_if_kept sandbox_id =
     tx_catch (tx_bind (fetch_sandbox_on_connection sandbox_id) (\<lambda>b. tx_return (Some b)))
       (\<lambda>e. if api_status e = 404 then tx_return None else tx_fail e)"

definition complete_provision :: "'e externals_scheme \<Rightarrow> Job \<Rightarrow> ProviderSandboxHandle \<Rightarrow> unit dbtx" where
  "complete_provision x job handle =
     tx_bind (tx_lift (sandbox_id_from_job x job)) (\<lambda>sandbox_id.
     tx_bind (tx_ensure (sh_sandbox_id handle = sandbox_id)
       (bad_request ''provision completion result does not match job sandbox'')) (\<lambda>_.
     tx_bind (tx_lift (validate_completed_runtime_resources (sh_resources handle) sandbox_id None None)) (\<lambda>_.
     tx_bind (upsert_provider_runtime_resources_on_connection (sh_resources handle) (jb_tenant_id job)) (\<lambda>_.
     tx_bind (set_sandbox_state_on_connection sandbox_id PROVISION_COMPLETED_LEGAL_FROM SandboxState.Ready
       (JObject [(''state'', js_state SandboxState.Ready), (''reason'', JString ''provision_ready''),
         (''provider'', JString (sh_provider handle))])) (\<lambda>transitioned.
     tx_bind (tx_when (\<not> transitioned \<and> sh_resources handle \<noteq> [])
       (tx_bind (fetch_sandbox_if_kept sandbox_id) (\<lambda>current. case current of
          None \<Rightarrow> tx_return ()
        | Some b \<Rightarrow> tx_when (archiving_or_archived (sb_state b))
            (tx_bind (enqueue_archived_runtime_cleanup_on_connection x b (Some (jb_payload job))
              ''late_provision_completion'') (\<lambda>_. tx_return ()))))) (\<lambda>_.
     tx_when transitioned (admit_provisioned_cell_on_connection x job)))))))"

definition complete_stop :: "'e externals_scheme \<Rightarrow> Job \<Rightarrow> uuid \<Rightarrow> json option \<Rightarrow> unit dbtx" where
  "complete_stop x job sandbox_id custody_receipt =
     tx_bind (tx_lift (sandbox_id_from_job x job)) (\<lambda>job_sandbox_id.
     tx_bind (tx_ensure (sandbox_id = job_sandbox_id)
       (bad_request ''stop completion result does not match job sandbox'')) (\<lambda>_.
     tx_bind (set_sandbox_state_on_connection sandbox_id STOP_COMPLETED_LEGAL_FROM SandboxState.Archived
       (JObject [(''state'', js_state SandboxState.Archived), (''reason'', JString ''stop_completed''),
         (''custodyReceipt'', js_option id custody_receipt)])) (\<lambda>transitioned.
     tx_bind (if transitioned then tx_return True else
       tx_bind (fetch_sandbox_if_kept sandbox_id) (\<lambda>current. tx_return (case current of
         None \<Rightarrow> False | Some b \<Rightarrow> archiving_or_archived (sb_state b)))) (\<lambda>retire_runtime_resources.
     tx_bind (tx_when retire_runtime_resources (tx_bind utc_now (\<lambda>now.
       tx_bind (mark_runtime_resources_deleted_for_sandbox_on_connection sandbox_id RuntimeOnly now
         ''provider-confirmed sandbox stop'') (\<lambda>_. tx_return ())))) (\<lambda>_.
     tx_bind (complete_pool_stop_on_connection x job) (\<lambda>_.
     tx_write (db_home_mounts_update (filter (\<lambda>m. mt_sandbox_id m \<noteq> sandbox_id)))))))))"

definition complete_resume :: "'e externals_scheme \<Rightarrow> Job \<Rightarrow> ProviderResumeHandle \<Rightarrow> unit dbtx" where
  "complete_resume x job handle =
     tx_bind (tx_lift (sandbox_id_from_job x job)) (\<lambda>sandbox_id.
     tx_bind (tx_lift (snapshot_id_from_job x job)) (\<lambda>snapshot_id.
     tx_bind (tx_ensure (uh_sandbox_id handle = sandbox_id \<and> uh_snapshot_id handle = snapshot_id)
       (bad_request ''resume completion result does not match job payload'')) (\<lambda>_.
     tx_bind (tx_lift (validate_completed_runtime_resources (uh_resources handle) sandbox_id None (Some snapshot_id))) (\<lambda>_.
     tx_bind utc_now (\<lambda>now.
     tx_bind (mark_runtime_resources_deleted_for_sandbox_on_connection sandbox_id RuntimeOnly now
       ''superseded by snapshot-backed resume'') (\<lambda>_.
     tx_bind (upsert_provider_runtime_resources_on_connection (uh_resources handle) (jb_tenant_id job)) (\<lambda>_.
     tx_bind (set_sandbox_state_on_connection sandbox_id RESUME_COMPLETED_LEGAL_FROM SandboxState.Ready
       (JObject [(''state'', js_state SandboxState.Ready), (''reason'', JString ''resume_ready''),
         (''restoredFromSnapshotId'', js_uuid x snapshot_id), (''provider'', JString (uh_provider handle))]))
       (\<lambda>_. tx_return ()))))))))"

definition complete_delete_home :: "'e externals_scheme \<Rightarrow> Job \<Rightarrow> uuid \<Rightarrow> unit dbtx" where
  "complete_delete_home x job home_id =
     tx_bind (tx_lift (home_id_from_job x job)) (\<lambda>job_home_id.
     tx_bind (tx_ensure (home_id = job_home_id)
       (bad_request ''delete-home completion result does not match job home'')) (\<lambda>_.
     let P = (\<lambda>h. hm_id h = home_id \<and> hm_tenant_id h = jb_tenant_id job \<and> hm_state h = HomeState.Deleting) in
     tx_bind (tx_read (\<lambda>s. rows_matching P (db_homes s))) (\<lambda>deleted.
     tx_bind (tx_write (db_homes_update (filter (\<lambda>h. \<not> P h)))) (\<lambda>_.
     tx_ensure (deleted = 1)
       (conflict_code ''home_delete_conflict'' ''managed home changed before deletion completed'')))))"

definition apply_completed_job_on_connection ::
  "'e externals_scheme \<Rightarrow> Job \<Rightarrow> WorkerJobResult \<Rightarrow> unit dbtx" where
  "apply_completed_job_on_connection x job result = (case (jb_kind job, result) of
     (JobKind.RunResidentProcess, RunResidentProcessResult process_id generation exit_code) \<Rightarrow>
       complete_resident_process x job process_id generation exit_code
   | (JobKind.RunCommand, RunCommandResult r) \<Rightarrow> complete_command x job r
   | (JobKind.MaterializeFile, MaterializeFileResult receipt) \<Rightarrow> complete_materialization x job receipt
   | (JobKind.ApexTaskInstructions, ApexTaskInstructionsResult r) \<Rightarrow> complete_apex_instructions x job r
   | (JobKind.CreateSnapshot, CreateSnapshotResult handle) \<Rightarrow> complete_snapshot x job handle
   | (JobKind.RunPrompt, RunPromptResult out) \<Rightarrow> complete_prompt x job out
   | (JobKind.ForkSandbox, ForkSandboxResult handle) \<Rightarrow> complete_fork x job handle
   | (JobKind.ProvisionSandbox, ProvisionSandboxResult handle) \<Rightarrow> complete_provision x job handle
   | (JobKind.StopSandbox, StopSandboxResult _ sandbox_id receipt) \<Rightarrow> complete_stop x job sandbox_id receipt
   | (JobKind.ResumeSandbox, ResumeSandboxResult handle) \<Rightarrow> complete_resume x job handle
   | (JobKind.DeleteHome, DeleteHomeResult _ home_id) \<Rightarrow> complete_delete_home x job home_id
   | _ \<Rightarrow> tx_fail (bad_request ''completion result kind does not match job kind''))"

subsection \<open>Claim, retry and failure\<close>

definition apply_claimed_job_on_connection :: "'e externals_scheme \<Rightarrow> Job \<Rightarrow> unit dbtx" where
  "apply_claimed_job_on_connection x job = (case jb_kind job of
     JobKind.RunCommand \<Rightarrow>
       tx_bind (tx_lift (command_id_from_job x job)) (\<lambda>command_id.
       tx_bind (tx_lift (sandbox_id_from_job x job)) (\<lambda>sandbox_id.
       tx_bind (on_output (\<lambda>st. Inr (update_command command_id
         (\<lambda>c. c\<lparr>row_command := (row_command c)\<lparr>cmd_status := CommandStatus.Running\<rparr>\<rparr>) st))) (\<lambda>_.
       insert_event sandbox_id SandboxEventKind.CommandStarted
         (JObject [(''commandId'', js_uuid x command_id)]))))
   | JobKind.CreateSnapshot \<Rightarrow>
       tx_bind (tx_lift (snapshot_id_from_job x job)) (\<lambda>snapshot_id.
       update_snapshot_status_on_connection snapshot_id SnapshotStatus.Pending None)
   | JobKind.RunPrompt \<Rightarrow>
       tx_bind (tx_lift (sandbox_id_from_job x job)) (\<lambda>sandbox_id.
       tx_bind (tx_lift (prompt_event_id_from_job x job)) (\<lambda>prompt_event_id.
       insert_event sandbox_id SandboxEventKind.PromptStarted
         (JObject [(''promptEventId'', js_uuid x prompt_event_id)])))
   | JobKind.ForkSandbox \<Rightarrow>
       tx_bind (tx_lift (child_sandbox_id_from_job x job)) (\<lambda>child_id.
       tx_bind (tx_lift (snapshot_id_from_job x job)) (\<lambda>snapshot_id.
       tx_bind (set_sandbox_state_on_connection child_id FORK_CLAIMED_LEGAL_FROM SandboxState.Provisioning
         (JObject [(''state'', js_state SandboxState.Provisioning), (''reason'', JString ''fork_provisioning''),
           (''parentSnapshotId'', js_uuid x snapshot_id)])) (\<lambda>_. tx_return ())))
   | _ \<Rightarrow> tx_return ())"

definition i64_try_from :: "nat \<Rightarrow> ApiError + int" where
  "i64_try_from n = (if int n \<le> i64_max then Inr (int n)
     else Inl (internal ''resident process generation exceeds database range''))"

definition job_generation :: "Job \<Rightarrow> ApiError + nat" where
  "job_generation job = ok_or (internal ''resident process job is missing generation'') (payload_u64 job ''generation'')"

definition retry_resident_process :: "'e externals_scheme \<Rightarrow> Job \<Rightarrow> string \<Rightarrow> unit dbtx" where
  "retry_resident_process x job error =
     tx_bind (tx_lift (resident_process_id_from_job x job)) (\<lambda>process_id.
     tx_bind (tx_lift (job_generation job)) (\<lambda>generation.
     tx_bind utc_now (\<lambda>now.
     tx_bind (tx_lift (i64_try_from generation)) (\<lambda>g.
     tx_write (db_residents_update (update_rows
       (\<lambda>r. rp_id r = process_id \<and> rp_generation r = g \<and> rp_desired_state r = ResidentProcessDesiredState.Running)
       (\<lambda>r. r\<lparr>rp_last_error_class := fst (provider_error_fields error),
         rp_last_error_code := snd (provider_error_fields error), rp_last_error := Some error,
         rp_updated_at := now\<rparr>)))))))"

definition apply_retryable_job_on_connection :: "'e externals_scheme \<Rightarrow> Job \<Rightarrow> string \<Rightarrow> unit dbtx" where
  "apply_retryable_job_on_connection x job error = (case jb_kind job of
     JobKind.RunCommand \<Rightarrow>
       tx_bind (tx_lift (command_id_from_job x job)) (\<lambda>command_id.
       tx_bind (tx_lift (sandbox_id_from_job x job)) (\<lambda>sandbox_id.
       tx_bind (on_output (\<lambda>st. reset_command_for_retry_on_connection st command_id)) (\<lambda>_.
       insert_event sandbox_id SandboxEventKind.CommandQueued
         (JObject [(''commandId'', js_uuid x command_id), (''reason'', JString ''retry''), (''error'', JString error)]))))
   | JobKind.CreateSnapshot \<Rightarrow>
       tx_bind (tx_lift (snapshot_id_from_job x job)) (\<lambda>snapshot_id.
       update_snapshot_status_on_connection snapshot_id SnapshotStatus.Pending (Some error))
   | JobKind.RunPrompt \<Rightarrow>
       tx_bind (tx_lift (sandbox_id_from_job x job)) (\<lambda>sandbox_id.
       tx_bind (tx_lift (prompt_event_id_from_job x job)) (\<lambda>prompt_event_id.
       insert_event sandbox_id SandboxEventKind.PromptQueued
         (JObject [(''promptEventId'', js_uuid x prompt_event_id), (''reason'', JString ''retry''), (''error'', JString error)])))
   | JobKind.ForkSandbox \<Rightarrow>
       tx_bind (tx_lift (child_sandbox_id_from_job x job)) (\<lambda>child_id.
       tx_bind (tx_lift (snapshot_id_from_job x job)) (\<lambda>snapshot_id.
       tx_bind (set_sandbox_state_on_connection child_id FORK_RETRIED_LEGAL_FROM SandboxState.Planning
         (JObject [(''state'', js_state SandboxState.Planning), (''reason'', JString ''fork_retry''),
           (''parentSnapshotId'', js_uuid x snapshot_id), (''error'', JString error)])) (\<lambda>_. tx_return ())))
   | JobKind.ResumeSandbox \<Rightarrow>
       tx_bind (tx_lift (sandbox_id_from_job x job)) (\<lambda>sandbox_id.
       tx_bind (tx_lift (snapshot_id_from_job x job)) (\<lambda>snapshot_id.
       insert_event sandbox_id SandboxEventKind.LifecycleChanged
         (JObject [(''state'', js_state SandboxState.Provisioning), (''reason'', JString ''resume_retry''),
           (''restoredFromSnapshotId'', js_uuid x snapshot_id), (''error'', JString error)])))
   | JobKind.RunResidentProcess \<Rightarrow> retry_resident_process x job error
   | _ \<Rightarrow> tx_return ())"

definition fail_command :: "'e externals_scheme \<Rightarrow> Job \<Rightarrow> string \<Rightarrow> unit dbtx" where
  "fail_command x job error =
     tx_bind (tx_lift (command_id_from_job x job)) (\<lambda>command_id.
     tx_bind (tx_lift (sandbox_id_from_job x job)) (\<lambda>sandbox_id.
     tx_bind (append_chunk x command_id sandbox_id CommandOutputStream.Stderr error) (\<lambda>_.
     tx_bind (finish_command command_id CommandStatus.Failed None) (\<lambda>_.
     insert_event sandbox_id SandboxEventKind.CommandFinished (JObject
       [(''commandId'', js_uuid x command_id), (''exitCode'', JNull), (''stderr'', JString error)])))))"

definition fail_resident_process :: "'e externals_scheme \<Rightarrow> Job \<Rightarrow> string \<Rightarrow> unit dbtx" where
  "fail_resident_process x job error =
     tx_bind (tx_lift (ok_or (internal ''resident process job is missing its id'')
       (payload_str job ''residentProcessId''))) (\<lambda>process_id.
     tx_bind (tx_lift (job_generation job)) (\<lambda>generation.
     tx_bind utc_now (\<lambda>now.
     tx_bind (tx_lift (i64_try_from generation)) (\<lambda>g.
     tx_write (db_residents_update (update_rows
       (\<lambda>r. uuid_to_string x (rp_id r) = process_id \<and> rp_generation r = g
          \<and> rp_observed_state r \<noteq> ResidentProcessObservedState.Stopped)
       (\<lambda>r. r\<lparr>rp_observed_state := ResidentProcessObservedState.Failed, rp_active_lease_id := None,
         rp_pid := None, rp_exit_code := None, rp_last_error_class := fst (provider_error_fields error),
         rp_last_error_code := snd (provider_error_fields error), rp_last_error := Some error,
         rp_updated_at := now\<rparr>)))))))"

definition apply_failed_job_on_connection :: "'e externals_scheme \<Rightarrow> Job \<Rightarrow> string \<Rightarrow> unit dbtx" where
  "apply_failed_job_on_connection x job error = (case jb_kind job of
     JobKind.RunCommand \<Rightarrow> fail_command x job error
   | JobKind.CreateSnapshot \<Rightarrow>
       tx_bind (tx_lift (snapshot_id_from_job x job)) (\<lambda>snapshot_id.
       tx_bind (update_snapshot_status_on_connection snapshot_id SnapshotStatus.Failed (Some error)) (\<lambda>_.
       fail_sandboxes_waiting_on_snapshot_on_connection x snapshot_id ''snapshot_failed'' error))
   | JobKind.RunPrompt \<Rightarrow>
       tx_bind (tx_lift (sandbox_id_from_job x job)) (\<lambda>sandbox_id.
       tx_bind (tx_lift (prompt_event_id_from_job x job)) (\<lambda>prompt_event_id.
       insert_event sandbox_id SandboxEventKind.PromptFinished
         (JObject [(''promptEventId'', js_uuid x prompt_event_id), (''error'', JString error)])))
   | JobKind.ForkSandbox \<Rightarrow>
       tx_bind (tx_lift (child_sandbox_id_from_job x job)) (\<lambda>child_id.
       tx_bind (tx_lift (snapshot_id_from_job x job)) (\<lambda>snapshot_id.
       tx_bind (set_sandbox_state_on_connection child_id FORK_FAILED_LEGAL_FROM SandboxState.Error
         (JObject [(''state'', js_state SandboxState.Error), (''reason'', JString ''fork_failed''),
           (''parentSnapshotId'', js_uuid x snapshot_id), (''error'', JString error)])) (\<lambda>_. tx_return ())))
   | JobKind.RunResidentProcess \<Rightarrow> fail_resident_process x job error
   | JobKind.ResumeSandbox \<Rightarrow>
       tx_bind (tx_lift (sandbox_id_from_job x job)) (\<lambda>sandbox_id.
       tx_bind (tx_lift (snapshot_id_from_job x job)) (\<lambda>snapshot_id.
       tx_bind (set_sandbox_state_on_connection sandbox_id RESUME_FAILED_LEGAL_FROM SandboxState.Archived
         (JObject [(''state'', js_state SandboxState.Archived), (''reason'', JString ''resume_failed''),
           (''restoredFromSnapshotId'', js_uuid x snapshot_id), (''error'', JString error)])) (\<lambda>_. tx_return ())))
   | JobKind.ProvisionSandbox \<Rightarrow>
       tx_bind (quarantine_failed_pool_job_on_connection x job error) (\<lambda>_.
       tx_bind (tx_lift (sandbox_id_from_job x job)) (\<lambda>sandbox_id.
       tx_bind (set_sandbox_state_on_connection sandbox_id PROVISION_FAILED_LEGAL_FROM SandboxState.Error
         (JObject [(''state'', js_state SandboxState.Error), (''reason'', JString ''provision_failed''),
           (''error'', JString error)])) (\<lambda>_. tx_return ())))
   | JobKind.StopSandbox \<Rightarrow> quarantine_failed_pool_job_on_connection x job error
   | JobKind.DeleteHome \<Rightarrow>
       tx_bind (tx_lift (home_id_from_job x job)) (\<lambda>home_id.
       mark_home_delete_failed_on_connection home_id error)
   | JobKind.MaterializeFile \<Rightarrow>
       tx_bind (tx_lift (sandbox_id_from_job x job)) (\<lambda>sandbox_id.
       tx_bind (tx_lift (file_id_from_job x job)) (\<lambda>file_id.
       delete_sandbox_file_if_present_on_connection sandbox_id file_id))
   | JobKind.ApexTaskInstructions \<Rightarrow>
       tx_bind utc_now (\<lambda>now.
       tx_write (db_apex_reads_update (update_rows (\<lambda>r. ar_job_id r = jb_id job \<and> ar_state r = ''pending'')
         (\<lambda>r. r\<lparr>ar_state := ''failed'', ar_completed_at := Some now\<rparr>)))))"

end
