(* ===== verification/Leases.thy ===== *)
theory Leases
  imports Job_Effects
begin

section \<open>Job leases\<close>

text \<open>
  The lease of a job from \<open>crates/sandboxwich-api/src/handlers/leases.rs\<close>: its claim
  (\<open>try_claim_job\<close> of \<open>jobs.rs\<close>), renewal, completion, failure and expiry, and the draining of a
  worker (\<open>workers.rs\<close>).  An operation is a transaction on the database; a sweep is the sequence of
  its transactions, each committed on its own.  A timestamp column is compared as an instant.
\<close>

record lease_externals = externals +
  result_to_value :: "WorkerJobResult \<Rightarrow> json option"
  json_to_vec :: "json \<Rightarrow> string option"

definition result_fingerprint :: "'e lease_externals_scheme \<Rightarrow> WorkerJobResult \<Rightarrow> ApiError + string" where
  "result_fingerprint x result =
     completion_result_fingerprint (result_to_value x) (json_to_vec x) (sha256_hex x) result"

subsection \<open>Reading\<close>

definition lookup_lease :: "database \<Rightarrow> uuid \<Rightarrow> JobLease option" where
  "lookup_lease s lease_id =
     Option.bind (find (\<lambda>l. ls_id l = lease_id) (db_leases s)) (\<lambda>l.
     map_option (\<lambda>r. \<lparr>jl_lease = l, jl_job = jr_job r\<rparr>) (find (\<lambda>r. jr_id r = ls_job_id l) (db_jobs s)))"

definition fetch_lease_on_connection :: "uuid \<Rightarrow> JobLease dbtx" where
  "fetch_lease_on_connection lease_id =
     tx_bind (tx_read (\<lambda>s. lookup_lease s lease_id)) (\<lambda>l. tx_lift (ok_or (not_found ''lease not found'') l))"

definition lock_worker_for_lease_terminalization_on_connection :: "uuid \<Rightarrow> unit dbtx" where
  "lock_worker_for_lease_terminalization_on_connection worker_id =
     tx_bind (tx_read (\<lambda>s. rows_matching (\<lambda>w. wk_id w = worker_id) (db_workers s))) (\<lambda>locked.
     tx_ensure (locked = 1) (not_found ''worker not found''))"

definition resident_rows_match :: "'e externals_scheme \<Rightarrow> (ResidentProcess \<Rightarrow> bool) \<Rightarrow> Job \<Rightarrow> bool dbtx" where
  "resident_rows_match x P job =
     (if jb_kind job \<noteq> JobKind.RunResidentProcess then tx_return False else
      tx_bind (tx_lift (resident_process_id_from_job x job)) (\<lambda>process_id.
      tx_bind (tx_lift (job_generation job)) (\<lambda>generation.
      tx_bind (tx_lift (i64_try_from generation)) (\<lambda>g.
      tx_read (\<lambda>s. list_ex (\<lambda>r. rp_id r = process_id \<and> rp_generation r = g \<and> P r) (db_residents s))))))"

definition resident_process_desires_stop :: "'e externals_scheme \<Rightarrow> Job \<Rightarrow> bool dbtx" where
  "resident_process_desires_stop x =
     resident_rows_match x (\<lambda>r. rp_desired_state r = ResidentProcessDesiredState.Stopped)"

definition resident_process_is_cleanly_stopped :: "'e externals_scheme \<Rightarrow> Job \<Rightarrow> bool dbtx" where
  "resident_process_is_cleanly_stopped x =
     resident_rows_match x (\<lambda>r. rp_desired_state r = ResidentProcessDesiredState.Stopped
       \<and> rp_observed_state r = ResidentProcessObservedState.Stopped \<and> rp_exit_code r = Some 0
       \<and> rp_active_lease_id r = None)"

definition resident_bootstrap_was_delivered :: "'e externals_scheme \<Rightarrow> Job \<Rightarrow> bool dbtx" where
  "resident_bootstrap_was_delivered x job =
     (if jb_kind job \<noteq> JobKind.RunResidentProcess then tx_return False else
      case payload_str job ''residentProcessId'' of
        None \<Rightarrow> tx_return False
      | Some process_id \<Rightarrow> tx_read (\<lambda>s. list_ex (\<lambda>r. uuid_to_string x (rp_id r) = process_id
          \<and> rp_bootstrap_delivered_lease_id r \<noteq> None) (db_residents s)))"

subsection \<open>Guarded transitions\<close>

definition active_lease :: "uuid \<Rightarrow> lease_row \<Rightarrow> bool" where
  "active_lease lease_id l \<longleftrightarrow> ls_id l = lease_id \<and> ls_status l = LeaseStatus.Active"

definition update_leases :: "(lease_row \<Rightarrow> bool) \<Rightarrow> (lease_row \<Rightarrow> lease_row) \<Rightarrow> nat dbtx" where
  "update_leases P f =
     tx_bind (tx_read (\<lambda>s. rows_matching P (db_leases s))) (\<lambda>affected.
     tx_bind (tx_write (db_leases_update (update_rows P f))) (\<lambda>_. tx_return affected))"

definition expire_active_lease_on_connection :: "uuid \<Rightarrow> timestamp \<Rightarrow> string \<Rightarrow> bool dbtx" where
  "expire_active_lease_on_connection lease_id completed_at error =
     tx_bind (update_leases (\<lambda>l. active_lease lease_id l \<and> ls_expires_at l \<le> completed_at)
       (\<lambda>l. l\<lparr>ls_status := LeaseStatus.Expired, ls_completed_at := Some completed_at, ls_error := Some error\<rparr>))
       (\<lambda>affected. tx_return (affected = 1))"

definition complete_active_lease_on_connection :: "uuid \<Rightarrow> timestamp \<Rightarrow> string \<Rightarrow> unit dbtx" where
  "complete_active_lease_on_connection lease_id completed_at completion_fingerprint =
     tx_bind (update_leases (active_lease lease_id)
       (\<lambda>l. l\<lparr>ls_status := LeaseStatus.Completed, ls_completed_at := Some completed_at, ls_error := None,
          ls_completion_fingerprint := Some completion_fingerprint\<rparr>))
       (\<lambda>affected. tx_ensure (affected \<noteq> 0) (bad_request ''lease is not active''))"

definition fail_active_lease_on_connection :: "uuid \<Rightarrow> timestamp \<Rightarrow> string \<Rightarrow> unit dbtx" where
  "fail_active_lease_on_connection lease_id completed_at error =
     tx_bind (update_leases (active_lease lease_id)
       (\<lambda>l. l\<lparr>ls_status := LeaseStatus.Failed, ls_completed_at := Some completed_at, ls_error := Some error\<rparr>))
       (\<lambda>affected. tx_ensure (affected \<noteq> 0) (bad_request ''lease is not active''))"

definition set_job_status :: "JobStatus \<Rightarrow> string option \<Rightarrow> timestamp \<Rightarrow> job_row \<Rightarrow> job_row" where
  "set_job_status status error updated_at r = r\<lparr>jr_job := (jr_job r)\<lparr>jb_status := status,
     jb_last_error := error, jb_updated_at := updated_at\<rparr>\<rparr>"

definition update_job_status_on_connection ::
  "uuid \<Rightarrow> JobStatus \<Rightarrow> string option \<Rightarrow> timestamp \<Rightarrow> unit dbtx" where
  "update_job_status_on_connection job_id status error updated_at =
     tx_write (db_jobs_update (update_rows (\<lambda>r. jr_id r = job_id) (set_job_status status error updated_at)))"

definition fence_of_lease :: "lease_row \<Rightarrow> drain_fence_row \<Rightarrow> bool" where
  "fence_of_lease l f \<longleftrightarrow> df_lease_id f = ls_id l \<and> df_worker_id f = ls_worker_id l
     \<and> df_job_id f = ls_job_id l \<and> df_attempt f = ls_attempt l \<and> df_resolved_at f = None"

definition resolve_captured_worker_drain_fence_on_connection ::
  "JobLease \<Rightarrow> string \<Rightarrow> timestamp \<Rightarrow> unit dbtx" where
  "resolve_captured_worker_drain_fence_on_connection lease result_text resolved_at =
     tx_write (db_drain_fences_update (update_rows (fence_of_lease (jl_lease lease))
       (\<lambda>f. f\<lparr>df_outcome := Some result_text, df_resolved_at := Some resolved_at\<rparr>)))"

subsection \<open>Terminal observations\<close>

text \<open>\<open>num_seconds\<close> and \<open>num_milliseconds\<close> of a duration truncate toward zero.\<close>

definition duration_units :: "int \<Rightarrow> int \<Rightarrow> int" where
  "duration_units d u = (if 0 \<le> d then d div u else - (- d div u))"

definition slo_metric :: "JobKind \<Rightarrow> string option" where
  "slo_metric kind = (case kind of
     JobKind.ProvisionSandbox \<Rightarrow> Some ''sandbox_creation''
   | JobKind.RunCommand \<Rightarrow> Some ''command''
   | JobKind.StopSandbox \<Rightarrow> Some ''cleanup''
   | _ \<Rightarrow> None)"

definition record_terminal_slo_observation :: "JobLease \<Rightarrow> bool \<Rightarrow> timestamp \<Rightarrow> unit dbtx" where
  "record_terminal_slo_observation lease successful observed_at = (case slo_metric (jb_kind (jl_job lease)) of
     None \<Rightarrow> tx_return ()
   | Some metric_kind \<Rightarrow>
       let job = jl_job lease;
           creation = (metric_kind = ''sandbox_creation'');
           mode = (case Option.bind (Option.bind (json_get ''provisionSpec'' (jb_payload job))
               (json_get ''workspace_mode'')) json_as_str of Some m \<Rightarrow> m | None \<Rightarrow> ''persistent'');
           warm = duration_units (ls_leased_at (jl_lease lease) - jb_scheduled_at job) 1000000000 \<le> 30;
           row = \<lparr>so_source_id = jb_id job, so_tenant_id = jb_tenant_id job, so_metric_kind = metric_kind,
             so_outcome = (if successful then ''success'' else ''failure''),
             so_workspace_mode = (if creation then Some mode else None),
             so_start_type = (if creation then Some (if warm then ''warm'' else ''cold'') else None),
             so_duration_ms = max 0 (duration_units (observed_at - jb_scheduled_at job) 1000000),
             so_observed_at = observed_at\<rparr> in
       tx_write (db_slo_update (\<lambda>rows.
         if list_ex (\<lambda>o'. so_source_id o' = so_source_id row \<and> so_metric_kind o' = metric_kind) rows
         then rows else rows @ [row])))"

subsection \<open>Completion and failure\<close>

definition replays_clean_stop :: "'e externals_scheme \<Rightarrow> JobLease \<Rightarrow> WorkerJobResult \<Rightarrow> bool dbtx" where
  "replays_clean_stop x lease result =
     (if ls_status (jl_lease lease) = LeaseStatus.Expired \<and> jb_status (jl_job lease) = JobStatus.Succeeded
      then (case result of
        RunResidentProcessResult process_id generation exit_code \<Rightarrow>
          if exit_code \<noteq> Some 0 then tx_return False else
          tx_bind (tx_lift (resident_process_id_from_job x (jl_job lease))) (\<lambda>job_process_id.
          if process_id = job_process_id \<and> payload_u64 (jl_job lease) ''generation'' = Some generation
          then resident_process_is_cleanly_stopped x (jl_job lease) else tx_return False)
      | _ \<Rightarrow> tx_return False)
      else tx_return False)"

definition completion_successful :: "WorkerJobResult \<Rightarrow> bool" where
  "completion_successful result = (case result of
     RunCommandResult r \<Rightarrow> cr_exit_code r = Some 0
   | RunResidentProcessResult _ _ exit_code \<Rightarrow> exit_code = Some 0
   | _ \<Rightarrow> True)"

definition completed_lease :: "JobLease \<Rightarrow> timestamp \<Rightarrow> JobLease" where
  "completed_lease lease now =
     \<lparr>jl_lease = (jl_lease lease)\<lparr>ls_status := LeaseStatus.Completed, ls_completed_at := Some now, ls_error := None\<rparr>,
      jl_job = (jl_job lease)\<lparr>jb_status := JobStatus.Succeeded, jb_updated_at := now, jb_last_error := None\<rparr>\<rparr>"

definition complete_active :: "'e externals_scheme \<Rightarrow> JobLease \<Rightarrow> WorkerJobResult \<Rightarrow> string \<Rightarrow> JobLease dbtx" where
  "complete_active x lease result completion_fingerprint =
     tx_bind utc_now (\<lambda>now.
     tx_bind (complete_active_lease_on_connection (ls_id (jl_lease lease)) now completion_fingerprint) (\<lambda>_.
     tx_bind (apply_completed_job_on_connection x (jl_job lease) result) (\<lambda>_.
     tx_bind (update_job_status_on_connection (ls_job_id (jl_lease lease)) JobStatus.Succeeded None now) (\<lambda>_.
     tx_bind (record_terminal_slo_observation lease (completion_successful result) now) (\<lambda>_.
     tx_bind (resolve_captured_worker_drain_fence_on_connection lease ''completed'' now) (\<lambda>_.
     tx_return (completed_lease lease now)))))))"

definition complete_lease_in_transaction :: "'e lease_externals_scheme \<Rightarrow> uuid \<Rightarrow> WorkerJobResult \<Rightarrow> JobLease dbtx" where
  "complete_lease_in_transaction x lease_id result =
     tx_bind (tx_lift (result_fingerprint x result)) (\<lambda>completion_fingerprint.
     tx_bind (fetch_lease_on_connection lease_id) (\<lambda>found.
     tx_bind (lock_worker_for_lease_terminalization_on_connection (ls_worker_id (jl_lease found))) (\<lambda>_.
     tx_bind (fetch_lease_on_connection lease_id) (\<lambda>lease.
     if ls_status (jl_lease lease) = LeaseStatus.Completed then
       (case ls_completion_fingerprint (jl_lease lease) of
          Some stored \<Rightarrow> if stored = completion_fingerprint then tx_return lease
            else tx_fail (bad_request ''lease is already completed with a different result'')
        | None \<Rightarrow> tx_fail (conflict_code ''completion_replay_unavailable''
            ''completed lease predates persisted completion evidence''))
     else
       tx_bind (replays_clean_stop x lease result) (\<lambda>replayed.
       if replayed then tx_return lease else
       tx_bind (tx_ensure (ls_status (jl_lease lease) = LeaseStatus.Active)
         (bad_request ''lease is already terminal with a different outcome'')) (\<lambda>_.
       complete_active x lease result completion_fingerprint))))))"

definition failed_lease :: "JobLease \<Rightarrow> JobStatus \<Rightarrow> timestamp \<Rightarrow> string \<Rightarrow> JobLease" where
  "failed_lease lease status now error =
     \<lparr>jl_lease = (jl_lease lease)\<lparr>ls_status := LeaseStatus.Failed, ls_completed_at := Some now, ls_error := Some error\<rparr>,
      jl_job = (jl_job lease)\<lparr>jb_status := status, jb_updated_at := now, jb_last_error := Some error\<rparr>\<rparr>"

definition retry_or_fail ::
  "'e externals_scheme \<Rightarrow> JobLease \<Rightarrow> bool \<Rightarrow> JobStatus \<Rightarrow> string \<Rightarrow> timestamp \<Rightarrow> unit dbtx" where
  "retry_or_fail x lease retry terminal error now =
     (if retry then
        tx_bind (update_job_status_on_connection (ls_job_id (jl_lease lease)) JobStatus.Queued (Some error) now) (\<lambda>_.
        apply_retryable_job_on_connection x (jl_job lease) error)
      else
        tx_bind (update_job_status_on_connection (ls_job_id (jl_lease lease)) terminal (Some error) now) (\<lambda>_.
        tx_bind (apply_failed_job_on_connection x (jl_job lease) error) (\<lambda>_.
        record_terminal_slo_observation lease False now)))"

definition retry_granted :: "'e externals_scheme \<Rightarrow> Job \<Rightarrow> bool \<Rightarrow> bool dbtx" where
  "retry_granted x job retry_requested =
     (if retry_requested \<and> jb_attempts job < jb_max_attempts job
      then tx_bind (resident_bootstrap_was_delivered x job) (\<lambda>delivered. tx_return (\<not> delivered))
      else tx_return False)"

definition fail_active :: "'e externals_scheme \<Rightarrow> JobLease \<Rightarrow> bool \<Rightarrow> string \<Rightarrow> JobLease dbtx" where
  "fail_active x lease retry_requested error =
     tx_bind utc_now (\<lambda>now.
     tx_bind (fail_active_lease_on_connection (ls_id (jl_lease lease)) now error) (\<lambda>_.
     tx_bind (retry_granted x (jl_job lease) retry_requested) (\<lambda>retry.
     tx_bind (retry_or_fail x lease retry JobStatus.Failed error now) (\<lambda>_.
     let lease' = failed_lease lease (if retry then JobStatus.Queued else JobStatus.Failed) now error in
     tx_bind (resolve_captured_worker_drain_fence_on_connection lease' ''failed'' now) (\<lambda>_.
     tx_return lease')))))"

definition fail_lease_in_transaction :: "'e externals_scheme \<Rightarrow> uuid \<Rightarrow> bool \<Rightarrow> string \<Rightarrow> JobLease dbtx" where
  "fail_lease_in_transaction x lease_id retry_requested error =
     tx_bind (fetch_lease_on_connection lease_id) (\<lambda>found.
     tx_bind (lock_worker_for_lease_terminalization_on_connection (ls_worker_id (jl_lease found))) (\<lambda>_.
     tx_bind (fetch_lease_on_connection lease_id) (\<lambda>lease.
     if ls_status (jl_lease lease) = LeaseStatus.Failed then tx_return lease else
     tx_bind (tx_ensure (ls_status (jl_lease lease) = LeaseStatus.Active)
       (bad_request ''lease is already terminal with a different outcome'')) (\<lambda>_.
     fail_active x lease retry_requested error))))"

subsection \<open>Expiry\<close>

definition settle_expired_lease :: "'e externals_scheme \<Rightarrow> JobLease \<Rightarrow> timestamp \<Rightarrow> unit dbtx" where
  "settle_expired_lease x lease now =
     (let job = jl_job lease in
      tx_bind (resident_process_desires_stop x job) (\<lambda>stop.
      if stop then
        tx_bind (tx_lift (resident_process_id_from_job x job)) (\<lambda>process_id.
        tx_bind (tx_lift (job_generation job)) (\<lambda>generation.
        tx_bind (apply_completed_job_on_connection x job (RunResidentProcessResult process_id generation (Some 0))) (\<lambda>_.
        update_job_status_on_connection (jb_id job) JobStatus.Succeeded None now)))
      else
        tx_bind (resident_bootstrap_was_delivered x job) (\<lambda>delivered.
        retry_or_fail x lease (\<not> (jb_max_attempts job \<le> jb_attempts job \<or> delivered)) JobStatus.Dead
          ''lease expired'' now)))"

definition expire_lease_if_still_active :: "'e externals_scheme \<Rightarrow> uuid \<Rightarrow> timestamp \<Rightarrow> unit dbtx" where
  "expire_lease_if_still_active x lease_id now =
     tx_bind (fetch_lease_on_connection lease_id) (\<lambda>found.
     tx_bind (lock_worker_for_lease_terminalization_on_connection (ls_worker_id (jl_lease found))) (\<lambda>_.
     tx_bind (expire_active_lease_on_connection lease_id now ''lease expired'') (\<lambda>won_transition.
     if \<not> won_transition then tx_return () else
     tx_bind (fetch_lease_on_connection lease_id) (\<lambda>lease.
     tx_bind (resolve_captured_worker_drain_fence_on_connection lease ''expired'' now) (\<lambda>_.
     settle_expired_lease x lease now)))))"

text \<open>A loop that runs one transaction for each row and stops at the first error.\<close>

fun sweep :: "('r \<Rightarrow> unit dbtx) \<Rightarrow> 'r list \<Rightarrow> database \<Rightarrow> (ApiError + unit) \<times> database" where
  "sweep f [] s = (Inr (), s)"
| "sweep f (r # rs) s = (case tx_atomic (f r) s of
     (Inl e, s') \<Rightarrow> (Inl e, s')
   | (Inr _, s') \<Rightarrow> sweep f rs s')"

definition LEASE_EXPIRY_BATCH_SIZE :: nat where
  "LEASE_EXPIRY_BATCH_SIZE = 1000"

definition lease_due :: "timestamp \<Rightarrow> lease_row \<Rightarrow> bool" where
  "lease_due now l \<longleftrightarrow> ls_status l = LeaseStatus.Active \<and> ls_expires_at l \<le> now"

definition due_leases :: "timestamp \<Rightarrow> database \<Rightarrow> lease_row list" where
  "due_leases now s = take LEASE_EXPIRY_BATCH_SIZE
     (sort_key (\<lambda>l. (ls_expires_at l, ls_id l)) (filter (lease_due now) (db_leases s)))"

definition expire_due_leases :: "'e externals_scheme \<Rightarrow> database \<Rightarrow> (ApiError + unit) \<times> database" where
  "expire_due_leases x s = (case utc_now s of
     Inl e \<Rightarrow> (Inl e, s)
   | Inr (now, s1) \<Rightarrow> sweep (\<lambda>l. expire_lease_if_still_active x (ls_id l) now) (due_leases now s1) s1)"

subsection \<open>Claims\<close>

definition active_lease_count_for_worker_on_connection :: "database \<Rightarrow> uuid \<Rightarrow> nat" where
  "active_lease_count_for_worker_on_connection s worker_id =
     rows_matching (\<lambda>l. ls_worker_id l = worker_id \<and> ls_status l = LeaseStatus.Active
       \<and> list_ex (\<lambda>r. jr_id r = ls_job_id l \<and> jb_kind (jr_job r) \<noteq> JobKind.RunResidentProcess) (db_jobs s)) (db_leases s)"

definition lock_worker_for_claim_on_connection :: "uuid \<Rightarrow> bool dbtx" where
  "lock_worker_for_claim_on_connection worker_id =
     tx_read (\<lambda>s. rows_matching (\<lambda>w. wk_id w = worker_id
       \<and> (wk_status w = WorkerStatus.Registered \<or> wk_status w = WorkerStatus.Online)) (db_workers s) = 1)"

definition lock_apex_instruction_placement_on_connection ::
  "'e externals_scheme \<Rightarrow> Worker \<Rightarrow> Job \<Rightarrow> bool dbtx" where
  "lock_apex_instruction_placement_on_connection x worker job =
     (if jb_kind job \<noteq> JobKind.ApexTaskInstructions then tx_return True else
      case Option.bind (payload_str job ''targetWorkerId'') (uuid_parse_str x) of
        None \<Rightarrow> tx_return False
      | Some target_worker_id \<Rightarrow>
      (case Option.bind (payload_u64 job ''targetPlacementGeneration'')
          (\<lambda>v. if int v \<le> i64_max then Some (int v) else None) of
        None \<Rightarrow> tx_return False
      | Some target_generation \<Rightarrow>
        if target_worker_id \<noteq> wk_id worker then tx_return False else
        tx_bind (tx_lift (sandbox_id_from_job x job)) (\<lambda>sandbox_id.
        tx_read (\<lambda>s. rows_matching (\<lambda>p. pl_sandbox_id p = sandbox_id \<and> pl_worker_id p = wk_id worker
          \<and> pl_generation p = target_generation) (db_placements s) = 1))))"

definition activation_fence_mismatch :: "string \<Rightarrow> ApiError" where
  "activation_fence_mismatch = conflict_code ''sterile_resident_activation_fence_mismatch''"

definition i64_generation :: "string \<Rightarrow> nat \<Rightarrow> ApiError + int" where
  "i64_generation message n = (if int n \<le> i64_max then Inr (int n) else Inl (internal message))"

text \<open>The join of a resident process with the sterile cell that it was activated in.\<close>

definition activation_live ::
  "'e externals_scheme \<Rightarrow> Job \<Rightarrow> uuid \<Rightarrow> int \<Rightarrow> string \<Rightarrow> string \<Rightarrow> int \<Rightarrow> timestamp \<Rightarrow> database \<Rightarrow> bool" where
  "activation_live x job process_id g cell_id lease_id lease_generation now s =
     list_ex (\<lambda>r. rp_id r = process_id \<and> rp_tenant_id r = jb_tenant_id job \<and> rp_generation r = g
       \<and> map_option (uuid_to_string x) (rp_sterile_cell_id r) = Some cell_id
       \<and> map_option (uuid_to_string x) (rp_sterile_lease_id r) = Some lease_id
       \<and> rp_sterile_lease_generation r = Some lease_generation
       \<and> list_ex (\<lambda>c. Some (sc_id c) = rp_sterile_cell_id r \<and> sc_tenant_id c = Some (rp_tenant_id r)
           \<and> sc_state c = SterileCellState.Leased \<and> sc_activated_resident_process_id c = Some (rp_id r)
           \<and> sc_activated_resident_generation c = Some (rp_generation r) \<and> sc_lease_id c = rp_sterile_lease_id r
           \<and> Some (sc_generation c) = rp_sterile_lease_generation r
           \<and> (case sc_lease_expires_at c of Some e \<Rightarrow> e > now | None \<Rightarrow> False)) (db_sterile_cells s)) (db_residents s)"

definition recheck_sterile_resident_activation_on_connection :: "'e externals_scheme \<Rightarrow> Job \<Rightarrow> unit dbtx" where
  "recheck_sterile_resident_activation_on_connection x job =
     (if jb_kind job \<noteq> JobKind.RunResidentProcess then tx_return () else
      tx_bind (tx_lift (resident_process_id_from_job x job)) (\<lambda>process_id.
      tx_bind (tx_lift (job_generation job)) (\<lambda>resident_generation.
      case json_get ''sterileActivation'' (jb_payload job) of
        None \<Rightarrow>
          tx_bind (tx_lift (i64_generation ''resident generation exceeds database range'' resident_generation)) (\<lambda>g.
          tx_bind (tx_read (\<lambda>s. list_ex (\<lambda>r. rp_id r = process_id \<and> rp_generation r = g \<and> rp_sterile_cell_id r = None
            \<and> rp_sterile_lease_id r = None \<and> rp_sterile_lease_generation r = None) (db_residents s))) (\<lambda>found.
          tx_ensure found (activation_fence_mismatch
            ''ungated resident job does not match its durable activation fence'')))
      | Some activation \<Rightarrow>
          tx_bind (tx_lift (ok_or (internal ''sterile resident job is missing cell id'')
            (Option.bind (json_get ''cellId'' activation) json_as_str))) (\<lambda>cell_id.
          tx_bind (tx_lift (ok_or (internal ''sterile resident job is missing lease id'')
            (Option.bind (json_get ''leaseId'' activation) json_as_str))) (\<lambda>lease_id.
          tx_bind (tx_lift (ok_or (internal ''sterile resident job is missing generation'')
            (Option.bind (json_get ''generation'' activation) json_as_u64))) (\<lambda>lease_generation.
          tx_bind (tx_lift (sandbox_id_from_job x job)) (\<lambda>sandbox_id.
          tx_bind (tx_ensure (cell_id = uuid_to_string x sandbox_id) (activation_fence_mismatch
            ''sterile resident cell does not match the job sandbox'')) (\<lambda>_.
          tx_bind (tx_lift (i64_generation ''resident generation exceeds database range'' resident_generation)) (\<lambda>g.
          tx_bind (tx_lift (i64_generation ''sterile lease generation exceeds database range'' lease_generation)) (\<lambda>lg.
          tx_bind utc_now (\<lambda>now.
          tx_bind (tx_read (activation_live x job process_id g cell_id lease_id lg now)) (\<lambda>matched.
          tx_ensure matched (activation_fence_mismatch
            ''sterile resident activation is no longer live at job claim'')))))))))))))"

definition stale_activation_error :: string where
  "stale_activation_error = ''sterile resident activation expired or changed before claim''"

definition quarantine_invalid_sterile_resident_job :: "'e externals_scheme \<Rightarrow> Job \<Rightarrow> unit dbtx" where
  "quarantine_invalid_sterile_resident_job x job =
     (case Option.bind (json_get ''sterileActivation'' (jb_payload job))
        (\<lambda>a. Option.bind (json_get ''cellId'' a) json_as_str) of
        None \<Rightarrow> tx_return ()
      | Some cell_id \<Rightarrow>
        tx_bind (tx_lift (resident_process_id_from_job x job)) (\<lambda>process_id.
        tx_bind utc_now (\<lambda>now.
        let P = (\<lambda>r. jr_id r = jb_id job \<and> jr_status r = JobStatus.Queued) in
        tx_bind (tx_read (\<lambda>s. rows_matching P (db_jobs s))) (\<lambda>terminalized.
        tx_bind (tx_write (db_jobs_update (update_rows P
          (set_job_status JobStatus.Dead (Some stale_activation_error) now)))) (\<lambda>_.
        tx_when (terminalized = 1)
          (tx_bind (tx_write (db_residents_update (update_rows
            (\<lambda>r. rp_id r = process_id \<and> map_option (uuid_to_string x) (rp_sterile_cell_id r) = Some cell_id)
            (\<lambda>r. r\<lparr>rp_desired_state := ResidentProcessDesiredState.Stopped,
               rp_observed_state := ResidentProcessObservedState.Failed,
               rp_last_error := Some stale_activation_error, rp_updated_at := now\<rparr>)))) (\<lambda>_.
           tx_write (db_sterile_cells_update (update_rows
            (\<lambda>c. uuid_to_string x (sc_id c) = cell_id \<and> sc_state c = SterileCellState.Leased)
            (\<lambda>c. c\<lparr>sc_state := SterileCellState.Quarantined, sc_disposition := Some SterileCellDisposition.Quarantined,
               sc_destroyed_at := Some now, sc_updated_at := now\<rparr>))))))))))"

definition terminalize_invalid_sterile_resident_job_before_filtering ::
  "'e externals_scheme \<Rightarrow> Job \<Rightarrow> bool dbtx" where
  "terminalize_invalid_sterile_resident_job_before_filtering x job =
     (if jb_kind job \<noteq> JobKind.RunResidentProcess \<or> json_get ''sterileActivation'' (jb_payload job) = None
      then tx_return False else
      tx_catch (tx_bind (recheck_sterile_resident_activation_on_connection x job) (\<lambda>_. tx_return False))
        (\<lambda>e. if api_code e = ''sterile_resident_activation_fence_mismatch''
           then tx_bind (quarantine_invalid_sterile_resident_job x job) (\<lambda>_. tx_return True) else tx_fail e))"

definition bind_sandbox_placement_on_connection :: "'e externals_scheme \<Rightarrow> Job \<Rightarrow> Worker \<Rightarrow> unit dbtx" where
  "bind_sandbox_placement_on_connection x job worker =
     tx_bind (case jb_kind job of
         JobKind.ProvisionSandbox \<Rightarrow> tx_bind (tx_lift (sandbox_id_from_job x job)) (\<lambda>b. tx_return (Some b))
       | JobKind.ForkSandbox \<Rightarrow> tx_bind (tx_lift (child_sandbox_id_from_job x job)) (\<lambda>b. tx_return (Some b))
       | _ \<Rightarrow> tx_return None) (\<lambda>target. case target of
       None \<Rightarrow> tx_return ()
     | Some sandbox_id \<Rightarrow>
         tx_bind utc_now (\<lambda>now.
         let cluster = map_of (wk_labels worker) ''cluster'' in
         tx_write (db_placements_update (\<lambda>rows.
           if list_ex (\<lambda>p. pl_sandbox_id p = sandbox_id) rows
           then update_rows (\<lambda>p. pl_sandbox_id p = sandbox_id)
             (\<lambda>p. p\<lparr>pl_worker_id := wk_id worker, pl_provider := wk_provider worker, pl_cluster := cluster,
               pl_generation := pl_generation p + 1, pl_updated_at := now\<rparr>) rows
           else rows @ [\<lparr>pl_sandbox_id = sandbox_id, pl_worker_id = wk_id worker, pl_provider = wk_provider worker,
             pl_cluster = cluster, pl_generation = 1, pl_created_at = now, pl_updated_at = now\<rparr>]))))"

definition insert_lease_on_connection :: "lease_row \<Rightarrow> unit dbtx" where
  "insert_lease_on_connection lease =
     tx_bind (tx_read (\<lambda>s. list_ex (\<lambda>l. ls_id l = ls_id lease) (db_leases s))) (\<lambda>taken.
     tx_bind (tx_ensure (\<not> taken) (ApiError_from_sql UniqueViolation)) (\<lambda>_.
     tx_write (db_leases_update (\<lambda>ls. ls @ [lease]))))"

definition record_claim_operation :: "uuid \<Rightarrow> uuid option \<Rightarrow> uuid \<Rightarrow> unit dbtx" where
  "record_claim_operation worker_id operation_id lease_id = (case operation_id of
     None \<Rightarrow> tx_return ()
   | Some operation \<Rightarrow>
       tx_bind (tx_read (\<lambda>s. db_claim_operations s (worker_id, operation))) (\<lambda>taken.
       tx_bind (tx_ensure (taken = None) (ApiError_from_sql UniqueViolation)) (\<lambda>_.
       tx_write (db_claim_operations_update (\<lambda>m. m((worker_id, operation) \<mapsto> lease_id))))))"

definition start_resident_process :: "'e externals_scheme \<Rightarrow> Job \<Rightarrow> uuid \<Rightarrow> timestamp \<Rightarrow> unit dbtx" where
  "start_resident_process x job lease_id now =
     (if jb_kind job \<noteq> JobKind.RunResidentProcess then tx_return () else
      tx_bind (tx_lift (ok_or (bad_request ''resident generation is required'') (payload_u64 job ''generation''))) (\<lambda>generation.
      tx_bind (tx_lift (resident_process_id_from_job x job)) (\<lambda>process_id.
      let P = (\<lambda>r. rp_id r = process_id \<and> rp_generation r = u64_as_i64 generation
            \<and> rp_desired_state r = ResidentProcessDesiredState.Running) in
      tx_bind (tx_read (\<lambda>s. rows_matching P (db_residents s))) (\<lambda>affected.
      tx_bind (tx_write (db_residents_update (update_rows P (\<lambda>r. r\<lparr>rp_active_lease_id := Some lease_id,
        rp_observed_state := ResidentProcessObservedState.Starting, rp_provider_pod_name := None,
        rp_provider_pod_uid := None, rp_last_error_class := None, rp_last_error_code := None,
        rp_last_error := None, rp_updated_at := now\<rparr>)))) (\<lambda>_.
      tx_ensure (affected = 1) (conflict_code ''resident_process_generation_conflict''
        ''resident process generation changed before lease claim''))))))"

text \<open>The transition of the job itself: a compare-and-set on its status.\<close>

definition claim_job_row :: "int \<Rightarrow> timestamp \<Rightarrow> job_row \<Rightarrow> job_row" where
  "claim_job_row attempt now r = r\<lparr>jr_job := (jr_job r)\<lparr>jb_status := JobStatus.Leased, jb_attempts := attempt,
     jb_updated_at := now\<rparr>\<rparr>"

definition take_queued_job :: "uuid \<Rightarrow> int \<Rightarrow> timestamp \<Rightarrow> bool dbtx" where
  "take_queued_job job_id attempt now =
     (let P = (\<lambda>r. jr_id r = job_id \<and> jr_status r = JobStatus.Queued) in
      tx_bind (tx_read (\<lambda>s. rows_matching P (db_jobs s))) (\<lambda>affected.
      tx_bind (tx_write (db_jobs_update (update_rows P (claim_job_row attempt now)))) (\<lambda>_.
      tx_return (affected \<noteq> 0))))"

definition new_lease :: "uuid \<Rightarrow> Worker \<Rightarrow> Job \<Rightarrow> int \<Rightarrow> timestamp \<Rightarrow> timestamp \<Rightarrow> lease_row" where
  "new_lease lease_id worker job attempt now expires_at =
     \<lparr>ls_id = lease_id, ls_job_id = jb_id job, ls_worker_id = wk_id worker, ls_status = LeaseStatus.Active,
      ls_attempt = attempt, ls_leased_at = now, ls_expires_at = expires_at, ls_completed_at = None,
      ls_error = None, ls_completion_fingerprint = None, ls_cancel_requested_at = None, ls_cancel_reason = None\<rparr>"

definition claim_effects ::
  "'e externals_scheme \<Rightarrow> Worker \<Rightarrow> JobLease \<Rightarrow> uuid option \<Rightarrow> timestamp \<Rightarrow> unit dbtx" where
  "claim_effects x worker lease operation_id now =
     (let lease_id = ls_id (jl_lease lease) in
      tx_bind (bind_sandbox_placement_on_connection x (jl_job lease) worker) (\<lambda>_.
      tx_bind (record_claim_operation (wk_id worker) operation_id lease_id) (\<lambda>_.
      tx_bind (apply_claimed_job_on_connection x (jl_job lease)) (\<lambda>_.
      start_resident_process x (jl_job lease) lease_id now))))"

definition grant_lease ::
  "'e externals_scheme \<Rightarrow> Worker \<Rightarrow> Job \<Rightarrow> timestamp \<Rightarrow> timestamp \<Rightarrow> uuid option \<Rightarrow> JobLease dbtx" where
  "grant_lease x worker job now expires_at operation_id =
     tx_bind uuid_new (\<lambda>lease_id.
     let attempt = jb_attempts job + 1;
         lease = \<lparr>jl_lease = new_lease lease_id worker job attempt now expires_at,
           jl_job = job\<lparr>jb_status := JobStatus.Leased, jb_attempts := attempt, jb_updated_at := now\<rparr>\<rparr> in
     tx_bind (insert_lease_on_connection (jl_lease lease)) (\<lambda>_.
     tx_bind (claim_effects x worker lease operation_id now) (\<lambda>_.
     tx_return lease)))"

definition lease_queued_job ::
  "'e externals_scheme \<Rightarrow> Worker \<Rightarrow> Job \<Rightarrow> nat option \<Rightarrow> uuid option \<Rightarrow> JobLease option dbtx" where
  "lease_queued_job x worker job lease_seconds operation_id =
     tx_bind utc_now (\<lambda>now.
     tx_bind (tx_lift (or_panic (chrono_add_seconds x now (int (effective_lease_seconds lease_seconds))))) (\<lambda>expires_at.
     tx_bind (take_queued_job (jb_id job) (jb_attempts job + 1) now) (\<lambda>taken.
     if \<not> taken then tx_return None else
     tx_bind (grant_lease x worker job now expires_at operation_id) (\<lambda>lease. tx_return (Some lease)))))"

definition claim_in_transaction ::
  "'e externals_scheme \<Rightarrow> Worker \<Rightarrow> Job \<Rightarrow> nat option \<Rightarrow> uuid option \<Rightarrow> JobLease option dbtx" where
  "claim_in_transaction x worker job lease_seconds operation_id =
     tx_bind (lock_worker_for_claim_on_connection (wk_id worker)) (\<lambda>locked.
     if \<not> locked then tx_return None else
     tx_bind (lock_apex_instruction_placement_on_connection x worker job) (\<lambda>placed.
     if \<not> placed then tx_return None else
     tx_bind (tx_read (\<lambda>s. active_lease_count_for_worker_on_connection s (wk_id worker))) (\<lambda>active_leases.
     if wk_max_concurrent_jobs worker \<le> active_leases then tx_return None else
     tx_bind (recheck_sterile_resident_activation_on_connection x job) (\<lambda>_.
     lease_queued_job x worker job lease_seconds operation_id))))"

definition job_provider_preference :: "'e externals_scheme \<Rightarrow> Job \<Rightarrow> ProviderPreference" where
  "job_provider_preference x job = (case Option.bind (json_get ''provisionSpec'' (jb_payload job)) (spec_from_value x) of
     Some spec \<Rightarrow> ps_provider_preference spec
   | None \<Rightarrow> ProviderPreference.Any)"

definition try_claim_job ::
  "'e externals_scheme \<Rightarrow> Worker \<Rightarrow> Job \<Rightarrow> nat option \<Rightarrow> uuid option \<Rightarrow> database
    \<Rightarrow> (ApiError + JobLease option) \<times> database" where
  "try_claim_job x worker job lease_seconds operation_id s =
     (if \<not> worker_matches_provider_preference (wk_provider worker) (job_provider_preference x job)
      then (Inr None, s) else
      case claim_in_transaction x worker job lease_seconds operation_id s of
        Inr (Some lease, s') \<Rightarrow> (Inr (Some lease), s')
      | Inr (None, _) \<Rightarrow> (Inr None, s)
      | Inl e \<Rightarrow>
          if api_code e = ''sterile_resident_activation_fence_mismatch''
          then (case tx_atomic (quarantine_invalid_sterile_resident_job x job) s of
            (Inl e', s') \<Rightarrow> (Inl e', s')
          | (Inr _, s') \<Rightarrow> (Inr None, s'))
          else (Inl e, s))"

subsection \<open>Renewal\<close>

definition earliest_deadline :: "database \<Rightarrow> lease_row \<Rightarrow> timestamp option" where
  "earliest_deadline s l = (case sort (map df_hard_deadline (filter (fence_of_lease l) (db_drain_fences s))) of
     [] \<Rightarrow> None | d # _ \<Rightarrow> Some d)"

definition lease_cancelled :: "string \<Rightarrow> ApiError" where
  "lease_cancelled = conflict_code ''lease_cancelled''"

definition lease_cancellation :: "database \<Rightarrow> uuid \<Rightarrow> string option option" where
  "lease_cancellation s lease_id = (case find (\<lambda>l. ls_id l = lease_id) (db_leases s) of
     Some l \<Rightarrow> (case ls_cancel_requested_at l of Some _ \<Rightarrow> Some (ls_cancel_reason l) | None \<Rightarrow> None)
   | None \<Rightarrow> None)"

definition cap_at :: "timestamp option \<Rightarrow> timestamp \<Rightarrow> timestamp" where
  "cap_at deadline t = (case deadline of Some d \<Rightarrow> min t d | None \<Rightarrow> t)"

definition renew_in_transaction :: "'e externals_scheme \<Rightarrow> lease_row \<Rightarrow> nat option \<Rightarrow> unit dbtx" where
  "renew_in_transaction x lease lease_seconds =
     tx_bind (tx_read (\<lambda>s. lease_cancellation s (ls_id lease))) (\<lambda>cancelled. case cancelled of
       Some reason \<Rightarrow> tx_fail (lease_cancelled (case reason of Some r \<Rightarrow> r | None \<Rightarrow> ''lease cancellation was requested''))
     | None \<Rightarrow>
       tx_bind utc_now (\<lambda>now.
       tx_bind (tx_lift (or_panic (chrono_add_seconds x now (int (effective_lease_seconds lease_seconds))))) (\<lambda>requested_expires_at.
       tx_bind (tx_read (\<lambda>s. earliest_deadline s lease)) (\<lambda>hard_deadline.
       tx_bind (tx_ensure (\<not> (case hard_deadline of Some d \<Rightarrow> d \<le> now | None \<Rightarrow> False))
         (conflict_code ''worker_drain_deadline_elapsed'' ''worker drain deadline has elapsed'')) (\<lambda>_.
       tx_bind utc_now (\<lambda>database_now.
       tx_bind (update_leases (\<lambda>l. active_lease (ls_id lease) l \<and> ls_cancel_requested_at l = None
           \<and> ls_expires_at l > database_now)
         (\<lambda>l. l\<lparr>ls_expires_at := cap_at hard_deadline requested_expires_at\<rparr>)) (\<lambda>affected.
       if affected \<noteq> 0 then tx_return () else
       tx_bind (tx_read (\<lambda>s. lease_cancellation s (ls_id lease))) (\<lambda>raced.
       tx_fail (if raced \<noteq> None then lease_cancelled ''lease cancellation was requested''
         else not_found ''active lease not found'')))))))))"

definition resident_wants_stop :: "'e externals_scheme \<Rightarrow> Job \<Rightarrow> database \<Rightarrow> bool" where
  "resident_wants_stop x job s \<longleftrightarrow> jb_kind job = JobKind.RunResidentProcess
     \<and> list_ex (\<lambda>r. uuid_to_string x (rp_id r) = (case payload_str job ''residentProcessId'' of Some p \<Rightarrow> p | None \<Rightarrow> [])
         \<and> rp_desired_state r = ResidentProcessDesiredState.Stopped) (db_residents s)"

text \<open>The handler after its authorization check, which yields the lease.\<close>

definition renew_lease ::
  "'e externals_scheme \<Rightarrow> JobLease \<Rightarrow> nat option \<Rightarrow> database \<Rightarrow> (ApiError + JobLease) \<times> database" where
  "renew_lease x lease lease_seconds s =
     (case tx_atomic (renew_in_transaction x (jl_lease lease) lease_seconds) s of
        (Inl e, s') \<Rightarrow> (Inl e, s')
      | (Inr _, s') \<Rightarrow>
          if resident_wants_stop x (jl_job lease) s'
          then (Inl (conflict_code ''resident_process_stopped'' ''resident process no longer desires a running lease''), s')
          else (ok_or (not_found ''lease not found'') (lookup_lease s' (ls_id (jl_lease lease))), s'))"

subsection \<open>Draining a worker\<close>

record DrainWorkerRequest =
  rq_shutdown_id :: uuid
  rq_hard_deadline :: timestamp

definition worker_claimable :: "Worker \<Rightarrow> bool" where
  "worker_claimable w \<longleftrightarrow> wk_status w = WorkerStatus.Registered \<or> wk_status w = WorkerStatus.Online"

definition fence_for :: "DrainWorkerRequest \<Rightarrow> uuid \<Rightarrow> lease_row \<Rightarrow> drain_fence_row" where
  "fence_for request worker_id l = \<lparr>df_shutdown_id = rq_shutdown_id request, df_lease_id = ls_id l,
     df_worker_id = worker_id, df_job_id = ls_job_id l, df_attempt = ls_attempt l,
     df_hard_deadline = rq_hard_deadline request, df_outcome = None, df_resolved_at = None\<rparr>"

definition open_drain ::
  "'e externals_scheme \<Rightarrow> string \<Rightarrow> uuid \<Rightarrow> DrainWorkerRequest \<Rightarrow> timestamp \<Rightarrow> unit dbtx" where
  "open_drain x tenant_id worker_id request now =
     (let deadline = rq_hard_deadline request;
          P = (\<lambda>w. wk_id w = worker_id \<and> worker_claimable w);
          L = (\<lambda>l. ls_worker_id l = worker_id \<and> ls_status l = LeaseStatus.Active) in
      tx_bind (tx_ensure (now < deadline) (bad_request ''drain hard deadline must be in the future'')) (\<lambda>_.
      tx_bind (tx_lift (or_panic (chrono_add_seconds x now 3600))) (\<lambda>latest.
      tx_bind (tx_ensure (deadline \<le> latest) (bad_request ''drain hard deadline cannot exceed one hour'')) (\<lambda>_.
      tx_bind (tx_read (\<lambda>s. rows_matching P (db_workers s))) (\<lambda>affected.
      tx_bind (tx_write (db_workers_update (update_rows P (\<lambda>w. w\<lparr>wk_status := WorkerStatus.Draining\<rparr>)))) (\<lambda>_.
      tx_bind (tx_ensure (affected = 1) (conflict_code ''worker_not_drainable'' ''worker is not online or draining'')) (\<lambda>_.
      tx_bind (tx_write (db_drain_receipts_update (\<lambda>rs. rs @ [\<lparr>dr_shutdown_id = rq_shutdown_id request,
        dr_worker_id = worker_id, dr_tenant_id = tenant_id, dr_hard_deadline = deadline, dr_created_at = now,
        dr_retired_at = None\<rparr>]))) (\<lambda>_.
      tx_bind (tx_read (\<lambda>s. sort_key ls_id (filter L (db_leases s)))) (\<lambda>active_leases.
      tx_bind (tx_write (db_drain_fences_update (\<lambda>fs. fs @ map (fence_for request worker_id) active_leases))) (\<lambda>_.
      tx_write (db_leases_update (update_rows (\<lambda>l. L l \<and> ls_expires_at l > deadline)
        (\<lambda>l. l\<lparr>ls_expires_at := deadline\<rparr>)))))))))))))"

definition drain_in_transaction ::
  "'e externals_scheme \<Rightarrow> string \<Rightarrow> uuid \<Rightarrow> DrainWorkerRequest \<Rightarrow> drain_fence_row list dbtx" where
  "drain_in_transaction x tenant_id worker_id request =
     tx_bind utc_now (\<lambda>now.
     tx_bind (lock_worker_for_lease_terminalization_on_connection worker_id) (\<lambda>_.
     tx_bind (tx_read (\<lambda>s. find (\<lambda>r. dr_shutdown_id r = rq_shutdown_id request) (db_drain_receipts s))) (\<lambda>existing.
     tx_bind (case existing of
         Some r \<Rightarrow> tx_ensure (dr_worker_id r = worker_id \<and> dr_tenant_id r = tenant_id
             \<and> dr_hard_deadline r = rq_hard_deadline request)
           (conflict_code ''worker_drain_receipt_conflict'' ''shutdown id is already bound to a different drain fence'')
       | None \<Rightarrow> open_drain x tenant_id worker_id request now) (\<lambda>_.
     tx_read (\<lambda>s. sort_key df_lease_id (filter (\<lambda>f. df_shutdown_id f = rq_shutdown_id request) (db_drain_fences s)))))))"

text \<open>A drain without a request body only closes admission.\<close>

definition drain_without_receipt :: "uuid \<Rightarrow> unit dbtx" where
  "drain_without_receipt worker_id =
     tx_write (db_workers_update (update_rows (\<lambda>w. wk_id w = worker_id) (\<lambda>w. w\<lparr>wk_status := WorkerStatus.Draining\<rparr>)))"

definition DRAIN_FENCE_BATCH_SIZE :: nat where
  "DRAIN_FENCE_BATCH_SIZE = 1000"

definition fence_due :: "timestamp \<Rightarrow> drain_fence_row \<Rightarrow> bool" where
  "fence_due now f \<longleftrightarrow> df_resolved_at f = None \<and> df_hard_deadline f \<le> now"

definition due_fences :: "timestamp \<Rightarrow> database \<Rightarrow> drain_fence_row list" where
  "due_fences now s = take DRAIN_FENCE_BATCH_SIZE
     (sort_key (\<lambda>f. (df_hard_deadline f, df_lease_id f)) (filter (fence_due now) (db_drain_fences s)))"

definition resolve_worker_drain_fence :: "uuid \<Rightarrow> uuid \<Rightarrow> string \<Rightarrow> timestamp \<Rightarrow> unit dbtx" where
  "resolve_worker_drain_fence shutdown_id lease_id result_text resolved_at =
     tx_write (db_drain_fences_update (update_rows
       (\<lambda>f. df_shutdown_id f = shutdown_id \<and> df_lease_id f = lease_id \<and> df_resolved_at f = None)
       (\<lambda>f. f\<lparr>df_outcome := Some result_text, df_resolved_at := Some resolved_at\<rparr>)))"

definition resolve_fence_of :: "drain_fence_row \<Rightarrow> timestamp \<Rightarrow> unit dbtx" where
  "resolve_fence_of f now =
     tx_bind (tx_read (\<lambda>s. find (\<lambda>l. ls_id l = df_lease_id f) (db_leases s))) (\<lambda>row.
     tx_bind (tx_lift (ok_or (internal ''no rows returned by a query that expected to return at least one row'') row)) (\<lambda>l.
     tx_when (ls_status l \<noteq> LeaseStatus.Active)
       (resolve_worker_drain_fence (df_shutdown_id f) (df_lease_id f) (LeaseStatus_as_db_str (ls_status l)) now)))"

text \<open>
  One due fence.  The expiry of its lease is a transaction of its own; the statements after it see
  its effect.
\<close>

definition settle_due_fence ::
  "'e externals_scheme \<Rightarrow> timestamp \<Rightarrow> drain_fence_row \<Rightarrow> database \<Rightarrow> (ApiError + unit) \<times> database" where
  "settle_due_fence x now f s = (case find (\<lambda>l. ls_id l = df_lease_id f) (db_leases s) of
     None \<Rightarrow> (Inr (), s)
   | Some l \<Rightarrow>
       if \<not> (ls_worker_id l = df_worker_id f \<and> ls_job_id l = df_job_id f \<and> ls_attempt l = df_attempt f)
       then tx_atomic (resolve_worker_drain_fence (df_shutdown_id f) (df_lease_id f) ''stale_fence'' now) s
       else case (if ls_status l = LeaseStatus.Active
           then tx_atomic (expire_lease_if_still_active x (df_lease_id f) now) s else (Inr (), s)) of
         (Inl e, s') \<Rightarrow> (Inl e, s')
       | (Inr _, s') \<Rightarrow> tx_atomic (resolve_fence_of f now) s')"

fun settle_due_fences ::
  "'e externals_scheme \<Rightarrow> timestamp \<Rightarrow> drain_fence_row list \<Rightarrow> database \<Rightarrow> (ApiError + unit) \<times> database" where
  "settle_due_fences x now [] s = (Inr (), s)"
| "settle_due_fences x now (f # fs) s = (case settle_due_fence x now f s of
     (Inl e, s') \<Rightarrow> (Inl e, s')
   | (Inr _, s') \<Rightarrow> settle_due_fences x now fs s')"

definition retire_drain_receipts :: "timestamp \<Rightarrow> database \<Rightarrow> database" where
  "retire_drain_receipts now s = db_drain_receipts_update (update_rows
     (\<lambda>r. dr_retired_at r = None \<and> dr_hard_deadline r \<le> now
        \<and> \<not> list_ex (\<lambda>f. df_shutdown_id f = dr_shutdown_id r \<and> df_resolved_at f = None) (db_drain_fences s))
     (\<lambda>r. r\<lparr>dr_retired_at := Some now\<rparr>)) s"

definition reconcile_due_worker_drain_fences ::
  "'e externals_scheme \<Rightarrow> database \<Rightarrow> (ApiError + unit) \<times> database" where
  "reconcile_due_worker_drain_fences x s = (case utc_now s of
     Inl e \<Rightarrow> (Inl e, s)
   | Inr (now, s1) \<Rightarrow> (case settle_due_fences x now (due_fences now s1) s1 of
       (Inl e, s') \<Rightarrow> (Inl e, s')
     | (Inr _, s') \<Rightarrow> (Inr (), retire_drain_receipts now s')))"

definition reconcile_worker_liveness :: "'e externals_scheme \<Rightarrow> unit dbtx" where
  "reconcile_worker_liveness x =
     tx_bind utc_now (\<lambda>now.
     tx_bind (tx_lift (or_panic (chrono_add_seconds x now (- 90)))) (\<lambda>offline_before.
     tx_write (db_workers_update (update_rows
       (\<lambda>w. (wk_status w = WorkerStatus.Online \<or> wk_status w = WorkerStatus.Draining)
          \<and> (case wk_last_heartbeat_at w of Some t \<Rightarrow> t | None \<Rightarrow> wk_registered_at w) < offline_before)
       (\<lambda>w. w\<lparr>wk_status := WorkerStatus.Offline\<rparr>)))))"

end
