(* ===== verification/Stops.thy ===== *)
theory Stops
  imports Leases
begin

section \<open>Stopping, cancelling and reaping\<close>

text \<open>
  The operations that end work from outside its lease: \<open>stop_sandbox_via_job\<close> of \<open>sandboxes.rs\<close>,
  the active-lifetime reaper of \<open>reap.rs\<close>, \<open>cancel_operation\<close> of \<open>operations.rs\<close>, the sweeps over
  queued jobs of \<open>jobs.rs\<close> and \<open>snapshots.rs\<close>, \<open>stop_resident_process\<close> of \<open>resident_processes.rs\<close>
  and the placement refresh of \<open>leases.rs\<close>.  The bootstrap material that a stop reclaims is held in
  memory and is not part of the database.
\<close>

subsection \<open>Stopping a sandbox\<close>

definition payload_insert :: "string \<Rightarrow> json \<Rightarrow> json \<Rightarrow> json" where
  "payload_insert key v payload = (case payload of
     JObject ms \<Rightarrow> JObject (object_insert key v ms)
   | other \<Rightarrow> other)"

definition trace_add_to_payload :: "string \<Rightarrow> json \<Rightarrow> json" where
  "trace_add_to_payload traceparent payload =
     (if traceparent = [] then payload else payload_insert ''_traceparent'' (JString traceparent) payload)"

definition authorization_add_to_payload :: "json \<Rightarrow> json \<Rightarrow> json" where
  "authorization_add_to_payload receipt payload = payload_insert ''_authorization'' receipt payload"

definition sandbox_has_gke_fqdn_policy :: "'e externals_scheme \<Rightarrow> database \<Rightarrow> uuid \<Rightarrow> bool" where
  "sandbox_has_gke_fqdn_policy x s sandbox_id =
     list_ex (\<lambda>r. pr_sandbox_id (rr_reported r) = sandbox_id \<and> pr_provider (rr_reported r) = ''kubernetes''
       \<and> pr_resource_kind (rr_reported r) = RuntimeResourceKind.NetworkPolicy
       \<and> pr_resource_name (rr_reported r) = ''sandboxwich-fqdn-egress-'' @ uuid_to_string x sandbox_id) (db_resources s)"

definition acknowledge_bootstrap :: "timestamp \<Rightarrow> ResidentProcess \<Rightarrow> timestamp option" where
  "acknowledge_bootstrap now r =
     (if rp_bootstrap_delivered_generation r \<noteq> None \<and> rp_bootstrap_delivered_lease_id r \<noteq> None
         \<and> rp_bootstrap_delivered_sha256 r \<noteq> None
      then Some (case rp_bootstrap_acknowledged_at r of Some t \<Rightarrow> t | None \<Rightarrow> now)
      else rp_bootstrap_acknowledged_at r)"

text \<open>A delivery fence is complete or absent; a stop reclaims the material it names.\<close>

definition delivered_bootstrap_fence :: "ResidentProcess \<Rightarrow> ApiError + (nat \<times> uuid \<times> string) option" where
  "delivered_bootstrap_fence r =
     (case (rp_bootstrap_delivered_generation r, rp_bootstrap_delivered_lease_id r, rp_bootstrap_delivered_sha256 r) of
        (Some g, Some lease_id, Some sha256) \<Rightarrow>
          if 0 \<le> g then Inr (Some (nat g, lease_id, sha256))
          else Inl (internal ''database contains invalid delivered bootstrap generation'')
      | (None, None, None) \<Rightarrow> Inr None
      | _ \<Rightarrow> Inl (internal ''database contains incomplete delivered bootstrap fence''))"

definition bootstrap_identity ::
  "ResidentProcess \<Rightarrow> ApiError + (uuid \<times> nat \<times> string \<times> (nat \<times> uuid \<times> string) option)" where
  "bootstrap_identity r =
     rbind (delivered_bootstrap_fence r) (\<lambda>fence.
     rbind (ensure (0 \<le> rp_generation r) (internal ''database contains invalid resident generation'')) (\<lambda>_.
     Inr (rp_id r, nat (rp_generation r), (case rp_bootstrap_sha256 r of Some h \<Rightarrow> h | None \<Rightarrow> []), fence)))"

definition job_of_sandbox :: "string \<Rightarrow> uuid \<Rightarrow> job_row \<Rightarrow> bool" where
  "job_of_sandbox tenant_id sandbox_id r \<longleftrightarrow> jb_tenant_id (jr_job r) = tenant_id
     \<and> (ref_sandbox_id (jr_references r) = Some sandbox_id \<or> ref_parent_sandbox_id (jr_references r) = Some sandbox_id
        \<or> ref_child_sandbox_id (jr_references r) = Some sandbox_id)"

definition cancel_job_row :: "string \<Rightarrow> timestamp \<Rightarrow> job_row \<Rightarrow> job_row" where
  "cancel_job_row reason now r = (set_job_status JobStatus.Cancelled (Some reason) now r)
     \<lparr>jr_cancel_requested_at := Some now, jr_cancel_reason := Some reason\<rparr>"

definition revoke_credentials :: "string \<Rightarrow> uuid \<Rightarrow> timestamp \<Rightarrow> access_credential list \<Rightarrow> access_credential list" where
  "revoke_credentials tenant_id sandbox_id now = update_rows
     (\<lambda>c. ac_tenant_id c = tenant_id \<and> ac_sandbox_id c = sandbox_id \<and> ac_revoked_at c = None)
     (\<lambda>c. c\<lparr>ac_revoked_at := Some now\<rparr>)"

definition stop_job :: "'e externals_scheme \<Rightarrow> Sandbox \<Rightarrow> bool \<Rightarrow> json option \<Rightarrow> string option \<Rightarrow> uuid \<Rightarrow> timestamp \<Rightarrow> Job" where
  "stop_job x sandbox delete_gke_fqdn_policy authorization trace job_id now =
     \<lparr>jb_id = job_id, jb_tenant_id = sb_tenant_id sandbox, jb_kind = JobKind.StopSandbox, jb_status = JobStatus.Queued,
      jb_payload = (let base = JObject [(''sandboxId'', js_uuid x (sb_id sandbox)),
            (''deleteGkeFqdnPolicy'', JBool delete_gke_fqdn_policy)];
          traced = (case trace of Some t \<Rightarrow> trace_add_to_payload t base | None \<Rightarrow> base)
        in case authorization of Some a \<Rightarrow> authorization_add_to_payload a traced | None \<Rightarrow> traced),
      jb_required_capability = WorkerCapability.ProvisionSandbox,
      jb_required_execution_class = sb_execution_class sandbox, jb_priority = 100, jb_attempts = 0,
      jb_max_attempts = 3, jb_scheduled_at = now, jb_created_at = now, jb_updated_at = now, jb_last_error = None\<rparr>"

definition fence_sandbox_work :: "string \<Rightarrow> uuid \<Rightarrow> timestamp \<Rightarrow> unit dbtx" where
  "fence_sandbox_work tenant_id sandbox_id now =
     tx_bind (tx_write (db_residents_update (update_rows
       (\<lambda>r. rp_sandbox_id r = sandbox_id \<and> rp_tenant_id r = tenant_id \<and> rp_desired_state r = ResidentProcessDesiredState.Running)
       (\<lambda>r. r\<lparr>rp_desired_state := ResidentProcessDesiredState.Stopped,
          rp_bootstrap_acknowledged_at := acknowledge_bootstrap now r, rp_updated_at := now\<rparr>)))) (\<lambda>_.
     tx_bind (tx_write (db_jobs_update (update_rows
       (\<lambda>r. job_of_sandbox tenant_id sandbox_id r \<and> jr_status r = JobStatus.Queued
          \<and> jb_kind (jr_job r) \<noteq> JobKind.StopSandbox \<and> jb_kind (jr_job r) \<noteq> JobKind.ProvisionSandbox)
       (cancel_job_row ''sandbox_stopped'' now)))) (\<lambda>_.
     tx_bind (tx_read (\<lambda>s. map jr_id (filter (job_of_sandbox tenant_id sandbox_id) (db_jobs s)))) (\<lambda>job_ids.
     tx_write (db_leases_update (update_rows
       (\<lambda>l. ls_status l = LeaseStatus.Active \<and> ls_cancel_requested_at l = None \<and> ls_job_id l \<in> set job_ids)
       (\<lambda>l. l\<lparr>ls_cancel_requested_at := Some now, ls_cancel_reason := Some ''sandbox_stopped''\<rparr>))))))"

definition stop_in_transaction :: "'e externals_scheme \<Rightarrow> Sandbox \<Rightarrow> json \<Rightarrow> Job \<Rightarrow> timestamp \<Rightarrow> bool dbtx" where
  "stop_in_transaction x sandbox lifecycle_event_data job now =
     (let sandbox_id = sb_id sandbox; tenant_id = sb_tenant_id sandbox in
      tx_bind (set_sandbox_state_on_connection sandbox_id STOP_LEGAL_FROM SandboxState.Archiving lifecycle_event_data) (\<lambda>transitioned.
      if \<not> transitioned then tx_return False else
      tx_bind (tx_read (\<lambda>s. filter (\<lambda>r. rp_sandbox_id r = sandbox_id \<and> rp_tenant_id r = tenant_id
        \<and> rp_bootstrap_sha256 r \<noteq> None) (db_residents s))) (\<lambda>bootstraps.
      tx_bind (tx_map (\<lambda>r. tx_lift (bootstrap_identity r)) bootstraps) (\<lambda>_.
      tx_bind (fence_sandbox_work tenant_id sandbox_id now) (\<lambda>_.
      tx_bind (insert_job_on_connection x job) (\<lambda>_.
      tx_bind (tx_write (db_guest_tokens_update (revoke_credentials tenant_id sandbox_id now))) (\<lambda>_.
      tx_bind (tx_write (db_desktop_credentials_update (revoke_credentials tenant_id sandbox_id now))) (\<lambda>_.
      tx_return True))))))))"

definition stop_sandbox_via_job ::
  "'e externals_scheme \<Rightarrow> Sandbox \<Rightarrow> json \<Rightarrow> json option \<Rightarrow> string option \<Rightarrow> Job option dbtx" where
  "stop_sandbox_via_job x sandbox lifecycle_event_data authorization trace =
     tx_bind (tx_read (\<lambda>s. (sandbox_has_gke_fqdn_policy x s (sb_id sandbox), fetch_secret_mounts s (sb_id sandbox)))) (\<lambda>(fqdn, mounts).
     tx_bind utc_now (\<lambda>now. tx_bind uuid_new (\<lambda>job_id.
     tx_bind (tx_lift (add_provision_spec_to_payload x (stop_job x sandbox fqdn authorization trace job_id now) sandbox mounts)) (\<lambda>job.
     tx_bind (stop_in_transaction x sandbox lifecycle_event_data job now) (\<lambda>stopped.
     tx_return (if stopped then Some job else None))))))"

definition sandbox_state_http_conflict :: "'e externals_scheme \<Rightarrow> database \<Rightarrow> uuid \<Rightarrow> ApiError" where
  "sandbox_state_http_conflict x s sandbox_id = (case find (\<lambda>b. sb_id b = sandbox_id) (db_sandboxes s) of
     None \<Rightarrow> not_found ''sandbox not found''
   | Some b \<Rightarrow>
       let message = ''cannot stop sandbox '' @ uuid_to_string x sandbox_id
             @ '': it was concurrently stopped or archived already (currently ''
             @ SandboxState_as_db_str (sb_state b) @ '')'' in
       if archiving_or_archived (sb_state b) then conflict_code ''sandbox_stop_already_in_progress'' message
       else conflict message)"

definition stop_sandbox ::
  "'e externals_scheme \<Rightarrow> string \<Rightarrow> uuid \<Rightarrow> json \<Rightarrow> string \<Rightarrow> (Sandbox \<times> Job) dbtx" where
  "stop_sandbox x tenant_id sandbox_id authorization trace =
     tx_bind (ensure_sandbox_tenant_on_connection sandbox_id tenant_id) (\<lambda>sandbox.
     tx_bind utc_now (\<lambda>now.
     tx_bind (stop_sandbox_via_job x sandbox (JObject [(''state'', js_state SandboxState.Archiving),
       (''reason'', JString ''stop_requested'')]) (Some authorization) (Some trace)) (\<lambda>stopped. case stopped of
       None \<Rightarrow> tx_bind (tx_read (\<lambda>s. sandbox_state_http_conflict x s sandbox_id)) tx_fail
     | Some job \<Rightarrow> tx_return (sandbox\<lparr>sb_state := SandboxState.Archiving, sb_updated_at := now\<rparr>, job))))"

subsection \<open>Reaping\<close>

datatype CandidateOutcome =
  NotDue
| Reaped Sandbox ReapTrigger timestamp
| Skipped
| Failed

text \<open>
  One candidate; the outer \<open>None\<close> is a panic of the deadline arithmetic, which ends the sweep.  The
  stop is a transaction of its own, and its error is logged.
\<close>

definition reap_event :: "'e externals_scheme \<Rightarrow> ReapTrigger \<Rightarrow> timestamp \<Rightarrow> json" where
  "reap_event x trigger deadline = JObject [(''state'', js_state SandboxState.Archiving),
     (''reason'', JString (ReapTrigger_reason trigger)), (''deadline'', JString (to_rfc3339 x deadline)),
     (''triggeredBy'', JString ''expiry_sweeper'')]"

definition attempt_reap_candidate ::
  "'e externals_scheme \<Rightarrow> Sandbox \<Rightarrow> timestamp option \<Rightarrow> timestamp \<Rightarrow> database \<Rightarrow> (CandidateOutcome \<times> database) option" where
  "attempt_reap_candidate x sandbox last_command_at now s =
     (case expired_deadline (chrono_add_seconds x) sandbox last_command_at now of
        None \<Rightarrow> None
      | Some None \<Rightarrow> Some (NotDue, s)
      | Some (Some (trigger, deadline)) \<Rightarrow>
          Some (case tx_atomic (stop_sandbox_via_job x sandbox (reap_event x trigger deadline) None None) s of
            (Inr (Some _), s') \<Rightarrow> (Reaped (sandbox\<lparr>sb_state := SandboxState.Archiving\<rparr>) trigger deadline, s')
          | (Inr None, s') \<Rightarrow> (Skipped, s')
          | (Inl _, s') \<Rightarrow> (Failed, s')))"

definition REAP_CANDIDATE_BATCH_SIZE :: nat where
  "REAP_CANDIDATE_BATCH_SIZE = 100"

definition last_command_at :: "database \<Rightarrow> uuid \<Rightarrow> timestamp option" where
  "last_command_at s sandbox_id =
     (case map (cmd_created_at \<circ> row_command) (filter (\<lambda>c. cmd_sandbox_id (row_command c) = sandbox_id) (commands (db_output s))) of
        [] \<Rightarrow> None
      | t # ts \<Rightarrow> Some (fold max ts t))"

definition reapable :: "Sandbox \<Rightarrow> bool" where
  "reapable b \<longleftrightarrow> SandboxState_as_db_str (sb_state b) \<in> set reapable_states
     \<and> (sb_max_lifetime_seconds b \<noteq> None \<or> sb_idle_ttl_seconds b \<noteq> None)"

definition reap_candidates :: "database \<Rightarrow> (Sandbox \<times> timestamp option) list" where
  "reap_candidates s = map (\<lambda>b. (b, last_command_at s (sb_id b)))
     (take REAP_CANDIDATE_BATCH_SIZE (sort_key (\<lambda>b. (sb_created_at b, sb_id b)) (filter reapable (db_sandboxes s))))"

fun reap_each ::
  "'e externals_scheme \<Rightarrow> timestamp \<Rightarrow> (Sandbox \<times> timestamp option) list \<Rightarrow> database
    \<Rightarrow> ((Sandbox \<times> ReapTrigger \<times> timestamp) list \<times> database) option" where
  "reap_each x now [] s = Some ([], s)"
| "reap_each x now ((sandbox, last_command) # rest) s =
     Option.bind (attempt_reap_candidate x sandbox last_command now s) (\<lambda>(r, s').
     map_option (\<lambda>(reaped, t). (case r of Reaped b trigger deadline \<Rightarrow> (b, trigger, deadline) # reaped | _ \<Rightarrow> reaped, t))
       (reap_each x now rest s'))"

definition reap_expired_active_sandboxes ::
  "'e externals_scheme \<Rightarrow> database \<Rightarrow> ((Sandbox \<times> ReapTrigger \<times> timestamp) list \<times> database) option" where
  "reap_expired_active_sandboxes x s = (case utc_now s of
     Inl _ \<Rightarrow> None
   | Inr (now, s1) \<Rightarrow> reap_each x now (reap_candidates s) s1)"

subsection \<open>Cancelling an operation\<close>

definition fail_pending_snapshot_on_connection :: "uuid \<Rightarrow> string \<Rightarrow> bool dbtx" where
  "fail_pending_snapshot_on_connection snapshot_id error =
     (let P = (\<lambda>r. sn_id r = snapshot_id \<and> sn_status r = SnapshotStatus.Pending) in
      tx_bind (tx_read (\<lambda>s. rows_matching P (db_snapshots s))) (\<lambda>affected.
      tx_bind (tx_write (db_snapshots_update (update_rows P
        (\<lambda>r. r\<lparr>sn_status := SnapshotStatus.Failed, sn_error := Some error\<rparr>)))) (\<lambda>_.
      tx_bind (tx_when (affected = 1) (set_restore_source_status snapshot_id SnapshotStatus.Failed)) (\<lambda>_.
      tx_return (affected = 1)))))"

definition queued_job :: "uuid \<Rightarrow> job_row \<Rightarrow> bool" where
  "queued_job job_id r \<longleftrightarrow> jr_id r = job_id \<and> jr_status r = JobStatus.Queued"

definition cancel_command :: "uuid \<Rightarrow> timestamp \<Rightarrow> output_tables \<Rightarrow> output_tables" where
  "cancel_command command_id now st = st\<lparr>commands := map (\<lambda>c.
     if cmd_id (row_command c) = command_id \<and> cmd_status (row_command c) = CommandStatus.Queued
     then c\<lparr>row_command := (row_command c)\<lparr>cmd_status := CommandStatus.Failed, cmd_finished_at := Some now\<rparr>\<rparr>
     else c) (commands st)\<rparr>"

definition cancel_effect :: "'e externals_scheme \<Rightarrow> Job \<Rightarrow> timestamp \<Rightarrow> unit dbtx" where
  "cancel_effect x job now = (case jb_kind job of
     JobKind.RunCommand \<Rightarrow>
       tx_bind (tx_lift (command_id_from_job x job)) (\<lambda>command_id.
       on_output (\<lambda>st. Inr (cancel_command command_id now st)))
   | JobKind.MaterializeFile \<Rightarrow>
       tx_bind (tx_lift (sandbox_id_from_job x job)) (\<lambda>sandbox_id.
       tx_bind (tx_lift (file_id_from_job x job)) (\<lambda>file_id.
       delete_sandbox_file_if_present_on_connection sandbox_id file_id))
   | JobKind.CreateSnapshot \<Rightarrow>
       tx_bind (tx_lift (snapshot_id_from_job x job)) (\<lambda>snapshot_id.
       tx_bind (fail_pending_snapshot_on_connection snapshot_id ''snapshot operation cancelled'') (\<lambda>snapshot_failed.
       tx_when snapshot_failed
         (tx_bind (tx_lift (sandbox_id_from_job x job)) (\<lambda>sandbox_id.
          tx_bind (fail_sandboxes_waiting_on_snapshot_on_connection x snapshot_id ''snapshot_operation_cancelled''
            ''snapshot operation cancelled'') (\<lambda>_.
          insert_event sandbox_id SandboxEventKind.LifecycleChanged (JObject
            [(''reason'', JString ''snapshot_operation_cancelled''), (''snapshotId'', js_uuid x snapshot_id),
             (''snapshotStatus'', JString (SnapshotStatus_as_db_str SnapshotStatus.Failed))]))))))
   | _ \<Rightarrow> tx_return ())"

text \<open>The job is read before the transaction, so it may be stale; the transition is guarded.\<close>

definition cancel_read_operation :: "'e externals_scheme \<Rightarrow> Job \<Rightarrow> unit dbtx" where
  "cancel_read_operation x job =
     tx_bind (tx_ensure (jb_status job = JobStatus.Queued)
       (conflict_code ''operation_not_cancellable'' ''only queued operations can be cancelled'')) (\<lambda>_.
     tx_bind (tx_ensure (jb_kind job \<in> {JobKind.RunCommand, JobKind.MaterializeFile, JobKind.CreateSnapshot})
       (conflict_code ''operation_not_cancellable'' ''this operation cannot be cancelled safely'')) (\<lambda>_.
     tx_bind utc_now (\<lambda>now.
     tx_bind (tx_read (\<lambda>s. rows_matching (queued_job (jb_id job)) (db_jobs s))) (\<lambda>affected.
     tx_bind (tx_write (db_jobs_update (update_rows (queued_job (jb_id job)) (cancel_job_row ''operation_cancelled'' now)))) (\<lambda>_.
     tx_bind (tx_ensure (affected \<noteq> 0)
       (conflict_code ''operation_not_cancellable'' ''operation is no longer cancellable'')) (\<lambda>_.
     cancel_effect x job now))))))"

definition tenant_operation :: "string \<Rightarrow> uuid \<Rightarrow> Job dbtx" where
  "tenant_operation tenant_id job_id =
     tx_bind (tx_read (\<lambda>s. find (\<lambda>r. jr_id r = job_id) (db_jobs s))) (\<lambda>found.
     tx_bind (tx_lift (ok_or (not_found ''job not found'') found)) (\<lambda>r.
     tx_bind (tx_ensure (jb_tenant_id (jr_job r) = tenant_id) (not_found ''operation not found'')) (\<lambda>_.
     tx_return (jr_job r))))"

definition cancel_operation :: "'e externals_scheme \<Rightarrow> string \<Rightarrow> uuid \<Rightarrow> unit dbtx" where
  "cancel_operation x tenant_id job_id =
     tx_bind (tenant_operation tenant_id job_id) (cancel_read_operation x)"

subsection \<open>Sweeps over queued jobs\<close>

definition STALE_QUEUED_BATCH_SIZE :: nat where
  "STALE_QUEUED_BATCH_SIZE = 1000"

text \<open>A single guarded statement is its own transaction.\<close>

definition kill_queued_job :: "uuid \<Rightarrow> string \<Rightarrow> timestamp \<Rightarrow> database \<Rightarrow> database" where
  "kill_queued_job job_id error now = db_jobs_update (update_rows (queued_job job_id)
     (set_job_status JobStatus.Dead (Some error) now))"

definition stale_queued_jobs :: "timestamp \<Rightarrow> database \<Rightarrow> uuid list" where
  "stale_queued_jobs cutoff s = map jr_id (take STALE_QUEUED_BATCH_SIZE
     (sort_key (\<lambda>r. (jb_scheduled_at (jr_job r), jr_id r))
       (filter (\<lambda>r. jr_status r = JobStatus.Queued \<and> jb_scheduled_at (jr_job r) \<le> cutoff) (db_jobs s))))"

fun kill_each :: "uuid list \<Rightarrow> string \<Rightarrow> timestamp \<Rightarrow> database \<Rightarrow> nat \<times> database" where
  "kill_each [] error now s = (0, s)"
| "kill_each (i # is) error now s =
     (let (n, t) = kill_each is error now (kill_queued_job i error now s)
      in (rows_matching (queued_job i) (db_jobs s) + n, t))"

definition expire_stale_queued_jobs :: "'e externals_scheme \<Rightarrow> nat \<Rightarrow> database \<Rightarrow> (ApiError + nat) \<times> database" where
  "expire_stale_queued_jobs x max_age_seconds s =
     (if max_age_seconds = 0 then (Inr 0, s) else
      case utc_now s of
        Inl e \<Rightarrow> (Inl e, s)
      | Inr (now, s1) \<Rightarrow>
          let secs = (if int max_age_seconds \<le> i64_max then int max_age_seconds else i64_max) in
          (case chrono_add_seconds x now (- secs) of
             None \<Rightarrow> (Inl (internal ''task panicked''), s)
           | Some cutoff \<Rightarrow>
               let (n, t) = kill_each (stale_queued_jobs cutoff s1) ''queued job exceeded max age'' now s1
               in (Inr n, t)))"

definition dead_queued_snapshot_jobs_on_connection :: "uuid \<Rightarrow> string \<Rightarrow> nat dbtx" where
  "dead_queued_snapshot_jobs_on_connection snapshot_id error =
     (let P = (\<lambda>r. jb_kind (jr_job r) = JobKind.CreateSnapshot \<and> jr_status r = JobStatus.Queued
            \<and> ref_snapshot_id (jr_references r) = Some snapshot_id) in
      tx_bind utc_now (\<lambda>now.
      tx_bind (tx_read (\<lambda>s. rows_matching P (db_jobs s))) (\<lambda>affected.
      tx_bind (tx_write (db_jobs_update (update_rows P (set_job_status JobStatus.Dead (Some error) now)))) (\<lambda>_.
      tx_return affected))))"

definition source_archived_error :: string where
  "source_archived_error = ''snapshot source sandbox archived before claim''"

definition terminalize_snapshot_of_archived :: "'e externals_scheme \<Rightarrow> uuid \<times> uuid \<Rightarrow> unit dbtx" where
  "terminalize_snapshot_of_archived x ids =
     (let (snapshot_id, sandbox_id) = ids in
      tx_bind (dead_queued_snapshot_jobs_on_connection snapshot_id source_archived_error) (\<lambda>dead_jobs.
      if dead_jobs = 0 then tx_return () else
      tx_bind (fail_pending_snapshot_on_connection snapshot_id source_archived_error) (\<lambda>snapshot_failed.
      tx_bind (tx_when snapshot_failed (fail_sandboxes_waiting_on_snapshot_on_connection x snapshot_id
        ''snapshot_source_sandbox_archived'' source_archived_error)) (\<lambda>_.
      tx_bind (fetch_snapshot_on_connection snapshot_id) (\<lambda>snapshot.
      insert_event sandbox_id SandboxEventKind.LifecycleChanged (JObject
        [(''reason'', JString ''snapshot_job_terminalized_source_archived''), (''snapshotId'', js_uuid x (sn_id snapshot)),
         (''snapshotStatus'', JString (SnapshotStatus_as_db_str (sn_status snapshot))), (''jobCount'', JInt (int dead_jobs))]))))))"

definition ARCHIVED_SNAPSHOT_JOB_TERMINALIZATION_BATCH_SIZE :: nat where
  "ARCHIVED_SNAPSHOT_JOB_TERMINALIZATION_BATCH_SIZE = 100"

definition queued_snapshots_of_archived :: "database \<Rightarrow> (uuid \<times> uuid \<times> json) list" where
  "queued_snapshots_of_archived s = take ARCHIVED_SNAPSHOT_JOB_TERMINALIZATION_BATCH_SIZE
     [(sn_id n, sn_sandbox_id n, jb_payload (jr_job r)).
       r \<leftarrow> sort_key (\<lambda>r. (jb_created_at (jr_job r), jr_id r))
         (filter (\<lambda>r. jb_kind (jr_job r) = JobKind.CreateSnapshot \<and> jr_status r = JobStatus.Queued) (db_jobs s)),
       n \<leftarrow> db_snapshots s, ref_snapshot_id (jr_references r) = Some (sn_id n),
       b \<leftarrow> db_sandboxes s, sb_id b = sn_sandbox_id n, archiving_or_archived (sb_state b)]"

definition forks_archived_source :: "json \<Rightarrow> bool" where
  "forks_archived_source payload \<longleftrightarrow>
     Option.bind (Option.bind (json_get ''operation'' payload) (json_get ''kind'')) json_as_str = Some ''fork_sandbox''"

definition terminalize_queued_snapshot_jobs_for_archived_sandboxes ::
  "'e externals_scheme \<Rightarrow> database \<Rightarrow> (ApiError + unit) \<times> database" where
  "terminalize_queued_snapshot_jobs_for_archived_sandboxes x s =
     sweep (terminalize_snapshot_of_archived x) (map (\<lambda>(n, b, _). (n, b))
       (filter (\<lambda>(_, _, payload). \<not> forks_archived_source payload) (queued_snapshots_of_archived s))) s"

subsection \<open>Stopping a resident process\<close>

definition stop_resident_in_transaction ::
  "'e externals_scheme \<Rightarrow> string \<Rightarrow> uuid \<Rightarrow> timestamp \<Rightarrow> unit dbtx" where
  "stop_resident_in_transaction x tenant_id process_id now =
     tx_bind (tx_read (\<lambda>s. find (\<lambda>r. jb_tenant_id (jr_job r) = tenant_id
         \<and> jb_kind (jr_job r) = JobKind.RunResidentProcess \<and> jr_status r = JobStatus.Queued
         \<and> payload_str (jr_job r) ''residentProcessId'' = Some (uuid_to_string x process_id)) (db_jobs s))) (\<lambda>waiting.
     tx_bind (case waiting of
         None \<Rightarrow> tx_return False
       | Some r \<Rightarrow>
           tx_bind (tx_read (\<lambda>s. rows_matching (queued_job (jr_id r)) (db_jobs s))) (\<lambda>affected.
           tx_bind (tx_write (db_jobs_update (update_rows (queued_job (jr_id r))
             (set_job_status JobStatus.Succeeded None now)))) (\<lambda>_. tx_return (affected = 1)))) (\<lambda>stopped_before_claim.
     tx_write (db_residents_update (update_rows (\<lambda>r. rp_id r = process_id \<and> rp_tenant_id r = tenant_id)
       (\<lambda>r. r\<lparr>rp_desired_state := ResidentProcessDesiredState.Stopped,
         rp_observed_state := (if stopped_before_claim then ResidentProcessObservedState.Stopped else rp_observed_state r),
         rp_exit_code := (if stopped_before_claim then Some 0 else rp_exit_code r),
         rp_bootstrap_acknowledged_at := acknowledge_bootstrap now r, rp_updated_at := now\<rparr>)))))"

definition fetch_named_resident_process :: "database \<Rightarrow> uuid \<Rightarrow> string \<Rightarrow> ApiError + ResidentProcess" where
  "fetch_named_resident_process s sandbox_id process_name =
     ok_or (not_found ''resident process not found'')
       (find (\<lambda>r. rp_sandbox_id r = sandbox_id \<and> rp_name r = process_name) (db_residents s))"

text \<open>The transaction of the handler, and the response that it reads back after the commit.\<close>

definition stop_resident_process :: "'e externals_scheme \<Rightarrow> string \<Rightarrow> uuid \<Rightarrow> string \<Rightarrow> unit dbtx" where
  "stop_resident_process x tenant_id sandbox_id process_name =
     tx_bind (ensure_sandbox_tenant_on_connection sandbox_id tenant_id) (\<lambda>_.
     tx_bind (tx_read (\<lambda>s. fetch_named_resident_process s sandbox_id process_name)) (\<lambda>found.
     tx_bind (tx_lift found) (\<lambda>process.
     tx_bind (tx_lift (delivered_bootstrap_fence process)) (\<lambda>_.
     tx_bind utc_now (\<lambda>now.
     stop_resident_in_transaction x tenant_id (rp_id process) now)))))"

definition get_resident_process :: "database \<Rightarrow> string \<Rightarrow> uuid \<Rightarrow> string \<Rightarrow> ApiError + ResidentProcess" where
  "get_resident_process s tenant_id sandbox_id process_name =
     rbind (fetch_named_resident_process s sandbox_id process_name) (\<lambda>process.
     rbind (ensure (rp_tenant_id process = tenant_id) (not_found ''resident process not found'')) (\<lambda>_.
     Inr process))"

subsection \<open>Refreshing the placement of a queued job\<close>

definition validate_authoritative_placement_reference :: "'e externals_scheme \<Rightarrow> Job \<Rightarrow> ApiError + unit" where
  "validate_authoritative_placement_reference x job =
     (let key = (if jb_kind job = JobKind.ForkSandbox then ''childSandboxId'' else ''sandboxId'') in
      rbind (ok_or (bad_request (''job payload is missing '' @ key)) (payload_str job key)) (\<lambda>v.
      ensure (uuid_parse_str x v \<noteq> None) (bad_request (''job payload contains invalid '' @ key))))"

text \<open>
  A job whose placement cannot be established is terminalized; one whose payload was repaired is
  written back under the same guard.  The result says whether the job may still be claimed.
\<close>

definition authoritatively_refresh_job_placement :: "'e externals_scheme \<Rightarrow> Job \<Rightarrow> (bool \<times> Job) dbtx" where
  "authoritatively_refresh_job_placement x job =
     (if jb_kind job = JobKind.DeleteHome then tx_return (True, job) else
      tx_bind (tx_read (\<lambda>s. rbind (validate_authoritative_placement_reference x job)
        (\<lambda>_. enrich_job_payload_with_provision_spec x s job))) (\<lambda>enrichment. case enrichment of
        Inl error \<Rightarrow>
          if api_status error \<noteq> 400 \<and> api_status error \<noteq> 404 then tx_fail error else
          tx_bind utc_now (\<lambda>now.
          tx_bind (tx_write (kill_queued_job (jb_id job) ''authoritative_placement_unavailable'' now)) (\<lambda>_.
          tx_return (False, job)))
      | Inr (changed, job') \<Rightarrow>
          if \<not> changed then tx_return (True, job') else
          tx_bind utc_now (\<lambda>now.
          tx_bind (tx_read (\<lambda>s. rows_matching (queued_job (jb_id job)) (db_jobs s))) (\<lambda>affected.
          tx_bind (tx_write (db_jobs_update (update_rows (queued_job (jb_id job))
            (\<lambda>r. r\<lparr>jr_job := (jr_job r)\<lparr>jb_payload := jb_payload job',
               jb_required_execution_class := jb_required_execution_class job', jb_updated_at := now\<rparr>\<rparr>)))) (\<lambda>_.
          tx_return (affected = 1, job'))))))"

end
