(* ===== verification/Lease_Safety.thy ===== *)
theory Lease_Safety
  imports Stops
begin

section \<open>The lease protocol\<close>

text \<open>
  The contract of the job queue: a job is waiting, held by one lease, or finished, and it moves only
  along the arrows of \<open>phase_step\<close>.  Every operation of \<^theory_text>\<open>Leases\<close> and
  \<^theory_text>\<open>Stops\<close> is shown to refine it, as a frame over its transaction.
\<close>

subsection \<open>The specification\<close>

datatype job_phase = Absent | Waiting | Held uuid | Finished

inductive phase_step :: "job_phase \<Rightarrow> job_phase \<Rightarrow> bool" where
  submitted: "phase_step Absent Waiting"
| claimed: "phase_step Waiting (Held l)"
| retried: "phase_step (Held l) Waiting"
| settled: "phase_step (Held l) Finished"
| dropped: "phase_step Waiting Finished"

inductive_cases phase_step_from_finished: "phase_step Finished q"

definition phase_steps :: "job_phase \<Rightarrow> job_phase \<Rightarrow> bool" where
  "phase_steps = phase_step\<^sup>*\<^sup>*"

lemma phase_steps_refl [simp]: "phase_steps p p"
  by (simp add: phase_steps_def)

lemma phase_steps_trans: "phase_steps p q \<Longrightarrow> phase_steps q r \<Longrightarrow> phase_steps p r"
  by (simp add: phase_steps_def)

lemma phase_steps_single: "phase_step p q \<Longrightarrow> phase_steps p q"
  by (simp add: phase_steps_def r_into_rtranclp)

lemma finished_stays: "phase_steps Finished q \<Longrightarrow> q = Finished"
  unfolding phase_steps_def
  by (induction rule: rtranclp_induct) (auto elim: phase_step_from_finished)

subsection \<open>The abstraction\<close>

definition holders :: "lease_row list \<Rightarrow> uuid \<Rightarrow> uuid list" where
  "holders leases j = map ls_id (filter (\<lambda>l. ls_job_id l = j \<and> ls_status l = LeaseStatus.Active) leases)"

definition status_phase :: "JobStatus \<Rightarrow> uuid list \<Rightarrow> job_phase" where
  "status_phase st hs = (if st = JobStatus.Queued then Waiting
     else if st = JobStatus.Leased then Held (hd hs) else Finished)"

definition rows_phase :: "job_row list \<Rightarrow> lease_row list \<Rightarrow> uuid \<Rightarrow> job_phase" where
  "rows_phase jobs leases j = (case find (\<lambda>r. jr_id r = j) jobs of
     None \<Rightarrow> Absent
   | Some r \<Rightarrow> status_phase (jr_status r) (holders leases j))"

definition phase :: "database \<Rightarrow> uuid \<Rightarrow> job_phase" where
  "phase s j = rows_phase (db_jobs s) (db_leases s) j"

text \<open>
  The invariant: identifiers are unique, a lease is of a job, and a job has one active lease when its
  status is leased and none otherwise.  Where every claim acts on the current row of its job, the
  attempts of a job also count its leases, and stay within the attempts it allows.
\<close>

definition claims :: "lease_row list \<Rightarrow> uuid \<Rightarrow> nat" where
  "claims leases j = length (filter (\<lambda>l. ls_job_id l = j) leases)"

definition attempts_ok :: "Job \<Rightarrow> nat \<Rightarrow> bool" where
  "attempts_ok job n \<longleftrightarrow> jb_attempts job = int n
     \<and> (jb_status job = JobStatus.Queued \<longrightarrow> n = 0 \<or> jb_attempts job < jb_max_attempts job)
     \<and> int n \<le> max 1 (jb_max_attempts job)"

definition rows_inv :: "bool \<Rightarrow> job_row list \<Rightarrow> lease_row list \<Rightarrow> bool" where
  "rows_inv counted jobs leases \<longleftrightarrow> distinct (map jr_id jobs) \<and> distinct (map ls_id leases)
     \<and> (\<forall>l \<in> set leases. ls_job_id l \<in> jr_id ` set jobs)
     \<and> (\<forall>r \<in> set jobs. length (holders leases (jr_id r)) = (if jr_status r = JobStatus.Leased then 1 else 0))
     \<and> (counted \<longrightarrow> (\<forall>r \<in> set jobs. attempts_ok (jr_job r) (claims leases (jr_id r))))"

definition lease_inv :: "database \<Rightarrow> bool" where
  "lease_inv s \<longleftrightarrow> rows_inv False (db_jobs s) (db_leases s)"

definition counted_inv :: "database \<Rightarrow> bool" where
  "counted_inv s \<longleftrightarrow> rows_inv True (db_jobs s) (db_leases s)"

definition rows_frame :: "bool \<Rightarrow> job_row list \<Rightarrow> lease_row list \<Rightarrow> job_row list \<Rightarrow> lease_row list \<Rightarrow> bool" where
  "rows_frame c jobs leases jobs' leases' \<longleftrightarrow> (rows_inv c jobs leases \<longrightarrow>
     rows_inv c jobs' leases' \<and> (\<forall>j. phase_steps (rows_phase jobs leases j) (rows_phase jobs' leases' j)))"

definition lease_frame :: "bool \<Rightarrow> database \<Rightarrow> database \<Rightarrow> bool" where
  "lease_frame c s t \<longleftrightarrow> rows_frame c (db_jobs s) (db_leases s) (db_jobs t) (db_leases t)"

interpretation queue: tx_frame "lease_frame c" for c
proof
  show "lease_frame c s s" for s by (simp add: lease_frame_def rows_frame_def)
  show "lease_frame c s t \<Longrightarrow> lease_frame c t u \<Longrightarrow> lease_frame c s u" for s t u
    using phase_steps_trans by (simp add: lease_frame_def rows_frame_def) blast
qed

subsection \<open>Changes of the two tables\<close>

text \<open>What the invariant and the phase see of a row.\<close>

definition job_view :: "job_row \<Rightarrow> uuid \<times> JobStatus \<times> int \<times> int" where
  "job_view r = (jr_id r, jr_status r, jb_attempts (jr_job r), jb_max_attempts (jr_job r))"

definition lease_view :: "lease_row \<Rightarrow> uuid \<times> uuid \<times> LeaseStatus" where
  "lease_view l = (ls_id l, ls_job_id l, ls_status l)"

lemma holders_cong:
  assumes "map lease_view ls = map lease_view ms"
  shows "holders ls j = holders ms j" and "claims ls j = claims ms j"
  using assms
proof (induction ls arbitrary: ms)
  case (Cons l ls)
  { case 1 with Cons show ?case by (cases ms) (auto simp: holders_def lease_view_def) }
  { case 2 with Cons show ?case by (cases ms) (auto simp: claims_def lease_view_def) }
qed (simp_all add: holders_def claims_def)

lemma find_view_cong:
  assumes "map job_view js = map job_view ks"
  shows "map_option job_view (find (\<lambda>r. jr_id r = j) js) = map_option job_view (find (\<lambda>r. jr_id r = j) ks)"
  using assms
proof (induction js arbitrary: ks)
  case (Cons r js)
  then show ?case by (cases ks) (auto simp: job_view_def)
qed simp

lemma rows_phase_alt:
  "rows_phase jobs leases j = (case map_option job_view (find (\<lambda>r. jr_id r = j) jobs) of
     None \<Rightarrow> Absent | Some v \<Rightarrow> status_phase (fst (snd v)) (holders leases j))"
  by (simp add: rows_phase_def job_view_def split: option.splits)

lemma rows_inv_alt:
  "rows_inv c jobs leases \<longleftrightarrow> distinct (map fst (map job_view jobs)) \<and> distinct (map fst (map lease_view leases))
     \<and> (\<forall>v \<in> set (map lease_view leases). fst (snd v) \<in> fst ` set (map job_view jobs))
     \<and> (\<forall>v \<in> set (map job_view jobs). length (holders leases (fst v)) = (if fst (snd v) = JobStatus.Leased then 1 else 0))
     \<and> (c \<longrightarrow> (\<forall>v \<in> set (map job_view jobs). fst (snd (snd v)) = int (claims leases (fst v))
          \<and> (fst (snd v) = JobStatus.Queued \<longrightarrow> claims leases (fst v) = 0 \<or> fst (snd (snd v)) < snd (snd (snd v)))
          \<and> int (claims leases (fst v)) \<le> max 1 (snd (snd (snd v)))))"
  by (simp add: rows_inv_def comp_def image_image job_view_def lease_view_def attempts_ok_def)

lemma rows_frame_same:
  assumes "map job_view js' = map job_view js" and "map lease_view ls' = map lease_view ls"
  shows "rows_frame c js ls js' ls'"
proof -
  have "rows_inv c js' ls' \<longleftrightarrow> rows_inv c js ls"
    unfolding rows_inv_alt assms by (simp add: holders_cong [OF assms(2)])
  moreover have "rows_phase js' ls' j = rows_phase js ls j" for j
    unfolding rows_phase_alt find_view_cong [OF assms(1)] holders_cong [OF assms(2)] ..
  ultimately show ?thesis by (simp add: rows_frame_def)
qed

lemma find_key_update:
  assumes "\<And>r. P r \<Longrightarrow> key (f r) = key r"
  shows "find (\<lambda>r. key r = k) (update_rows P f rows) = map_option (\<lambda>r. if P r then f r else r) (find (\<lambda>r. key r = k) rows)"
  using assms by (induction rows) auto

lemma map_key_update:
  assumes "\<And>r. P r \<Longrightarrow> key (f r) = key r"
  shows "map key (update_rows P f rows) = map key rows"
  using assms by (auto simp: update_rows_def)

lemma find_append: "find P (xs @ ys) = (case find P xs of None \<Rightarrow> find P ys | Some x \<Rightarrow> Some x)"
  by (induction xs) auto

lemma find_key_in: "find (\<lambda>r. key r = k) rows = Some r \<Longrightarrow> r \<in> set rows \<and> key r = k"
  by (induction rows) (auto split: if_splits)

lemma find_key_none: "find (\<lambda>r. key r = k) rows = None \<longleftrightarrow> k \<notin> key ` set rows"
  by (induction rows) auto

abbreviation job_limits :: "job_row \<Rightarrow> uuid \<times> int \<times> int" where
  "job_limits r \<equiv> (jr_id r, jb_attempts (jr_job r), jb_max_attempts (jr_job r))"

lemma rows_frame_queued_settled:
  assumes P: "\<And>r. P r \<Longrightarrow> jr_status r = JobStatus.Queued"
    and limits: "\<And>r. P r \<Longrightarrow> job_limits (f r) = job_limits r"
    and st: "\<And>r. P r \<Longrightarrow> jr_status (f r) \<notin> {JobStatus.Queued, JobStatus.Leased}"
  shows "rows_frame c js ls (update_rows P f js) ls"
  unfolding rows_frame_def
proof (intro impI conjI allI)
  have f: "jr_id (f r) = jr_id r" if "P r" for r using limits [OF that] by simp
  assume inv: "rows_inv c js ls"
  have "attempts_ok (jr_job r) (claims ls (jr_id r))" if "r \<in> set (update_rows P f js)" c for r
  proof -
    from that obtain q where q: "q \<in> set js" "r = (if P q then f q else q)" by (auto simp: set_update_rows)
    have "attempts_ok (jr_job q) (claims ls (jr_id q))" using inv q(1) that(2) by (simp add: rows_inv_def)
    then show ?thesis using q P [of q] limits [of q] st [of q] by (cases "P q") (auto simp: attempts_ok_def)
  qed
  moreover have "length (holders ls (jr_id r)) = (if jr_status r = JobStatus.Leased then 1 else 0)"
    if "r \<in> set (update_rows P f js)" for r
  proof -
    from that obtain q where q: "q \<in> set js" "r = (if P q then f q else q)" by (auto simp: set_update_rows)
    have "length (holders ls (jr_id q)) = (if jr_status q = JobStatus.Leased then 1 else 0)"
      using inv q(1) by (simp add: rows_inv_def)
    then show ?thesis using q P f st by (cases "P q") auto
  qed
  moreover have ids: "map jr_id (update_rows P f js) = map jr_id js" by (rule map_key_update) (rule f)
  moreover have "jr_id ` set (update_rows P f js) = jr_id ` set js" using arg_cong [OF ids, of set] by simp
  ultimately show "rows_inv c (update_rows P f js) ls"
    using inv unfolding rows_inv_def by simp
  show "phase_steps (rows_phase js ls j) (rows_phase (update_rows P f js) ls j)" for j
  proof (cases "find (\<lambda>r. jr_id r = j) js")
    case (Some r)
    then show ?thesis
      using P [of r] st [of r]
      by (cases "P r") (auto simp: rows_phase_def find_key_update [of P jr_id f, OF f] status_phase_def
          intro: phase_steps_single dropped)
  qed (simp add: rows_phase_def find_key_update [of P jr_id f, OF f])
qed

lemma rows_frame_added:
  assumes new: "\<forall>r \<in> set new. jr_status r = JobStatus.Queued \<and> jb_attempts (jr_job r) = 0"
    and ids: "distinct (map jr_id js) \<Longrightarrow> distinct (map jr_id (js @ new))"
  shows "rows_frame c js ls (js @ new) ls"
  unfolding rows_frame_def
proof (intro impI conjI allI)
  assume inv: "rows_inv c js ls"
  have d: "distinct (map jr_id (js @ new))" using ids inv by (simp add: rows_inv_def)
  have none: "holders ls (jr_id r) = [] \<and> claims ls (jr_id r) = 0" if "r \<in> set new" for r
  proof -
    have fresh: "jr_id r \<notin> jr_id ` set js" using d that by auto
    have "ls_job_id l \<noteq> jr_id r" if "l \<in> set ls" for l
    proof -
      have "ls_job_id l \<in> jr_id ` set js" using inv that by (simp add: rows_inv_def)
      then show ?thesis using fresh by metis
    qed
    then show ?thesis by (simp add: holders_def claims_def filter_empty_conv)
  qed
  have "attempts_ok (jr_job r) 0" if "r \<in> set new" for r using new that by (auto simp: attempts_ok_def)
  with none show "rows_inv c (js @ new) ls"
    using inv d new unfolding rows_inv_def by auto
  show "phase_steps (rows_phase js ls j) (rows_phase (js @ new) ls j)" for j
  proof (cases "find (\<lambda>r. jr_id r = j) js")
    case None
    show ?thesis
    proof (cases "find (\<lambda>r. jr_id r = j) new")
      case (Some r)
      then have "jr_status r = JobStatus.Queued" using new find_key_in by fast
      then show ?thesis
        using None Some by (simp add: rows_phase_def find_append status_phase_def phase_steps_single submitted)
    qed (simp add: rows_phase_def find_append None)
  qed (simp add: rows_phase_def find_append)
qed

text \<open>A lease that ends gives its job back, or finishes it.\<close>

lemma holders_update_other:
  assumes "\<And>m. m \<in> set ls \<Longrightarrow> Q m \<Longrightarrow> ls_job_id m \<noteq> j" and "\<And>m. Q m \<Longrightarrow> ls_job_id (g m) = ls_job_id m"
  shows "holders (update_rows Q g ls) j = holders ls j"
  using assms by (induction ls) (auto simp: holders_def)

lemma holders_update_none:
  assumes "\<And>m. m \<in> set ls \<Longrightarrow> ls_job_id m = j \<Longrightarrow> ls_status m = LeaseStatus.Active \<Longrightarrow> Q m"
    and "\<And>m. Q m \<Longrightarrow> ls_status (g m) \<noteq> LeaseStatus.Active"
  shows "holders (update_rows Q g ls) j = []"
  using assms by (induction ls) (auto simp: holders_def)

lemma claims_update: "(\<And>m. Q m \<Longrightarrow> ls_job_id (g m) = ls_job_id m) \<Longrightarrow> claims (update_rows Q g ls) j = claims ls j"
  by (induction ls) (auto simp: claims_def)

lemma rows_frame_released:
  assumes l: "l \<in> set ls" "ls_status l = LeaseStatus.Active"
    and Q: "\<And>m. m \<in> set ls \<Longrightarrow> Q m \<longleftrightarrow> m = l"
    and g: "\<And>m. ls_id (g m) = ls_id m" "\<And>m. ls_job_id (g m) = ls_job_id m"
      "\<And>m. ls_status (g m) \<noteq> LeaseStatus.Active"
    and limits: "\<And>r. job_limits (f r) = job_limits r"
    and status: "\<And>r. jr_status (f r) = st" "st \<noteq> JobStatus.Leased"
    and again: "\<And>r. st = JobStatus.Queued \<Longrightarrow> r \<in> set js \<Longrightarrow> jr_id r = ls_job_id l
      \<Longrightarrow> jb_attempts (jr_job r) < jb_max_attempts (jr_job r)"
  shows "rows_frame c js ls (update_rows (\<lambda>r. jr_id r = ls_job_id l) f js) (update_rows Q g ls)"
  unfolding rows_frame_def
proof (intro impI conjI allI)
  have f: "jr_id (f r) = jr_id r" "jr_status (f r) = st" "st \<noteq> JobStatus.Leased" for r
    using limits [of r] status by simp_all
  assume inv: "rows_inv c js ls"
  let ?js = "update_rows (\<lambda>r. jr_id r = ls_job_id l) f js" and ?ls = "update_rows Q g ls"
  from inv l(1) obtain r where r: "r \<in> set js" "jr_id r = ls_job_id l" by (auto simp: rows_inv_def)
  have d: "distinct (map ls_id ls)" and dj: "distinct (map jr_id js)" using inv by (simp_all add: rows_inv_def)
  have "\<exists>m \<in> set ls. ls_job_id m = jr_id r \<and> ls_status m = LeaseStatus.Active"
    using l r by auto
  then have "length (holders ls (jr_id r)) \<noteq> 0" by (simp add: holders_def filter_empty_conv)
  then have held: "jr_status r = JobStatus.Leased" "length (holders ls (jr_id r)) = 1"
    using inv r(1) by (auto simp: rows_inv_def split: if_splits)
  have only: "m = l" if "m \<in> set ls" "ls_job_id m = ls_job_id l" "ls_status m = LeaseStatus.Active" for m
  proof -
    from held(2) obtain z where "filter (\<lambda>m. ls_job_id m = jr_id r \<and> ls_status m = LeaseStatus.Active) ls = [z]"
      by (auto simp: holders_def length_Suc_conv)
    from arg_cong [OF this, of set]
    have eq: "{m \<in> set ls. ls_job_id m = jr_id r \<and> ls_status m = LeaseStatus.Active} = {z}" by simp
    have "m \<in> {z}" "l \<in> {z}" unfolding eq [symmetric] using that l r by simp_all
    then show ?thesis by simp
  qed
  have none: "holders ?ls (ls_job_id l) = []"
    by (rule holders_update_none) (use Q only g in auto)
  have other: "holders ?ls j = holders ls j" if "j \<noteq> ls_job_id l" for j
    by (rule holders_update_other) (use Q that g in auto)
  have ids: "map jr_id ?js = map jr_id js" "map ls_id ?ls = map ls_id ls"
    using f g by (simp_all add: map_key_update)
  show "rows_inv c ?js ?ls"
    unfolding rows_inv_def ids
  proof (intro conjI ballI impI)
    show "attempts_ok (jr_job q) (claims ?ls (jr_id q))" if c "q \<in> set ?js" for q
    proof -
      from that obtain k where k: "k \<in> set js" "q = (if jr_id k = ls_job_id l then f k else k)"
        by (auto simp: set_update_rows)
      have "attempts_ok (jr_job k) (claims ls (jr_id k))" using inv k(1) that(1) by (simp add: rows_inv_def)
      then show ?thesis using k limits [of k] status again [of k]
        by (cases "jr_id k = ls_job_id l") (auto simp: attempts_ok_def claims_update g)
    qed
    show "ls_job_id m \<in> jr_id ` set ?js" if "m \<in> set ?ls" for m
    proof -
      from that obtain k where "k \<in> set ls" "ls_job_id m = ls_job_id k"
        using g(2) by (auto simp: set_update_rows split: if_splits)
      then show ?thesis using inv arg_cong [OF ids(1), of set] by (auto simp: rows_inv_def)
    qed
    show "length (holders ?ls (jr_id q)) = (if jr_status q = JobStatus.Leased then 1 else 0)" if "q \<in> set ?js" for q
    proof -
      from that obtain k where k: "k \<in> set js" "q = (if jr_id k = ls_job_id l then f k else k)"
        by (auto simp: set_update_rows)
      then show ?thesis using f inv none other by (cases "jr_id k = ls_job_id l") (auto simp: rows_inv_def)
    qed
  qed (use d dj in simp_all)
  show "phase_steps (rows_phase js ls j) (rows_phase ?js ?ls j)" for j
  proof (cases "j = ls_job_id l")
    case True
    have "find (\<lambda>q. jr_id q = j) js = Some r" using find_row [OF dj r(1), of j] r(2) True by simp
    then show ?thesis
      using held(1) f True r(2) by (auto simp: rows_phase_def find_key_update [where key = jr_id and f = f] f(1) status_phase_def
          intro: phase_steps_single retried settled)
  next
    case False
    then show ?thesis
      by (cases "find (\<lambda>q. jr_id q = j) js")
        (auto simp: rows_phase_def find_key_update [where key = jr_id and f = f] f(1) other dest: find_key_in)
  qed
qed

text \<open>A claim takes a waiting job.\<close>

lemma rows_frame_claimed:
  assumes some: "rows_matching (\<lambda>r. jr_id r = j \<and> jr_status r = JobStatus.Queued) js \<noteq> 0"
    and f: "\<And>r. jr_id (f r) = jr_id r" "\<And>r. jr_status (f r) = JobStatus.Leased"
      "\<And>r. jb_max_attempts (jr_job (f r)) = jb_max_attempts (jr_job r)"
    and current: "\<And>r. c \<Longrightarrow> r \<in> set js \<Longrightarrow> jr_id r = j \<Longrightarrow> jr_status r = JobStatus.Queued
      \<Longrightarrow> jb_attempts (jr_job (f r)) = jb_attempts (jr_job r) + 1"
    and l: "ls_job_id l = j" "ls_status l = LeaseStatus.Active" "ls_id l \<notin> ls_id ` set ls"
  shows "rows_frame c js ls (update_rows (\<lambda>r. jr_id r = j \<and> jr_status r = JobStatus.Queued) f js) (ls @ [l])"
  unfolding rows_frame_def
proof (intro impI conjI allI)
  assume inv: "rows_inv c js ls"
  let ?P = "\<lambda>r. jr_id r = j \<and> jr_status r = JobStatus.Queued"
  let ?js = "update_rows ?P f js" and ?ls = "ls @ [l]"
  from some obtain r where r: "r \<in> set js" "jr_id r = j" "jr_status r = JobStatus.Queued"
    using rows_matching_pos [of ?P js] by auto
  have d: "distinct (map ls_id ls)" and dj: "distinct (map jr_id js)" using inv by (simp_all add: rows_inv_def)
  have found: "find (\<lambda>q. jr_id q = j) js = Some r" using find_row [OF dj r(1), of j] r(2) by simp
  have free: "holders ls j = []" using inv r by (auto simp: rows_inv_def)
  have held: "holders ?ls k = (if k = j then [ls_id l] else holders ls k)" for k
    using l free by (auto simp: holders_def)
  have ids: "map jr_id ?js = map jr_id js" using f by (simp add: map_key_update)
  have same: "q = r" if "q \<in> set js" "jr_id q = j" for q
    using find_row [OF dj that(1), of j] that(2) found by simp
  show "rows_inv c ?js ?ls"
    unfolding rows_inv_def ids
  proof (intro conjI ballI impI)
    show "attempts_ok (jr_job q) (claims ?ls (jr_id q))" if c "q \<in> set ?js" for q
    proof -
      from that obtain k where k: "k \<in> set js" "q = (if ?P k then f k else k)" by (auto simp: set_update_rows)
      have ok: "attempts_ok (jr_job k) (claims ls (jr_id k))" using inv k(1) that(1) by (simp add: rows_inv_def)
      show ?thesis
      proof (cases "jr_id k = j")
        case True
        then have "?P k" using same [OF k(1)] r(3) by simp
        then show ?thesis using ok k f [of k] current [OF that(1) k(1)] l(1) by (auto simp: attempts_ok_def claims_def)
      next
        case False
        then show ?thesis using ok k l(1) by (simp add: claims_def)
      qed
    qed
    show "ls_job_id m \<in> jr_id ` set ?js" if "m \<in> set ?ls" for m
    proof -
      have "j \<in> jr_id ` set js" using r by blast
      then have "ls_job_id m \<in> jr_id ` set js" using that l(1) inv by (auto simp: rows_inv_def)
      then show ?thesis using arg_cong [OF ids, of set] by simp
    qed
    show "length (holders ?ls (jr_id q)) = (if jr_status q = JobStatus.Leased then 1 else 0)" if "q \<in> set ?js" for q
    proof -
      from that obtain k where k: "k \<in> set js" "q = (if ?P k then f k else k)" by (auto simp: set_update_rows)
      show ?thesis
      proof (cases "jr_id k = j")
        case True
        then have "?P k" using same [OF k(1)] r(3) by simp
        then show ?thesis using k(2) f held by simp
      next
        case False
        then show ?thesis using k inv held by (simp add: rows_inv_def)
      qed
    qed
  qed (use d dj l in simp_all)
  show "phase_steps (rows_phase js ls k) (rows_phase ?js ?ls k)" for k
  proof (cases "k = j")
    case True
    then show ?thesis
      using found r f held by (simp add: rows_phase_def find_key_update [where key = jr_id and f = f] f(1) status_phase_def
          phase_steps_single claimed)
  next
    case False
    then show ?thesis
      by (cases "find (\<lambda>q. jr_id q = k) js")
        (auto simp: rows_phase_def find_key_update [where key = jr_id and f = f] f(1) held dest: find_key_in)
  qed
qed

subsection \<open>Effects leave the leases alone\<close>

text \<open>The effects of a job only add waiting jobs to the queue.\<close>

definition adds_queued :: "database \<Rightarrow> database \<Rightarrow> bool" where
  "adds_queued s t \<longleftrightarrow> db_leases t = db_leases s
     \<and> (\<exists>new. db_jobs t = db_jobs s @ new \<and> (\<forall>r \<in> set new. jr_status r = JobStatus.Queued \<and> jb_attempts (jr_job r) = 0)
        \<and> (distinct (map jr_id (db_jobs s)) \<longrightarrow> distinct (map jr_id (db_jobs t))))"

lemma adds_queued_same: "db_jobs t = db_jobs s \<Longrightarrow> db_leases t = db_leases s \<Longrightarrow> adds_queued s t"
  by (simp add: adds_queued_def)

interpretation grows: tx_frame adds_queued
proof
  show "adds_queued s s" for s by (simp add: adds_queued_same)
  show "adds_queued s t \<Longrightarrow> adds_queued t u \<Longrightarrow> adds_queued s u" for s t u
    by (force simp: adds_queued_def)
qed

lemma grows_basic:
  "tx_rel adds_queued utc_now" "tx_rel adds_queued uuid_new"
  by (auto simp: tx_rel_def utc_now_Inr uuid_new_Inr intro: adds_queued_same)

lemma grows_output: "tx_rel adds_queued (on_output f)"
  unfolding on_output_def by (intro grows.frame_rules grows.update adds_queued_same) simp_all

lemma grows_event: "tx_rel adds_queued (insert_event i k d)"
  unfolding insert_event_def by (intro grows.frame_rules grows_basic grows_output)

lemma grows_fetch:
  "tx_rel adds_queued (fetch_sandbox_on_connection i)" "tx_rel adds_queued (ensure_sandbox_tenant_on_connection i t)"
  "tx_rel adds_queued (fetch_snapshot_on_connection n)" "tx_rel adds_queued (fetch_runtime_resource_on_connection n)"
  unfolding fetch_sandbox_on_connection_def ensure_sandbox_tenant_on_connection_def fetch_snapshot_on_connection_def
    fetch_runtime_resource_on_connection_def
  by (intro grows.frame_rules)+

lemma grows_state: "tx_rel adds_queued (set_sandbox_state_on_connection i from to d)"
  unfolding set_sandbox_state_on_connection_def Let_def
  by (intro grows.frame_rules grows_basic grows_event grows.update adds_queued_same) simp_all

lemma grows_insert_job:
  assumes "jb_status job = JobStatus.Queued" "jb_attempts job = 0"
  shows "tx_rel adds_queued (insert_job_on_connection x job)"
    and "tx_rel adds_queued (insert_job_on_connection_if_absent x job)"
proof -
  have sel: "jr_job (new_job_row job refs b) = job" for refs b by (simp add: new_job_row_def)
  have row: "jb_id job \<notin> jr_id ` set rs" if "\<not> list_ex (jobs_index_conflict (new_job_row job refs b)) rs" for refs b rs
    using that by (auto simp: list_ex_iff jobs_index_conflict_def sel)
  have added: "adds_queued s (db_jobs_update (\<lambda>rs. rs @ [new_job_row job refs b]) s)"
    if "\<not> list_ex (jobs_index_conflict (new_job_row job refs b)) (db_jobs s)" for refs b s
    using row [OF that] assms by (simp add: adds_queued_def sel)
  show "tx_rel adds_queued (insert_job_on_connection x job)"
    by (rule tx_relI) (auto simp: insert_job_on_connection_def tx_bind_Inr tx_lift_Inr Let_def
        intro: added split: if_splits)
  show "tx_rel adds_queued (insert_job_on_connection_if_absent x job)"
    by (rule tx_relI) (auto simp: insert_job_on_connection_if_absent_def tx_bind_Inr tx_lift_Inr Let_def
        intro: added adds_queued_same split: if_splits)
qed


lemma grows_resources:
  "tx_rel adds_queued (upsert_provider_runtime_resource_on_connection p observed reconciled t)"
  "tx_rel adds_queued (upsert_provider_runtime_resources_on_connection ps tenant)"
  "tx_rel adds_queued (mark_runtime_resources_deleted_for_sandbox_on_connection i g d e)"
proof -
  show one: "tx_rel adds_queued (upsert_provider_runtime_resource_on_connection p observed reconciled t)"
    for p observed reconciled t
    unfolding upsert_provider_runtime_resource_on_connection_def Let_def
      update_runtime_resource_from_provider_on_connection_def insert_runtime_resource_from_provider_on_connection_def
      fetch_runtime_resource_id_on_connection_def
    by (intro grows.frame_rules grows.update grows_basic grows_fetch adds_queued_same) simp_all
  show "tx_rel adds_queued (upsert_provider_runtime_resources_on_connection ps tenant)"
  proof (cases ps)
    case (Cons p qs)
    then show ?thesis
      unfolding upsert_provider_runtime_resources_on_connection_def Cons list.case
      by (intro grows.frame_rules grows_basic grows_fetch one)
  qed (simp add: upsert_provider_runtime_resources_on_connection_def grows.return)
  show "tx_rel adds_queued (mark_runtime_resources_deleted_for_sandbox_on_connection i g d e)"
    unfolding mark_runtime_resources_deleted_for_sandbox_on_connection_def Let_def
    by (intro grows.frame_rules grows.update adds_queued_same) simp_all
qed

lemma grows_pool_tables:
  "tx_rel adds_queued (update_memberships P f)" "tx_rel adds_queued (update_cells Q g)"
  unfolding update_memberships_def update_cells_def
  by (intro grows.frame_rules grows.update adds_queued_same; simp)+

lemma grows_quarantine:
  "tx_rel adds_queued (quarantine_pool_cell_record_on_connection c)"
  "tx_rel adds_queued (mark_pool_cleanup_pending_on_connection c reason b)"
  "tx_rel adds_queued (quarantine_pool_cell_on_connection c reason)"
  unfolding mark_pool_cleanup_pending_on_connection_def quarantine_pool_cell_on_connection_def
    quarantine_pool_cell_record_on_connection_def
  by (intro grows.frame_rules grows_basic grows_pool_tables)+

lemma grows_pool:
  "tx_rel adds_queued (quarantine_failed_pool_job_on_connection x job e)"
  "tx_rel adds_queued (admit_provisioned_cell_on_connection x job)"
  "tx_rel adds_queued (complete_pool_stop_on_connection x job)"
proof -
  show "tx_rel adds_queued (quarantine_failed_pool_job_on_connection x job e)"
    unfolding quarantine_failed_pool_job_on_connection_def
    by (intro grows.frame_rules grows_quarantine)
  show "tx_rel adds_queued (admit_provisioned_cell_on_connection x job)"
    unfolding admit_provisioned_cell_on_connection_def Let_def
    by (intro grows.frame_rules grows_basic grows_pool_tables grows.update adds_queued_same) simp_all
  show "tx_rel adds_queued (complete_pool_stop_on_connection x job)"
    unfolding complete_pool_stop_on_connection_def Let_def
    by (intro grows.frame_rules grows_basic grows_pool_tables grows_quarantine)
qed

lemmas grows_steps = grows_basic grows_output grows_event grows_fetch grows_state grows_resources grows_pool

lemma grows_small:
  "tx_rel adds_queued draw_append_env" "tx_rel adds_queued (append_chunk x c b st chunk)"
  "tx_rel adds_queued (append_completion x c b st chunk)" "tx_rel adds_queued (finish_command c status code)"
  "tx_rel adds_queued (fetch_sandbox_file_metadata_on_connection b f)"
  "tx_rel adds_queued (delete_sandbox_file_if_present_on_connection b f)"
  "tx_rel adds_queued (delete_sandbox_file_on_connection b f)"
  "tx_rel adds_queued (mark_home_delete_failed_on_connection h e)"
  "tx_rel adds_queued (set_restore_source_status n ss)"
  "tx_rel adds_queued (update_snapshot_status_on_connection n ss err)"
  "tx_rel adds_queued (fetch_sandbox_if_kept b)"
  "tx_rel adds_queued (fail_sandboxes_waiting_on_snapshot_on_connection x n reason e)"
  unfolding append_chunk_def append_completion_def finish_command_def draw_append_env_def
    fetch_sandbox_file_metadata_on_connection_def delete_sandbox_file_on_connection_def
    delete_sandbox_file_if_present_on_connection_def mark_home_delete_failed_on_connection_def
    update_snapshot_status_on_connection_def set_restore_source_status_def fetch_sandbox_if_kept_def
    fail_sandboxes_waiting_on_snapshot_on_connection_def
  by (intro grows.frame_rules grows_steps grows.update adds_queued_same; simp)+

lemma grows_bind_value:
  assumes "tx_rel adds_queued m" and "tx_value P m" and "\<And>x. P x \<Longrightarrow> tx_rel adds_queued (k x)"
  shows "tx_rel adds_queued (tx_bind m k)"
proof (rule tx_relI)
  fix s y t
  assume "tx_bind m k s = Inr (y, t)"
  then obtain z u where "m s = Inr (z, u)" "k z u = Inr (y, t)" by (auto simp: tx_bind_Inr)
  then show "adds_queued s t"
    using assms grows.frame_trans unfolding tx_value_def by (blast dest: tx_relD)
qed

lemma provision_spec_status:
  "add_provision_spec_to_payload x job sandbox mounts = Inr job'
     \<Longrightarrow> jb_status job' = jb_status job \<and> jb_attempts job' = jb_attempts job"
  by (auto simp: add_provision_spec_to_payload_def add_provision_spec_to_payload_with_identity_def split: json.splits)

lemma grows_queue:
  "tx_rel adds_queued (queue_forks_waiting_on_snapshot_on_connection x n b)"
  "tx_rel adds_queued (enqueue_archived_runtime_cleanup_on_connection x sandbox payload reason)"
proof -
  show "tx_rel adds_queued (queue_forks_waiting_on_snapshot_on_connection x n b)"
    unfolding queue_forks_waiting_on_snapshot_on_connection_def
    by (intro grows.frame_rules grows_steps grows_insert_job) simp_all
  show "tx_rel adds_queued (enqueue_archived_runtime_cleanup_on_connection x sandbox payload reason)"
    unfolding enqueue_archived_runtime_cleanup_on_connection_def Let_def
    by (intro grows.bind grows.cond grows.read grows.return grows_basic
        grows_bind_value [where P = "\<lambda>job. jb_status job = JobStatus.Queued \<and> jb_attempts job = 0"] grows.option_case grows.lift
        grows_insert_job)
      (auto simp: tx_value_def tx_bind_Inr tx_lift_Inr dest: provision_spec_status split: option.splits)
qed

lemma grows_snapshot_ready:
  "tx_rel adds_queued (mark_snapshot_ready_from_provider_handle_on_connection x b t handle)"
  unfolding mark_snapshot_ready_from_provider_handle_on_connection_def Let_def
  by (intro grows.frame_rules grows_steps grows_small grows_queue grows.update adds_queued_same) simp_all

lemma grows_arms:
  "tx_rel adds_queued (complete_resident_process x job p g c)" "tx_rel adds_queued (complete_command x job r)"
  "tx_rel adds_queued (complete_materialization x job receipt)" "tx_rel adds_queued (complete_apex_instructions x job ai)"
  "tx_rel adds_queued (complete_snapshot x job nh)" "tx_rel adds_queued (complete_prompt x job out)"
  "tx_rel adds_queued (complete_fork x job fh)" "tx_rel adds_queued (complete_provision x job sh)"
  "tx_rel adds_queued (complete_stop x job b receipt')" "tx_rel adds_queued (complete_resume x job uh)"
  "tx_rel adds_queued (complete_delete_home x job h)"
  unfolding complete_resident_process_def complete_command_def complete_materialization_def
    complete_apex_instructions_def complete_snapshot_def complete_prompt_def complete_fork_def
    complete_provision_def complete_stop_def complete_resume_def complete_delete_home_def Let_def
  by (intro grows.frame_rules grows_steps grows_small grows_queue grows_snapshot_ready grows.update adds_queued_same; simp)+

lemma grows_completed: "tx_rel adds_queued (apply_completed_job_on_connection x job result)"
  unfolding apply_completed_job_on_connection_def
  by (cases "jb_kind job"; cases result) (simp_all add: grows_arms grows.fail)

lemma grows_residents:
  "tx_rel adds_queued (retry_resident_process x job e)" "tx_rel adds_queued (fail_resident_process x job e)"
  "tx_rel adds_queued (fail_command x job e)"
  unfolding retry_resident_process_def fail_resident_process_def fail_command_def
  by (intro grows.frame_rules grows_steps grows_small grows.update adds_queued_same; simp)+

lemma grows_claimed: "tx_rel adds_queued (apply_claimed_job_on_connection x job)"
  unfolding apply_claimed_job_on_connection_def
  by (cases "jb_kind job"; simp only: JobKind.case; intro grows.frame_rules grows_steps grows_small)

lemma grows_retryable: "tx_rel adds_queued (apply_retryable_job_on_connection x job e)"
  unfolding apply_retryable_job_on_connection_def
  by (cases "jb_kind job"; simp only: JobKind.case; intro grows.frame_rules grows_steps grows_small grows_residents)

lemma grows_failed: "tx_rel adds_queued (apply_failed_job_on_connection x job e)"
  unfolding apply_failed_job_on_connection_def
  by (cases "jb_kind job"; simp only: JobKind.case; intro grows.frame_rules grows_steps grows_small grows_residents
      grows.update adds_queued_same) simp_all

subsection \<open>Frames of the lease operations\<close>

lemma rows_frame_trans:
  "rows_frame c js ls js1 ls1 \<Longrightarrow> rows_frame c js1 ls1 js2 ls2 \<Longrightarrow> rows_frame c js ls js2 ls2"
  using phase_steps_trans by (simp add: rows_frame_def) blast

lemma rows_frameI: "(rows_inv c js ls \<Longrightarrow> rows_frame c js ls js' ls') \<Longrightarrow> rows_frame c js ls js' ls'"
  by (simp add: rows_frame_def)

lemma lease_frame_grows: "adds_queued s t \<Longrightarrow> lease_frame c s t"
proof -
  assume "adds_queued s t"
  then obtain new where ls: "db_leases t = db_leases s" and js: "db_jobs t = db_jobs s @ new"
    and new: "\<forall>r \<in> set new. jr_status r = JobStatus.Queued \<and> jb_attempts (jr_job r) = 0"
    and ids: "distinct (map jr_id (db_jobs s)) \<longrightarrow> distinct (map jr_id (db_jobs t))"
    by (auto simp: adds_queued_def)
  show "lease_frame c s t"
    unfolding lease_frame_def ls js by (rule rows_frame_added [OF new]) (use ids js in simp)
qed

lemma lease_frame_rel: "tx_rel adds_queued m \<Longrightarrow> tx_rel (lease_frame c) m"
  by (auto simp: tx_rel_def intro: lease_frame_grows)

definition same_queue :: "database \<Rightarrow> database \<Rightarrow> bool" where
  "same_queue s t \<longleftrightarrow> db_jobs t = db_jobs s \<and> db_leases t = db_leases s"

interpretation stable: tx_frame same_queue
  by unfold_locales (simp_all add: same_queue_def)

lemma stable_tail:
  "tx_rel same_queue (record_terminal_slo_observation lease b now)"
  "tx_rel same_queue (resolve_captured_worker_drain_fence_on_connection lease' r now)"
  unfolding record_terminal_slo_observation_def resolve_captured_worker_drain_fence_on_connection_def Let_def
  by (intro stable.frame_rules stable.update; simp add: same_queue_def)+

lemma released_frame:
  assumes l: "l \<in> set (db_leases s)"
    and some: "rows_matching (\<lambda>m. active_lease (ls_id l) m \<and> E m) (db_leases s) \<noteq> 0"
    and g: "\<And>m. ls_id (g m) = ls_id m" "\<And>m. ls_job_id (g m) = ls_job_id m"
      "\<And>m. ls_status (g m) \<noteq> LeaseStatus.Active"
    and st: "st \<noteq> JobStatus.Leased"
    and again: "\<And>r. st = JobStatus.Queued \<Longrightarrow> r \<in> set (db_jobs s) \<Longrightarrow> jr_id r = ls_job_id l
      \<Longrightarrow> jb_attempts (jr_job r) < jb_max_attempts (jr_job r)"
    and t: "db_leases t = update_rows (\<lambda>m. active_lease (ls_id l) m \<and> E m) g (db_leases s)"
      "db_jobs t = update_rows (\<lambda>r. jr_id r = ls_job_id l) (set_job_status st e now) (db_jobs s)"
  shows "lease_frame c s t"
  unfolding lease_frame_def t
proof (rule rows_frameI)
  assume "rows_inv c (db_jobs s) (db_leases s)"
  then have d: "distinct (map ls_id (db_leases s))" by (simp add: rows_inv_def)
  from some have "0 < rows_matching (\<lambda>m. active_lease (ls_id l) m \<and> E m) (db_leases s)" by simp
  then obtain m where m: "m \<in> set (db_leases s)" "active_lease (ls_id l) m" "E m"
    unfolding rows_matching_pos by blast
  have same: "k = l" if "k \<in> set (db_leases s)" "ls_id k = ls_id l" for k
  proof -
    have "find (\<lambda>q. ls_id q = ls_id l) (db_leases s) = Some k" by (rule find_row [OF d that])
    moreover have "find (\<lambda>q. ls_id q = ls_id l) (db_leases s) = Some l" by (rule find_row [OF d l refl])
    ultimately show ?thesis by simp
  qed
  have ml: "m = l" using same m by (simp add: active_lease_def)
  show "rows_frame c (db_jobs s) (db_leases s)
     (update_rows (\<lambda>r. jr_id r = ls_job_id l) (set_job_status st e now) (db_jobs s))
     (update_rows (\<lambda>m. active_lease (ls_id l) m \<and> E m) g (db_leases s))"
  proof (rule rows_frame_released [where st = st])
    show "ls_status l = LeaseStatus.Active" using m ml by (simp add: active_lease_def)
    show "active_lease (ls_id l) k \<and> E k \<longleftrightarrow> k = l" if "k \<in> set (db_leases s)" for k
      using same [OF that] m ml by (auto simp: active_lease_def)
  qed (use l g st again in \<open>simp_all add: set_job_status_def\<close>)
qed

lemma lookup_lease_row:
  "lookup_lease s i = Some lease \<Longrightarrow> jl_lease lease \<in> set (db_leases s) \<and> ls_id (jl_lease lease) = i"
  by (auto simp: lookup_lease_def bind_eq_Some_conv dest: find_key_in)

lemma lookup_lease_job:
  "lookup_lease s i = Some lease \<Longrightarrow> jb_id (jl_job lease) = ls_job_id (jl_lease lease)"
  by (auto simp: lookup_lease_def bind_eq_Some_conv dest: find_key_in)

lemma rows_inv_distinct: "rows_inv c js ls \<Longrightarrow> distinct (map jr_id js)"
  by (simp add: rows_inv_def)

lemma lookup_job_unique:
  assumes "distinct (map jr_id (db_jobs s))" and "lookup_lease s i = Some lease"
    and "r \<in> set (db_jobs s)" and "jr_id r = ls_job_id (jl_lease lease)"
  shows "jr_job r = jl_job lease"
proof -
  from assms(2) obtain q where q: "find (\<lambda>r. jr_id r = ls_job_id (jl_lease lease)) (db_jobs s) = Some q" "jl_job lease = jr_job q"
    by (auto simp: lookup_lease_def bind_eq_Some_conv)
  moreover have "find (\<lambda>r. jr_id r = ls_job_id (jl_lease lease)) (db_jobs s) = Some r"
    by (rule find_row [OF assms(1,3,4)])
  ultimately show ?thesis by simp
qed

lemmas lookup_lease_current = lookup_job_unique [OF rows_inv_distinct]

lemma lease_frameI: "(rows_inv c (db_jobs s) (db_leases s) \<Longrightarrow> lease_frame c s t) \<Longrightarrow> lease_frame c s t"
  by (simp add: lease_frame_def rows_frame_def)

lemma update_leases_Inr:
  "update_leases P f s = Inr (n, t) \<longleftrightarrow> n = rows_matching P (db_leases s) \<and> t = db_leases_update (update_rows P f) s"
  by (auto simp: update_leases_def)

text \<open>The tail of an ending: the job's status is set once, among effects that only add waiting jobs.\<close>

definition settles :: "uuid \<Rightarrow> bool \<Rightarrow> database \<Rightarrow> database \<Rightarrow> bool" where
  "settles j again s t \<longleftrightarrow> (\<exists>st e now u. st \<noteq> JobStatus.Leased \<and> (st = JobStatus.Queued \<longrightarrow> again) \<and> adds_queued s u
     \<and> adds_queued (db_jobs_update (update_rows (\<lambda>r. jr_id r = j) (set_job_status st e now)) u) t)"

lemma settlesI:
  "adds_queued s u \<Longrightarrow> update_job_status_on_connection j st e now u = Inr (v, w) \<Longrightarrow> adds_queued w t
     \<Longrightarrow> st \<noteq> JobStatus.Leased \<Longrightarrow> (st = JobStatus.Queued \<Longrightarrow> again) \<Longrightarrow> settles j again s t"
  unfolding settles_def by (rule exI [of _ st], rule exI [of _ e], rule exI [of _ now], rule exI [of _ u])
    (auto simp: update_job_status_on_connection_def)

lemma settles_same_queue: "settles j again s t \<Longrightarrow> same_queue t u \<Longrightarrow> settles j again s u"
proof -
  assume "settles j again s t" and same: "same_queue t u"
  then obtain st e now v where *: "st \<noteq> JobStatus.Leased" "adds_queued s v"
    "st = JobStatus.Queued \<longrightarrow> again" "adds_queued (db_jobs_update (update_rows (\<lambda>r. jr_id r = j) (set_job_status st e now)) v) t"
    by (auto simp: settles_def)
  have "adds_queued t u" using same by (simp add: same_queue_def adds_queued_same)
  with *(4) have "adds_queued (db_jobs_update (update_rows (\<lambda>r. jr_id r = j) (set_job_status st e now)) v) u"
    by (rule grows.frame_trans)
  with * show "settles j again s u" unfolding settles_def by blast
qed

lemma same_queue_adds: "same_queue s t \<Longrightarrow> adds_queued s t"
  by (simp add: same_queue_def adds_queued_same)

lemma ended_frame:
  assumes l: "l \<in> set (db_leases s)"
    and some: "rows_matching (\<lambda>m. active_lease (ls_id l) m \<and> E m) (db_leases s) \<noteq> 0"
    and g: "\<And>m. ls_id (g m) = ls_id m" "\<And>m. ls_job_id (g m) = ls_job_id m"
      "\<And>m. ls_status (g m) \<noteq> LeaseStatus.Active"
    and s1: "db_leases s1 = update_rows (\<lambda>m. active_lease (ls_id l) m \<and> E m) g (db_leases s)" "db_jobs s1 = db_jobs s"
    and tail: "settles (ls_job_id l) k s1 t"
    and again: "\<And>r. rows_inv c (db_jobs s) (db_leases s) \<Longrightarrow> k \<Longrightarrow> r \<in> set (db_jobs s) \<Longrightarrow> jr_id r = ls_job_id l
      \<Longrightarrow> jb_attempts (jr_job r) < jb_max_attempts (jr_job r)"
  shows "lease_frame c s t"
proof (rule lease_frameI)
  assume inv: "rows_inv c (db_jobs s) (db_leases s)"
  from tail obtain st e now u where st: "st \<noteq> JobStatus.Leased" "st = JobStatus.Queued \<longrightarrow> k" and u: "adds_queued s1 u"
    and t: "adds_queued (db_jobs_update (update_rows (\<lambda>r. jr_id r = ls_job_id l) (set_job_status st e now)) u) t"
    by (auto simp: settles_def)
  let ?s' = "s\<lparr>db_jobs := db_jobs u\<rparr>"
    and ?u' = "db_jobs_update (update_rows (\<lambda>r. jr_id r = ls_job_id l) (set_job_status st e now)) u"
  have "adds_queued s ?s'" using u s1(2) by (simp add: adds_queued_def)
  then have "lease_frame c s ?s'" by (rule lease_frame_grows)
  moreover have "jb_attempts (jr_job r) < jb_max_attempts (jr_job r)"
    if "st = JobStatus.Queued" "r \<in> set (db_jobs u)" "jr_id r = ls_job_id l" for r
  proof -
    from u inv s1(2) obtain new where new: "db_jobs u = db_jobs s @ new" "distinct (map jr_id (db_jobs s @ new))"
      by (auto simp: adds_queued_def rows_inv_def)
    have "ls_job_id l \<in> jr_id ` set (db_jobs s)" using inv l by (simp add: rows_inv_def)
    moreover have "jr_id ` set (db_jobs s) \<inter> jr_id ` set new = {}" using new(2) by simp
    ultimately have "r \<notin> set new" unfolding that(3) [symmetric] by blast
    then have "r \<in> set (db_jobs s)" using new(1) that(2) by simp
    then show ?thesis using again [OF inv] st(2) that by simp
  qed
  then have "lease_frame c ?s' ?u'"
    by (intro released_frame [of l _ E g st]) (use l some g st(1) s1 u in \<open>simp_all add: adds_queued_def\<close>)
  moreover have "lease_frame c ?u' t" using t by (rule lease_frame_grows)
  ultimately show "lease_frame c s t" by (blast intro: queue.frame_trans)
qed

lemma complete_active_frame:
  assumes l: "jl_lease lease \<in> set (db_leases s)"
    and run: "complete_active x lease result fp s = Inr (r, t)"
  shows "lease_frame c s t"
proof -
  let ?l = "jl_lease lease"
  from run [unfolded complete_active_def tx_bind_Inr] obtain now s0 s1 s2 s3 s4 s5 u1 u2 u3 u4 u5 where
    now: "utc_now s = Inr (now, s0)"
    and ended: "complete_active_lease_on_connection (ls_id ?l) now fp s0 = Inr (u1, s1)"
    and effect: "apply_completed_job_on_connection x (jl_job lease) result s1 = Inr (u2, s2)"
    and job: "update_job_status_on_connection (ls_job_id ?l) JobStatus.Succeeded None now s2 = Inr (u3, s3)"
    and slo: "record_terminal_slo_observation lease (completion_successful result) now s3 = Inr (u4, s4)"
    and fence: "resolve_captured_worker_drain_fence_on_connection lease ''completed'' now s4 = Inr (u5, s5)"
    and ret: "tx_return (completed_lease lease now) s5 = Inr (r, t)"
    by (elim exE conjE) (rule that)
  have "same_queue s3 t"
    using tx_relD [OF stable_tail(1) slo] tx_relD [OF stable_tail(2) fence] ret by (simp add: same_queue_def)
  with tx_relD [OF grows_completed effect] job have "settles (ls_job_id ?l) False s1 t"
    by (auto intro: settlesI same_queue_adds)
  moreover have "rows_matching (active_lease (ls_id ?l)) (db_leases s) \<noteq> 0"
    and "s1 = db_leases_update (update_rows (active_lease (ls_id ?l)) (\<lambda>l. l\<lparr>ls_status := LeaseStatus.Completed,
      ls_completed_at := Some now, ls_error := None, ls_completion_fingerprint := Some fp\<rparr>)) s0"
    using now ended by (auto simp: complete_active_lease_on_connection_def tx_bind_Inr update_leases_Inr tx_ensure_Inr utc_now_Inr)
  ultimately show ?thesis
    using now by (intro ended_frame [of ?l s "\<lambda>_. True"]) (use l in \<open>simp_all add: utc_now_Inr\<close>)
qed

lemma retry_or_fail_settles:
  assumes "retry_or_fail x lease retry terminal e now s = Inr (u, t)" and "terminal \<noteq> JobStatus.Leased"
    and "terminal \<noteq> JobStatus.Queued" and "retry \<Longrightarrow> jb_attempts (jl_job lease) < jb_max_attempts (jl_job lease)"
  shows "settles (ls_job_id (jl_lease lease)) (jb_attempts (jl_job lease) < jb_max_attempts (jl_job lease)) s t"
proof (cases retry)
  case True
  with assms(1) obtain v w where
    job: "update_job_status_on_connection (ls_job_id (jl_lease lease)) JobStatus.Queued (Some e) now s = Inr (v, w)"
    and effect: "apply_retryable_job_on_connection x (jl_job lease) e w = Inr (u, t)"
    unfolding retry_or_fail_def by (simp add: tx_bind_Inr) blast
  then show ?thesis
    using settlesI [OF grows.frame_refl job tx_relD [OF grows_retryable effect]] assms(4) True by simp
next
  case False
  with assms(1) obtain v w v' w' where
    job: "update_job_status_on_connection (ls_job_id (jl_lease lease)) terminal (Some e) now s = Inr (v, w)"
    and effect: "apply_failed_job_on_connection x (jl_job lease) e w = Inr (v', w')"
    and slo: "record_terminal_slo_observation lease False now w' = Inr (u, t)"
    unfolding retry_or_fail_def by (simp add: tx_bind_Inr) blast
  have "adds_queued w t"
    using tx_relD [OF grows_failed effect] same_queue_adds [OF tx_relD [OF stable_tail(1) slo]]
    by (rule grows.frame_trans)
  then show ?thesis using settlesI [OF grows.frame_refl job] assms(2,3) by simp
qed

lemma stable_residents:
  "tx_rel same_queue (resident_rows_match x P job)" "tx_rel same_queue (resident_bootstrap_was_delivered x job)"
  "tx_rel same_queue (retry_granted x job b)"
  unfolding resident_rows_match_def retry_granted_def resident_bootstrap_was_delivered_def
  by (intro stable.frame_rules)+

lemma fail_active_frame:
  assumes look: "lookup_lease s i = Some lease"
    and run: "fail_active x lease retry_requested e s = Inr (r, t)"
  shows "lease_frame c s t"
proof -
  let ?l = "jl_lease lease" and ?again = "jb_attempts (jl_job lease) < jb_max_attempts (jl_job lease)"
  have l: "?l \<in> set (db_leases s)" using lookup_lease_row [OF look] by simp
  from run [unfolded fail_active_def Let_def tx_bind_Inr] obtain now s0 s1 s2 s3 s4 u1 retry u3 u4 where
    now: "utc_now s = Inr (now, s0)"
    and ended: "fail_active_lease_on_connection (ls_id ?l) now e s0 = Inr (u1, s1)"
    and granted: "retry_granted x (jl_job lease) retry_requested s1 = Inr (retry, s2)"
    and effect: "retry_or_fail x lease retry JobStatus.Failed e now s2 = Inr (u3, s3)"
    and fence: "resolve_captured_worker_drain_fence_on_connection
       (failed_lease lease (if retry then JobStatus.Queued else JobStatus.Failed) now e) ''failed'' now s3 = Inr (u4, s4)"
    and ret: "tx_return (failed_lease lease (if retry then JobStatus.Queued else JobStatus.Failed) now e) s4 = Inr (r, t)"
    by (elim exE conjE) (rule that)
  from tx_relD [OF stable_residents(3) granted] have s2: "same_queue s1 s2" .
  have "retry \<Longrightarrow> ?again" using granted by (auto simp: retry_granted_def split: if_splits)
  then have "settles (ls_job_id ?l) ?again s2 s3" by (intro retry_or_fail_settles [OF effect]) simp_all
  then have "settles (ls_job_id ?l) ?again s2 t"
    by (rule settles_same_queue) (use tx_relD [OF stable_tail(2) fence] ret in simp)
  moreover have "rows_matching (active_lease (ls_id ?l)) (db_leases s) \<noteq> 0"
    and "s1 = db_leases_update (update_rows (active_lease (ls_id ?l)) (\<lambda>l. l\<lparr>ls_status := LeaseStatus.Failed,
      ls_completed_at := Some now, ls_error := Some e\<rparr>)) s0"
    using now ended by (auto simp: fail_active_lease_on_connection_def tx_bind_Inr update_leases_Inr tx_ensure_Inr utc_now_Inr)
  ultimately show ?thesis
    using now s2 by (intro ended_frame [of ?l s "\<lambda>_. True" _ s2 ?again])
      (use l lookup_lease_current [OF _ look] in \<open>simp_all add: utc_now_Inr same_queue_def\<close>)
qed

lemma settle_expired_settles:
  assumes run: "settle_expired_lease x lease now s = Inr (u, t)"
    and job: "jb_id (jl_job lease) = ls_job_id (jl_lease lease)"
  shows "settles (ls_job_id (jl_lease lease)) (jb_attempts (jl_job lease) < jb_max_attempts (jl_job lease)) s t"
proof -
  let ?j = "jl_job lease"
  from run [unfolded settle_expired_lease_def Let_def tx_bind_Inr [where m = "resident_process_desires_stop x ?j"]]
  obtain stop s1 where wants: "resident_process_desires_stop x ?j s = Inr (stop, s1)"
    and rest: "(if stop then
        tx_bind (tx_lift (resident_process_id_from_job x ?j)) (\<lambda>process_id.
        tx_bind (tx_lift (job_generation ?j)) (\<lambda>generation.
        tx_bind (apply_completed_job_on_connection x ?j (RunResidentProcessResult process_id generation (Some 0))) (\<lambda>_.
        update_job_status_on_connection (jb_id ?j) JobStatus.Succeeded None now)))
      else
        tx_bind (resident_bootstrap_was_delivered x ?j) (\<lambda>delivered.
        retry_or_fail x lease (\<not> (jb_max_attempts ?j \<le> jb_attempts ?j \<or> delivered)) JobStatus.Dead
          ''lease expired'' now)) s1 = Inr (u, t)"
    by (elim exE conjE) (rule that)
  have s1: "adds_queued s s1"
    by (rule same_queue_adds) (rule tx_relD [OF stable_residents(1) wants [unfolded resident_process_desires_stop_def]])
  show ?thesis
  proof (cases stop)
    case True
    with rest obtain p g v w where
      effect: "apply_completed_job_on_connection x ?j (RunResidentProcessResult p g (Some 0)) s1 = Inr (v, w)"
      and fin: "update_job_status_on_connection (jb_id ?j) JobStatus.Succeeded None now w = Inr (u, t)"
      by (auto simp: tx_bind_Inr tx_lift_Inr)
    have "adds_queued s w" using s1 tx_relD [OF grows_completed effect] by (rule grows.frame_trans)
    then show ?thesis using settlesI [OF _ fin [unfolded job] grows.frame_refl] by simp
  next
    case False
    with rest obtain delivered w where
      reads: "resident_bootstrap_was_delivered x ?j s1 = Inr (delivered, w)"
      and effect: "retry_or_fail x lease (\<not> (jb_max_attempts ?j \<le> jb_attempts ?j \<or> delivered)) JobStatus.Dead
          ''lease expired'' now w = Inr (u, t)"
      by (auto simp: tx_bind_Inr)
    have "adds_queued s w"
      using s1 same_queue_adds [OF tx_relD [OF stable_residents(2) reads]] by (rule grows.frame_trans)
    moreover have "settles (ls_job_id (jl_lease lease)) (jb_attempts ?j < jb_max_attempts ?j) w t"
      by (rule retry_or_fail_settles [OF effect]) simp_all
    ultimately show ?thesis unfolding settles_def using grows.frame_trans by blast
  qed
qed

lemma fetch_lease_Inr:
  "fetch_lease_on_connection i s = Inr (lease, t) \<longleftrightarrow> lookup_lease s i = Some lease \<and> t = s"
  by (auto simp: fetch_lease_on_connection_def tx_bind_Inr tx_lift_Inr ok_or_def split: option.splits)

lemma lock_worker_Inr:
  "lock_worker_for_lease_terminalization_on_connection w s = Inr (u, t) \<Longrightarrow> t = s"
  by (auto simp: lock_worker_for_lease_terminalization_on_connection_def tx_ensure_Inr)

lemma active_lease_unique:
  "distinct (map ls_id ls) \<Longrightarrow> rows_matching (\<lambda>l. active_lease i l \<and> E l) ls \<le> 1"
proof (induction ls)
  case (Cons l ls)
  have "rows_matching (\<lambda>l. active_lease i l \<and> E l) ls = 0" if "ls_id l = i"
  proof -
    have "ls_id m \<noteq> i" if "m \<in> set ls" for m
      using Cons.prems \<open>ls_id l = i\<close> that by (metis distinct.simps(2) image_eqI list.set_map list.simps(9))
    then show ?thesis by (auto simp: rows_matching_def active_lease_def filter_empty_conv)
  qed
  then show ?case using Cons by (auto simp: rows_matching_def active_lease_def)
qed (simp add: rows_matching_def)

lemma expire_frame: "tx_rel (lease_frame c) (expire_lease_if_still_active x i now)"
proof (rule tx_relI)
  fix s u t
  assume run: "expire_lease_if_still_active x i now s = Inr (u, t)"
  let ?E = "\<lambda>l. ls_expires_at l \<le> now"
  let ?g = "\<lambda>l. l\<lparr>ls_status := LeaseStatus.Expired, ls_completed_at := Some now, ls_error := Some ''lease expired''\<rparr>"
  from run obtain won s1 where
    cas: "expire_active_lease_on_connection i now ''lease expired'' s = Inr (won, s1)"
    and rest: "(if \<not> won then tx_return () else
     tx_bind (fetch_lease_on_connection i) (\<lambda>lease.
     tx_bind (resolve_captured_worker_drain_fence_on_connection lease ''expired'' now) (\<lambda>_.
     settle_expired_lease x lease now))) s1 = Inr (u, t)"
    unfolding expire_lease_if_still_active_def tx_bind_Inr [where m = "fetch_lease_on_connection i"]
      tx_bind_Inr [where m = "lock_worker_for_lease_terminalization_on_connection _"]
      tx_bind_Inr [where m = "expire_active_lease_on_connection _ _ _"]
    by (auto simp: fetch_lease_Inr dest!: lock_worker_Inr)
  have won: "won \<longleftrightarrow> rows_matching (\<lambda>l. active_lease i l \<and> ?E l) (db_leases s) = 1"
    and s1: "s1 = db_leases_update (update_rows (\<lambda>l. active_lease i l \<and> ?E l) ?g) s"
    using cas by (auto simp: expire_active_lease_on_connection_def tx_bind_Inr update_leases_Inr)
  show "lease_frame c s t"
  proof (cases won)
    case False
    with rest have t: "t = s1" by simp
    show ?thesis
      unfolding lease_frame_def
    proof (rule rows_frameI)
      assume "rows_inv c (db_jobs s) (db_leases s)"
      then have "rows_matching (\<lambda>l. active_lease i l \<and> ?E l) (db_leases s) \<le> 1"
        by (intro active_lease_unique) (simp add: rows_inv_def)
      with False won have "rows_matching (\<lambda>l. active_lease i l \<and> ?E l) (db_leases s) = 0" by simp
      then have "db_leases t = db_leases s" by (simp add: t s1 update_rows_none)
      then show "rows_frame c (db_jobs s) (db_leases s) (db_jobs t) (db_leases t)"
        by (intro rows_frame_same) (simp_all add: t s1)
    qed
  next
    case True
    with rest obtain lease s2 v where look: "lookup_lease s1 i = Some lease"
      and fence: "resolve_captured_worker_drain_fence_on_connection lease ''expired'' now s1 = Inr (v, s2)"
      and tail: "settle_expired_lease x lease now s2 = Inr (u, t)"
      by (auto simp: tx_bind_Inr fetch_lease_Inr)
    from lookup_lease_row [OF look] obtain m where m: "m \<in> set (db_leases s)" "ls_id m = i"
      "ls_job_id (jl_lease lease) = ls_job_id m"
      unfolding s1 by (auto simp: set_update_rows split: if_splits)
    from settle_expired_settles [OF tail lookup_lease_job [OF look]]
    have "settles (ls_job_id m) (jb_attempts (jl_job lease) < jb_max_attempts (jl_job lease)) s2 t" by (simp add: m(3))
    moreover have "jr_job r = jl_job lease"
      if "rows_inv c (db_jobs s) (db_leases s)" "r \<in> set (db_jobs s)" "jr_id r = ls_job_id m" for r
      by (rule lookup_job_unique [OF _ look]) (use that m(3) in \<open>simp_all add: s1 rows_inv_def\<close>)
    ultimately show ?thesis
      using tx_relD [OF stable_tail(2) fence] True won
      by (intro ended_frame [of m s ?E ?g s2 "jb_attempts (jl_job lease) < jb_max_attempts (jl_job lease)"])
        (simp_all add: m s1 same_queue_def)
  qed
qed

lemma lease_frame_same_queue: "same_queue s t \<Longrightarrow> lease_frame c s t"
  by (rule lease_frame_grows) (rule same_queue_adds)

lemma lease_frame_stable: "tx_rel same_queue m \<Longrightarrow> tx_rel (lease_frame c) m"
  by (auto simp: tx_rel_def intro: lease_frame_same_queue)

lemma stable_replay: "tx_rel same_queue (replays_clean_stop x lease result)"
  unfolding replays_clean_stop_def resident_process_is_cleanly_stopped_def
  by (cases result; simp only: WorkerJobResult.case; intro stable.frame_rules stable_residents)

lemma complete_frame: "tx_rel (lease_frame c) (complete_lease_in_transaction x i result)"
proof (rule tx_relI)
  fix s r t
  assume run: "complete_lease_in_transaction x i result s = Inr (r, t)"
  then obtain fp lease where look: "lookup_lease s i = Some lease"
    and rest: "(if ls_status (jl_lease lease) = LeaseStatus.Completed then
       (case ls_completion_fingerprint (jl_lease lease) of
          Some stored \<Rightarrow> if stored = fp then tx_return lease
            else tx_fail (bad_request ''lease is already completed with a different result'')
        | None \<Rightarrow> tx_fail (conflict_code ''completion_replay_unavailable''
            ''completed lease predates persisted completion evidence''))
     else
       tx_bind (replays_clean_stop x lease result) (\<lambda>replayed.
       if replayed then tx_return lease else
       tx_bind (tx_ensure (ls_status (jl_lease lease) = LeaseStatus.Active)
         (bad_request ''lease is already terminal with a different outcome'')) (\<lambda>_.
       complete_active x lease result fp))) s = Inr (r, t)"
    unfolding complete_lease_in_transaction_def tx_bind_Inr [where m = "fetch_lease_on_connection i"]
      tx_bind_Inr [where m = "lock_worker_for_lease_terminalization_on_connection _"]
      tx_bind_Inr [where m = "tx_lift _"]
    by (auto simp: fetch_lease_Inr tx_lift_Inr dest!: lock_worker_Inr)
  show "lease_frame c s t"
  proof (cases "ls_status (jl_lease lease) = LeaseStatus.Completed")
    case True
    then have "t = s" using rest by (auto split: option.splits if_splits)
    then show ?thesis by (simp add: queue.frame_refl)
  next
    case False
    with rest obtain replayed s1 where rep: "replays_clean_stop x lease result s = Inr (replayed, s1)"
      and tail: "(if replayed then tx_return lease else
       tx_bind (tx_ensure (ls_status (jl_lease lease) = LeaseStatus.Active)
         (bad_request ''lease is already terminal with a different outcome'')) (\<lambda>_.
       complete_active x lease result fp)) s1 = Inr (r, t)"
      by (auto simp: tx_bind_Inr)
    from tx_relD [OF stable_replay rep] have s1: "same_queue s s1" .
    have "lease_frame c s1 t"
    proof (cases replayed)
      case False
      with tail have "complete_active x lease result fp s1 = Inr (r, t)" by (simp split: if_splits)
      then show ?thesis
        using lookup_lease_row [OF look] s1 by (intro complete_active_frame) (simp_all add: same_queue_def)
    qed (use tail in \<open>simp add: queue.frame_refl\<close>)
    with lease_frame_same_queue [OF s1] show ?thesis by (rule queue.frame_trans)
  qed
qed

lemma fail_frame: "tx_rel (lease_frame c) (fail_lease_in_transaction x i retry e)"
proof (rule tx_relI)
  fix s r t
  assume run: "fail_lease_in_transaction x i retry e s = Inr (r, t)"
  then obtain lease where look: "lookup_lease s i = Some lease"
    and rest: "(if ls_status (jl_lease lease) = LeaseStatus.Failed then tx_return lease else
     tx_bind (tx_ensure (ls_status (jl_lease lease) = LeaseStatus.Active)
       (bad_request ''lease is already terminal with a different outcome'')) (\<lambda>_.
     fail_active x lease retry e)) s = Inr (r, t)"
    unfolding fail_lease_in_transaction_def tx_bind_Inr [where m = "fetch_lease_on_connection i"]
      tx_bind_Inr [where m = "lock_worker_for_lease_terminalization_on_connection _"]
    by (auto simp: fetch_lease_Inr dest!: lock_worker_Inr)
  show "lease_frame c s t"
  proof (cases "ls_status (jl_lease lease) = LeaseStatus.Failed")
    case False
    with rest have "fail_active x lease retry e s = Inr (r, t)" by (simp split: if_splits)
    then show ?thesis by (rule fail_active_frame [OF look])
  qed (use rest in \<open>simp add: queue.frame_refl\<close>)
qed

text \<open>A claim: the compare-and-set on the job and the insertion of the lease are one change.\<close>

lemma stable_claim_guards:
  "tx_rel same_queue (lock_worker_for_claim_on_connection w)"
  "tx_rel same_queue (lock_apex_instruction_placement_on_connection x worker job)"
  "tx_rel same_queue (recheck_sterile_resident_activation_on_connection x job)"
proof -
  have basic: "tx_rel same_queue utc_now" by (auto simp: tx_rel_def utc_now_Inr same_queue_def)
  show "tx_rel same_queue (lock_worker_for_claim_on_connection w)"
    "tx_rel same_queue (lock_apex_instruction_placement_on_connection x worker job)"
    "tx_rel same_queue (recheck_sterile_resident_activation_on_connection x job)"
    unfolding lock_worker_for_claim_on_connection_def lock_apex_instruction_placement_on_connection_def
      recheck_sterile_resident_activation_on_connection_def
    by (intro stable.frame_rules basic)+
qed

lemma grows_claim_tail:
  "tx_rel adds_queued (bind_sandbox_placement_on_connection x job worker)"
  "tx_rel adds_queued (record_claim_operation w operation i)"
  "tx_rel adds_queued (start_resident_process x job i now)"
proof -
  show "tx_rel adds_queued (bind_sandbox_placement_on_connection x job worker)"
    unfolding bind_sandbox_placement_on_connection_def Let_def
    by (cases "jb_kind job"; simp only: JobKind.case;
        intro grows.frame_rules grows_basic grows.update adds_queued_same) simp_all
  show "tx_rel adds_queued (record_claim_operation w operation i)"
    "tx_rel adds_queued (start_resident_process x job i now)"
    unfolding record_claim_operation_def start_resident_process_def Let_def
    by (intro grows.frame_rules grows.update adds_queued_same; simp)+
qed

lemma take_queued_Inr:
  "take_queued_job j attempt now s = Inr (b, t) \<longleftrightarrow>
     b = (rows_matching (\<lambda>r. jr_id r = j \<and> jr_status r = JobStatus.Queued) (db_jobs s) \<noteq> 0)
     \<and> t = db_jobs_update (update_rows (\<lambda>r. jr_id r = j \<and> jr_status r = JobStatus.Queued) (claim_job_row attempt now)) s"
  by (auto simp: take_queued_job_def Let_def)

lemma insert_lease_Inr:
  "insert_lease_on_connection l s = Inr (u, t) \<longleftrightarrow>
     ls_id l \<notin> ls_id ` set (db_leases s) \<and> t = db_leases_update (\<lambda>ls. ls @ [l]) s"
proof -
  have "list_ex (\<lambda>k. ls_id k = ls_id l) (db_leases s) \<longleftrightarrow> ls_id l \<in> ls_id ` set (db_leases s)"
    unfolding list_ex_iff image_iff by metis
  then show ?thesis by (auto simp: insert_lease_on_connection_def split: if_splits)
qed

lemma grows_claim_effects: "tx_rel adds_queued (claim_effects x worker lease operation now)"
  unfolding claim_effects_def Let_def by (intro grows.frame_rules grows_claim_tail grows_claimed)

lemma grant_lease_rows:
  assumes "grant_lease x worker job now expires operation s = Inr (lease, t)"
  obtains s1 where "db_jobs s1 = db_jobs s" "db_leases s1 = db_leases s @ [jl_lease lease]"
    "ls_id (jl_lease lease) \<notin> ls_id ` set (db_leases s)" "ls_job_id (jl_lease lease) = jb_id job"
    "ls_status (jl_lease lease) = LeaseStatus.Active" "adds_queued s1 t"
proof -
  from assms [unfolded grant_lease_def Let_def tx_bind_Inr]
  obtain i s0 u1 s1 u2 s2 where i: "uuid_new s = Inr (i, s0)"
    and ins: "insert_lease_on_connection (jl_lease \<lparr>jl_lease = new_lease i worker job (jb_attempts job + 1) now expires,
           jl_job = job\<lparr>jb_status := JobStatus.Leased, jb_attempts := jb_attempts job + 1, jb_updated_at := now\<rparr>\<rparr>) s0 = Inr (u1, s1)"
    and eff: "claim_effects x worker \<lparr>jl_lease = new_lease i worker job (jb_attempts job + 1) now expires,
           jl_job = job\<lparr>jb_status := JobStatus.Leased, jb_attempts := jb_attempts job + 1, jb_updated_at := now\<rparr>\<rparr>
           operation now s1 = Inr (u2, s2)"
    and ret: "tx_return \<lparr>jl_lease = new_lease i worker job (jb_attempts job + 1) now expires,
           jl_job = job\<lparr>jb_status := JobStatus.Leased, jb_attempts := jb_attempts job + 1, jb_updated_at := now\<rparr>\<rparr> s2 = Inr (lease, t)"
    by (elim exE conjE) (rule that)
  have l: "jl_lease lease = new_lease i worker job (jb_attempts job + 1) now expires" and t: "t = s2"
    using ret by auto
  show thesis
    by (rule that [of s1]) (use i ins tx_relD [OF grows_claim_effects eff] in
        \<open>simp_all add: l t insert_lease_Inr uuid_new_Inr new_lease_def\<close>)
qed

definition current_claim :: "Job \<Rightarrow> database \<Rightarrow> bool" where
  "current_claim job s \<longleftrightarrow> list_all (\<lambda>r. jr_id r = jb_id job \<and> jr_status r = JobStatus.Queued
     \<longrightarrow> jb_attempts (jr_job r) = jb_attempts job) (db_jobs s)"

definition claim_frame_ok :: "bool \<Rightarrow> Job \<Rightarrow> 'a dbtx \<Rightarrow> bool" where
  "claim_frame_ok c job m \<longleftrightarrow>
     (\<forall>s r t. m s = Inr (r, t) \<longrightarrow> (c \<longrightarrow> current_claim job s) \<longrightarrow> lease_frame c s t)"

lemma claim_frame_rules:
  "claim_frame_ok c job (tx_return a)"
  "(b \<Longrightarrow> claim_frame_ok c job m) \<Longrightarrow> (\<not> b \<Longrightarrow> claim_frame_ok c job n) \<Longrightarrow> claim_frame_ok c job (if b then m else n)"
  by (auto simp: claim_frame_ok_def queue.frame_refl)

lemma claim_frame_guard:
  assumes "tx_rel same_queue m" and "\<And>y. claim_frame_ok c job (k y)"
  shows "claim_frame_ok c job (tx_bind m k)"
  unfolding claim_frame_ok_def
proof (intro allI impI)
  fix s r t
  assume "tx_bind m k s = Inr (r, t)" and current: "c \<longrightarrow> current_claim job s"
  then obtain y u where "same_queue s u" "k y u = Inr (r, t)"
    using assms(1) by (auto simp: tx_bind_Inr dest: tx_relD)
  moreover from this(1) current have "c \<longrightarrow> current_claim job u" by (simp add: same_queue_def current_claim_def)
  ultimately show "lease_frame c s t"
    using assms(2) lease_frame_same_queue queue.frame_trans unfolding claim_frame_ok_def by blast
qed

lemma lease_queued_frame: "claim_frame_ok c job (lease_queued_job x worker job secs operation)"
  unfolding claim_frame_ok_def
proof (intro allI impI)
  fix s r t
  assume run: "lease_queued_job x worker job secs operation s = Inr (r, t)" and current: "c \<longrightarrow> current_claim job s"
  from run [unfolded lease_queued_job_def tx_bind_Inr [where m = utc_now] tx_bind_Inr [where m = "tx_lift _"]
      tx_bind_Inr [where m = "take_queued_job _ _ _"] tx_lift_Inr]
  obtain now s0 taken s1 expires where now: "utc_now s = Inr (now, s0)"
    and cas: "take_queued_job (jb_id job) (jb_attempts job + 1) now s0 = Inr (taken, s1)"
    and rest: "(if \<not> taken then tx_return None else
     tx_bind (grant_lease x worker job now expires operation) (\<lambda>lease. tx_return (Some lease))) s1 = Inr (r, t)"
    by (elim exE conjE) simp
  let ?P = "\<lambda>r. jr_id r = jb_id job \<and> jr_status r = JobStatus.Queued"
  let ?f = "claim_job_row (jb_attempts job + 1) now"
  from cas now have taken: "taken \<longleftrightarrow> rows_matching ?P (db_jobs s) \<noteq> 0"
    and s1: "db_jobs s1 = update_rows ?P ?f (db_jobs s)" "db_leases s1 = db_leases s"
    by (simp_all add: take_queued_Inr utc_now_Inr)
  show "lease_frame c s t"
  proof (cases taken)
    case False
    with rest taken s1 have "same_queue s t" by (simp add: update_rows_none same_queue_def)
    then show ?thesis by (rule lease_frame_same_queue)
  next
    case True
    with rest obtain lease where grant: "grant_lease x worker job now expires operation s1 = Inr (lease, t)"
      by (auto simp: tx_bind_Inr)
    from grant_lease_rows [OF grant] obtain s2 where s2: "db_jobs s2 = db_jobs s1" "db_leases s2 = db_leases s1 @ [jl_lease lease]"
      "ls_id (jl_lease lease) \<notin> ls_id ` set (db_leases s1)" "ls_job_id (jl_lease lease) = jb_id job"
      "ls_status (jl_lease lease) = LeaseStatus.Active" "adds_queued s2 t" .
    have "lease_frame c s s2"
      unfolding lease_frame_def s2 s1
      by (rule rows_frame_claimed)
        (use True taken s1 s2 current in \<open>simp_all add: claim_job_row_def current_claim_def list_all_iff\<close>)
    with lease_frame_grows [OF s2(6)] show ?thesis by (blast intro: queue.frame_trans)
  qed
qed

lemma claim_frame: "claim_frame_ok c job (claim_in_transaction x worker job secs operation)"
  unfolding claim_in_transaction_def
  by (intro claim_frame_rules claim_frame_guard stable_claim_guards stable.read lease_queued_frame)

text \<open>Renewals, drains and cancellation marks keep the identity and the status of a lease.\<close>

declare job_view_def [simp] lease_view_def [simp]

lemma lease_frame_rows:
  assumes "map job_view (db_jobs t) = map job_view (db_jobs s)" and "map lease_view (db_leases t) = map lease_view (db_leases s)"
  shows "lease_frame c s t"
  unfolding lease_frame_def by (rule rows_frame_same [OF assms])

lemma lease_frame_leases:
  assumes "\<And>l. lease_view (f l) = lease_view l"
  shows "lease_frame c s (db_leases_update (update_rows P f) s)"
  by (rule lease_frame_rows) (use assms in \<open>simp_all add: update_rows_def\<close>)

lemma lease_frame_jobs:
  assumes "\<And>r. job_view (f r) = job_view r"
  shows "lease_frame c s (db_jobs_update (update_rows P f) s)"
  by (rule lease_frame_rows) (use assms in \<open>simp_all add: update_rows_def\<close>)

lemma lease_frame_queued_settled:
  assumes "\<And>r. P r \<Longrightarrow> jr_status r = JobStatus.Queued" and "\<And>r. P r \<Longrightarrow> job_limits (f r) = job_limits r"
    and "\<And>r. P r \<Longrightarrow> jr_status (f r) \<notin> {JobStatus.Queued, JobStatus.Leased}"
  shows "lease_frame c s (db_jobs_update (update_rows P f) s)"
  using rows_frame_queued_settled [of P f c "db_jobs s" "db_leases s", OF assms] by (simp add: lease_frame_def)

lemma lease_frame_basic: "tx_rel (lease_frame c) utc_now" "tx_rel (lease_frame c) uuid_new"
  by (rule lease_frame_rel [OF grows_basic(1)], rule lease_frame_rel [OF grows_basic(2)])

lemma lease_frame_other:
  assumes "db_jobs (f s) = db_jobs s" and "db_leases (f s) = db_leases s"
  shows "lease_frame c s (f s)"
  using assms by (intro lease_frame_same_queue) (simp add: same_queue_def)

lemma update_leases_frame:
  assumes "\<And>l. lease_view (f l) = lease_view l"
  shows "tx_rel (lease_frame c) (update_leases P f)"
  unfolding update_leases_def by (intro queue.frame_rules queue.update lease_frame_leases assms)

lemma renew_frame: "tx_rel (lease_frame c) (renew_in_transaction x l secs)"
  unfolding renew_in_transaction_def
  by (intro queue.frame_rules lease_frame_basic update_leases_frame) simp

lemma drain_frame: "tx_rel (lease_frame c) (drain_in_transaction x tenant_id worker_id request)"
  unfolding drain_in_transaction_def open_drain_def lock_worker_for_lease_terminalization_on_connection_def Let_def
  by (intro queue.frame_rules queue.update lease_frame_basic lease_frame_leases lease_frame_other) simp_all

lemma fence_frames:
  "tx_rel (lease_frame c) (resolve_worker_drain_fence i l r now)" "tx_rel (lease_frame c) (resolve_fence_of f now)"
  "tx_rel (lease_frame c) (drain_without_receipt w)" "tx_rel (lease_frame c) (reconcile_worker_liveness x)"
  unfolding resolve_fence_of_def resolve_worker_drain_fence_def drain_without_receipt_def reconcile_worker_liveness_def
  by (intro queue.frame_rules queue.update lease_frame_basic lease_frame_other; simp)+

lemma set_job_status_row [simp]:
  "jr_id (set_job_status st e now r) = jr_id r" "jr_status (set_job_status st e now r) = st"
  "jb_attempts (jr_job (set_job_status st e now r)) = jb_attempts (jr_job r)"
  "jb_max_attempts (jr_job (set_job_status st e now r)) = jb_max_attempts (jr_job r)"
  by (simp_all add: set_job_status_def)

lemma quarantine_frame: "tx_rel (lease_frame c) (quarantine_invalid_sterile_resident_job x job)"
  unfolding quarantine_invalid_sterile_resident_job_def Let_def
  by (intro queue.frame_rules queue.update lease_frame_basic lease_frame_queued_settled lease_frame_other) simp_all

lemma terminalize_frame:
  "tx_rel (lease_frame c) (terminalize_invalid_sterile_resident_job_before_filtering x job)"
  unfolding terminalize_invalid_sterile_resident_job_before_filtering_def
  by (intro queue.frame_rules quarantine_frame stable_claim_guards [THEN lease_frame_stable])

text \<open>Stops, cancellations and the sweeps over queued jobs.\<close>

lemma cancel_job_row_simps [simp]:
  "jr_id (cancel_job_row reason now r) = jr_id r" "jr_status (cancel_job_row reason now r) = JobStatus.Cancelled"
  "jb_attempts (jr_job (cancel_job_row reason now r)) = jb_attempts (jr_job r)"
  "jb_max_attempts (jr_job (cancel_job_row reason now r)) = jb_max_attempts (jr_job r)"
  by (simp_all add: cancel_job_row_def)

lemma fence_work_frame: "tx_rel (lease_frame c) (fence_sandbox_work tenant_id b now)"
  unfolding fence_sandbox_work_def
  by (intro queue.frame_rules queue.update lease_frame_other lease_frame_queued_settled lease_frame_leases) simp_all

lemma stop_frame: "tx_rel (lease_frame c) (stop_sandbox_via_job x sandbox event authorization trace)"
proof (rule tx_relI)
  fix s r t
  assume "stop_sandbox_via_job x sandbox event authorization trace s = Inr (r, t)"
  moreover define now where "now = db_clock s (db_ticks s)"
  moreover define s1 where "s1 = s\<lparr>db_ticks := Suc (db_ticks s), db_drawn := Suc (db_drawn s)\<rparr>"
  ultimately obtain job stopped where
    job: "add_provision_spec_to_payload x (stop_job x sandbox (sandbox_has_gke_fqdn_policy x s (sb_id sandbox))
        authorization trace (db_entropy s (db_drawn s)) now) sandbox (fetch_secret_mounts s (sb_id sandbox)) = Inr job"
    and run: "stop_in_transaction x sandbox event job now s1 = Inr (stopped, t)"
    by (auto simp: stop_sandbox_via_job_def tx_bind_Inr tx_lift_Inr utc_now_Inr uuid_new_Inr)
  have s1: "same_queue s s1" by (simp add: s1_def same_queue_def)
  have queued: "jb_status job = JobStatus.Queued" "jb_attempts job = 0" using provision_spec_status [OF job] by (simp_all add: stop_job_def)
  have "tx_rel (lease_frame c) (stop_in_transaction x sandbox event job now)"
    unfolding stop_in_transaction_def Let_def
    by (intro queue.frame_rules queue.update fence_work_frame lease_frame_rel grows_state
        grows_insert_job queued lease_frame_other) simp_all
  from tx_relD [OF this run] lease_frame_same_queue [OF s1] show "lease_frame c s t" by (blast intro: queue.frame_trans)
qed

lemma grows_pending_snapshot: "tx_rel adds_queued (fail_pending_snapshot_on_connection n e)"
  unfolding fail_pending_snapshot_on_connection_def Let_def
  by (intro grows.frame_rules grows_small grows.update adds_queued_same) simp_all

lemma grows_cancel_effect: "tx_rel adds_queued (cancel_effect x job now)"
  unfolding cancel_effect_def
  by (cases "jb_kind job"; simp only: JobKind.case;
      intro grows.frame_rules grows_steps grows_small grows_pending_snapshot)

lemma cancel_frame: "tx_rel (lease_frame c) (cancel_read_operation x job)"
  unfolding cancel_read_operation_def
  by (intro queue.frame_rules queue.update lease_frame_basic lease_frame_queued_settled
      grows_cancel_effect [THEN lease_frame_rel]) (simp_all add: queued_job_def)

lemma kill_frame: "lease_frame c s (kill_queued_job j e now s)"
  unfolding kill_queued_job_def by (rule lease_frame_queued_settled) (simp_all add: queued_job_def)

lemma dead_snapshot_frame: "tx_rel (lease_frame c) (dead_queued_snapshot_jobs_on_connection n e)"
  unfolding dead_queued_snapshot_jobs_on_connection_def Let_def
  by (intro queue.frame_rules queue.update lease_frame_basic lease_frame_queued_settled) simp_all

lemma terminalize_snapshot_frame: "tx_rel (lease_frame c) (terminalize_snapshot_of_archived x ids)"
  unfolding terminalize_snapshot_of_archived_def Let_def
  by (intro queue.frame_rules dead_snapshot_frame
      grows_pending_snapshot [THEN lease_frame_rel] grows_small [THEN lease_frame_rel]
      grows_fetch [THEN lease_frame_rel] grows_event [THEN lease_frame_rel])

lemma stop_resident_frame: "tx_rel (lease_frame c) (stop_resident_process x tenant_id b n)"
  unfolding stop_resident_process_def stop_resident_in_transaction_def
  by (intro queue.frame_rules queue.update lease_frame_basic lease_frame_queued_settled lease_frame_other
      grows_fetch [THEN lease_frame_rel]) (simp_all add: queued_job_def)

lemma sum_case_frame:
  "(\<And>e. tx_rel (lease_frame c) (f e)) \<Longrightarrow> (\<And>v. tx_rel (lease_frame c) (g v)) \<Longrightarrow> tx_rel (lease_frame c) (case r of Inl e \<Rightarrow> f e | Inr v \<Rightarrow> g v)"
  by (cases r) simp_all

lemma refresh_frame: "tx_rel (lease_frame c) (authoritatively_refresh_job_placement x job)"
  unfolding authoritatively_refresh_job_placement_def
  by (intro queue.frame_rules queue.update sum_case_frame lease_frame_basic kill_frame lease_frame_jobs) simp_all

subsection \<open>Runs\<close>

text \<open>
  The requests and the transactions of the sweepers, each with its own clock readings and
  identifiers.  A job or a lease that a request carries may be stale: it was read before its transaction.
\<close>

datatype lease_request =
  Submit Job
| Claim Worker Job "nat option" "uuid option"
| Renew JobLease "nat option"
| Complete uuid WorkerJobResult
| Fail uuid bool string
| Expire uuid timestamp
| Drain string uuid DrainWorkerRequest
| CloseAdmission uuid
| SettleFence drain_fence_row timestamp
| CheckLiveness
| Stop Sandbox json "json option" "string option"
| Cancel Job
| KillQueued uuid string timestamp
| TerminalizeSnapshot "uuid \<times> uuid"
| TerminalizeActivation Job
| StopResident string uuid string
| RefreshPlacement Job

definition lease_step :: "'e lease_externals_scheme \<Rightarrow> env \<Rightarrow> lease_request \<Rightarrow> database \<Rightarrow> database" where
  "lease_step x env request s0 = (let s = on_request env s0 in case request of
     Submit job \<Rightarrow> snd (tx_atomic (insert_job_on_connection x (job\<lparr>jb_status := JobStatus.Queued, jb_attempts := 0\<rparr>)) s)
   | Claim worker job secs operation \<Rightarrow> snd (try_claim_job x worker job secs operation s)
   | Renew lease secs \<Rightarrow> snd (renew_lease x lease secs s)
   | Complete i result \<Rightarrow> snd (tx_atomic (complete_lease_in_transaction x i result) s)
   | Fail i retry error \<Rightarrow> snd (tx_atomic (fail_lease_in_transaction x i retry error) s)
   | Expire i now \<Rightarrow> snd (tx_atomic (expire_lease_if_still_active x i now) s)
   | Drain tenant_id worker_id rq \<Rightarrow> snd (tx_atomic (drain_in_transaction x tenant_id worker_id rq) s)
   | CloseAdmission worker_id \<Rightarrow> snd (tx_atomic (drain_without_receipt worker_id) s)
   | SettleFence f now \<Rightarrow> snd (settle_due_fence x now f s)
   | CheckLiveness \<Rightarrow> snd (tx_atomic (reconcile_worker_liveness x) s)
   | Stop sandbox event authorization trace \<Rightarrow>
       snd (tx_atomic (stop_sandbox_via_job x sandbox event authorization trace) s)
   | Cancel job \<Rightarrow> snd (tx_atomic (cancel_read_operation x job) s)
   | KillQueued j error now \<Rightarrow> kill_queued_job j error now s
   | TerminalizeSnapshot ids \<Rightarrow> snd (tx_atomic (terminalize_snapshot_of_archived x ids) s)
   | TerminalizeActivation job \<Rightarrow> snd (tx_atomic (terminalize_invalid_sterile_resident_job_before_filtering x job) s)
   | StopResident tenant_id sandbox_id process_name \<Rightarrow>
       snd (tx_atomic (stop_resident_process x tenant_id sandbox_id process_name) s)
   | RefreshPlacement job \<Rightarrow> snd (tx_atomic (authoritatively_refresh_job_placement x job) s))"

definition lease_run :: "'e lease_externals_scheme \<Rightarrow> (env \<times> lease_request) list \<Rightarrow> database \<Rightarrow> database" where
  "lease_run x rs s = fold (\<lambda>(env, request). lease_step x env request) rs s"

lemma try_claim_frame:
  assumes "c \<Longrightarrow> current_claim job s"
  shows "lease_frame c s (snd (try_claim_job x worker job secs operation s))"
proof -
  have "lease_frame c s (snd (tx_atomic (quarantine_invalid_sterile_resident_job x job) s))"
    by (rule queue.atomic [OF quarantine_frame])
  moreover have "lease_frame c s t" if "claim_in_transaction x worker job secs operation s = Inr (l, t)" for l t
    using claim_frame [of c job x worker secs operation] that assms unfolding claim_frame_ok_def by blast
  ultimately show ?thesis
    by (auto simp: try_claim_job_def queue.frame_refl split: sum.splits option.splits prod.splits if_splits)
qed

lemma renew_lease_frame: "lease_frame c s (snd (renew_lease x lease secs s))"
  using queue.atomic [OF renew_frame [of c x "jl_lease lease" secs], of s]
  by (auto simp: renew_lease_def split: sum.splits prod.splits)

lemma settle_fence_frame: "lease_frame c s (snd (settle_due_fence x now f s))"
proof -
  have res: "lease_frame c u (snd (tx_atomic (resolve_fence_of f now) u))"
    "lease_frame c u (snd (tx_atomic (resolve_worker_drain_fence i l r now) u))"
    "lease_frame c u (snd (tx_atomic (expire_lease_if_still_active x j now) u))" for u i l r j
    by (rule queue.atomic [OF fence_frames(2)], rule queue.atomic [OF fence_frames(1)], rule queue.atomic [OF expire_frame])
  show ?thesis
  proof (cases "find (\<lambda>l. ls_id l = df_lease_id f) (db_leases s)")
    case (Some l)
    define e where "e = (if ls_status l = LeaseStatus.Active
           then tx_atomic (expire_lease_if_still_active x (df_lease_id f) now) s else (Inr (), s))"
    have e: "lease_frame c s (snd e)" using res(3) [of s "df_lease_id f"] by (simp add: e_def queue.frame_refl)
    show ?thesis
    proof (cases "ls_worker_id l = df_worker_id f \<and> ls_job_id l = df_job_id f \<and> ls_attempt l = df_attempt f")
      case True
      obtain v u where vu: "e = (v, u)" by (cases e)
      have "settle_due_fence x now f s = (case e of (Inl e, s') \<Rightarrow> (Inl e, s') | (Inr _, s') \<Rightarrow> tx_atomic (resolve_fence_of f now) s')"
        using Some True by (simp add: settle_due_fence_def e_def)
      then show ?thesis
        using e res(1) [of u] vu by (cases v) (auto intro: queue.frame_trans)
    qed (use Some res(2) in \<open>simp add: settle_due_fence_def\<close>)
  qed (simp add: settle_due_fence_def queue.frame_refl)
qed

lemma on_request_frame: "lease_frame c s (on_request env s)"
  by (rule lease_frame_same_queue) (simp add: on_request_def same_queue_def)

lemmas step_frames = queue.atomic [OF complete_frame] queue.atomic [OF fail_frame] queue.atomic [OF expire_frame]
  queue.atomic [OF drain_frame] queue.atomic [OF fence_frames(3)] queue.atomic [OF fence_frames(4)]
  queue.atomic [OF stop_frame] queue.atomic [OF cancel_frame] queue.atomic [OF terminalize_snapshot_frame]
  queue.atomic [OF terminalize_frame] queue.atomic [OF stop_resident_frame] queue.atomic [OF refresh_frame]
  try_claim_frame renew_lease_frame settle_fence_frame kill_frame

text \<open>A claim acts on a current copy when the attempts it read are those of the queued row.\<close>

fun current_request :: "lease_request \<Rightarrow> database \<Rightarrow> bool" where
  "current_request (Claim worker job secs operation) s = current_claim job s"
| "current_request _ s = True"

fun current_requests :: "'e lease_externals_scheme \<Rightarrow> (env \<times> lease_request) list \<Rightarrow> database \<Rightarrow> bool" where
  "current_requests x [] s = True"
| "current_requests x ((env, request) # rs) s =
     (current_request request s \<and> current_requests x rs (lease_step x env request s))"

lemma lease_step_frame:
  assumes "c \<Longrightarrow> current_request request s"
  shows "lease_frame c s (lease_step x env request s)"
proof -
  have "lease_frame c u (snd (tx_atomic (insert_job_on_connection x (job\<lparr>jb_status := JobStatus.Queued, jb_attempts := 0\<rparr>)) u))" for u job
    by (rule queue.atomic [OF lease_frame_rel [OF grows_insert_job(1)]]) simp_all
  moreover have "c \<Longrightarrow> current_request request (on_request env s)"
    using assms by (cases request) (simp_all add: current_claim_def on_request_def)
  ultimately have "lease_frame c (on_request env s) (lease_step x env request s)"
    by (cases request) (simp_all add: lease_step_def Let_def step_frames)
  with on_request_frame show ?thesis by (rule queue.frame_trans)
qed

lemma lease_run_frame:
  assumes "c \<Longrightarrow> current_requests x rs s"
  shows "lease_frame c s (lease_run x rs s)"
  using assms unfolding lease_run_def
proof (induction rs arbitrary: s)
  case (Cons r rs)
  obtain env request where r: "r = (env, request)" by (cases r)
  have "lease_frame c s (lease_step x env request s)"
    by (rule lease_step_frame) (use Cons.prems r in simp)
  moreover have "lease_frame c (lease_step x env request s)
      (fold (\<lambda>(env, request). lease_step x env request) rs (lease_step x env request s))"
    by (rule Cons.IH) (use Cons.prems r in simp)
  ultimately show ?case using r by (auto intro: queue.frame_trans)
qed (simp add: queue.frame_refl)

text \<open>C1: the job queue refines its specification.  Under any sequence of claims, renewals, completions,
  failures, expiries, drains, stops, cancellations and sweeps, in any order and with requests that may
  act on stale copies of jobs and leases, every job moves only along submitted, claimed, retried, settled
  or dropped, and the invariant (a job is leased exactly when one active lease holds it) is kept.\<close>

theorem lease_protocol_refined:
  assumes "lease_inv s"
  shows "lease_inv (lease_run x rs s) \<and> (\<forall>j. phase_steps (phase s j) (phase (lease_run x rs s) j))"
  using lease_run_frame [of False x rs s] assms
  by (simp add: lease_frame_def rows_frame_def lease_inv_def phase_def)

subsection \<open>The invariant in runs from an empty queue\<close>

definition empty_queue :: "database \<Rightarrow> bool" where
  "empty_queue s \<longleftrightarrow> db_jobs s = [] \<and> db_leases s = []"

lemma run_rows_inv:
  assumes "empty_queue s" and "c \<Longrightarrow> current_requests x rs s"
  shows "rows_inv c (db_jobs (lease_run x rs s)) (db_leases (lease_run x rs s))"
  using lease_run_frame [of c x rs s] assms by (simp add: lease_frame_def rows_frame_def empty_queue_def rows_inv_def)

lemma rows_inv_holders:
  assumes inv: "rows_inv c js ls"
  shows "length (holders ls j) = (if list_ex (\<lambda>r. jr_id r = j \<and> jr_status r = JobStatus.Leased) js then 1 else 0)"
proof (cases "find (\<lambda>r. jr_id r = j) js")
  case None
  then have "j \<notin> jr_id ` set js" by (simp add: find_key_none)
  moreover have "\<forall>l \<in> set ls. ls_job_id l \<in> jr_id ` set js" using inv by (simp add: rows_inv_def)
  ultimately have "holders ls j = []" by (auto simp: holders_def filter_empty_conv)
  with \<open>j \<notin> jr_id ` set js\<close> show ?thesis by (auto simp: list_ex_iff)
next
  case (Some r)
  then have r: "r \<in> set js" "jr_id r = j" using find_key_in by fast+
  have "q = r" if "q \<in> set js" "jr_id q = j" for q
    using find_row [OF rows_inv_distinct [OF inv] that] Some by simp
  then have "list_ex (\<lambda>q. jr_id q = j \<and> jr_status q = JobStatus.Leased) js \<longleftrightarrow> jr_status r = JobStatus.Leased"
    using r unfolding list_ex_iff by blast
  then show ?thesis using inv r by (auto simp: rows_inv_def)
qed

text \<open>C2: mutual exclusion of execution.  In every run from an empty queue a job has exactly one active
  lease while its row says leased, and no active lease at any other time; no job is ever held by two
  workers at once, whatever stale copies the requests carry.\<close>

theorem one_active_lease:
  assumes "empty_queue s"
  shows "rows_matching (\<lambda>l. ls_job_id l = j \<and> ls_status l = LeaseStatus.Active) (db_leases (lease_run x rs s))
     = (if list_ex (\<lambda>r. jr_id r = j \<and> jr_status r = JobStatus.Leased) (db_jobs (lease_run x rs s)) then 1 else 0)"
  using rows_inv_holders [OF run_rows_inv [of s False x rs]] assms by (simp add: holders_def rows_matching_def)

text \<open>C3: a job is not retried for ever.  In every run from an empty queue whose claims act on current copies,
  the attempts of a job count its leases and never exceed the attempts it allows (a job that allows none
  is still tried once).\<close>

theorem attempts_bounded:
  assumes "empty_queue s" and "current_requests x rs s" and "r \<in> set (db_jobs (lease_run x rs s))"
  shows "jb_attempts (jr_job r) = int (claims (db_leases (lease_run x rs s)) (jr_id r))
    \<and> jb_attempts (jr_job r) \<le> max 1 (jb_max_attempts (jr_job r))"
  using run_rows_inv [of s True x rs] assms by (auto simp: rows_inv_def attempts_ok_def)

subsection \<open>A queue in use\<close>

definition lease_sample_externals :: lease_externals where
  "lease_sample_externals = externals.extend sample_externals
     (lease_externals.fields (\<lambda>_. Some JNull) (\<lambda>_. Some ''null''))"

lemma lease_sample_externals_simps [simp]:
  "chrono_add_seconds lease_sample_externals = plain_add"
  "spec_from_value lease_sample_externals = (\<lambda>_. None)"
  by (simp_all add: lease_sample_externals_def externals.defs lease_externals.defs sample_externals_def)

definition queue_job :: Job where
  "queue_job = sample_job JobKind.DeleteHome (JObject [])"

definition env_at :: "timestamp \<Rightarrow> env" where
  "env_at now = (\<lambda>_. now, of_nat)"

definition claim_requests :: "(env \<times> lease_request) list" where
  "claim_requests = [(env_at 0, Submit queue_job), (env_at 5, Claim sample_worker queue_job None None)]"

definition idle_database :: database where
  "idle_database = empty_database\<lparr>db_workers := [sample_worker]\<rparr>"

definition claimed_lease :: lease_row where
  "claimed_lease = new_lease 0 sample_worker queue_job 1 5 (5 + int DEFAULT_LEASE_SECONDS * nanos)"

definition leased_row :: job_row where
  "leased_row = new_job_row (queue_job\<lparr>jb_status := JobStatus.Leased, jb_attempts := 1, jb_updated_at := 5\<rparr>) no_references False"

definition queue_database :: database where
  "queue_database = idle_database\<lparr>db_jobs := [leased_row], db_leases := [claimed_lease]\<rparr>"

lemma submit_sample:
  "lease_step lease_sample_externals (env_at 0) (Submit queue_job) idle_database
     = (on_request (env_at 0) idle_database)\<lparr>db_jobs := [new_job_row queue_job no_references False]\<rparr>"
  by (simp add: lease_step_def Let_def queue_job_def sample_job_def job_references_def tx_atomic_def
      insert_job_on_connection_def idle_database_def empty_database_def on_request_def tx_bind_lift tx_ensure_def tx_lift_def rbind_def ensure_def)

lemma claim_sample:
  assumes "s = (on_request (env_at 5) idle_database)\<lparr>db_jobs := [new_job_row queue_job no_references False]\<rparr>"
  shows "\<exists>lease t. claim_in_transaction lease_sample_externals sample_worker queue_job None None s = Inr (Some lease, t)
    \<and> db_jobs t = [leased_row] \<and> db_leases t = [claimed_lease]"
  by (simp add: assms claim_in_transaction_def lock_worker_for_claim_on_connection_def
     lock_apex_instruction_placement_on_connection_def active_lease_count_for_worker_on_connection_def
     recheck_sterile_resident_activation_on_connection_def lease_queued_job_def take_queued_job_def grant_lease_def
     claim_effects_def bind_sandbox_placement_on_connection_def insert_lease_on_connection_def record_claim_operation_def
     start_resident_process_def apply_claimed_job_on_connection_def claimed_lease_def leased_row_def new_lease_def
     Let_def queue_job_def sample_job_def sample_worker_def new_job_row_def rows_matching_def claim_job_row_def
     idle_database_def empty_database_def on_request_def env_at_def tx_bind_lift tx_bind_assoc tx_bind_steps plain_add_def
     or_panic_def effective_lease_seconds_def)

lemma claim_requests_run:
  "db_jobs (lease_run lease_sample_externals claim_requests idle_database) = [leased_row]"
  "db_leases (lease_run lease_sample_externals claim_requests idle_database) = [claimed_lease]"
  "current_requests lease_sample_externals claim_requests idle_database"
proof -
  let ?s = "(on_request (env_at 0) idle_database)\<lparr>db_jobs := [new_job_row queue_job no_references False]\<rparr>"
  have same: "on_request (env_at 5) ?s
      = (on_request (env_at 5) idle_database)\<lparr>db_jobs := [new_job_row queue_job no_references False]\<rparr>"
    by (simp add: on_request_def)
  from claim_sample [OF same] obtain lease t where
    claim: "claim_in_transaction lease_sample_externals sample_worker queue_job None None (on_request (env_at 5) ?s)
      = Inr (Some lease, t)" and t: "db_jobs t = [leased_row]" "db_leases t = [claimed_lease]" by blast
  have pref: "worker_matches_provider_preference (wk_provider sample_worker) (job_provider_preference lease_sample_externals queue_job)"
    by (simp add: sample_worker_def job_provider_preference_def queue_job_def sample_job_def
        worker_matches_provider_preference_def eq_ignore_ascii_case_def)
  have "lease_step lease_sample_externals (env_at 5) (Claim sample_worker queue_job None None) ?s = t"
    by (simp add: lease_step_def Let_def try_claim_job_def pref claim)
  then show "db_jobs (lease_run lease_sample_externals claim_requests idle_database) = [leased_row]"
    "db_leases (lease_run lease_sample_externals claim_requests idle_database) = [claimed_lease]"
    by (simp_all add: lease_run_def claim_requests_def submit_sample t)
  show "current_requests lease_sample_externals claim_requests idle_database"
    by (simp add: claim_requests_def submit_sample current_claim_def new_job_row_def)
qed

lemma idle_queue: "empty_queue idle_database"
  by (simp add: empty_queue_def idle_database_def empty_database_def)

theorem attempts_bounded_witness:
  "empty_queue idle_database \<and> current_requests lease_sample_externals claim_requests idle_database
   \<and> leased_row \<in> set (db_jobs (lease_run lease_sample_externals claim_requests idle_database))
   \<and> jb_attempts (jr_job leased_row) = 1
   \<and> claims (db_leases (lease_run lease_sample_externals claim_requests idle_database)) (jr_id leased_row) = 1"
proof -
  have "leased_row \<in> set (db_jobs (lease_run lease_sample_externals claim_requests idle_database))"
    by (simp add: claim_requests_run)
  from attempts_bounded [OF idle_queue claim_requests_run(3) this] this show ?thesis
    by (simp add: idle_queue claim_requests_run leased_row_def new_job_row_def)
qed

theorem one_active_lease_witness:
  "empty_queue idle_database
   \<and> rows_matching (\<lambda>l. ls_job_id l = jb_id queue_job \<and> ls_status l = LeaseStatus.Active)
       (db_leases (lease_run lease_sample_externals claim_requests idle_database)) = 1"
  using one_active_lease [OF idle_queue, of "jb_id queue_job" lease_sample_externals claim_requests]
  by (simp add: idle_queue claim_requests_run(1) leased_row_def new_job_row_def)

lemma queue_database_inv: "lease_inv queue_database"
  by (simp add: lease_inv_def rows_inv_def queue_database_def leased_row_def claimed_lease_def new_job_row_def
      new_lease_def holders_def queue_job_def sample_job_def)

theorem lease_protocol_refined_witness:
  "lease_inv queue_database \<and> phase queue_database (jb_id queue_job) = Held 0
   \<and> phase_steps (Held 0) (phase (lease_run lease_sample_externals
        [(env_at 9, Fail 0 True ''boom''), (env_at 9, Claim sample_worker queue_job None None)] queue_database)
        (jb_id queue_job))"
proof -
  have "phase queue_database (jb_id queue_job) = Held 0"
    by (simp add: phase_def rows_phase_def queue_database_def leased_row_def claimed_lease_def new_job_row_def
        new_lease_def holders_def queue_job_def sample_job_def status_phase_def)
  then show ?thesis
    using lease_protocol_refined [OF queue_database_inv, of lease_sample_externals
        "[(env_at 9, Fail 0 True ''boom''), (env_at 9, Claim sample_worker queue_job None None)]"]
      queue_database_inv by metis
qed

end
