(* ===== verification/Lease_Sweeps.thy ===== *)
theory Lease_Sweeps
  imports Lease_Safety Command_Streams
begin

text \<open>
  The expiry sweep.  A lease that was due at some instant stops being active after enough ticks of the
  sweeper, whatever requests run between the ticks: no request makes a lease due in the past, and a
  tick that succeeds expires the oldest batch.  The last part shows the tick that never succeeds.
\<close>

subsection \<open>Effects that leave the leases alone\<close>

definition same_leases :: "database \<Rightarrow> database \<Rightarrow> bool" where
  "same_leases s t \<longleftrightarrow> db_leases t = db_leases s"

interpretation leases: tx_frame same_leases
  by unfold_locales (simp_all add: same_leases_def)

lemma same_leases_same: "db_leases t = db_leases s \<Longrightarrow> same_leases s t"
  by (simp add: same_leases_def)

lemma same_leases_grows: "tx_rel adds_queued m \<Longrightarrow> tx_rel same_leases m"
  by (auto simp: tx_rel_def adds_queued_def same_leases_def)

lemma same_leases_stable: "tx_rel same_queue m \<Longrightarrow> tx_rel same_leases m"
  by (auto simp: tx_rel_def same_queue_def same_leases_def)

lemma leases_basic: "tx_rel same_leases utc_now" "tx_rel same_leases uuid_new"
  by (rule same_leases_grows [OF grows_basic(1)], rule same_leases_grows [OF grows_basic(2)])

lemma kept_job_status: "tx_rel same_leases (update_job_status_on_connection j st e now)"
  unfolding update_job_status_on_connection_def by (intro leases.update same_leases_same) simp

lemma kept_fetch:
  "tx_rel same_leases (fetch_lease_on_connection i)"
  "tx_rel same_leases (lock_worker_for_lease_terminalization_on_connection w)"
  unfolding fetch_lease_on_connection_def lock_worker_for_lease_terminalization_on_connection_def
  by (intro leases.frame_rules)+

lemma kept_retry_or_fail: "tx_rel same_leases (retry_or_fail x lease retry terminal e now)"
  unfolding retry_or_fail_def
  by (intro leases.frame_rules kept_job_status stable_tail [THEN same_leases_stable]
      grows_retryable [THEN same_leases_grows] grows_failed [THEN same_leases_grows])

lemma kept_settle_expired: "tx_rel same_leases (settle_expired_lease x lease now)"
  unfolding settle_expired_lease_def resident_process_desires_stop_def
  by (intro leases.frame_rules kept_job_status kept_retry_or_fail stable_residents [THEN same_leases_stable]
      grows_completed [THEN same_leases_grows])

lemma kept_fences:
  "tx_rel same_leases (resolve_worker_drain_fence i l r now)" "tx_rel same_leases (resolve_fence_of f now)"
  "tx_rel same_leases (drain_without_receipt w)" "tx_rel same_leases (reconcile_worker_liveness x)"
  unfolding resolve_worker_drain_fence_def resolve_fence_of_def drain_without_receipt_def reconcile_worker_liveness_def
  by (intro leases.frame_rules leases.update leases_basic same_leases_same; simp)+

lemma kept_queued:
  "tx_rel same_leases (quarantine_invalid_sterile_resident_job x job)"
  "tx_rel same_leases (cancel_read_operation x job)"
  "tx_rel same_leases (dead_queued_snapshot_jobs_on_connection n e)"
  "tx_rel same_leases (stop_resident_process x tenant_id b p)"
  unfolding quarantine_invalid_sterile_resident_job_def cancel_read_operation_def stop_resident_process_def
    dead_queued_snapshot_jobs_on_connection_def stop_resident_in_transaction_def Let_def
  by (intro leases.frame_rules leases.update leases_basic same_leases_same grows_cancel_effect [THEN same_leases_grows]
      grows_fetch [THEN same_leases_grows]; simp)+

lemma kept_kill: "same_leases s (kill_queued_job j e now s)"
  by (rule same_leases_same) (simp add: kill_queued_job_def)

lemma kept_terminalize:
  "tx_rel same_leases (terminalize_invalid_sterile_resident_job_before_filtering x job)"
  "tx_rel same_leases (terminalize_snapshot_of_archived x ids)"
  unfolding terminalize_invalid_sterile_resident_job_before_filtering_def terminalize_snapshot_of_archived_def Let_def
  by (intro leases.frame_rules kept_queued stable_claim_guards [THEN same_leases_stable]
      grows_pending_snapshot [THEN same_leases_grows] grows_small [THEN same_leases_grows]
      grows_fetch [THEN same_leases_grows] grows_event [THEN same_leases_grows])+

lemma kept_sum_case:
  "(\<And>e. tx_rel same_leases (f e)) \<Longrightarrow> (\<And>v. tx_rel same_leases (g v)) \<Longrightarrow> tx_rel same_leases (case r of Inl e \<Rightarrow> f e | Inr v \<Rightarrow> g v)"
  by (cases r) simp_all

lemma kept_refresh: "tx_rel same_leases (authoritatively_refresh_job_placement x job)"
  unfolding authoritatively_refresh_job_placement_def
  by (intro leases.frame_rules leases.update kept_sum_case leases_basic kept_kill same_leases_same) simp_all

lemma kept_insert_job: "tx_rel same_leases (insert_job_on_connection x job)"
  unfolding insert_job_on_connection_def by (intro leases.frame_rules leases.update same_leases_same) simp_all

subsection \<open>Requests that read the clock\<close>

lemma lease_runs_past:
  assumes "chrono_adds (chrono_add_seconds x)" and "chrono_add_seconds x now (int (effective_lease_seconds secs)) = Some e"
  shows "now < e"
proof -
  have "e = now + int (effective_lease_seconds secs) * nanos" using assms by (simp add: chrono_adds_def)
  then show ?thesis using effective_lease_seconds_bounds(1) [of secs] by (simp add: nanos_def)
qed

definition renewable :: "uuid \<Rightarrow> timestamp \<Rightarrow> lease_row \<Rightarrow> bool" where
  "renewable i now l \<longleftrightarrow> active_lease i l \<and> ls_cancel_requested_at l = None \<and> ls_expires_at l > now"

lemma renewable_active: "renewable i now l \<Longrightarrow> ls_status l = LeaseStatus.Active"
  by (simp add: renewable_def active_lease_def)

lemma renew_moves_expiry:
  assumes run: "renew_in_transaction x lease secs s = Inr (u, t)"
  obtains requested where
    "chrono_add_seconds x (db_clock s (db_ticks s)) (int (effective_lease_seconds secs)) = Some requested"
    "\<not> (case earliest_deadline s lease of Some d \<Rightarrow> d \<le> db_clock s (db_ticks s) | None \<Rightarrow> False)"
    "db_leases t = update_rows (renewable (ls_id lease) (db_clock s (Suc (db_ticks s))))
      (\<lambda>l. l\<lparr>ls_expires_at := cap_at (earliest_deadline s lease) requested\<rparr>) (db_leases s)"
proof -
  have fences: "earliest_deadline (s\<lparr>db_ticks := n\<rparr>) lease = earliest_deadline s lease" for n
    by (simp add: earliest_deadline_def)
  have live: "lease_cancellation s (ls_id lease) = None"
    using run by (auto simp: renew_in_transaction_def split: option.splits)
  show thesis
  proof (cases "chrono_add_seconds x (db_clock s (db_ticks s)) (int (effective_lease_seconds secs))")
    case (Some requested)
    with run live show thesis
      by (intro that) (auto simp: renew_in_transaction_def tx_bind_lift tx_bind_assoc or_panic_def update_leases_def fences renewable_def [abs_def]
          split: if_splits)
  qed (use run live in \<open>simp add: renew_in_transaction_def tx_bind_lift or_panic_def\<close>)
qed

lemma open_drain_Inr:
  assumes "open_drain x tenant_id w request now s = Inr (u, t)"
  shows "now < rq_hard_deadline request"
    and "db_leases t = update_rows (\<lambda>l. (ls_worker_id l = w \<and> ls_status l = LeaseStatus.Active)
        \<and> ls_expires_at l > rq_hard_deadline request) (\<lambda>l. l\<lparr>ls_expires_at := rq_hard_deadline request\<rparr>) (db_leases s)"
    and "db_workers t = update_rows (\<lambda>v. wk_id v = w \<and> worker_claimable v) (\<lambda>v. v\<lparr>wk_status := WorkerStatus.Draining\<rparr>) (db_workers s)"
    and "db_drain_fences t = db_drain_fences s @ map (fence_for request w)
       (sort_key ls_id (filter (\<lambda>l. ls_worker_id l = w \<and> ls_status l = LeaseStatus.Active) (db_leases s)))"
  using assms by (cases "chrono_add_seconds x now 3600"; auto simp: open_drain_def Let_def tx_bind_lift or_panic_def
      split: if_splits)+

lemma drain_opens:
  assumes run: "drain_in_transaction x tenant_id w request s = Inr (fs, t)"
    and new: "find (\<lambda>r. dr_shutdown_id r = rq_shutdown_id request) (db_drain_receipts s) = None"
  shows "open_drain x tenant_id w request (db_clock s (db_ticks s)) (s\<lparr>db_ticks := Suc (db_ticks s)\<rparr>) = Inr ((), t)"
  using run new
  by (auto simp: drain_in_transaction_def lock_worker_for_lease_terminalization_on_connection_def tx_bind_assoc
      tx_bind_Inr [where m = "open_drain _ _ _ _ _"] split: if_splits)

definition quiet :: "database \<Rightarrow> database \<Rightarrow> bool" where
  "quiet s t \<longleftrightarrow> db_leases t = db_leases s \<and> db_clock t = db_clock s"

interpretation quiet: tx_frame quiet
  by unfold_locales (simp_all add: quiet_def)

lemma quiet_guards:
  "tx_rel quiet (lock_worker_for_claim_on_connection w)"
  "tx_rel quiet (lock_apex_instruction_placement_on_connection x worker job)"
  "tx_rel quiet (recheck_sterile_resident_activation_on_connection x job)"
proof -
  have "tx_rel quiet utc_now" by (auto simp: tx_rel_def utc_now_Inr quiet_def)
  then show "tx_rel quiet (lock_worker_for_claim_on_connection w)"
    "tx_rel quiet (lock_apex_instruction_placement_on_connection x worker job)"
    "tx_rel quiet (recheck_sterile_resident_activation_on_connection x job)"
    unfolding lock_worker_for_claim_on_connection_def lock_apex_instruction_placement_on_connection_def
      recheck_sterile_resident_activation_on_connection_def
    by (intro quiet.frame_rules; assumption)+
qed

definition adds_lease :: "'e externals_scheme \<Rightarrow> nat option \<Rightarrow> database \<Rightarrow> database \<Rightarrow> bool" where
  "adds_lease x secs s t \<longleftrightarrow> db_leases t = db_leases s \<or> (\<exists>l n. db_leases t = db_leases s @ [l]
     \<and> chrono_add_seconds x (db_clock s n) (int (effective_lease_seconds secs)) = Some (ls_expires_at l))"

lemma lease_queued_adds:
  assumes "lease_queued_job x worker job secs operation s = Inr (r, t)"
  shows "adds_lease x secs s t"
proof -
  from assms [unfolded lease_queued_job_def tx_bind_Inr [where m = utc_now] tx_bind_Inr [where m = "tx_lift _"]
      tx_bind_Inr [where m = "take_queued_job _ _ _"] tx_lift_Inr]
  obtain now s0 taken s1 expires where now: "utc_now s = Inr (now, s0)"
    and exp: "or_panic (chrono_add_seconds x now (int (effective_lease_seconds secs))) = Inr expires"
    and cas: "take_queued_job (jb_id job) (jb_attempts job + 1) now s0 = Inr (taken, s1)"
    and rest: "(if \<not> taken then tx_return None else
     tx_bind (grant_lease x worker job now expires operation) (\<lambda>lease. tx_return (Some lease))) s1 = Inr (r, t)"
    by (elim exE conjE) simp
  have s1: "db_leases s1 = db_leases s" using cas now by (simp add: take_queued_Inr utc_now_Inr)
  have some: "chrono_add_seconds x (db_clock s (db_ticks s)) (int (effective_lease_seconds secs)) = Some expires"
    using exp now by (auto simp: or_panic_def utc_now_Inr split: option.splits)
  show ?thesis
  proof (cases taken)
    case True
    with rest obtain lease where grant: "grant_lease x worker job now expires operation s1 = Inr (lease, t)"
      by (auto simp: tx_bind_Inr)
    have "ls_expires_at (jl_lease lease) = expires"
      using grant by (auto simp: grant_lease_def Let_def tx_bind_Inr new_lease_def)
    moreover from grant_lease_rows [OF grant] obtain s2 where
      "db_leases s2 = db_leases s1 @ [jl_lease lease]" "adds_queued s2 t" .
    ultimately show ?thesis using s1 some unfolding adds_lease_def by (auto simp: adds_queued_def)
  qed (use rest s1 in \<open>simp add: adds_lease_def\<close>)
qed

lemma adds_lease_rules:
  "tx_rel (adds_lease x secs) (tx_return a)"
  "tx_rel (adds_lease x secs) m \<Longrightarrow> tx_rel (adds_lease x secs) n \<Longrightarrow> tx_rel (adds_lease x secs) (if b then m else n)"
  by (simp_all add: tx_rel_def adds_lease_def)

lemma adds_lease_guard:
  assumes "tx_rel quiet m" and "\<And>y. tx_rel (adds_lease x secs) (k y)"
  shows "tx_rel (adds_lease x secs) (tx_bind m k)"
proof (rule tx_relI)
  fix s r t
  assume "tx_bind m k s = Inr (r, t)"
  then obtain y u where u: "m s = Inr (y, u)" "k y u = Inr (r, t)" by (auto simp: tx_bind_Inr)
  have "quiet s u" by (rule tx_relD [OF assms(1) u(1)])
  with tx_relD [OF assms(2) u(2)] show "adds_lease x secs s t" by (simp add: quiet_def adds_lease_def)
qed

lemma claim_adds_lease: "tx_rel (adds_lease x secs) (claim_in_transaction x worker job secs operation)"
  unfolding claim_in_transaction_def
  by (intro adds_lease_rules adds_lease_guard quiet_guards quiet.read) (rule tx_relI, rule lease_queued_adds)

subsection \<open>What requests do to the lease rows\<close>

text \<open>
  The changes of the lease table: a lease that is active ends, is marked for cancellation or has its expiry
  moved past the clock, and a claim adds a lease that expires after the clock.  A relation that allows
  these changes holds across every request and every tick.
\<close>

locale lease_rows = tx_frame R for R :: "database \<Rightarrow> database \<Rightarrow> bool" +
  fixes reached later :: "timestamp \<Rightarrow> bool"
  assumes kept: "db_leases t = db_leases s \<Longrightarrow> R s t"
    and ended: "db_leases t = update_rows P g (db_leases s) \<Longrightarrow> (\<And>l. P l \<Longrightarrow> ls_status l = LeaseStatus.Active)
      \<Longrightarrow> (\<And>l. ls_status (g l) \<noteq> LeaseStatus.Active) \<Longrightarrow> R s t"
    and marked: "db_leases t = update_rows P (\<lambda>l. l\<lparr>ls_cancel_requested_at := c, ls_cancel_reason := r\<rparr>) (db_leases s)
      \<Longrightarrow> (\<And>l. P l \<Longrightarrow> ls_status l = LeaseStatus.Active) \<Longrightarrow> R s t"
    and moved: "db_leases t = update_rows P (\<lambda>l. l\<lparr>ls_expires_at := e\<rparr>) (db_leases s)
      \<Longrightarrow> (\<And>l. P l \<Longrightarrow> ls_status l = LeaseStatus.Active) \<Longrightarrow> later e \<Longrightarrow> R s t"
    and granted: "db_leases t = db_leases s @ [l] \<Longrightarrow> later (ls_expires_at l) \<Longrightarrow> R s t"
    and past: "reached now \<Longrightarrow> now < e \<Longrightarrow> later e"
begin

lemma rows_kept: "tx_rel same_leases m \<Longrightarrow> tx_rel R m"
  by (auto simp: tx_rel_def same_leases_def intro: kept)

lemmas rows_grows = rows_kept [OF same_leases_grows]
lemmas rows_stable = rows_kept [OF same_leases_stable]
lemmas rows_basic = leases_basic [THEN rows_kept]

lemma rows_ended:
  "tx_rel R (complete_active_lease_on_connection i now fp)"
  "tx_rel R (fail_active_lease_on_connection i now e)"
  "tx_rel R (expire_active_lease_on_connection i now e)"
proof -
  have ends: "tx_rel R (update_leases P g)"
    if "\<And>l. P l \<Longrightarrow> ls_status l = LeaseStatus.Active" "\<And>l. ls_status (g l) \<noteq> LeaseStatus.Active" for P g
  proof (rule tx_relI)
    fix s n t
    assume "update_leases P g s = Inr (n, t)"
    then have "db_leases t = update_rows P g (db_leases s)" by (simp add: update_leases_Inr)
    then show "R s t" using that by (rule ended)
  qed
  show "tx_rel R (complete_active_lease_on_connection i now fp)"
    "tx_rel R (fail_active_lease_on_connection i now e)" "tx_rel R (expire_active_lease_on_connection i now e)"
    unfolding complete_active_lease_on_connection_def fail_active_lease_on_connection_def expire_active_lease_on_connection_def
    by (intro frame_rules ends; simp add: active_lease_def)+
qed

lemma rows_complete: "tx_rel R (complete_lease_in_transaction x i result)"
  unfolding complete_lease_in_transaction_def complete_active_def
  by (intro frame_rules kept_fetch [THEN rows_kept] rows_basic rows_ended kept_job_status [THEN rows_kept]
      stable_tail [THEN rows_stable] grows_completed [THEN rows_grows] stable_replay [THEN rows_stable])

lemma rows_fail: "tx_rel R (fail_lease_in_transaction x i retry e)"
  unfolding fail_lease_in_transaction_def fail_active_def
  by (intro frame_rules kept_fetch [THEN rows_kept] rows_basic rows_ended kept_retry_or_fail [THEN rows_kept]
      stable_tail [THEN rows_stable] stable_residents [THEN rows_stable])

lemma rows_expire: "tx_rel R (expire_lease_if_still_active x i now)"
  unfolding expire_lease_if_still_active_def
  by (intro frame_rules kept_fetch [THEN rows_kept] rows_ended kept_settle_expired [THEN rows_kept]
      stable_tail [THEN rows_stable])

lemma rows_stop: "tx_rel R (stop_sandbox_via_job x sandbox event authorization trace)"
proof -
  have "tx_rel R (fence_sandbox_work tenant_id b now)" for tenant_id b now
    unfolding fence_sandbox_work_def
  proof (intro frame_rules update)
    show "R s (db_leases_update (update_rows
        (\<lambda>l. ls_status l = LeaseStatus.Active \<and> ls_cancel_requested_at l = None \<and> ls_job_id l \<in> set ids)
        (\<lambda>l. l\<lparr>ls_cancel_requested_at := c, ls_cancel_reason := r\<rparr>)) s)" for s ids c r
      by (rule marked [where P = "\<lambda>l. ls_status l = LeaseStatus.Active \<and> ls_cancel_requested_at l = None \<and> ls_job_id l \<in> set ids"])
        simp_all
  qed (simp_all add: kept)
  then show ?thesis
    unfolding stop_sandbox_via_job_def stop_in_transaction_def Let_def
    by (intro frame_rules update rows_basic kept grows_state [THEN rows_grows] kept_insert_job [THEN rows_kept]) simp_all
qed

lemma rows_settle_fence: "R s (snd (settle_due_fence x now f s))"
proof -
  have res: "R u (snd (tx_atomic (resolve_fence_of f now) u))"
    "R u (snd (tx_atomic (resolve_worker_drain_fence i l r now) u))"
    "R u (snd (tx_atomic (expire_lease_if_still_active x j now) u))" for u i l r j
    by (intro atomic rows_expire kept_fences [THEN rows_kept])+
  show ?thesis
  proof (cases "find (\<lambda>l. ls_id l = df_lease_id f) (db_leases s)")
    case (Some l)
    define e where "e = (if ls_status l = LeaseStatus.Active
           then tx_atomic (expire_lease_if_still_active x (df_lease_id f) now) s else (Inr (), s))"
    have e: "R s (snd e)" using res(3) [of s "df_lease_id f"] by (simp add: e_def frame_refl)
    obtain v u where vu: "e = (v, u)" by (cases e)
    show ?thesis
      using e res(1) [of u] res(2) [of s] vu Some
      by (cases v) (auto simp: settle_due_fence_def e_def [symmetric] intro: frame_trans)
  qed (simp add: settle_due_fence_def frame_refl)
qed

lemma rows_renew:
  assumes run: "renew_in_transaction x lease secs s = Inr (u, t)" and add: "chrono_adds (chrono_add_seconds x)"
    and clock: "\<And>n. reached (db_clock s n)"
  shows "R s t"
proof -
  obtain requested where
    req: "chrono_add_seconds x (db_clock s (db_ticks s)) (int (effective_lease_seconds secs)) = Some requested"
    and dl: "\<not> (case earliest_deadline s lease of Some d \<Rightarrow> d \<le> db_clock s (db_ticks s) | None \<Rightarrow> False)"
    and t: "db_leases t = update_rows (renewable (ls_id lease) (db_clock s (Suc (db_ticks s))))
      (\<lambda>l. l\<lparr>ls_expires_at := cap_at (earliest_deadline s lease) requested\<rparr>) (db_leases s)"
    using renew_moves_expiry [OF run] .
  have "db_clock s (db_ticks s) < cap_at (earliest_deadline s lease) requested"
    using lease_runs_past [OF add req] dl by (auto simp: cap_at_def split: option.splits)
  then have "later (cap_at (earliest_deadline s lease) requested)" using clock past by blast
  then show ?thesis using moved [OF t renewable_active] by simp
qed

lemma rows_drain:
  assumes run: "drain_in_transaction x tenant_id w request s = Inr (fs, t)" and clock: "\<And>n. reached (db_clock s n)"
  shows "R s t"
proof (cases "find (\<lambda>r. dr_shutdown_id r = rq_shutdown_id request) (db_drain_receipts s)")
  case None
  note opened = open_drain_Inr [OF drain_opens [OF run None]]
  have "later (rq_hard_deadline request)" using opened(1) clock past by blast
  then show ?thesis using moved [OF opened(2) [simplified]] by simp
next
  case (Some r)
  with run have "db_leases t = db_leases s"
    by (auto simp: drain_in_transaction_def lock_worker_for_lease_terminalization_on_connection_def
        tx_bind_assoc split: if_splits)
  then show ?thesis by (rule kept)
qed

lemma rows_claim:
  assumes run: "claim_in_transaction x worker job secs operation s = Inr (r, t)"
    and add: "chrono_adds (chrono_add_seconds x)" and clock: "\<And>n. reached (db_clock s n)"
  shows "R s t"
  using tx_relD [OF claim_adds_lease run] unfolding adds_lease_def
proof (elim disjE exE conjE)
  fix l n
  assume l: "db_leases t = db_leases s @ [l]"
    and exp: "chrono_add_seconds x (db_clock s n) (int (effective_lease_seconds secs)) = Some (ls_expires_at l)"
  have "later (ls_expires_at l)" using past [OF clock lease_runs_past [OF add exp]] .
  with l show ?thesis by (rule granted)
qed (rule kept)

lemma rows_try_claim:
  assumes "chrono_adds (chrono_add_seconds x)" and "\<And>n. reached (db_clock s n)"
  shows "R s (snd (try_claim_job x worker job secs operation s))"
proof -
  have "R s (snd (tx_atomic (quarantine_invalid_sterile_resident_job x job) s))"
    by (intro atomic kept_queued [THEN rows_kept])
  moreover have "R s t" if "claim_in_transaction x worker job secs operation s = Inr (l, t)" for l t
    using rows_claim [OF that] assms by blast
  ultimately show ?thesis
    by (auto simp: try_claim_job_def frame_refl split: sum.splits option.splits prod.splits if_splits)
qed

lemma rows_renew_lease:
  assumes "chrono_adds (chrono_add_seconds x)" and "\<And>n. reached (db_clock s n)"
  shows "R s (snd (renew_lease x lease secs s))"
  using rows_renew [OF _ assms] frame_refl
  by (auto simp: renew_lease_def tx_atomic_def split: sum.splits prod.splits)

lemma rows_atomic_drain:
  assumes "\<And>n. reached (db_clock s n)"
  shows "R s (snd (tx_atomic (drain_in_transaction x tenant_id w request) s))"
  using rows_drain [OF _ assms] frame_refl by (auto simp: tx_atomic_def split: sum.splits prod.splits)

lemmas rows_steps = atomic [OF rows_complete] atomic [OF rows_fail] atomic [OF rows_expire] atomic [OF rows_stop]
  rows_atomic_drain rows_try_claim rows_renew_lease rows_settle_fence atomic [OF kept_insert_job [THEN rows_kept]]
  atomic [OF kept_fences(3) [THEN rows_kept]] atomic [OF kept_fences(4) [THEN rows_kept]]
  atomic [OF kept_queued(2) [THEN rows_kept]] atomic [OF kept_queued(4) [THEN rows_kept]]
  atomic [OF kept_terminalize(1) [THEN rows_kept]] atomic [OF kept_terminalize(2) [THEN rows_kept]]
  atomic [OF kept_refresh [THEN rows_kept]]

lemma rows_step:
  assumes add: "chrono_adds (chrono_add_seconds x)" and clock: "\<And>n. reached (fst env n)"
  shows "R s (lease_step x env request s)"
proof -
  have now: "reached (db_clock (on_request env s) n)" for n using clock by (simp add: on_request_def)
  have "R u (kill_queued_job j e t u)" for u j e t using kept_kill by (simp add: same_leases_def kept)
  then have "R (on_request env s) (lease_step x env request s)"
    using add now by (cases request) (simp_all add: lease_step_def Let_def rows_steps)
  moreover have "R s (on_request env s)" by (rule kept) (simp add: on_request_def)
  ultimately show ?thesis using frame_trans by blast
qed

lemma rows_sweep: "R s (snd (sweep (\<lambda>l. expire_lease_if_still_active x (ls_id l) now) rs s))"
proof (induction rs arbitrary: s)
  case (Cons r rs)
  obtain v u where vu: "tx_atomic (expire_lease_if_still_active x (ls_id r) now) s = (v, u)"
    by (cases "tx_atomic (expire_lease_if_still_active x (ls_id r) now) s")
  have "R s u" using atomic [OF rows_expire, of s x "ls_id r" now] vu by simp
  then show ?case using Cons.IH [of u] vu frame_trans by (cases v) auto
qed (simp add: frame_refl)

end

subsection \<open>No request makes a lease due\<close>

definition due_count :: "timestamp \<Rightarrow> database \<Rightarrow> nat" where
  "due_count T s = rows_matching (lease_due T) (db_leases s)"

definition due_frame :: "timestamp \<Rightarrow> database \<Rightarrow> database \<Rightarrow> bool" where
  "due_frame T s t \<longleftrightarrow> due_count T t \<le> due_count T s"

lemma rows_matching_update_le:
  assumes "\<And>r. P r \<Longrightarrow> Q (f r) \<Longrightarrow> Q r"
  shows "rows_matching Q (update_rows P f rs) \<le> rows_matching Q rs"
  using assms by (induction rs) (auto simp: rows_matching_def le_SucI)

lemma due_frame_update:
  assumes "db_leases t = update_rows P f (db_leases s)" and "\<And>l. P l \<Longrightarrow> lease_due T (f l) \<Longrightarrow> lease_due T l"
  shows "due_frame T s t"
  using rows_matching_update_le [of P "lease_due T" f "db_leases s"] assms
  by (simp add: due_frame_def due_count_def)

interpretation due: lease_rows "due_frame T" "\<lambda>now. T \<le> now" "\<lambda>e. T < e" for T
proof
  show "due_frame T s t" if "db_leases t = update_rows P g (db_leases s)" "\<And>l. P l \<Longrightarrow> ls_status l = LeaseStatus.Active"
    "\<And>l. ls_status (g l) \<noteq> LeaseStatus.Active" for s t P g
    using that(1) by (rule due_frame_update) (use that(3) in \<open>simp add: lease_due_def\<close>)
  show "due_frame T s t" if "db_leases t = update_rows P (\<lambda>l. l\<lparr>ls_cancel_requested_at := c, ls_cancel_reason := r\<rparr>) (db_leases s)"
    for s t P c r
    using that(1) by (rule due_frame_update) (simp add: lease_due_def)
  show "due_frame T s t" if "db_leases t = update_rows P (\<lambda>l. l\<lparr>ls_expires_at := e\<rparr>) (db_leases s)" "T < e" for s t P e
    using that(1) by (rule due_frame_update) (use that(2) in \<open>simp add: lease_due_def\<close>)
qed (auto simp: due_frame_def due_count_def rows_matching_def lease_due_def)

subsection \<open>A tick expires the oldest batch\<close>

definition expired_row :: "timestamp \<Rightarrow> lease_row \<Rightarrow> lease_row" where
  "expired_row now l = l\<lparr>ls_status := LeaseStatus.Expired, ls_completed_at := Some now, ls_error := Some ''lease expired''\<rparr>"

lemma expire_rows:
  assumes "expire_lease_if_still_active x i now s = Inr (u, t)"
  shows "db_leases t = update_rows (\<lambda>l. lease_due now l \<and> ls_id l = i) (expired_row now) (db_leases s)"
proof -
  have P: "(\<lambda>l. active_lease i l \<and> ls_expires_at l \<le> now) = (\<lambda>l. lease_due now l \<and> ls_id l = i)"
    by (auto simp: active_lease_def lease_due_def)
  from assms obtain won s1 where
    cas: "expire_active_lease_on_connection i now ''lease expired'' s = Inr (won, s1)"
    and rest: "(if \<not> won then tx_return () else
     tx_bind (fetch_lease_on_connection i) (\<lambda>lease.
     tx_bind (resolve_captured_worker_drain_fence_on_connection lease ''expired'' now) (\<lambda>_.
     settle_expired_lease x lease now))) s1 = Inr (u, t)"
    unfolding expire_lease_if_still_active_def tx_bind_Inr [where m = "fetch_lease_on_connection i"]
      tx_bind_Inr [where m = "lock_worker_for_lease_terminalization_on_connection _"]
      tx_bind_Inr [where m = "expire_active_lease_on_connection _ _ _"]
    by (auto simp: fetch_lease_Inr dest!: lock_worker_Inr)
  have "tx_rel same_leases (if \<not> won then tx_return () else
     tx_bind (fetch_lease_on_connection i) (\<lambda>lease.
     tx_bind (resolve_captured_worker_drain_fence_on_connection lease ''expired'' now) (\<lambda>_.
     settle_expired_lease x lease now)))"
    by (intro leases.frame_rules kept_fetch kept_settle_expired stable_tail [THEN same_leases_stable])
  from tx_relD [OF this rest] have "db_leases t = db_leases s1" by (simp add: same_leases_def)
  also have "db_leases s1 = update_rows (\<lambda>l. lease_due now l \<and> ls_id l = i) (expired_row now) (db_leases s)"
    using cas unfolding P [symmetric]
    by (auto simp: expire_active_lease_on_connection_def tx_bind_Inr update_leases_Inr expired_row_def update_rows_def)
  finally show ?thesis .
qed

lemma sweep_expires:
  assumes "sweep (\<lambda>l. expire_lease_if_still_active x (ls_id l) now) rs s = (Inr (), t)"
  shows "db_leases t = update_rows (\<lambda>l. lease_due now l \<and> ls_id l \<in> ls_id ` set rs) (expired_row now) (db_leases s)"
  using assms
proof (induction rs arbitrary: s)
  case (Cons r rs)
  then obtain s1 where one: "tx_atomic (expire_lease_if_still_active x (ls_id r) now) s = (Inr (), s1)"
    and rest: "sweep (\<lambda>l. expire_lease_if_still_active x (ls_id l) now) rs s1 = (Inr (), t)"
    by (auto split: prod.splits sum.splits)
  have "db_leases s1 = update_rows (\<lambda>l. lease_due now l \<and> ls_id l = ls_id r) (expired_row now) (db_leases s)"
    by (rule expire_rows) (use one in \<open>auto simp: tx_atomic_cases\<close>)
  then show ?case
    unfolding Cons.IH [OF rest]
    by (auto simp: update_rows_def lease_due_def expired_row_def)
qed (simp add: update_rows_def)

lemma sorted_split:
  fixes e :: "'r \<Rightarrow> int" and i :: "'r \<Rightarrow> 'k::linorder"
  assumes "sorted (map (\<lambda>r. (e r, i r)) rs)"
  obtains pre suf where "rs = pre @ suf" "\<forall>r \<in> set pre. e r \<le> T" "\<forall>r \<in> set suf. \<not> e r \<le> T"
  using assms
proof (induction rs arbitrary: thesis)
  case (Cons r rs)
  show ?case
  proof (cases "e r \<le> T")
    case True
    from Cons.prems(2) have "sorted (map (\<lambda>r. (e r, i r)) rs)" by simp
    then obtain pre suf where "rs = pre @ suf" "\<forall>r \<in> set pre. e r \<le> T" "\<forall>r \<in> set suf. \<not> e r \<le> T"
      using Cons.IH by blast
    then show ?thesis using True by (intro Cons.prems(1) [of "r # pre" suf]) auto
  next
    case False
    have "e r \<le> e q" if "q \<in> set rs" for q using Cons.prems(2) that by (auto simp: less_eq_prod_def)
    then show ?thesis using False by (intro Cons.prems(1) [of "[]" "r # rs"]) force+
  qed
qed simp

text \<open>The rows due at \<open>T\<close> are the first of the rows due later, in the order of the sweep.\<close>

lemma batch_counts:
  fixes now :: timestamp
  assumes ids: "distinct (map ls_id ls)" and T: "T \<le> now"
    and chosen: "chosen = take B (sort_key (\<lambda>l. (ls_expires_at l, ls_id l)) (filter (lease_due now) ls))"
  shows "rows_matching (lease_due T) (update_rows (\<lambda>l. lease_due now l \<and> ls_id l \<in> ls_id ` set chosen) (expired_row now) ls)
    = rows_matching (lease_due T) ls - B"
proof -
  let ?k = "\<lambda>l. (ls_expires_at l, ls_id l)"
  let ?due = "sort_key ?k (filter (lease_due now) ls)"
  have over: "length (filter Q ls) = length (filter Q ?due)" if "\<And>l. Q l \<Longrightarrow> lease_due now l" for Q
  proof -
    have "filter Q ls = filter Q (filter (lease_due now) ls)" using that by (auto intro!: filter_cong)
    then show ?thesis by (simp add: filter_sort)
  qed
  have later: "lease_due now l" if "lease_due T l" for l using that T by (auto simp: lease_due_def)
  have d: "distinct ?due" using ids by (simp add: distinct_map)
  have mem: "ls_id l \<in> ls_id ` set chosen \<longleftrightarrow> l \<in> set chosen" if "l \<in> set ls" for l
  proof
    assume "ls_id l \<in> ls_id ` set chosen"
    then obtain m where m: "m \<in> set chosen" "ls_id m = ls_id l" by force
    then have "m \<in> set ls" using chosen by (auto dest: in_set_takeD)
    then show "l \<in> set chosen" using m that ids by (metis distinct_map inj_onD)
  qed auto
  have "rows_matching (lease_due T) (update_rows (\<lambda>l. lease_due now l \<and> ls_id l \<in> ls_id ` set chosen) (expired_row now) ls)
      = length (filter (\<lambda>l. lease_due T l \<and> l \<notin> set chosen) ls)"
    using mem later by (induction ls) (auto simp: rows_matching_def expired_row_def lease_due_def)
  also have "\<dots> = length (filter (\<lambda>l. lease_due T l \<and> l \<notin> set chosen) ?due)" by (rule over) (use later in blast)
  also have "\<dots> = length (filter (lease_due T) (drop B ?due))"
  proof -
    have "set chosen \<inter> set (drop B ?due) = {}"
      unfolding chosen by (rule set_take_disj_set_drop_if_distinct [OF d]) simp
    then have "filter (\<lambda>l. lease_due T l \<and> l \<notin> set chosen) (drop B ?due) = filter (lease_due T) (drop B ?due)"
      by (intro filter_cong) auto
    moreover have "filter (\<lambda>l. lease_due T l \<and> l \<notin> set chosen) chosen = []" by (simp add: filter_empty_conv)
    ultimately have "filter (\<lambda>l. lease_due T l \<and> l \<notin> set chosen) (chosen @ drop B ?due) = filter (lease_due T) (drop B ?due)"
      by simp
    then show ?thesis using chosen by simp
  qed
  also have "\<dots> = length (filter (lease_due T) ?due) - B"
  proof -
    obtain pre suf where split: "?due = pre @ suf" "\<forall>l \<in> set pre. ls_expires_at l \<le> T" "\<forall>l \<in> set suf. \<not> ls_expires_at l \<le> T"
      using sorted_split [of ls_expires_at ls_id ?due T] by auto
    have "lease_due T l" if "l \<in> set pre" for l
    proof -
      have "l \<in> set ?due" unfolding split(1) using that by simp
      then show ?thesis using split(2) that by (simp add: lease_due_def)
    qed
    moreover have "\<not> lease_due T l" if "l \<in> set suf" for l using split(3) that by (auto simp: lease_due_def)
    ultimately have "filter (lease_due T) (drop B pre) = drop B pre" "filter (lease_due T) pre = pre"
      "filter (lease_due T) (drop (B - length pre) suf) = []" "filter (lease_due T) suf = []"
      by (auto simp: filter_id_conv filter_empty_conv dest: in_set_dropD)
    then show ?thesis unfolding split(1) by simp
  qed
  also have "length (filter (lease_due T) ?due) = rows_matching (lease_due T) ls"
    using over [of "lease_due T"] later by (simp add: rows_matching_def)
  finally show ?thesis .
qed

subsection \<open>Runs with ticks\<close>

datatype sweep_event = Request env lease_request | Tick env

fun event_clock :: "sweep_event \<Rightarrow> nat \<Rightarrow> timestamp" where
  "event_clock (Request env request) = fst env"
| "event_clock (Tick env) = fst env"

fun is_tick :: "sweep_event \<Rightarrow> bool" where
  "is_tick (Tick env) = True"
| "is_tick (Request env request) = False"

definition tick :: "'e lease_externals_scheme \<Rightarrow> env \<Rightarrow> database \<Rightarrow> (ApiError + unit) \<times> database" where
  "tick x env s = expire_due_leases x (on_request env s)"

fun lease_trace :: "'e lease_externals_scheme \<Rightarrow> sweep_event list \<Rightarrow> database \<Rightarrow> database" where
  "lease_trace x [] s = s"
| "lease_trace x (Request env request # es) s = lease_trace x es (lease_step x env request s)"
| "lease_trace x (Tick env # es) s = lease_trace x es (snd (tick x env s))"

fun ticks_succeed :: "'e lease_externals_scheme \<Rightarrow> sweep_event list \<Rightarrow> database \<Rightarrow> bool" where
  "ticks_succeed x [] s = True"
| "ticks_succeed x (Request env request # es) s = ticks_succeed x es (lease_step x env request s)"
| "ticks_succeed x (Tick env # es) s = (fst (tick x env s) = Inr () \<and> ticks_succeed x es (snd (tick x env s)))"

lemma sweep_frame: "lease_frame c s (snd (sweep (\<lambda>l. expire_lease_if_still_active x (ls_id l) now) rs s))"
proof (induction rs arbitrary: s)
  case (Cons r rs)
  obtain v u where vu: "tx_atomic (expire_lease_if_still_active x (ls_id r) now) s = (v, u)"
    by (cases "tx_atomic (expire_lease_if_still_active x (ls_id r) now) s")
  have "lease_frame c s u" using queue.atomic [OF expire_frame [of c x "ls_id r" now], of s] vu by simp
  then show ?case using Cons.IH [of u] vu queue.frame_trans by (cases v) auto
qed (simp add: queue.frame_refl)

lemma tick_sweep:
  obtains u where "same_queue s u"
    "tick x env s = sweep (\<lambda>l. expire_lease_if_still_active x (ls_id l) (fst env 0)) (due_leases (fst env 0) u) u"
proof (rule that [of "(on_request env s)\<lparr>db_ticks := Suc 0\<rparr>"])
  show "same_queue s ((on_request env s)\<lparr>db_ticks := Suc 0\<rparr>)" by (simp add: same_queue_def on_request_def)
qed (simp add: tick_def expire_due_leases_def utc_now_def on_request_def)

lemma tick_frame: "lease_frame c s (snd (tick x env s))"
proof -
  obtain u where u: "same_queue s u"
    "tick x env s = sweep (\<lambda>l. expire_lease_if_still_active x (ls_id l) (fst env 0)) (due_leases (fst env 0) u) u"
    by (rule tick_sweep)
  show ?thesis unfolding u(2)
    using queue.frame_trans [OF lease_frame_same_queue [OF u(1)] sweep_frame] .
qed

context lease_rows
begin

lemma rows_tick: "R s (snd (tick x env s))"
proof -
  obtain u where u: "same_queue s u"
    "tick x env s = sweep (\<lambda>l. expire_lease_if_still_active x (ls_id l) (fst env 0)) (due_leases (fst env 0) u) u"
    by (rule tick_sweep)
  have "R s u" using u(1) by (simp add: same_queue_def kept)
  then show ?thesis unfolding u(2) using rows_sweep frame_trans by blast
qed

lemma rows_trace:
  assumes "chrono_adds (chrono_add_seconds x)" and "list_all (\<lambda>e. \<forall>n. reached (event_clock e n)) es"
  shows "R s (lease_trace x es s)"
  using assms(2)
proof (induction es arbitrary: s)
  case (Cons e es)
  then show ?case
    using rows_step [OF assms(1)] rows_tick frame_trans by (cases e) (simp_all, blast+)
qed (simp add: frame_refl)

end

lemma trace_frame: "lease_frame False s (lease_trace x es s)"
proof (induction es arbitrary: s)
  case (Cons e es)
  then show ?case
    using lease_step_frame [of False] tick_frame queue.frame_trans by (cases e) (simp_all, blast+)
qed (simp add: queue.frame_refl)

lemma tick_progress:
  assumes inv: "lease_inv s" and ok: "fst (tick x env s) = Inr ()" and T: "T \<le> fst env 0"
  shows "due_count T (snd (tick x env s)) = due_count T s - LEASE_EXPIRY_BATCH_SIZE"
proof -
  obtain u where u: "same_queue s u"
    and run: "tick x env s = sweep (\<lambda>l. expire_lease_if_still_active x (ls_id l) (fst env 0)) (due_leases (fst env 0) u) u"
    by (rule tick_sweep)
  let ?t = "snd (tick x env s)"
  have "db_leases ?t = update_rows (\<lambda>l. lease_due (fst env 0) l \<and> ls_id l \<in> ls_id ` set (due_leases (fst env 0) u))
      (expired_row (fst env 0)) (db_leases u)"
    by (rule sweep_expires [of x "fst env 0"]) (use ok run in \<open>simp add: prod_eq_iff\<close>)
  moreover have "distinct (map ls_id (db_leases u))"
    using inv u by (simp add: lease_inv_def rows_inv_def same_queue_def)
  ultimately show ?thesis
    using batch_counts [OF _ T due_leases_def [of "fst env 0" u]] u
    by (simp add: due_count_def same_queue_def)
qed

lemma lease_frame_inv: "lease_frame False s t \<Longrightarrow> lease_inv s \<Longrightarrow> lease_inv t"
  by (simp add: lease_frame_def rows_frame_def lease_inv_def)

lemma trace_progress:
  assumes "chrono_adds (chrono_add_seconds x)" and "lease_inv s" and "ticks_succeed x es s"
    and "list_all (\<lambda>e. \<forall>n. T \<le> event_clock e n) es"
  shows "due_count T (lease_trace x es s) \<le> due_count T s - LEASE_EXPIRY_BATCH_SIZE * length (filter is_tick es)"
  using assms(2-)
proof (induction es arbitrary: s)
  case (Cons e es)
  show ?case
  proof (cases e)
    case (Request env request)
    have "lease_inv (lease_step x env request s)"
      by (rule lease_frame_inv [OF lease_step_frame Cons.prems(1)]) simp
    then have "due_count T (lease_trace x es (lease_step x env request s))
        \<le> due_count T (lease_step x env request s) - LEASE_EXPIRY_BATCH_SIZE * length (filter is_tick es)"
      by (rule Cons.IH) (use Cons.prems Request in simp_all)
    moreover have "due_frame T s (lease_step x env request s)"
      by (rule due.rows_step [OF assms(1)]) (use Cons.prems(3) Request in simp)
    ultimately show ?thesis using Request by (simp add: due_frame_def)
  next
    case (Tick env)
    have "lease_inv (snd (tick x env s))" by (rule lease_frame_inv [OF tick_frame Cons.prems(1)])
    then have "due_count T (lease_trace x es (snd (tick x env s)))
        \<le> due_count T (snd (tick x env s)) - LEASE_EXPIRY_BATCH_SIZE * length (filter is_tick es)"
      by (rule Cons.IH) (use Cons.prems Tick in simp_all)
    moreover have "due_count T (snd (tick x env s)) = due_count T s - LEASE_EXPIRY_BATCH_SIZE"
      by (rule tick_progress) (use Cons.prems Tick in simp_all)
    ultimately show ?thesis using Tick by simp
  qed
qed simp


subsection \<open>A lease that blocks the sweep\<close>

text \<open>
  The failure of a command appends the reason to its output before it finishes the command.  When the
  output already holds as many chunks as a command may have, that append is refused, and with it the
  expiry of the lease.
\<close>

definition full_command :: "'e externals_scheme \<Rightarrow> database \<Rightarrow> Job \<Rightarrow> bool" where
  "full_command x s job \<longleftrightarrow> jb_kind job = JobKind.RunCommand \<and> jb_max_attempts job \<le> jb_attempts job
     \<and> (\<exists>command_id sandbox_id row. command_id_from_job x job = Inr command_id \<and> sandbox_id_from_job x job = Inr sandbox_id
        \<and> find_command (db_output s) command_id = Some row \<and> MAX_COMMAND_OUTPUT_CHUNKS \<le> chunk_count (row_counters row))"

definition blocking_lease :: "'e externals_scheme \<Rightarrow> database \<Rightarrow> lease_row \<Rightarrow> bool" where
  "blocking_lease x s l \<longleftrightarrow> l \<in> set (db_leases s) \<and> ls_status l = LeaseStatus.Active
     \<and> list_all (\<lambda>m. ls_status m = LeaseStatus.Active \<longrightarrow> (ls_expires_at l, ls_id l) \<le> (ls_expires_at m, ls_id m)) (db_leases s)
     \<and> rows_matching (\<lambda>w. wk_id w = ls_worker_id l) (db_workers s) = 1
     \<and> list_ex (\<lambda>r. jr_id r = ls_job_id l \<and> full_command x s (jr_job r)) (db_jobs s)"

abbreviation output_full :: ApiError where
  "output_full \<equiv> bad_request ''command output exceeds 4096 chunks''"

lemma tx_bind_Inl: "m s = Inl e \<Longrightarrow> tx_bind m k s = Inl e"
  by (rule tx_bind_steps)

lemma fail_command_full:
  assumes "full_command x s job" and "db_output t = db_output s"
  shows "fail_command x job ''lease expired'' t = Inl output_full"
proof -
  obtain cid b row where ids: "command_id_from_job x job = Inr cid" "sandbox_id_from_job x job = Inr b"
    and row: "find_command (db_output s) cid = Some row" "MAX_COMMAND_OUTPUT_CHUNKS \<le> chunk_count (row_counters row)"
    using assms(1) by (auto simp: full_command_def)
  have rej: "append_command_output_chunk_on_connection sh (db_output s) cid b stream ''lease expired'' ann env = Inl output_full"
    for sh stream ann env
    using row by (rule full_command_rejects) (simp add: MAX_COMMAND_OUTPUT_CHUNK_BYTES_def)
  have "append_chunk x cid b CommandOutputStream.Stderr ''lease expired'' t = Inl output_full"
    by (simp add: append_chunk_def draw_append_env_def tx_bind_assoc on_output_def assms(2) rej tx_bind_lift)
  then show ?thesis by (simp add: fail_command_def ids tx_bind_lift tx_bind_Inl)
qed

lemma expire_blocked:
  assumes ids: "distinct (map ls_id (db_leases s))" "distinct (map jr_id (db_jobs s))"
    and block: "blocking_lease x s l" and due: "ls_expires_at l \<le> now"
  shows "expire_lease_if_still_active x (ls_id l) now s = Inl output_full"
proof -
  from block obtain r where l: "l \<in> set (db_leases s)" "ls_status l = LeaseStatus.Active"
    and worker: "rows_matching (\<lambda>w. wk_id w = ls_worker_id l) (db_workers s) = 1"
    and r: "r \<in> set (db_jobs s)" "jr_id r = ls_job_id l" "full_command x s (jr_job r)"
    by (auto simp: blocking_lease_def list_ex_iff)
  let ?s1 = "db_leases_update (update_rows (\<lambda>m. active_lease (ls_id l) m \<and> ls_expires_at m \<le> now) (expired_row now)) s"
  have look: "lookup_lease s (ls_id l) = Some \<lparr>jl_lease = l, jl_job = jr_job r\<rparr>"
    using find_row [OF ids(1) l(1) refl] find_row [OF ids(2) r(1,2)] by (simp add: lookup_lease_def)
  have "find (\<lambda>m. ls_id m = ls_id l) (db_leases ?s1) = Some (expired_row now l)"
    using find_row [OF ids(1) l(1) refl] l(2) due
    by (simp add: find_key_update [where key = ls_id] expired_row_def active_lease_def)
  then have look1: "lookup_lease ?s1 (ls_id l) = Some \<lparr>jl_lease = expired_row now l, jl_job = jr_job r\<rparr>"
    using find_row [OF ids(2) r(1,2)] by (simp add: lookup_lease_def expired_row_def)
  have "rows_matching (\<lambda>m. active_lease (ls_id l) m \<and> ls_expires_at m \<le> now) (db_leases s) \<noteq> 0"
    using l due by (auto simp: rows_matching_def filter_empty_conv active_lease_def)
  then have one: "rows_matching (\<lambda>m. active_lease (ls_id l) m \<and> ls_expires_at m \<le> now) (db_leases s) = 1"
    using active_lease_unique [OF ids(1), of "ls_id l" "\<lambda>m. ls_expires_at m \<le> now"] by simp
  have cas: "expire_active_lease_on_connection (ls_id l) now ''lease expired'' s = Inr (True, ?s1)"
    using one by (simp add: expire_active_lease_on_connection_def update_leases_def tx_bind_assoc expired_row_def [abs_def])
  have kind: "jb_kind (jr_job r) = JobKind.RunCommand" "jb_max_attempts (jr_job r) \<le> jb_attempts (jr_job r)"
    using r(3) by (simp_all add: full_command_def)
  have fail: "apply_failed_job_on_connection x (jr_job r) ''lease expired'' t = Inl output_full"
    if "db_output t = db_output s" for t
    using fail_command_full [OF r(3) that] kind by (simp add: apply_failed_job_on_connection_def)
  have settle: "settle_expired_lease x \<lparr>jl_lease = expired_row now l, jl_job = jr_job r\<rparr> now t = Inl output_full"
    if "db_output t = db_output s" for t
    using kind fail that
    by (simp add: settle_expired_lease_def Let_def resident_process_desires_stop_def resident_rows_match_def
        resident_bootstrap_was_delivered_def retry_or_fail_def update_job_status_on_connection_def tx_bind_Inl)
  show ?thesis
    using worker look look1
    by (simp add: expire_lease_if_still_active_def fetch_lease_on_connection_def tx_bind_lift tx_bind_assoc ok_or_def
        lock_worker_for_lease_terminalization_on_connection_def tx_bind_steps(1) [where m = "expire_active_lease_on_connection _ _ _" and s = s, OF cas]
        resolve_captured_worker_drain_fence_on_connection_def settle)
qed

lemma blocking_first:
  assumes ids: "distinct (map ls_id (db_leases s))" and block: "blocking_lease x s l" and due: "ls_expires_at l \<le> now"
  obtains ls where "due_leases now s = l # ls"
proof -
  let ?k = "\<lambda>l. (ls_expires_at l, ls_id l)" and ?due = "filter (lease_due now) (db_leases s)"
  have l: "l \<in> set ?due" using block due by (simp add: blocking_lease_def lease_due_def)
  have least: "?k l \<le> ?k m" if "m \<in> set ?due" for m
    using block that by (auto simp: blocking_lease_def lease_due_def list_all_iff)
  have "0 < length (sort_key ?k ?due)" unfolding length_sort by (rule length_pos_if_in_set [OF l])
  then obtain h ls where sorted: "sort_key ?k ?due = h # ls" by (cases "sort_key ?k ?due") simp_all
  have h: "h \<in> set ?due" using arg_cong [OF sorted, of set] by auto
  have "?k h \<le> ?k l"
  proof (cases "l = h")
    case False
    then have "l \<in> set ls" using l arg_cong [OF sorted, of set] by auto
    moreover have "sorted (map ?k (h # ls))" unfolding sorted [symmetric] by simp
    ultimately show ?thesis by auto
  qed simp
  then have "?k h = ?k l" using least [OF h] by (rule antisym)
  then have "h = l" using ids h l by (auto simp: distinct_map dest: inj_onD)
  then show thesis using sorted by (intro that [of "take 999 ls"]) (simp add: due_leases_def LEASE_EXPIRY_BATCH_SIZE_def)
qed

lemma tick_blocked:
  assumes inv: "lease_inv s" and block: "blocking_lease x s l" and due: "ls_expires_at l \<le> fst env 0"
  shows "tick x env s = (Inl output_full, (on_request env s)\<lparr>db_ticks := Suc 0\<rparr>)"
proof -
  let ?u = "(on_request env s)\<lparr>db_ticks := Suc 0\<rparr>"
  have ids: "distinct (map ls_id (db_leases ?u))" "distinct (map jr_id (db_jobs ?u))"
    using inv by (simp_all add: lease_inv_def rows_inv_def on_request_def)
  have b: "blocking_lease x ?u l"
    using block by (simp add: blocking_lease_def full_command_def on_request_def)
  obtain ls where "due_leases (fst env 0) ?u = l # ls" by (rule blocking_first [OF ids(1) b due])
  then show ?thesis
    using expire_blocked [OF ids b due]
    by (simp add: tick_def expire_due_leases_def utc_now_def on_request_def tx_atomic_def)
qed


subsection \<open>Witnesses\<close>

abbreviation lease_deadline :: timestamp where
  "lease_deadline \<equiv> ls_expires_at claimed_lease"

lemma sample_tick:
  "fst (tick lease_sample_externals (env_at lease_deadline) queue_database) = Inr ()"
proof -
  let ?s = "(on_request (env_at lease_deadline) queue_database)\<lparr>db_ticks := Suc 0\<rparr>"
  have "due_leases lease_deadline ?s = [claimed_lease]"
    by (simp add: due_leases_def queue_database_def on_request_def lease_due_def claimed_lease_def new_lease_def
        LEASE_EXPIRY_BATCH_SIZE_def)
  moreover have "\<exists>t. expire_lease_if_still_active lease_sample_externals (ls_id claimed_lease) lease_deadline ?s = Inr ((), t)"
    by (simp add: expire_lease_if_still_active_def fetch_lease_on_connection_def lookup_lease_def queue_database_def
        on_request_def claimed_lease_def new_lease_def leased_row_def new_job_row_def queue_job_def sample_job_def
        tx_bind_lift tx_bind_assoc ok_or_def lock_worker_for_lease_terminalization_on_connection_def idle_database_def
        sample_worker_def rows_matching_def expire_active_lease_on_connection_def update_leases_def active_lease_def
        resolve_captured_worker_drain_fence_on_connection_def settle_expired_lease_def Let_def
        resident_process_desires_stop_def resident_rows_match_def resident_bootstrap_was_delivered_def
        retry_or_fail_def update_job_status_on_connection_def apply_retryable_job_on_connection_def
        empty_database_def tx_bind_steps env_at_def)
  ultimately show ?thesis
    by (auto simp: tick_def expire_due_leases_def utc_now_def on_request_def env_at_def tx_atomic_def)
qed


definition full_row :: command_row where
  "full_row = \<lparr>row_command = sample_command, row_counters = \<lparr>chunk_count = 4096, byte_count = 4096,
     stdout_sequence = 4096, stderr_sequence = 0\<rparr>\<rparr>"

definition full_job :: Job where
  "full_job = (sample_job JobKind.RunCommand (JObject [(''commandId'', JString ''u11111''), (''sandboxId'', JString ''u1111111'')]))
     \<lparr>jb_status := JobStatus.Leased, jb_attempts := 3\<rparr>"

definition blocked_database :: database where
  "blocked_database = idle_database\<lparr>db_jobs := [new_job_row full_job no_references False],
     db_leases := [claimed_lease], db_output := (db_output idle_database)\<lparr>commands := [full_row]\<rparr>\<rparr>"


end
