(* ===== verification/Lease_Contracts.thy ===== *)
theory Lease_Contracts
  imports Lease_Sweeps
begin

text \<open>
  What the operations on leases promise their callers: an ended lease is final and a completion can be
  replayed, a renewal never revives a lease nor outruns a drain, a drain closes a worker, and a stop
  fences the work of its sandbox.
\<close>

subsection \<open>Ended leases are final\<close>

definition ended_frame :: "database \<Rightarrow> database \<Rightarrow> bool" where
  "ended_frame s t \<longleftrightarrow> (\<forall>l \<in> set (db_leases s). ls_status l \<noteq> LeaseStatus.Active \<longrightarrow> l \<in> set (db_leases t))"

lemma ended_frame_update:
  assumes "db_leases t = update_rows P f (db_leases s)" and "\<And>l. P l \<Longrightarrow> ls_status l = LeaseStatus.Active"
  shows "ended_frame s t"
  unfolding ended_frame_def
proof (intro ballI impI)
  fix l
  assume l: "l \<in> set (db_leases s)" "ls_status l \<noteq> LeaseStatus.Active"
  then have "\<not> P l" using assms(2) by blast
  then show "l \<in> set (db_leases t)" using l(1) unfolding assms(1) update_rows_def by force
qed

interpretation final: lease_rows ended_frame "\<lambda>_. True" "\<lambda>_. True"
proof
  show "ended_frame s u" if "ended_frame s t" "ended_frame t u" for s t u
    using that unfolding ended_frame_def by blast
  show "ended_frame s t" if "db_leases t = update_rows P g (db_leases s)" "\<And>l. P l \<Longrightarrow> ls_status l = LeaseStatus.Active" for s t P g
    by (rule ended_frame_update) (use that in blast)+
  show "ended_frame s t" if "db_leases t = update_rows P (\<lambda>l. l\<lparr>ls_cancel_requested_at := c, ls_cancel_reason := r\<rparr>) (db_leases s)"
    "\<And>l. P l \<Longrightarrow> ls_status l = LeaseStatus.Active" for s t P c r
    by (rule ended_frame_update) (use that in blast)+
  show "ended_frame s t" if "db_leases t = update_rows P (\<lambda>l. l\<lparr>ls_expires_at := e\<rparr>) (db_leases s)"
    "\<And>l. P l \<Longrightarrow> ls_status l = LeaseStatus.Active" for s t P e
    by (rule ended_frame_update) (use that in blast)+
qed (auto simp: ended_frame_def)

lemma complete_active_rows:
  assumes "complete_active x lease result fp s = Inr (r, t)"
  shows "db_leases t = update_rows (active_lease (ls_id (jl_lease lease))) (\<lambda>l. l\<lparr>ls_status := LeaseStatus.Completed,
      ls_completed_at := Some (db_clock s (db_ticks s)), ls_error := None, ls_completion_fingerprint := Some fp\<rparr>) (db_leases s)"
    and "list_all (\<lambda>q. jr_id q = ls_job_id (jl_lease lease) \<longrightarrow> jr_status q = JobStatus.Succeeded) (db_jobs t)"
proof -
  let ?l = "jl_lease lease"
  from assms [unfolded complete_active_def tx_bind_Inr] obtain now s0 s1 s2 s3 s4 s5 u1 u2 u3 u4 u5 where
    now: "utc_now s = Inr (now, s0)"
    and ended: "complete_active_lease_on_connection (ls_id ?l) now fp s0 = Inr (u1, s1)"
    and effect: "apply_completed_job_on_connection x (jl_job lease) result s1 = Inr (u2, s2)"
    and job: "update_job_status_on_connection (ls_job_id ?l) JobStatus.Succeeded None now s2 = Inr (u3, s3)"
    and slo: "record_terminal_slo_observation lease (completion_successful result) now s3 = Inr (u4, s4)"
    and fence: "resolve_captured_worker_drain_fence_on_connection lease ''completed'' now s4 = Inr (u5, s5)"
    and ret: "tx_return (completed_lease lease now) s5 = Inr (r, t)"
    by (elim exE conjE) (rule that)
  have tail: "same_queue s3 t"
    using tx_relD [OF stable_tail(1) slo] tx_relD [OF stable_tail(2) fence] ret by (simp add: same_queue_def)
  have s3: "db_leases s3 = db_leases s2" "db_jobs s3 = update_rows (\<lambda>r. jr_id r = ls_job_id ?l) (set_job_status JobStatus.Succeeded None now) (db_jobs s2)"
    using job by (auto simp: update_job_status_on_connection_def)
  have "db_leases s2 = db_leases s1" using tx_relD [OF grows_completed effect] by (simp add: adds_queued_def)
  moreover have "db_leases s1 = update_rows (active_lease (ls_id ?l)) (\<lambda>l. l\<lparr>ls_status := LeaseStatus.Completed,
      ls_completed_at := Some now, ls_error := None, ls_completion_fingerprint := Some fp\<rparr>) (db_leases s0)"
    using ended by (auto simp: complete_active_lease_on_connection_def tx_bind_Inr update_leases_Inr tx_ensure_Inr)
  ultimately show "db_leases t = update_rows (active_lease (ls_id ?l)) (\<lambda>l. l\<lparr>ls_status := LeaseStatus.Completed,
      ls_completed_at := Some (db_clock s (db_ticks s)), ls_error := None, ls_completion_fingerprint := Some fp\<rparr>) (db_leases s)"
    using tail s3(1) now by (simp add: same_queue_def utc_now_Inr)
  show "list_all (\<lambda>q. jr_id q = ls_job_id ?l \<longrightarrow> jr_status q = JobStatus.Succeeded) (db_jobs t)"
    using tail s3(2) by (auto simp: same_queue_def list_all_iff set_update_rows)
qed

lemma complete_runs_active:
  assumes "complete_lease_in_transaction x i result s = Inr (r, t)"
    and "lookup_lease s i = Some lease" and "ls_status (jl_lease lease) = LeaseStatus.Active"
  obtains fp where "result_fingerprint x result = Inr fp" "complete_active x lease result fp s = Inr (r, t)"
  using assms
  by (auto simp: complete_lease_in_transaction_def fetch_lease_on_connection_def tx_bind_assoc tx_bind_lift ok_or_def
      lock_worker_for_lease_terminalization_on_connection_def replays_clean_stop_def split: sum.splits if_splits)

lemma completed_row:
  assumes inv: "lease_inv s" and run: "complete_lease_in_transaction x i result s = Inr (r, t)"
    and look: "lookup_lease s i = Some lease" and active: "ls_status (jl_lease lease) = LeaseStatus.Active"
  obtains fp l where "result_fingerprint x result = Inr fp" "l \<in> set (db_leases t)" "ls_id l = i"
    "ls_status l = LeaseStatus.Completed" "ls_completion_fingerprint l = Some fp"
    "ls_worker_id l = ls_worker_id (jl_lease lease)" "ls_job_id l = ls_job_id (jl_lease lease)"
    "phase t (ls_job_id (jl_lease lease)) = Finished"
proof -
  obtain fp where fp: "result_fingerprint x result = Inr fp" and act: "complete_active x lease result fp s = Inr (r, t)"
    using complete_runs_active [OF run look active] .
  note rows = complete_active_rows [OF act]
  let ?g = "\<lambda>l. l\<lparr>ls_status := LeaseStatus.Completed, ls_completed_at := Some (db_clock s (db_ticks s)),
      ls_error := None, ls_completion_fingerprint := Some fp\<rparr>"
  have l: "jl_lease lease \<in> set (db_leases s)" "ls_id (jl_lease lease) = i" using lookup_lease_row [OF look] by simp_all
  then have "active_lease i (jl_lease lease)" using active by (simp add: active_lease_def)
  then have "?g (jl_lease lease) \<in> set (db_leases t)"
    unfolding rows(1) set_update_rows l(2) using l(1) by force
  moreover have "phase t (ls_job_id (jl_lease lease)) = Finished"
  proof -
    have "lease_inv t" by (rule lease_frame_inv [OF tx_relD [OF complete_frame run] inv])
    moreover have "ls_job_id (jl_lease lease) = ls_job_id (?g (jl_lease lease))" by simp
    ultimately have "ls_job_id (jl_lease lease) \<in> jr_id ` set (db_jobs t)"
      using \<open>?g (jl_lease lease) \<in> set (db_leases t)\<close> unfolding lease_inv_def rows_inv_def by metis
    then obtain q where q: "find (\<lambda>r. jr_id r = ls_job_id (jl_lease lease)) (db_jobs t) = Some q"
      using find_key_none [of jr_id "ls_job_id (jl_lease lease)" "db_jobs t"] by auto
    then have "jr_status q = JobStatus.Succeeded" using rows(2) find_key_in [OF q] by (simp add: list_all_iff)
    with q show ?thesis by (simp add: phase_def rows_phase_def status_phase_def)
  qed
  ultimately show thesis by (intro that [of fp "?g (jl_lease lease)"]) (simp_all add: fp l)
qed

lemma lookup_found:
  assumes "lease_inv s" and "l \<in> set (db_leases s)"
  obtains job where "lookup_lease s (ls_id l) = Some \<lparr>jl_lease = l, jl_job = job\<rparr>"
proof -
  have ids: "distinct (map ls_id (db_leases s))" and job: "ls_job_id l \<in> jr_id ` set (db_jobs s)"
    using assms by (simp_all add: lease_inv_def rows_inv_def)
  obtain q where "find (\<lambda>r. jr_id r = ls_job_id l) (db_jobs s) = Some q"
    using job find_key_none [of jr_id "ls_job_id l" "db_jobs s"] by auto
  with find_row [OF ids assms(2) refl] show thesis by (intro that [of "jr_job q"]) (simp add: lookup_lease_def)
qed

text \<open>C4: a completion is final and safe to retry.  Once a lease was completed, then after any further run of
  requests and ticks its job is still finished, completing the lease again with the same result returns
  it and writes nothing, completing it with another result is refused, and so is failing it.\<close>

theorem completion_final:
  assumes "lease_inv s" and "chrono_adds (chrono_add_seconds x)"
    and "lookup_lease s i = Some lease" and "ls_status (jl_lease lease) = LeaseStatus.Active"
    and "complete_lease_in_transaction x i result s = Inr (r, t)"
    and "u = lease_trace x es t" and "rows_matching (\<lambda>w. wk_id w = ls_worker_id (jl_lease lease)) (db_workers u) = 1"
    and "result_fingerprint x result' = Inr fp'"
  shows "phase u (ls_job_id (jl_lease lease)) = Finished
    \<and> (result_fingerprint x result = Inr fp' \<longrightarrow> (\<exists>completed. lookup_lease u i = Some completed
         \<and> complete_lease_in_transaction x i result' u = Inr (completed, u)))
    \<and> (result_fingerprint x result \<noteq> Inr fp' \<longrightarrow> complete_lease_in_transaction x i result' u
         = Inl (bad_request ''lease is already completed with a different result''))
    \<and> fail_lease_in_transaction x i retry e u = Inl (bad_request ''lease is already terminal with a different outcome'')"
proof -
  obtain fp l where fp: "result_fingerprint x result = Inr fp" and l: "l \<in> set (db_leases t)" "ls_id l = i"
    "ls_status l = LeaseStatus.Completed" "ls_completion_fingerprint l = Some fp"
    "ls_worker_id l = ls_worker_id (jl_lease lease)" and fin: "phase t (ls_job_id (jl_lease lease)) = Finished"
    using completed_row [OF assms(1,5,3,4)] .
  have t: "lease_inv t" by (rule lease_frame_inv [OF tx_relD [OF complete_frame assms(5)] assms(1)])
  have frame: "lease_frame False t u" unfolding assms(6) by (rule trace_frame)
  have "ended_frame t u"
    unfolding assms(6) by (rule final.rows_trace [OF assms(2)]) (simp add: list_all_iff)
  then have "l \<in> set (db_leases u)" using l unfolding ended_frame_def by simp
  then obtain job where look: "lookup_lease u i = Some \<lparr>jl_lease = l, jl_job = job\<rparr>"
    using lookup_found [OF lease_frame_inv [OF frame t]] l(2) by metis
  have "phase_steps (phase t (ls_job_id (jl_lease lease))) (phase u (ls_job_id (jl_lease lease)))"
    using frame t by (simp add: lease_frame_def rows_frame_def lease_inv_def phase_def)
  then have "phase u (ls_job_id (jl_lease lease)) = Finished" unfolding fin by (rule finished_stays)
  moreover have "complete_lease_in_transaction x i result' u
      = (if fp = fp' then Inr (\<lparr>jl_lease = l, jl_job = job\<rparr>, u) else Inl (bad_request ''lease is already completed with a different result''))"
    using look l assms(7,8)
    by (simp add: complete_lease_in_transaction_def fetch_lease_on_connection_def tx_bind_assoc tx_bind_lift ok_or_def
        lock_worker_for_lease_terminalization_on_connection_def)
  moreover have "fail_lease_in_transaction x i retry e u = Inl (bad_request ''lease is already terminal with a different outcome'')"
    using look l assms(7)
    by (simp add: fail_lease_in_transaction_def fetch_lease_on_connection_def tx_bind_assoc tx_bind_lift ok_or_def
        lock_worker_for_lease_terminalization_on_connection_def)
  ultimately show ?thesis using look fp by auto
qed

subsection \<open>Renewal\<close>

lemma earliest_deadline_least:
  assumes "f \<in> set (db_drain_fences s)" and "fence_of_lease l f"
  obtains d where "earliest_deadline s l = Some d" "d \<le> df_hard_deadline f"
proof -
  let ?ds = "sort (map df_hard_deadline (filter (fence_of_lease l) (db_drain_fences s)))"
  have f: "df_hard_deadline f \<in> set ?ds" using assms by simp
  then obtain d ds where ds: "?ds = d # ds" by (cases ?ds) auto
  have "sorted (d # ds)" unfolding ds [symmetric] by simp
  then have "d \<le> df_hard_deadline f" using f unfolding ds by auto
  then show thesis using ds by (intro that [of d]) (simp_all add: earliest_deadline_def)
qed

text \<open>C8: a renewal never revives a lease and never outruns a drain.  A renewal that succeeds changes only
  the expiry of the one lease, which was active, not cancelled and not yet expired; the new expiry lies
  after the clock, at most an hour ahead, and not after the deadline of any open drain of the lease.\<close>

theorem renewal_bounded:
  assumes "renew_in_transaction x lease secs s = Inr (u, t)" and "chrono_adds (chrono_add_seconds x)"
  shows "\<exists>e. db_leases t = update_rows (\<lambda>l. ls_id l = ls_id lease \<and> ls_status l = LeaseStatus.Active
        \<and> ls_cancel_requested_at l = None \<and> db_clock s (Suc (db_ticks s)) < ls_expires_at l)
      (\<lambda>l. l\<lparr>ls_expires_at := e\<rparr>) (db_leases s)
    \<and> db_clock s (db_ticks s) < e \<and> e \<le> db_clock s (db_ticks s) + 3600 * nanos
    \<and> list_all (\<lambda>f. fence_of_lease lease f \<longrightarrow> e \<le> df_hard_deadline f) (db_drain_fences s)
    \<and> db_jobs t = db_jobs s \<and> db_drain_fences t = db_drain_fences s"
proof -
  let ?now = "db_clock s (db_ticks s)"
  obtain requested where
    req: "chrono_add_seconds x ?now (int (effective_lease_seconds secs)) = Some requested"
    and dl: "\<not> (case earliest_deadline s lease of Some d \<Rightarrow> d \<le> ?now | None \<Rightarrow> False)"
    and t: "db_leases t = update_rows (renewable (ls_id lease) (db_clock s (Suc (db_ticks s))))
      (\<lambda>l. l\<lparr>ls_expires_at := cap_at (earliest_deadline s lease) requested\<rparr>) (db_leases s)"
    using renew_moves_expiry [OF assms(1)] .
  let ?e = "cap_at (earliest_deadline s lease) requested"
  have "?now < ?e"
    using lease_runs_past [OF assms(2) req] dl by (auto simp: cap_at_def split: option.splits)
  moreover have "?e \<le> ?now + 3600 * nanos"
  proof -
    have "requested = ?now + int (effective_lease_seconds secs) * nanos" using assms(2) req by (simp add: chrono_adds_def)
    then have "requested \<le> ?now + 3600 * nanos"
      using effective_lease_seconds_bounds(2) [of secs] by (simp add: nanos_def)
    then show ?thesis by (auto simp: cap_at_def split: option.splits)
  qed
  moreover have "?e \<le> df_hard_deadline f" if "f \<in> set (db_drain_fences s)" "fence_of_lease lease f" for f
    using earliest_deadline_least [OF that] by (metis cap_at_def min.coboundedI2 option.simps(5))
  moreover have "tx_rel (\<lambda>s t. db_jobs t = db_jobs s \<and> db_drain_fences t = db_drain_fences s) (renew_in_transaction x lease secs)"
    unfolding renew_in_transaction_def update_leases_def
    by (rule tx_relI) (auto simp: tx_bind_Inr tx_lift_Inr tx_ensure_Inr utc_now_Inr split: option.splits if_splits)
  ultimately show ?thesis
    using t tx_relD [of _ "renew_in_transaction x lease secs", OF _ assms(1)]
    by (intro exI [of _ ?e]) (simp add: list_all_iff renewable_def [abs_def] active_lease_def conj_assoc)
qed

subsection \<open>Draining\<close>

text \<open>C7: a drain closes its worker.  After a drain was opened, no claim of that worker obtains a lease or
  changes a table, and every active lease of the worker expires by the deadline and has an open fence with
  that deadline in the receipt.\<close>

theorem drain_closes_worker:
  assumes "drain_in_transaction x tenant_id w request s = Inr (fs, t)"
    and "find (\<lambda>r. dr_shutdown_id r = rq_shutdown_id request) (db_drain_receipts s) = None"
  shows "(wk_id worker = w \<longrightarrow> try_claim_job x worker job secs operation (on_request env t) = (Inr None, on_request env t))
    \<and> list_all (\<lambda>l. ls_worker_id l = w \<and> ls_status l = LeaseStatus.Active \<longrightarrow> ls_expires_at l \<le> rq_hard_deadline request
        \<and> list_ex (\<lambda>f. fence_of_lease l f \<and> df_hard_deadline f = rq_hard_deadline request) fs) (db_leases t)"
proof -
  note opened = open_drain_Inr [OF drain_opens [OF assms]]
  have fs: "fs = sort_key df_lease_id (filter (\<lambda>f. df_shutdown_id f = rq_shutdown_id request) (db_drain_fences t))"
    using assms
    by (auto simp: drain_in_transaction_def lock_worker_for_lease_terminalization_on_connection_def tx_bind_assoc
        tx_bind_Inr [where m = "open_drain _ _ _ _ _"] split: if_splits)
  have "\<not> (wk_id v = w \<and> worker_claimable v)" if "v \<in> set (db_workers t)" for v
  proof -
    from that obtain v0 where "v = (if wk_id v0 = w \<and> worker_claimable v0 then v0\<lparr>wk_status := WorkerStatus.Draining\<rparr> else v0)"
      unfolding opened(3) set_update_rows by (elim imageE) (rule that)
    then show ?thesis by (cases "wk_id v0 = w \<and> worker_claimable v0") (simp_all add: worker_claimable_def)
  qed
  then have closed: "rows_matching (\<lambda>v. wk_id v = w \<and> (wk_status v = WorkerStatus.Registered \<or> wk_status v = WorkerStatus.Online))
      (db_workers t) = 0"
    unfolding rows_matching_def by (simp add: filter_empty_conv worker_claimable_def)
  have claim: "try_claim_job x worker job secs operation (on_request env t) = (Inr None, on_request env t)" if "wk_id worker = w"
    using closed that
    by (simp add: try_claim_job_def claim_in_transaction_def lock_worker_for_claim_on_connection_def on_request_def)
  have "ls_expires_at l \<le> rq_hard_deadline request
      \<and> list_ex (\<lambda>f. fence_of_lease l f \<and> df_hard_deadline f = rq_hard_deadline request) fs"
    if l: "l \<in> set (db_leases t)" "ls_worker_id l = w" "ls_status l = LeaseStatus.Active" for l
  proof -
    from l(1) obtain k where k: "k \<in> set (db_leases s)"
      and lk: "l = (if (ls_worker_id k = w \<and> ls_status k = LeaseStatus.Active) \<and> rq_hard_deadline request < ls_expires_at k
        then k\<lparr>ls_expires_at := rq_hard_deadline request\<rparr> else k)"
      unfolding opened(2) set_update_rows by (elim imageE) (simp add: that)
    have held: "ls_worker_id k = w" "ls_status k = LeaseStatus.Active"
      and same: "ls_id k = ls_id l" "ls_job_id k = ls_job_id l" "ls_attempt k = ls_attempt l"
      using lk l(2,3) by (simp_all split: if_splits)
    have exp: "ls_expires_at l \<le> rq_hard_deadline request" using lk held by (simp split: if_splits)
    have "fence_for request w k \<in> set fs"
      unfolding fs opened(4) using k held by (simp add: fence_for_def)
    moreover have "fence_of_lease l (fence_for request w k)"
      using same l(2) by (simp add: fence_of_lease_def fence_for_def)
    moreover have "df_hard_deadline (fence_for request w k) = rq_hard_deadline request" by (simp add: fence_for_def)
    ultimately show ?thesis using exp unfolding list_ex_iff by blast
  qed
  with claim show ?thesis by (simp add: list_all_iff)
qed

subsection \<open>Stopping a sandbox\<close>

lemma tx_map_lift_same: "tx_map (\<lambda>r. tx_lift (f r)) rs s = Inr (ys, t) \<Longrightarrow> t = s"
  by (induction rs arbitrary: ys) (auto simp: tx_bind_Inr tx_lift_Inr)

lemma fence_sandbox_work_Inr:
  assumes "fence_sandbox_work tenant_id b now s = Inr (u, t)"
  shows "db_residents t = update_rows (\<lambda>r. rp_sandbox_id r = b \<and> rp_tenant_id r = tenant_id
        \<and> rp_desired_state r = ResidentProcessDesiredState.Running)
      (\<lambda>r. r\<lparr>rp_desired_state := ResidentProcessDesiredState.Stopped,
         rp_bootstrap_acknowledged_at := acknowledge_bootstrap now r, rp_updated_at := now\<rparr>) (db_residents s)"
    and "db_jobs t = update_rows (\<lambda>r. job_of_sandbox tenant_id b r \<and> jr_status r = JobStatus.Queued
        \<and> jb_kind (jr_job r) \<noteq> JobKind.StopSandbox \<and> jb_kind (jr_job r) \<noteq> JobKind.ProvisionSandbox)
      (cancel_job_row ''sandbox_stopped'' now) (db_jobs s)"
    and "db_leases t = update_rows (\<lambda>l. ls_status l = LeaseStatus.Active \<and> ls_cancel_requested_at l = None
        \<and> ls_job_id l \<in> set (map jr_id (filter (job_of_sandbox tenant_id b) (db_jobs t))))
      (\<lambda>l. l\<lparr>ls_cancel_requested_at := Some now, ls_cancel_reason := Some ''sandbox_stopped''\<rparr>) (db_leases s)"
    and "db_sandboxes t = db_sandboxes s"
  using assms by (simp_all add: fence_sandbox_work_def) auto

definition open_work :: "string \<Rightarrow> uuid \<Rightarrow> job_row \<Rightarrow> bool" where
  "open_work tenant_id b r \<longleftrightarrow> job_of_sandbox tenant_id b r \<and> jr_status r = JobStatus.Queued
     \<and> jb_kind (jr_job r) \<noteq> JobKind.StopSandbox \<and> jb_kind (jr_job r) \<noteq> JobKind.ProvisionSandbox"

definition fenced :: "string \<Rightarrow> uuid \<Rightarrow> database \<Rightarrow> bool" where
  "fenced tenant_id b s \<longleftrightarrow>
     list_all (\<lambda>r. \<not> open_work tenant_id b r) (db_jobs s)
     \<and> list_all (\<lambda>l. ls_status l = LeaseStatus.Active
          \<and> list_ex (\<lambda>r. jr_id r = ls_job_id l \<and> job_of_sandbox tenant_id b r) (db_jobs s)
          \<longrightarrow> ls_cancel_requested_at l \<noteq> None) (db_leases s)
     \<and> list_all (\<lambda>r. rp_sandbox_id r = b \<and> rp_tenant_id r = tenant_id
          \<longrightarrow> rp_desired_state r = ResidentProcessDesiredState.Stopped) (db_residents s)
     \<and> list_all (\<lambda>c. ac_tenant_id c = tenant_id \<and> ac_sandbox_id c = b \<longrightarrow> ac_revoked_at c \<noteq> None)
         (db_guest_tokens s @ db_desktop_credentials s)"

lemma revoked: "c \<in> set (revoke_credentials tenant_id b now cs) \<Longrightarrow> ac_tenant_id c = tenant_id \<Longrightarrow> ac_sandbox_id c = b
    \<Longrightarrow> ac_revoked_at c \<noteq> None"
  unfolding revoke_credentials_def set_update_rows by (elim imageE) (simp split: if_splits)

lemma stop_in_transaction_steps:
  assumes "stop_in_transaction x sandbox event job now s = Inr (True, t)"
  obtains s1 s2 s3 u v where
    "set_sandbox_state_on_connection (sb_id sandbox) STOP_LEGAL_FROM SandboxState.Archiving event s = Inr (True, s1)"
    "fence_sandbox_work (sb_tenant_id sandbox) (sb_id sandbox) now s1 = Inr (u, s2)"
    "insert_job_on_connection x job s2 = Inr (v, s3)"
    "t = s3\<lparr>db_guest_tokens := revoke_credentials (sb_tenant_id sandbox) (sb_id sandbox) now (db_guest_tokens s3),
       db_desktop_credentials := revoke_credentials (sb_tenant_id sandbox) (sb_id sandbox) now (db_desktop_credentials s3)\<rparr>"
proof -
  from assms obtain s1 ids s1' u s2 v s3 where
    "set_sandbox_state_on_connection (sb_id sandbox) STOP_LEGAL_FROM SandboxState.Archiving event s = Inr (True, s1)"
    and map: "tx_map (\<lambda>r. tx_lift (bootstrap_identity r)) (filter (\<lambda>r. rp_sandbox_id r = sb_id sandbox \<and> rp_tenant_id r = sb_tenant_id sandbox
        \<and> rp_bootstrap_sha256 r \<noteq> None) (db_residents s1)) s1 = Inr (ids, s1')"
    and "fence_sandbox_work (sb_tenant_id sandbox) (sb_id sandbox) now s1' = Inr (u, s2)"
    "insert_job_on_connection x job s2 = Inr (v, s3)"
    "t = s3\<lparr>db_guest_tokens := revoke_credentials (sb_tenant_id sandbox) (sb_id sandbox) now (db_guest_tokens s3),
       db_desktop_credentials := revoke_credentials (sb_tenant_id sandbox) (sb_id sandbox) now (db_desktop_credentials s3)\<rparr>"
    unfolding stop_in_transaction_def Let_def tx_bind_Inr [where m = "set_sandbox_state_on_connection _ _ _ _"]
      tx_bind_Inr [where m = "tx_map _ _"] tx_bind_Inr [where m = "fence_sandbox_work _ _ _"]
      tx_bind_Inr [where m = "insert_job_on_connection _ _"] tx_bind_Inr [where m = "tx_read _"]
    by (auto split: if_splits simp: tx_bind_Inr)
  with tx_map_lift_same [OF map] show thesis by (intro that) simp_all
qed

lemma insert_job_Inr:
  assumes "insert_job_on_connection x job s = Inr (u, t)"
  obtains refs where "job_references x job = Inr refs" "t = db_jobs_update (\<lambda>rs. rs @ [new_job_row job refs False]) s"
  using assms by (auto simp: insert_job_on_connection_def Let_def tx_bind_Inr tx_lift_Inr split: if_splits)

lemma state_set:
  assumes "set_sandbox_state_on_connection b from st data s = Inr (True, t)"
  shows "list_ex (\<lambda>r. sb_id r = b \<and> sb_state r = st) (db_sandboxes t)"
proof -
  let ?P = "\<lambda>r. sb_id r = b \<and> sb_state r \<in> set from"
  have event: "tx_rel keeps_sandboxes (insert_event b k d)" for k d
    unfolding insert_event_def on_output_def
    by (intro boxes.frame_rules boxes.update boxes_reads) (simp add: keeps_sandboxes_def)
  define s1 where "s1 = db_sandboxes_update (update_rows ?P
    (\<lambda>r. r\<lparr>sb_state := st, sb_updated_at := db_clock s (db_ticks s)\<rparr>)) (s\<lparr>db_ticks := Suc (db_ticks s)\<rparr>)"
  from assms have some: "rows_matching ?P (db_sandboxes s) \<noteq> 0"
    and ev: "insert_event b SandboxEventKind.LifecycleChanged data s1 = Inr ((), t)"
    by (auto simp: s1_def set_sandbox_state_on_connection_def Let_def tx_bind_Inr [where m = "insert_event _ _ _"]
        split: if_splits)
  have s1: "db_sandboxes s1 = update_rows ?P (\<lambda>r. r\<lparr>sb_state := st, sb_updated_at := db_clock s (db_ticks s)\<rparr>) (db_sandboxes s)"
    unfolding s1_def by simp
  from some obtain r where r: "r \<in> set (db_sandboxes s)" "?P r" using rows_matching_pos [of ?P "db_sandboxes s"] by auto
  have "r\<lparr>sb_state := st, sb_updated_at := db_clock s (db_ticks s)\<rparr> \<in> set (db_sandboxes s1)"
    unfolding s1 set_update_rows using r by force
  moreover have "db_sandboxes t = db_sandboxes s1" using tx_relD [OF event ev] by (simp add: keeps_sandboxes_def)
  ultimately show ?thesis using r(2) unfolding list_ex_iff by (intro bexI) simp_all
qed

lemma fence_fences:
  assumes "fence_sandbox_work tenant_id b now s = Inr (u, t)"
  shows "list_all (\<lambda>r. \<not> open_work tenant_id b r) (db_jobs t)"
    and "list_all (\<lambda>l. ls_status l = LeaseStatus.Active
          \<and> list_ex (\<lambda>r. jr_id r = ls_job_id l \<and> job_of_sandbox tenant_id b r) (db_jobs t)
          \<longrightarrow> ls_cancel_requested_at l \<noteq> None) (db_leases t)"
    and "list_all (\<lambda>r. rp_sandbox_id r = b \<and> rp_tenant_id r = tenant_id
          \<longrightarrow> rp_desired_state r = ResidentProcessDesiredState.Stopped) (db_residents t)"
proof -
  note rows = fence_sandbox_work_Inr [OF assms]
  have "\<not> open_work tenant_id b r" if "r \<in> set (db_jobs t)" for r
    using that unfolding rows(2) set_update_rows open_work_def by (elim imageE) (simp split: if_splits)
  then show "list_all (\<lambda>r. \<not> open_work tenant_id b r) (db_jobs t)" by (simp add: list_all_iff)
  have "ls_cancel_requested_at l \<noteq> None" if "l \<in> set (db_leases t)" "ls_status l = LeaseStatus.Active"
    "r \<in> set (db_jobs t)" "jr_id r = ls_job_id l" "job_of_sandbox tenant_id b r" for l r
  proof -
    have job: "ls_job_id l \<in> set (map jr_id (filter (job_of_sandbox tenant_id b) (db_jobs t)))"
      using that(3-5) by force
    show ?thesis
      using that(1,2) job unfolding rows(3) set_update_rows by (elim imageE) (simp split: if_splits)
  qed
  then show "list_all (\<lambda>l. ls_status l = LeaseStatus.Active
          \<and> list_ex (\<lambda>r. jr_id r = ls_job_id l \<and> job_of_sandbox tenant_id b r) (db_jobs t)
          \<longrightarrow> ls_cancel_requested_at l \<noteq> None) (db_leases t)"
    unfolding list_all_iff list_ex_iff by blast
  have "rp_desired_state r = ResidentProcessDesiredState.Stopped"
    if r: "r \<in> set (db_residents t)" "rp_sandbox_id r = b" "rp_tenant_id r = tenant_id" for r
  proof -
    let ?P = "\<lambda>r. rp_sandbox_id r = b \<and> rp_tenant_id r = tenant_id \<and> rp_desired_state r = ResidentProcessDesiredState.Running"
    from r(1) obtain r0 where r0: "r = (if ?P r0 then r0\<lparr>rp_desired_state := ResidentProcessDesiredState.Stopped,
         rp_bootstrap_acknowledged_at := acknowledge_bootstrap now r0, rp_updated_at := now\<rparr> else r0)"
      unfolding rows(1) set_update_rows by (elim imageE) (rule that)
    show ?thesis
    proof (cases "?P r0")
      case False
      have "r = r0" using r0 unfolding if_not_P [OF False] .
      then show ?thesis using False r(2,3) by (cases "rp_desired_state r") simp_all
    qed (simp add: r0)
  qed
  then show "list_all (\<lambda>r. rp_sandbox_id r = b \<and> rp_tenant_id r = tenant_id
          \<longrightarrow> rp_desired_state r = ResidentProcessDesiredState.Stopped) (db_residents t)" by (simp add: list_all_iff)
qed


subsection \<open>Instances\<close>

theorem renewal_bounded_witness:
  "(\<exists>t. renew_in_transaction lease_sample_externals claimed_lease (Some 60) (on_request (env_at 6) queue_database) = Inr ((), t)
     \<and> list_all (\<lambda>l. ls_expires_at l \<le> 6 + 3600 * nanos) (db_leases t))"
proof -
  let ?s = "on_request (env_at 6) queue_database"
  have "\<exists>t. renew_in_transaction lease_sample_externals claimed_lease (Some 60) ?s = Inr ((), t)"
    by (simp add: renew_in_transaction_def lease_cancellation_def earliest_deadline_def active_lease_def cap_at_def effective_lease_seconds_def
        update_leases_def rows_matching_def or_panic_def plain_add_def tx_bind_lift tx_bind_assoc tx_bind_steps
        on_request_def queue_database_def idle_database_def empty_database_def claimed_lease_def new_lease_def
        env_at_def DEFAULT_LEASE_SECONDS_def nanos_def)
  then obtain t where t: "renew_in_transaction lease_sample_externals claimed_lease (Some 60) ?s = Inr ((), t)" ..
  moreover have "chrono_adds (chrono_add_seconds lease_sample_externals)" by (simp add: plain_add_adds)
  ultimately show ?thesis
    using renewal_bounded [OF t] by (auto simp: on_request_def queue_database_def env_at_def claimed_lease_def new_lease_def)
qed

definition sample_drain :: DrainWorkerRequest where
  "sample_drain = \<lparr>rq_shutdown_id = 9, rq_hard_deadline = 8\<rparr>"

theorem drain_closes_worker_witness:
  "(\<exists>fs t. drain_in_transaction lease_sample_externals ''acme'' 3 sample_drain (on_request (env_at 6) queue_database) = Inr (fs, t)
     \<and> try_claim_job lease_sample_externals sample_worker queue_job None None (on_request (env_at 7) t) = (Inr None, on_request (env_at 7) t))"
proof -
  let ?s = "on_request (env_at 6) queue_database"
  have "\<exists>fs t. drain_in_transaction lease_sample_externals ''acme'' 3 sample_drain ?s = Inr (fs, t)"
    by (simp add: drain_in_transaction_def open_drain_def sample_drain_def lock_worker_for_lease_terminalization_on_connection_def
        worker_claimable_def sample_worker_def rows_matching_def or_panic_def plain_add_def tx_bind_lift tx_bind_assoc tx_bind_steps
        on_request_def queue_database_def idle_database_def empty_database_def claimed_lease_def new_lease_def
        env_at_def Let_def DEFAULT_LEASE_SECONDS_def nanos_def)
  then obtain fs t where t: "drain_in_transaction lease_sample_externals ''acme'' 3 sample_drain ?s = Inr (fs, t)" by blast
  moreover have "find (\<lambda>r. dr_shutdown_id r = rq_shutdown_id sample_drain) (db_drain_receipts ?s) = None"
    by (simp add: on_request_def queue_database_def idle_database_def empty_database_def)
  moreover have "wk_id sample_worker = 3" by (simp add: sample_worker_def)
  ultimately show ?thesis using drain_closes_worker [OF t] by blast
qed

definition home_job :: Job where
  "home_job = sample_job JobKind.DeleteHome (JObject [(''homeId'', JString ''u1'')])"

definition home_database :: database where
  "home_database = idle_database\<lparr>db_jobs := [new_job_row (home_job\<lparr>jb_status := JobStatus.Leased, jb_attempts := 1\<rparr>) no_references False],
     db_leases := [claimed_lease], db_homes := [\<lparr>hm_id = 1, hm_tenant_id = ''acme'', hm_state = HomeState.Deleting,
       hm_created_at = 0, hm_updated_at = 0, hm_error = None, hm_external_key = None\<rparr>]\<rparr>"

lemma sample_fingerprint: "result_fingerprint lease_sample_externals r = Inr ''sha256:v1:null''"
  by (simp add: result_fingerprint_def completion_result_fingerprint_def lease_sample_externals_def externals.defs
      lease_externals.defs sample_externals_def ok_or_def rbind_def)

lemma sample_home_id:
  "jb_payload job = JObject [(''homeId'', JString ''u1'')] \<Longrightarrow> home_id_from_job lease_sample_externals job = Inr 1"
  by (simp add: home_id_from_job_def payload_str_def json_get_def json_as_str_def
      lease_sample_externals_def externals.defs lease_externals.defs sample_externals_def ok_or_def rbind_def)

lemma home_completion:
  "\<exists>r t. complete_lease_in_transaction lease_sample_externals 0 (DeleteHomeResult ''p'' 1) home_database = Inr (r, t)
     \<and> db_workers t = [sample_worker]"
  by (simp add: complete_lease_in_transaction_def complete_active_def complete_active_lease_on_connection_def fetch_lease_on_connection_def
     apply_completed_job_on_connection_def complete_delete_home_def Let_def sample_fingerprint active_lease_def
     lock_worker_for_lease_terminalization_on_connection_def update_leases_def rows_matching_def lookup_lease_def
     replays_clean_stop_def tx_bind_lift tx_bind_assoc tx_bind_steps ok_or_def record_terminal_slo_observation_def
     slo_metric_def update_job_status_on_connection_def resolve_captured_worker_drain_fence_on_connection_def
     home_database_def idle_database_def empty_database_def claimed_lease_def new_lease_def sample_worker_def
     new_job_row_def queue_job_def sample_home_id home_job_def sample_job_def)

lemma home_database_inv: "lease_inv home_database"
  by (simp add: lease_inv_def rows_inv_def home_database_def claimed_lease_def new_job_row_def
      new_lease_def holders_def queue_job_def home_job_def sample_job_def)

theorem completion_final_witness:
  "\<exists>r t. complete_lease_in_transaction lease_sample_externals 0 (DeleteHomeResult ''p'' 1) home_database = Inr (r, t)
     \<and> phase t (jb_id queue_job) = Finished
     \<and> fail_lease_in_transaction lease_sample_externals 0 True ''late'' t
         = Inl (bad_request ''lease is already terminal with a different outcome'')"
proof -
  from home_completion obtain r t where
    t: "complete_lease_in_transaction lease_sample_externals 0 (DeleteHomeResult ''p'' 1) home_database = Inr (r, t)"
    and w: "db_workers t = [sample_worker]" by blast
  have look: "lookup_lease home_database 0 = Some \<lparr>jl_lease = claimed_lease, jl_job = home_job\<lparr>jb_status := JobStatus.Leased, jb_attempts := 1\<rparr>\<rparr>"
    by (simp add: lookup_lease_def home_database_def claimed_lease_def new_lease_def new_job_row_def queue_job_def
        home_job_def sample_job_def)
  have lease: "ls_status claimed_lease = LeaseStatus.Active" "ls_worker_id claimed_lease = 3"
    "ls_job_id claimed_lease = jb_id queue_job" "wk_id sample_worker = 3"
    by (simp_all add: claimed_lease_def new_lease_def sample_worker_def)
  show ?thesis
    using completion_final [OF home_database_inv _ look _ t, of t "[]"] t w lease
    by (auto simp: plain_add_adds rows_matching_def sample_fingerprint)
qed

definition stop_database :: database where
  "stop_database = queue_database\<lparr>db_sandboxes := [sample_sandbox],
     db_guest_tokens := [\<lparr>ac_id = 11, ac_tenant_id = ''acme'', ac_sandbox_id = 7, ac_token_hash = ''h'', ac_expires_at = 9, ac_revoked_at = None\<rparr>]\<rparr>"

lemma stop_database_inv: "lease_inv stop_database"
  using queue_database_inv by (simp add: lease_inv_def stop_database_def)

lemma sample_sandbox_reference:
  "json_get ''sandboxId'' (jb_payload job) = Some (js_uuid lease_sample_externals 7)
     \<Longrightarrow> sandbox_id_from_job lease_sample_externals job = Inr 7"
  by (simp add: sandbox_id_from_job_def uuid_from_job_payload_def payload_str_def js_uuid_def parse_uuid_def json_as_str_def
      lease_sample_externals_def externals.defs lease_externals.defs sample_externals_def ok_or_def rbind_def list_all_iff)

lemma stop_sample:
  "\<exists>job t. stop_sandbox_via_job lease_sample_externals sample_sandbox (JObject []) None None stop_database = Inr (Some job, t)"
  by (simp add: stop_sandbox_via_job_def stop_in_transaction_def fetch_secret_mounts_def sandbox_has_gke_fqdn_policy_def
      add_provision_spec_to_payload_def add_provision_spec_to_payload_with_identity_def stop_job_def Let_def
      set_sandbox_state_on_connection_def insert_event_def on_output_def insert_job_on_connection_def fence_sandbox_work_def
      job_references_def tx_bind_lift tx_bind_assoc tx_bind_steps tx_ensure_def tx_lift_def rbind_def ensure_def
      STOP_LEGAL_FROM_def stop_database_def queue_database_def idle_database_def empty_database_def sample_sandbox_def
      rows_matching_def insert_event_on_connection_def Tables.empty_output_def sample_sandbox_reference json_get_def object_insert_def
      leased_row_def new_job_row_def jobs_index_conflict_def active_stop_for_def queue_job_def sample_job_def)


end
