(* ===== verification/Sweep_Limits.thy ===== *)
theory Sweep_Limits
  imports Lease_Contracts
begin

section \<open>Where the retry budget and the reaper end\<close>

text \<open>
  Two limits of the code of \<open>handlers/jobs.rs\<close> and \<open>reap.rs\<close>.  A claim stores the attempt number of the
  copy of the job it was given, so a claim on a copy read before another attempt repeats that number, and
  a job can be leased more often than its limit.  The reaper looks at a bounded batch of the oldest
  sandboxes with a lifetime limit whether or not they are due, so an overdue sandbox behind a full batch is
  never stopped.
\<close>

subsection \<open>Claims on stale copies\<close>

definition retry_job :: "int \<Rightarrow> Job" where
  "retry_job attempts = queue_job\<lparr>jb_max_attempts := 2, jb_attempts := attempts\<rparr>"

definition retry_state :: "Job \<Rightarrow> lease_row list \<Rightarrow> database" where
  "retry_state j ls = on_request (env_at 0) (idle_database\<lparr>db_jobs := [new_job_row j no_references False], db_leases := ls\<rparr>)"

definition numbered_env :: "timestamp \<Rightarrow> uuid \<Rightarrow> env" where
  "numbered_env now i = (\<lambda>_. now, \<lambda>n. i + of_nat n)"

lemma claim_retry:
  assumes "jb_id j = 100" "jb_status j = JobStatus.Queued" "filter (\<lambda>l. ls_status l = LeaseStatus.Active) ls = []" "i \<notin> ls_id ` set ls"
  shows "on_request (env_at 0) (lease_step lease_sample_externals (numbered_env now i)
      (Claim sample_worker (retry_job a) None None) (retry_state j ls))
    = retry_state (j\<lparr>jb_status := JobStatus.Leased, jb_attempts := a + 1, jb_updated_at := now\<rparr>)
        (ls @ [new_lease i sample_worker queue_job (a + 1) now (now + int DEFAULT_LEASE_SECONDS * nanos)])"
proof -
  have pref: "worker_matches_provider_preference (wk_provider sample_worker) (job_provider_preference lease_sample_externals (retry_job a))"
    by (simp add: sample_worker_def job_provider_preference_def retry_job_def queue_job_def sample_job_def
        worker_matches_provider_preference_def eq_ignore_ascii_case_def)
  have act: "filter (\<lambda>l. ls_worker_id l = w \<and> ls_status l = LeaseStatus.Active \<and> Q l) ls = []" for w Q
    using assms(3) by (auto simp: filter_empty_conv)
  have new: "\<not> list_ex (\<lambda>l. ls_id l = i) ls" using assms(4) by (auto simp: list_ex_iff)
  show ?thesis
    unfolding lease_step_def Let_def lease_request.case try_claim_job_def using pref assms
    by (simp add: act new claim_in_transaction_def lock_worker_for_claim_on_connection_def
     lock_apex_instruction_placement_on_connection_def active_lease_count_for_worker_on_connection_def
     recheck_sterile_resident_activation_on_connection_def lease_queued_job_def take_queued_job_def grant_lease_def
     claim_effects_def bind_sandbox_placement_on_connection_def insert_lease_on_connection_def record_claim_operation_def
     start_resident_process_def apply_claimed_job_on_connection_def new_lease_def
     Let_def retry_job_def queue_job_def sample_job_def sample_worker_def new_job_row_def rows_matching_def claim_job_row_def
     idle_database_def empty_database_def on_request_def retry_state_def numbered_env_def tx_bind_lift tx_bind_assoc tx_bind_steps plain_add_def
     or_panic_def effective_lease_seconds_def env_at_def)
qed

lemma fail_retry:
  assumes "jb_id j = 100" "jb_status j = JobStatus.Leased" "jb_kind j = JobKind.DeleteHome" "jb_attempts j < jb_max_attempts j"
    and "list_all (\<lambda>l. ls_id l \<noteq> i) ls" and "ls_id l = i" "ls_job_id l = 100" "ls_status l = LeaseStatus.Active" "ls_worker_id l = 3"
  shows "on_request (env_at 0) (lease_step lease_sample_externals (numbered_env now 0)
      (Fail i True e) (retry_state j (ls @ [l])))
    = retry_state (j\<lparr>jb_status := JobStatus.Queued, jb_last_error := Some e, jb_updated_at := now\<rparr>)
        (ls @ [l\<lparr>ls_status := LeaseStatus.Failed, ls_completed_at := Some now, ls_error := Some e\<rparr>])"
proof -
  have fnd: "find (\<lambda>l. ls_id l = i) (ls @ [l]) = Some l"
    using assms(5,6) by (induction ls) auto
  have upd: "update_rows (\<lambda>l. ls_id l = i \<and> ls_status l = LeaseStatus.Active) f (ls @ [l]) = ls @ [f l]" for f
    using assms(5,6,8) by (induction ls) auto
  have cnt: "rows_matching (\<lambda>l. ls_id l = i \<and> ls_status l = LeaseStatus.Active) (ls @ [l]) = 1"
    using assms(5,6,8) by (induction ls) (auto simp: rows_matching_def)
  show ?thesis
    unfolding lease_step_def Let_def lease_request.case tx_atomic_def using assms
    by (simp add: fnd upd cnt fail_lease_in_transaction_def fail_active_def fetch_lease_on_connection_def lookup_lease_def
      lock_worker_for_lease_terminalization_on_connection_def fail_active_lease_on_connection_def update_leases_def
      active_lease_def [abs_def] retry_granted_def resident_bootstrap_was_delivered_def resident_rows_match_def retry_or_fail_def
      update_job_status_on_connection_def apply_retryable_job_on_connection_def set_job_status_def
      resolve_captured_worker_drain_fence_on_connection_def ok_or_def
     Let_def retry_job_def queue_job_def sample_job_def sample_worker_def new_job_row_def
     idle_database_def empty_database_def on_request_def retry_state_def numbered_env_def tx_bind_lift tx_bind_assoc tx_bind_steps
     env_at_def rows_matching_def)
qed

definition stale_requests :: "(env \<times> lease_request) list" where
  "stale_requests = [(env_at 0, Submit (retry_job 0)),
     (numbered_env 1 0, Claim sample_worker (retry_job 0) None None), (numbered_env 2 0, Fail 0 True ''lost''),
     (numbered_env 3 1, Claim sample_worker (retry_job 0) None None), (numbered_env 4 0, Fail 1 True ''lost''),
     (numbered_env 5 2, Claim sample_worker (retry_job 1) None None)]"

lemma lease_run_step:
  "on_request e (lease_run x ((env, r) # rs) s) = on_request e (lease_run x rs (on_request e (lease_step x env r s)))"
  by (cases rs) (auto simp: lease_run_def lease_step_def on_request_def split: prod.splits)


subsection \<open>The batch of the reaper\<close>

lemma reap_each_idle:
  "list_all (\<lambda>(b, c). expired_deadline (chrono_add_seconds x) b c now = Some None) cs \<Longrightarrow> reap_each x now cs s = Some ([], s)"
  by (induction cs) (auto simp: attempt_reap_candidate_def)


definition crowd :: "Sandbox list" where
  "crowd = map (\<lambda>i. sample_sandbox\<lparr>sb_id := of_nat i, sb_created_at := int i, sb_idle_ttl_seconds := None\<rparr>) [0..<100]"

definition overdue_sandbox :: Sandbox where
  "overdue_sandbox = sample_sandbox\<lparr>sb_id := 200, sb_created_at := 100, sb_max_lifetime_seconds := Some 1, sb_idle_ttl_seconds := None\<rparr>"

definition crowded_database :: database where
  "crowded_database = on_request (env_at (60 * nanos)) (empty_database\<lparr>db_sandboxes := crowd @ [overdue_sandbox]\<rparr>)"

lemma sorted_sort_key: "sorted (map f xs) \<Longrightarrow> sort_key f xs = xs"
  by (induction xs) (auto simp: insort_is_Cons)

lemma crowd_due:
  "expired_deadline plain_add b None (60 * nanos) = Some None" if "b \<in> set crowd"
  using that by (auto simp: crowd_def sample_sandbox_def expired_deadline_def max_lifetime_expired_def deadline_from_def
      plain_add_def i64_max_def nanos_def)

lemma overdue:
  "reapable overdue_sandbox" "expired_deadline plain_add overdue_sandbox None (60 * nanos) = Some (Some (MaxLifetime, nanos + 100))"
  by (simp_all add: overdue_sandbox_def reapable_def reapable_states_def sample_sandbox_def STOP_LEGAL_FROM_def
      expired_deadline_def max_lifetime_expired_def deadline_from_def plain_add_def i64_max_def nanos_def)

lemma crowd_first: "reap_candidates crowded_database = map (\<lambda>b. (b, None)) crowd"
proof -
  let ?key = "\<lambda>b. (sb_created_at b, sb_id b)"
  have "sorted_wrt (\<lambda>i j. (int i, of_nat i :: uuid) \<le> (int j, of_nat j)) [0..<100]"
    by (rule sorted_wrt_mono_rel [OF _ sorted_wrt_upt]) auto
  then have "sorted (map ?key (crowd @ [overdue_sandbox]))"
    by (auto simp: crowd_def overdue_sandbox_def sorted_append sorted_wrt_map comp_def)
  then have srt: "sort_key ?key (crowd @ [overdue_sandbox]) = crowd @ [overdue_sandbox]" by (rule sorted_sort_key)
  have "reapable b" if "b \<in> set crowd" for b
    using that by (auto simp: crowd_def reapable_def reapable_states_def sample_sandbox_def STOP_LEGAL_FROM_def)
  then have "filter reapable (crowd @ [overdue_sandbox]) = crowd @ [overdue_sandbox]" using overdue(1) by simp
  moreover have "take 100 (crowd @ [overdue_sandbox]) = crowd" by (simp add: crowd_def)
  ultimately show ?thesis
    using srt by (simp add: reap_candidates_def crowded_database_def on_request_def REAP_CANDIDATE_BATCH_SIZE_def
      last_command_at_def empty_database_def Tables.empty_output_def)
qed


end
