(* ===== verification/Spec2Isabelle.thy ===== *)
theory Spec2Isabelle
  imports Sandbox_Spec Pagination Tenant_Limits Lifetimes Command_Streams Sweep_Limits
begin

text \<open>
  A verification development for sandboxwich, a control plane that runs sandboxes on workers.
\<close>

end
